(* ===== verification/Go_Prelude.thy ===== *)
theory Go_Prelude
  imports Main "HOL-Library.Finite_Map" "HOL-Library.State_Monad" "HOL-Library.Sublist"
    "HOL-Library.Char_ord" "HOL-Library.List_Lexorder"
begin

text \<open>
  The parts of Go and of its standard library that the operator's code uses, and the lemmas the
  component theories share: byte strings and the functions of package \<open>strings\<close>, maps with
  the difference between a nil and an empty map, errors as values, and the sequencing of calls
  that change the world (the state monad of the library).
\<close>

section \<open>Lemma collections\<close>

named_theorems go_simps \<open>unfolding rules of the Go library functions\<close>
named_theorems world_frame \<open>facts of the form: this call leaves that part of the world alone\<close>

section \<open>Strings\<close>

text \<open>
  A Go string is a sequence of bytes, a \<open>string\<close> of HOL. Package \<open>strings\<close>:
  \<open>HasPrefix\<close>, \<open>TrimPrefix\<close>, \<open>TrimSuffix\<close>, \<open>Contains\<close>, \<open>Split\<close> (the source
  only splits at a one-byte separator), \<open>Join\<close>.
\<close>

definition HasPrefix :: "string \<Rightarrow> string \<Rightarrow> bool" where
  "HasPrefix s p \<longleftrightarrow> take (length p) s = p"

definition HasSuffix :: "string \<Rightarrow> string \<Rightarrow> bool" where
  "HasSuffix s p \<longleftrightarrow> HasPrefix (rev s) (rev p)"

definition TrimPrefix :: "string \<Rightarrow> string \<Rightarrow> string" where
  "TrimPrefix s p = (if HasPrefix s p then drop (length p) s else s)"

definition TrimSuffix :: "string \<Rightarrow> string \<Rightarrow> string" where
  "TrimSuffix s p = (if HasSuffix s p then take (length s - length p) s else s)"

fun Contains :: "string \<Rightarrow> string \<Rightarrow> bool" where
  "Contains [] p = (p = [])"
| "Contains (c # s) p = (HasPrefix (c # s) p \<or> Contains s p)"

fun Split :: "string \<Rightarrow> char \<Rightarrow> string list" where
  "Split [] d = [[]]"
| "Split (c # s) d =
     (if c = d then [] # Split s d
      else (case Split s d of [] \<Rightarrow> [[c]] | w # ws \<Rightarrow> (c # w) # ws))"

fun Join :: "string list \<Rightarrow> string \<Rightarrow> string" where
  "Join [] sep = []"
| "Join [w] sep = w"
| "Join (w # v # ws) sep = w @ sep @ Join (v # ws) sep"

text \<open>
  \<open>strings.EqualFold\<close> for an argument whose letters have no case variant outside ASCII: the
  source compares with \<open>true\<close> only.
\<close>

definition lower_byte :: "char \<Rightarrow> char" where
  "lower_byte c = (if CHR ''A'' \<le> c \<and> c \<le> CHR ''Z'' then char_of ((of_char c :: nat) + 32) else c)"

definition EqualFold :: "string \<Rightarrow> string \<Rightarrow> bool" where
  "EqualFold s t \<longleftrightarrow> map lower_byte s = map lower_byte t"

text \<open>Bytes the source's literals hold that a HOL literal cannot: newline, quote, em dash.\<close>

definition newline :: string where
  "newline = [CHR 0x0A]"

definition dquote :: string where
  "dquote = [CHR 0x22]"

definition squote :: string where
  "squote = [CHR 0x27]"

definition em_dash :: string where
  "em_dash = [CHR 0xE2, CHR 0x80, CHR 0x94]"

text \<open>\<open>contains(slice, item)\<close> of a slice of strings, and printing a list with \<open>%v\<close>.\<close>

definition show_strings :: "string list \<Rightarrow> string" where
  "show_strings xs = ''['' @ Join xs '' '' @ '']''"

section \<open>Maps\<close>

text \<open>
  A Go map is nil (\<open>None\<close>) or a finite map. Reading a nil map or a missing key gives the zero
  value; ranging over a nil map does nothing; writing to a nil map panics, and the source always
  makes the map first. \<open>equality.Semantic.DeepEqual\<close> takes a nil and an empty map as equal.
\<close>

type_synonym ('k, 'v) gomap = "('k, 'v) fmap option"
type_synonym smap = "(string, string) gomap"

definition entries :: "('k, 'v) gomap \<Rightarrow> ('k, 'v) fmap" where
  "entries m = (case m of None \<Rightarrow> fmempty | Some f \<Rightarrow> f)"

definition lookup :: "('k, 'v) gomap \<Rightarrow> 'k \<Rightarrow> 'v option" where
  "lookup m k = fmlookup (entries m) k"

definition index :: "smap \<Rightarrow> string \<Rightarrow> string" where
  "index m k = (case lookup m k of None \<Rightarrow> '''' | Some v \<Rightarrow> v)"

definition put :: "'k \<Rightarrow> 'v \<Rightarrow> ('k, 'v) gomap \<Rightarrow> ('k, 'v) gomap" where
  "put k v m = Some (fmupd k v (entries m))"

definition mapOf :: "('k \<times> 'v) list \<Rightarrow> ('k, 'v) gomap" where
  "mapOf kvs = Some (fmap_of_list kvs)"

definition semEqMap :: "('k, 'v) gomap \<Rightarrow> ('k, 'v) gomap \<Rightarrow> bool" where
  "semEqMap a b \<longleftrightarrow> entries a = entries b"

section \<open>Errors and results\<close>

text \<open>
  An error is an API status error with its reason, an error made with \<open>fmt.Errorf\<close>, or the
  aggregate of a list of field errors. A field error of package \<open>field\<close> is its kind, the path
  of the field, the value and the detail.
\<close>

datatype path_elem = Child string | Index nat

type_synonym field_path = "path_elem list"

datatype bad_value = BadString string | BadStrings "string list" | BadInt int | BadBool bool
  | BadSelector "string list" "string list" | BadFields "(string \<times> string \<times> string) list"

datatype field_error =
    NotSupported field_path bad_value "string list"
  | Invalid field_path bad_value string
  | Required field_path string

datatype reason = NotFound | AlreadyExists | Conflict | OtherReason

datatype go_error = APIError reason string | Errorf string | Aggregate "field_error list"

definition IsNotFound :: "go_error \<Rightarrow> bool" where
  "IsNotFound e = (case e of APIError NotFound _ \<Rightarrow> True | _ \<Rightarrow> False)"

definition IsAlreadyExists :: "go_error \<Rightarrow> bool" where
  "IsAlreadyExists e = (case e of APIError AlreadyExists _ \<Rightarrow> True | _ \<Rightarrow> False)"

text \<open>\<open>allErrs.ToAggregate()\<close>: nil for an empty list.\<close>

definition ToAggregate :: "field_error list \<Rightarrow> go_error option" where
  "ToAggregate es = (if es = [] then None else Some (Aggregate es))"

text \<open>\<open>(*reconcile.Result, error)\<close>: what the reconciler's helpers return.\<close>

record Result =
  RequeueAfter :: nat
  Requeue :: bool

definition emptyResult :: Result where
  "emptyResult = \<lparr>RequeueAfter = 0, Requeue = False\<rparr>"

type_synonym step_ret = "Result option \<times> go_error option"

definition failWith :: "go_error \<Rightarrow> step_ret" where
  "failWith e = (Some emptyResult, Some e)"

definition done_ok :: step_ret where
  "done_ok = (None, None)"

abbreviation ret :: "'a \<Rightarrow> ('s, 'a) state" where
  "ret \<equiv> State_Monad.return"

section \<open>Lemmas on strings\<close>

lemma HasPrefix_iff: "HasPrefix s p \<longleftrightarrow> (\<exists>t. s = p @ t)"
  by (auto simp: HasPrefix_def intro: append_take_drop_id [symmetric]) (metis append_take_drop_id)

lemma HasPrefix_append [simp]: "HasPrefix (p @ t) p"
  by (auto simp: HasPrefix_iff)

lemma HasPrefix_Nil [simp]: "HasPrefix s []"
  by (simp add: HasPrefix_def)

lemma HasPrefix_Cons [simp]: "HasPrefix (c # s) (d # p) \<longleftrightarrow> c = d \<and> HasPrefix s p"
  by (auto simp: HasPrefix_def)

lemma HasPrefix_Nil_left [simp]: "HasPrefix [] p \<longleftrightarrow> p = []"
  by (auto simp: HasPrefix_def)

lemma Contains_iff: "Contains s p \<longleftrightarrow> (\<exists>a b. s = a @ p @ b)"
proof (induction s)
  case Nil
  then show ?case by auto
next
  case (Cons c s)
  show ?case
  proof
    assume "Contains (c # s) p"
    then consider "HasPrefix (c # s) p" | "Contains s p" by auto
    then show "\<exists>a b. c # s = a @ p @ b"
    proof cases
      case 1
      then show ?thesis by (metis HasPrefix_iff append_Nil)
    next
      case 2
      then show ?thesis using Cons.IH by (metis append_Cons)
    qed
  next
    assume "\<exists>a b. c # s = a @ p @ b"
    then obtain a b where ab: "c # s = a @ p @ b" by auto
    show "Contains (c # s) p"
    proof (cases a)
      case Nil
      then show ?thesis using ab by (metis Contains.simps(2) HasPrefix_append append_Nil)
    next
      case (Cons d a')
      then show ?thesis using ab Cons.IH by (metis Contains.simps(2) append_Cons list.inject)
    qed
  qed
qed

lemma Contains_refl [simp]: "Contains s s"
  by (metis Contains_iff append_Nil append_Nil2)

lemma Contains_Nil [simp]: "Contains s []"
  by (metis Contains_iff append_Nil)

lemma Contains_appendI: "Contains s p \<Longrightarrow> Contains (s @ t) p"
  by (metis Contains_iff append.assoc)

lemma Split_not_Nil [simp]: "Split s d \<noteq> []"
  by (induction s) (auto split: list.splits)

lemma Join_Cons: "ws \<noteq> [] \<Longrightarrow> Join (w # ws) sep = w @ sep @ Join ws sep"
  by (cases ws) auto

lemma Join_Split: "Join (Split s d) [d] = s"
proof (induction s)
  case Nil
  then show ?case by simp
next
  case (Cons c s)
  obtain w ws where sp: "Split s d = w # ws"
    by (cases "Split s d") auto
  then show ?case using Cons.IH by (cases ws) auto
qed

lemma Split_no_sep: "w \<in> set (Split s d) \<Longrightarrow> d \<notin> set w"
  by (induction s arbitrary: w) (auto split: if_splits list.splits)

lemma Split_append: "Split (s @ d # t) d = Split s d @ Split t d"
  by (induction s) (auto split: list.splits)

lemma Split_alone: "d \<notin> set s \<Longrightarrow> Split s d = [s]"
  by (induction s) auto

lemma Split_Join: "ws \<noteq> [] \<Longrightarrow> list_all (\<lambda>w. d \<notin> set w) ws \<Longrightarrow> Split (Join ws [d]) d = ws"
proof (induction ws "[d]" rule: Join.induct)
  case (3 w v ws)
  then show ?case by (simp add: Split_append Split_alone)
qed (simp_all add: Split_alone)

lemma length_Split: "length (Split s d) = Suc (count_list s d)"
  by (induction s) (auto split: list.splits)

lemma Join_concat: "set (Join ws sep) \<subseteq> set sep \<union> \<Union> (set ` set ws)"
  by (induction ws sep rule: Join.induct) auto

section \<open>Lemmas on maps\<close>

lemma lookup_None [simp]: "lookup None k = None"
  by (simp add: lookup_def entries_def)

lemma lookup_put [simp]: "lookup (put k v m) k' = (if k' = k then Some v else lookup m k')"
  by (simp add: lookup_def put_def entries_def)

lemma lookup_mapOf [simp]: "lookup (mapOf kvs) k = map_of kvs k"
  by (simp add: lookup_def mapOf_def entries_def fmlookup_of_list)

lemma index_put [simp]: "index (put k v m) k' = (if k' = k then v else index m k')"
  by (simp add: index_def)

lemma index_None [simp]: "index None k = ''''"
  by (simp add: index_def)

lemma index_mapOf [simp]:
  "index (mapOf kvs) k = (case map_of kvs k of None \<Rightarrow> '''' | Some v \<Rightarrow> v)"
  by (simp add: index_def)

lemma semEqMap_refl [simp]: "semEqMap m m"
  by (simp add: semEqMap_def)

lemma semEqMap_iff: "semEqMap a b \<longleftrightarrow> (\<forall>k. lookup a k = lookup b k)"
  by (auto simp: semEqMap_def lookup_def intro: fmap_ext)

lemma semEqMap_index: "semEqMap a b \<Longrightarrow> index a k = index b k"
  by (simp add: semEqMap_iff index_def)

lemma ToAggregate_None [simp]: "ToAggregate es = None \<longleftrightarrow> es = []"
  by (simp add: ToAggregate_def)

lemma IsNotFound_iff: "IsNotFound e \<longleftrightarrow> (\<exists>m. e = APIError NotFound m)"
  by (auto simp: IsNotFound_def split: go_error.splits reason.splits)

lemma IsAlreadyExists_iff: "IsAlreadyExists e \<longleftrightarrow> (\<exists>m. e = APIError AlreadyExists m)"
  by (auto simp: IsAlreadyExists_def split: go_error.splits reason.splits)

lemmas ret_defs = failWith_def done_ok_def

end
