(* ===== verification/Kube_Types.thy ===== *)
theory Kube_Types
  imports Go_Prelude
begin

text \<open>
  The data the operator works on. First the Kubernetes structs, with the fields the source
  reads or writes; then the two custom resources of \<open>api/v1alpha1\<close>
  (\<open>search_types.go\<close>, \<open>collectorconfig_types.go\<close>), field by field; then the sum of the
  objects a client stores, and their keys. A slice is a list (a nil and an empty slice behave
  alike everywhere in the source and are equal for \<open>equality.Semantic.DeepEqual\<close>), a pointer
  an option, a map a \<open>gomap\<close>, a quantity its value (in billionths, the finest unit Kubernetes
  keeps), a time a natural number with 0 for the zero time.
\<close>

section \<open>Kubernetes structs\<close>

type_synonym quantity = int
type_synonym time = nat

record OwnerReference =
  ref_APIVersion :: string
  ref_Kind :: string
  ref_Name :: string
  ref_UID :: string
  ref_Controller :: "bool option"

record ObjectMeta =
  Name :: string
  Namespace :: string
  UID :: string
  Labels :: smap
  Annotations :: smap
  OwnerReferences :: "OwnerReference list"
  Finalizers :: "string list"
  DeletionTimestamp :: "time option"

definition newMeta :: "string \<Rightarrow> string \<Rightarrow> ObjectMeta" where
  "newMeta name namespace = \<lparr>Name = name, Namespace = namespace, UID = '''', Labels = None,
     Annotations = None, OwnerReferences = [], Finalizers = [], DeletionTimestamp = None\<rparr>"

record Condition =
  cond_Type :: string
  cond_Status :: string
  cond_LastTransitionTime :: time
  cond_Reason :: string
  cond_Message :: string

definition emptyCondition :: Condition where
  "emptyCondition = \<lparr>cond_Type = '''', cond_Status = '''', cond_LastTransitionTime = 0,
     cond_Reason = '''', cond_Message = ''''\<rparr>"

record SecretKeySelector =
  sks_Key :: string
  sks_Name :: string

record EnvVarSource =
  evs_FieldRef :: "string option"
  evs_SecretKeyRef :: "SecretKeySelector option"
  evs_ConfigMapKeyRef :: "(string \<times> string) option"
  evs_ResourceFieldRef :: "string option"

record EnvVar =
  ev_Name :: string
  ev_Value :: string
  ev_ValueFrom :: "EnvVarSource option"

type_synonym ResourceList = "(string, quantity) gomap"

record ResourceRequirements =
  Requests :: ResourceList
  Limits :: ResourceList

record Toleration =
  tol_Key :: string
  tol_Operator :: string
  tol_Value :: string
  tol_Effect :: string

datatype probe_handler = HTTPGet int string string | Exec "string list"

record Probe =
  InitialDelaySeconds :: int
  TimeoutSeconds :: int
  ProbeHandler :: probe_handler

record VolumeMount =
  vm_Name :: string
  vm_MountPath :: string
  vm_SubPath :: string

datatype volume_source =
    PersistentVolumeClaimSource string
  | EmptyDirSource string
  | ConfigMapSource string
  | SecretSource string "int option"

record Volume =
  vol_Name :: string
  vol_Source :: volume_source

record SecurityContext =
  sc_Privileged :: "bool option"
  sc_AllowPrivilegeEscalation :: "bool option"
  sc_ReadOnlyRootFilesystem :: "bool option"
  sc_RunAsNonRoot :: "bool option"
  sc_DropCapabilities :: "string list"

record PodSecurityContext =
  psc_RunAsNonRoot :: "bool option"
  psc_SeccompProfile :: string

record ContainerPort =
  cp_Name :: string
  cp_ContainerPort :: int
  cp_Protocol :: string

record Container =
  c_Name :: string
  c_Image :: string
  c_Args :: "string list"
  c_Env :: "EnvVar list"
  c_Ports :: "ContainerPort list"
  c_VolumeMounts :: "VolumeMount list"
  c_ReadinessProbe :: "Probe option"
  c_LivenessProbe :: "Probe option"
  c_PreStop :: "string list"
  c_Resources :: ResourceRequirements
  c_ImagePullPolicy :: string
  c_SecurityContext :: "SecurityContext option"

record PodSpec =
  ps_SecurityContext :: "PodSecurityContext option"
  ps_Containers :: "Container list"
  ps_Volumes :: "Volume list"
  ps_ServiceAccountName :: string
  ps_TerminationGracePeriodSeconds :: "int option"
  ps_NodeSelector :: smap
  ps_Tolerations :: "Toleration list"

record DeploymentSpec =
  ds_Replicas :: "int option"
  ds_SelectorLabels :: smap
  ds_TemplateLabels :: smap
  ds_TemplateAnnotations :: smap
  ds_PodSpec :: PodSpec
  ds_Strategy :: string

record Deployment =
  dep_meta :: ObjectMeta
  dep_Spec :: DeploymentSpec

record ServicePort =
  sp_Name :: string
  sp_Port :: int
  sp_TargetPort :: int
  sp_Protocol :: string

record Service =
  svc_meta :: ObjectMeta
  svc_Ports :: "ServicePort list"
  svc_Selector :: smap

record Secret =
  sec_meta :: ObjectMeta
  sec_Type :: string
  sec_StringData :: smap

record ConfigMap =
  cm_meta :: ObjectMeta
  cm_Data :: smap

record ServiceAccount =
  sa_meta :: ObjectMeta
  sa_ImagePullSecrets :: "string list"

record PolicyRule =
  pr_APIGroups :: "string list"
  pr_Resources :: "string list"
  pr_Verbs :: "string list"

record RoleRef =
  rr_APIGroup :: string
  rr_Kind :: string
  rr_Name :: string

record Subject =
  sub_Kind :: string
  sub_APIGroup :: string
  sub_Name :: string
  sub_Namespace :: string

record ClusterRole =
  cr_meta :: ObjectMeta
  cr_Rules :: "PolicyRule list"

record ClusterRoleBinding =
  crb_meta :: ObjectMeta
  crb_RoleRef :: RoleRef
  crb_Subjects :: "Subject list"

record NetworkPolicyPeer =
  peer_NamespaceSelector :: "smap option"
  peer_PodSelector :: "smap option"

record NetworkPolicyPort =
  npp_Protocol :: string
  npp_Port :: int

record NetworkPolicyIngressRule =
  ing_From :: "NetworkPolicyPeer list"
  ing_Ports :: "NetworkPolicyPort list"

record NetworkPolicyEgressRule =
  eg_To :: "NetworkPolicyPeer list"
  eg_Ports :: "NetworkPolicyPort list"

record NetworkPolicySpec =
  nps_PodSelector :: smap
  nps_PolicyTypes :: "string list"
  nps_Ingress :: "NetworkPolicyIngressRule list"
  nps_Egress :: "NetworkPolicyEgressRule list"

record NetworkPolicy =
  np_meta :: ObjectMeta
  np_Spec :: NetworkPolicySpec

record MonitorEndpoint =
  ep_Port :: string
  ep_Scheme :: string
  ep_ScrapeTimeout :: string
  ep_Interval :: string
  ep_BearerTokenFile :: string
  ep_InsecureSkipVerify :: "bool option"

record ServiceMonitor =
  sm_meta :: ObjectMeta
  sm_JobLabel :: string
  sm_MatchNames :: "string list"
  sm_Endpoints :: "MonitorEndpoint list"
  sm_MatchLabels :: smap

record AlertRule =
  ar_Alert :: string
  ar_Expr :: string
  ar_For :: string
  ar_Labels :: smap
  ar_Annotations :: smap

record PrometheusRule =
  prom_meta :: ObjectMeta
  prom_Groups :: "(string \<times> AlertRule list) list"

record PersistentVolumeClaim =
  pvc_meta :: ObjectMeta
  pvc_AccessModes :: "string list"
  pvc_Storage :: quantity
  pvc_StorageClassName :: string

record PodCondition =
  pc_Type :: string
  pc_Status :: string
  pc_LastTransitionTime :: time
  pc_Reason :: string
  pc_Message :: string

record Pod =
  pod_meta :: ObjectMeta
  pod_Conditions :: "PodCondition list"

section \<open>The custom resources\<close>

record StorageSpec =
  StorageClassName :: string
  Size :: "quantity option"

record DeploymentConfig =
  ReplicaCount :: int
  Resources :: "ResourceRequirements option"
  ImageOverride :: string
  Arguments :: "string list"
  Env :: "EnvVar list"

record SearchDeployments =
  Database :: DeploymentConfig
  Indexer :: DeploymentConfig
  Collector :: DeploymentConfig
  QueryAPI :: DeploymentConfig

record SearchSpec =
  DBStorage :: StorageSpec
  DBConfig :: string
  Deployments :: SearchDeployments
  AvailabilityConfig :: string
  ExternalDBInstance :: string
  ImagePullSecret :: string
  ImagePullPolicy :: string
  NodeSelector :: smap
  Tolerations :: "Toleration list"

record SearchStatus =
  DB :: string
  Storage :: string
  Conditions :: "Condition list"

record Search =
  s_meta :: ObjectMeta
  s_Spec :: SearchSpec
  s_Status :: SearchStatus

definition DataTypeBytes :: string where "DataTypeBytes = ''bytes''"
definition DataTypeString :: string where "DataTypeString = ''string''"
definition DataTypeInteger :: string where "DataTypeInteger = ''integer''"
definition DataTypeFloat :: string where "DataTypeFloat = ''float''"
definition DataTypeBoolean :: string where "DataTypeBoolean = ''boolean''"

definition ActionInclude :: string where "ActionInclude = ''include''"
definition ActionExclude :: string where "ActionExclude = ''exclude''"

definition CollectorConfigConditionApplied :: string where
  "CollectorConfigConditionApplied = ''Applied''"

definition IntegrationTeamLabel :: string where
  "IntegrationTeamLabel = ''search.open-cluster-management.io/config-type''"

definition IntegrationTeamLabelValue :: string where
  "IntegrationTeamLabelValue = ''integration''"

definition AnnotationManualOverride :: string where
  "AnnotationManualOverride = ''search.open-cluster-management.io/manual-override''"

definition CollectorConfigReasonApplied :: string where
  "CollectorConfigReasonApplied = ''Applied''"

definition CollectorConfigReasonRulesSkipped :: string where
  "CollectorConfigReasonRulesSkipped = ''RulesSkipped''"

record ResourceSelector =
  APIGroups :: "string list"
  Kinds :: "string list"

record Field =
  f_Name :: string
  f_JSONPath :: string
  f_Type :: string

record CollectionRule =
  Action :: string
  RuleSelector :: ResourceSelector
  Fields :: "Field list"
  FieldSuffix :: string
  CollectAnnotations :: "bool option"
  CollectConditions :: "bool option"
  CollectAdditionalPrinterColumnsPriority :: "int option"

record LabelSelectorRequirement =
  lsr_Key :: string
  lsr_Operator :: string
  lsr_Values :: "string list"

record NamespaceSelector =
  nss_Include :: "string list"
  nss_Exclude :: "string list"
  nss_MatchExpressions :: "LabelSelectorRequirement list"
  nss_MatchLabels :: smap

record CollectNamespaces =
  cns_NamespaceSelector :: "NamespaceSelector option"

record CollectorConfigSpec =
  ccs_CollectNamespaces :: "CollectNamespaces option"
  CollectionRules :: "CollectionRule list"

record CollectorConfig =
  cc_meta :: ObjectMeta
  cc_Spec :: CollectorConfigSpec
  cc_Conditions :: "Condition list"

definition GroupVersion :: string where
  "GroupVersion = ''search.open-cluster-management.io/v1alpha1''"

section \<open>Stored objects and their keys\<close>

text \<open>
  The objects the typed client handles. The objects of the kinds whose spec the source never
  looks at (\<open>ValidatingWebhookConfiguration\<close>, \<open>ClusterManagementAddOn\<close>, and the legacy
  \<open>Role\<close> and \<open>RoleBinding\<close> that are only deleted) are their metadata.
\<close>

datatype kobj =
    OSearch Search
  | OCollectorConfig CollectorConfig
  | OConfigMap ConfigMap
  | OSecret Secret
  | OService Service
  | ODeployment Deployment
  | OServiceAccount ServiceAccount
  | OClusterRole ClusterRole
  | OClusterRoleBinding ClusterRoleBinding
  | ONetworkPolicy NetworkPolicy
  | OServiceMonitor ServiceMonitor
  | OPrometheusRule PrometheusRule
  | OPersistentVolumeClaim PersistentVolumeClaim
  | OPod Pod
  | OWebhookConfiguration ObjectMeta
  | OClusterManagementAddOn ObjectMeta
  | ORole ObjectMeta
  | ORoleBinding ObjectMeta

datatype kind = KSearch | KCollectorConfig | KConfigMap | KSecret | KService | KDeployment
  | KServiceAccount | KClusterRole | KClusterRoleBinding | KNetworkPolicy | KServiceMonitor
  | KPrometheusRule | KPersistentVolumeClaim | KPod | KWebhookConfiguration
  | KClusterManagementAddOn | KRole | KRoleBinding

fun kind_of :: "kobj \<Rightarrow> kind" where
  "kind_of (OSearch _) = KSearch"
| "kind_of (OCollectorConfig _) = KCollectorConfig"
| "kind_of (OConfigMap _) = KConfigMap"
| "kind_of (OSecret _) = KSecret"
| "kind_of (OService _) = KService"
| "kind_of (ODeployment _) = KDeployment"
| "kind_of (OServiceAccount _) = KServiceAccount"
| "kind_of (OClusterRole _) = KClusterRole"
| "kind_of (OClusterRoleBinding _) = KClusterRoleBinding"
| "kind_of (ONetworkPolicy _) = KNetworkPolicy"
| "kind_of (OServiceMonitor _) = KServiceMonitor"
| "kind_of (OPrometheusRule _) = KPrometheusRule"
| "kind_of (OPersistentVolumeClaim _) = KPersistentVolumeClaim"
| "kind_of (OPod _) = KPod"
| "kind_of (OWebhookConfiguration _) = KWebhookConfiguration"
| "kind_of (OClusterManagementAddOn _) = KClusterManagementAddOn"
| "kind_of (ORole _) = KRole"
| "kind_of (ORoleBinding _) = KRoleBinding"

fun meta_of :: "kobj \<Rightarrow> ObjectMeta" where
  "meta_of (OSearch x) = s_meta x"
| "meta_of (OCollectorConfig x) = cc_meta x"
| "meta_of (OConfigMap x) = cm_meta x"
| "meta_of (OSecret x) = sec_meta x"
| "meta_of (OService x) = svc_meta x"
| "meta_of (ODeployment x) = dep_meta x"
| "meta_of (OServiceAccount x) = sa_meta x"
| "meta_of (OClusterRole x) = cr_meta x"
| "meta_of (OClusterRoleBinding x) = crb_meta x"
| "meta_of (ONetworkPolicy x) = np_meta x"
| "meta_of (OServiceMonitor x) = sm_meta x"
| "meta_of (OPrometheusRule x) = prom_meta x"
| "meta_of (OPersistentVolumeClaim x) = pvc_meta x"
| "meta_of (OPod x) = pod_meta x"
| "meta_of (OWebhookConfiguration m) = m"
| "meta_of (OClusterManagementAddOn m) = m"
| "meta_of (ORole m) = m"
| "meta_of (ORoleBinding m) = m"

text \<open>
  An object is identified by its kind, its namespace and its name; a namespace given for a
  cluster-scoped kind is ignored.
\<close>

datatype okey = OKey (key_kind: kind) (key_namespace: string) (key_name: string)

definition cluster_scoped :: "kind \<Rightarrow> bool" where
  "cluster_scoped k \<longleftrightarrow>
     k \<in> {KClusterRole, KClusterRoleBinding, KWebhookConfiguration, KClusterManagementAddOn}"

definition mkKey :: "kind \<Rightarrow> string \<Rightarrow> string \<Rightarrow> okey" where
  "mkKey k namespace name = OKey k (if cluster_scoped k then '''' else namespace) name"

definition metaKey :: "kind \<Rightarrow> ObjectMeta \<Rightarrow> okey" where
  "metaKey k m = mkKey k (Namespace m) (Name m)"

definition key_of :: "kobj \<Rightarrow> okey" where
  "key_of ob = metaKey (kind_of ob) (meta_of ob)"

text \<open>Projections: the Go type of the variable a \<open>Get\<close> decodes into.\<close>

fun asSearch :: "kobj \<Rightarrow> Search option" where
  "asSearch (OSearch x) = Some x" | "asSearch _ = None"
fun asCollectorConfig :: "kobj \<Rightarrow> CollectorConfig option" where
  "asCollectorConfig (OCollectorConfig x) = Some x" | "asCollectorConfig _ = None"
fun asConfigMap :: "kobj \<Rightarrow> ConfigMap option" where
  "asConfigMap (OConfigMap x) = Some x" | "asConfigMap _ = None"
fun asSecret :: "kobj \<Rightarrow> Secret option" where
  "asSecret (OSecret x) = Some x" | "asSecret _ = None"
fun asService :: "kobj \<Rightarrow> Service option" where
  "asService (OService x) = Some x" | "asService _ = None"
fun asDeployment :: "kobj \<Rightarrow> Deployment option" where
  "asDeployment (ODeployment x) = Some x" | "asDeployment _ = None"
fun asServiceAccount :: "kobj \<Rightarrow> ServiceAccount option" where
  "asServiceAccount (OServiceAccount x) = Some x" | "asServiceAccount _ = None"
fun asClusterRole :: "kobj \<Rightarrow> ClusterRole option" where
  "asClusterRole (OClusterRole x) = Some x" | "asClusterRole _ = None"
fun asClusterRoleBinding :: "kobj \<Rightarrow> ClusterRoleBinding option" where
  "asClusterRoleBinding (OClusterRoleBinding x) = Some x" | "asClusterRoleBinding _ = None"
fun asNetworkPolicy :: "kobj \<Rightarrow> NetworkPolicy option" where
  "asNetworkPolicy (ONetworkPolicy x) = Some x" | "asNetworkPolicy _ = None"
fun asServiceMonitor :: "kobj \<Rightarrow> ServiceMonitor option" where
  "asServiceMonitor (OServiceMonitor x) = Some x" | "asServiceMonitor _ = None"
fun asPrometheusRule :: "kobj \<Rightarrow> PrometheusRule option" where
  "asPrometheusRule (OPrometheusRule x) = Some x" | "asPrometheusRule _ = None"
fun asPersistentVolumeClaim :: "kobj \<Rightarrow> PersistentVolumeClaim option" where
  "asPersistentVolumeClaim (OPersistentVolumeClaim x) = Some x" | "asPersistentVolumeClaim _ = None"
fun asPod :: "kobj \<Rightarrow> Pod option" where
  "asPod (OPod x) = Some x" | "asPod _ = None"
fun asWebhookConfiguration :: "kobj \<Rightarrow> ObjectMeta option" where
  "asWebhookConfiguration (OWebhookConfiguration x) = Some x" | "asWebhookConfiguration _ = None"
fun asClusterManagementAddOn :: "kobj \<Rightarrow> ObjectMeta option" where
  "asClusterManagementAddOn (OClusterManagementAddOn x) = Some x" | "asClusterManagementAddOn _ = None"

text \<open>A projection and the constructor it inverts: what a typed \<open>Get\<close> relies on.\<close>

definition decodes :: "(kobj \<Rightarrow> 'o option) \<Rightarrow> ('o \<Rightarrow> kobj) \<Rightarrow> kind \<Rightarrow> bool" where
  "decodes as con k \<longleftrightarrow>
     (\<forall>ob x. as ob = Some x \<longleftrightarrow> ob = con x) \<and> (\<forall>x. kind_of (con x) = k)
     \<and> (\<forall>ob. kind_of ob = k \<longrightarrow> (\<exists>x. ob = con x))"

lemmas decode_elims = kind_of.elims asSearch.elims asCollectorConfig.elims asConfigMap.elims
  asSecret.elims asService.elims asDeployment.elims asServiceAccount.elims asClusterRole.elims
  asClusterRoleBinding.elims asNetworkPolicy.elims asServiceMonitor.elims asPrometheusRule.elims
  asPersistentVolumeClaim.elims asPod.elims asWebhookConfiguration.elims
  asClusterManagementAddOn.elims

lemma decodes_kinds:
  "decodes asSearch OSearch KSearch"
  "decodes asCollectorConfig OCollectorConfig KCollectorConfig"
  "decodes asConfigMap OConfigMap KConfigMap"
  "decodes asSecret OSecret KSecret"
  "decodes asService OService KService"
  "decodes asDeployment ODeployment KDeployment"
  "decodes asServiceAccount OServiceAccount KServiceAccount"
  "decodes asClusterRole OClusterRole KClusterRole"
  "decodes asClusterRoleBinding OClusterRoleBinding KClusterRoleBinding"
  "decodes asNetworkPolicy ONetworkPolicy KNetworkPolicy"
  "decodes asServiceMonitor OServiceMonitor KServiceMonitor"
  "decodes asPrometheusRule OPrometheusRule KPrometheusRule"
  "decodes asPersistentVolumeClaim OPersistentVolumeClaim KPersistentVolumeClaim"
  "decodes asPod OPod KPod"
  "decodes asWebhookConfiguration OWebhookConfiguration KWebhookConfiguration"
  "decodes asClusterManagementAddOn OClusterManagementAddOn KClusterManagementAddOn"
  by (auto simp: decodes_def elim: decode_elims)

end
