(* ===== verification/Unstructured.thy ===== *)
theory Unstructured
  imports Go_Prelude
begin

text \<open>
  Unstructured objects, what the dynamic client returns: JSON values as Go decodes them into
  \<open>interface{}\<close>, with \<open>JNull\<close> for nil. Reading a missing key gives nil. A type assertion
  with one result panics on the wrong type, so the operations that assert return an option with
  \<open>None\<close> for the panic.
\<close>

section \<open>Values\<close>

datatype json = JNull | JBool bool | JNumber int | JString string | JArray "json list"
  | JObject "(string \<times> json) list"

text \<open>\<open>m[key]\<close> of a \<open>map[string]interface{}\<close>, writing a key, and \<open>delete(m, key)\<close>.\<close>

definition jget :: "(string \<times> json) list \<Rightarrow> string \<Rightarrow> json" where
  "jget m k = (case map_of m k of None \<Rightarrow> JNull | Some v \<Rightarrow> v)"

fun jput :: "string \<Rightarrow> json \<Rightarrow> (string \<times> json) list \<Rightarrow> (string \<times> json) list" where
  "jput k v [] = [(k, v)]"
| "jput k v ((k', v') # m) = (if k' = k then (k, v) # m else (k', v') # jput k v m)"

definition jdelete :: "string \<Rightarrow> (string \<times> json) list \<Rightarrow> (string \<times> json) list" where
  "jdelete k m = filter (\<lambda>(k', _). k' \<noteq> k) m"

text \<open>The assertions \<open>v.(map[string]interface{})\<close> and \<open>v.([]interface{})\<close>.\<close>

fun assertMap :: "json \<Rightarrow> (string \<times> json) list option" where
  "assertMap (JObject m) = Some m"
| "assertMap _ = None"

fun assertArray :: "json \<Rightarrow> json list option" where
  "assertArray (JArray vs) = Some vs"
| "assertArray _ = None"

text \<open>\<open>u.GetName()\<close>, \<open>u.GetNamespace()\<close> and one label of an unstructured object.\<close>

fun jstring :: "json \<Rightarrow> string" where
  "jstring (JString s) = s"
| "jstring _ = ''''"

fun jfields :: "json \<Rightarrow> (string \<times> json) list" where
  "jfields (JObject m) = m"
| "jfields _ = []"

definition GetName :: "json \<Rightarrow> string" where
  "GetName u = jstring (jget (jfields (jget (jfields u) ''metadata'')) ''name'')"

definition GetLabel :: "json \<Rightarrow> string \<Rightarrow> string" where
  "GetLabel u k = jstring (jget (jfields (jget (jfields (jget (jfields u) ''metadata'')) ''labels'')) k)"

text \<open>\<open>unstructured.NestedString(obj, fields...)\<close>: not found, a wrong type, or the string.\<close>

fun NestedString :: "json \<Rightarrow> string list \<Rightarrow> go_error + string option" where
  "NestedString (JString s) [] = Inr (Some s)"
| "NestedString v [] = Inl (Errorf ''accessor error: not of the type string'')"
| "NestedString (JObject m) (k # ks) =
     (case map_of m k of None \<Rightarrow> Inr None | Some v \<Rightarrow> NestedString v ks)"
| "NestedString v (k # ks) = Inl (Errorf ''accessor error: not of the type map[string]interface{}'')"

section \<open>Lemmas\<close>

lemma jget_jput: "jget (jput k v m) k' = (if k' = k then v else jget m k')"
  by (induction m) (auto simp: jget_def)

lemma jget_jdelete: "jget (jdelete k m) k' = (if k' = k then JNull else jget m k')"
  by (induction m) (auto simp: jget_def jdelete_def)

lemma map_of_jdelete: "map_of (jdelete k m) k' = (if k' = k then None else map_of m k')"
  by (induction m) (auto simp: jdelete_def)

lemma assertMap_Some [simp]: "assertMap v = Some m \<longleftrightarrow> v = JObject m"
  by (cases v) auto

lemma assertArray_Some [simp]: "assertArray v = Some vs \<longleftrightarrow> v = JArray vs"
  by (cases v) auto

end
