(* ===== verification/Kube_Client.thy ===== *)
theory Kube_Client
  imports Kube_Types Unstructured
begin

text \<open>
  The code outside this repository that the operator calls, as parameters: the typed client of
  controller-runtime and the dynamic client of client-go (over a world of type \<open>'w\<close>, which
  they read and change), the library functions the sources call, the environment. What the proofs
  rely on of them is stated as named predicates, never assumed of a particular client:
  \<open>kube_api\<close> is the contract of the API server seen through the client, with an observation
  \<open>objs\<close> of the stored objects. An in-memory API server (\<open>mem_client\<close>), with scripted
  failures, shows that the contract can be met; the witnesses run the operator's code on it.
\<close>

section \<open>The parameters\<close>

record 'w client =
  cl_Get :: "okey \<Rightarrow> ('w, go_error + kobj) state"
  cl_Create :: "kobj \<Rightarrow> ('w, go_error + kobj) state"
  cl_Update :: "kobj \<Rightarrow> ('w, go_error + kobj) state"
  cl_Patch :: "kobj \<Rightarrow> kobj \<Rightarrow> ('w, go_error + kobj) state"
  cl_StatusUpdate :: "kobj \<Rightarrow> ('w, go_error + kobj) state"
  cl_Delete :: "okey \<Rightarrow> ('w, go_error option) state"
  cl_List :: "kind \<Rightarrow> string option \<Rightarrow> (string \<times> string) list \<Rightarrow> ('w, go_error + kobj list) state"

type_synonym gvr = "string \<times> string \<times> string"

text \<open>
  The dynamic client. \<open>List\<close> returns a pointer and an error, and the source looks at both, so
  they are independent here.
\<close>

record 'w dynamic =
  dyn_Get :: "gvr \<Rightarrow> string \<Rightarrow> string \<Rightarrow> ('w, go_error + json) state"
  dyn_List :: "gvr \<Rightarrow> ('w, json list option \<times> go_error option) state"
  dyn_Create :: "gvr \<Rightarrow> string \<Rightarrow> json \<Rightarrow> ('w, go_error option) state"
  dyn_Update :: "gvr \<Rightarrow> string \<Rightarrow> json \<Rightarrow> ('w, go_error option) state"
  dyn_Delete :: "gvr \<Rightarrow> string \<Rightarrow> string \<Rightarrow> ('w, go_error option) state"

text \<open>
  \<open>controllerutil.SetControllerReference(owner, obj, scheme)\<close> (the new metadata of the object
  or an error) and its finalizer functions on the list of finalizers, \<open>FindStatusCondition\<close> and
  \<open>SetStatusCondition\<close> of package \<open>meta\<close>, \<open>yaml.Unmarshal\<close> into a \<open>CollectorConfig\<close>,
  \<open>resource.MustParse\<close>, whether \<open>jsonpath.Parse\<close> accepts a template, and the first eight
  bytes of the SHA-256 of a string in hexadecimal.
\<close>

record golib =
  lib_SetControllerReference :: "Search \<Rightarrow> ObjectMeta \<Rightarrow> go_error + ObjectMeta"
  lib_ContainsFinalizer :: "string list \<Rightarrow> string \<Rightarrow> bool"
  lib_AddFinalizer :: "string list \<Rightarrow> string \<Rightarrow> string list"
  lib_RemoveFinalizer :: "string list \<Rightarrow> string \<Rightarrow> string list"
  lib_FindStatusCondition :: "Condition list \<Rightarrow> string \<Rightarrow> Condition option"
  lib_SetStatusCondition :: "Condition list \<Rightarrow> Condition \<Rightarrow> Condition list"
  lib_Unmarshal :: "string \<Rightarrow> go_error + CollectorConfig"
  lib_MustParse :: "string \<Rightarrow> quantity"
  lib_JSONPathParses :: "string \<Rightarrow> bool"
  lib_ShortHash :: "string \<Rightarrow> string"

text \<open>The receiver \<open>r *SearchReconciler\<close>, with the process environment and the clock.\<close>

record 'w SearchReconciler =
  Client :: "'w client"
  DynamicClient :: "'w dynamic option"
  Lib :: golib
  Getenv :: "string \<Rightarrow> string"
  Now :: "('w, time) state"

section \<open>Typed access\<close>

definition Get :: "'w client \<Rightarrow> (kobj \<Rightarrow> 'o option) \<Rightarrow> okey \<Rightarrow> ('w, go_error + 'o) state" where
  "Get c as k = do {
     r \<leftarrow> cl_Get c k;
     ret (case r of Inl e \<Rightarrow> Inl e
          | Inr ob \<Rightarrow> (case as ob of None \<Rightarrow> Inl (Errorf ''unexpected type'') | Some x \<Rightarrow> Inr x))
   }"

definition ListOf ::
  "'w client \<Rightarrow> (kobj \<Rightarrow> 'o option) \<Rightarrow> kind \<Rightarrow> string option \<Rightarrow> (string \<times> string) list
    \<Rightarrow> ('w, go_error + 'o list) state" where
  "ListOf c as k ns sel = do {
     r \<leftarrow> cl_List c k ns sel;
     ret (case r of Inl e \<Rightarrow> Inl e | Inr obs \<Rightarrow> Inr (List.map_filter as obs))
   }"

text \<open>An error of a call whose result object the source does not look at.\<close>

definition errOf :: "go_error + 'a \<Rightarrow> go_error option" where
  "errOf r = (case r of Inl e \<Rightarrow> Some e | Inr _ \<Rightarrow> None)"

section \<open>The contract of the API server\<close>

text \<open>
  The server assigns the UID and, for the kinds with a status subresource, an update leaves the
  status alone and a status update leaves the rest alone. An object that is being deleted goes
  away with its last finalizer.
\<close>

fun map_meta :: "(ObjectMeta \<Rightarrow> ObjectMeta) \<Rightarrow> kobj \<Rightarrow> kobj" where
  "map_meta f (OSearch x) = OSearch (x\<lparr>s_meta := f (s_meta x)\<rparr>)"
| "map_meta f (OCollectorConfig x) = OCollectorConfig (x\<lparr>cc_meta := f (cc_meta x)\<rparr>)"
| "map_meta f (OConfigMap x) = OConfigMap (x\<lparr>cm_meta := f (cm_meta x)\<rparr>)"
| "map_meta f (OSecret x) = OSecret (x\<lparr>sec_meta := f (sec_meta x)\<rparr>)"
| "map_meta f (OService x) = OService (x\<lparr>svc_meta := f (svc_meta x)\<rparr>)"
| "map_meta f (ODeployment x) = ODeployment (x\<lparr>dep_meta := f (dep_meta x)\<rparr>)"
| "map_meta f (OServiceAccount x) = OServiceAccount (x\<lparr>sa_meta := f (sa_meta x)\<rparr>)"
| "map_meta f (OClusterRole x) = OClusterRole (x\<lparr>cr_meta := f (cr_meta x)\<rparr>)"
| "map_meta f (OClusterRoleBinding x) = OClusterRoleBinding (x\<lparr>crb_meta := f (crb_meta x)\<rparr>)"
| "map_meta f (ONetworkPolicy x) = ONetworkPolicy (x\<lparr>np_meta := f (np_meta x)\<rparr>)"
| "map_meta f (OServiceMonitor x) = OServiceMonitor (x\<lparr>sm_meta := f (sm_meta x)\<rparr>)"
| "map_meta f (OPrometheusRule x) = OPrometheusRule (x\<lparr>prom_meta := f (prom_meta x)\<rparr>)"
| "map_meta f (OPersistentVolumeClaim x) = OPersistentVolumeClaim (x\<lparr>pvc_meta := f (pvc_meta x)\<rparr>)"
| "map_meta f (OPod x) = OPod (x\<lparr>pod_meta := f (pod_meta x)\<rparr>)"
| "map_meta f (OWebhookConfiguration m) = OWebhookConfiguration (f m)"
| "map_meta f (OClusterManagementAddOn m) = OClusterManagementAddOn (f m)"
| "map_meta f (ORole m) = ORole (f m)"
| "map_meta f (ORoleBinding m) = ORoleBinding (f m)"

definition content :: "kobj \<Rightarrow> kobj" where
  "content ob = map_meta (\<lambda>m. m\<lparr>UID := ''''\<rparr>) ob"

fun keep_status :: "kobj \<Rightarrow> kobj \<Rightarrow> kobj" where
  "keep_status (OSearch old) (OSearch new) = OSearch (new\<lparr>s_Status := s_Status old\<rparr>)"
| "keep_status (OCollectorConfig old) (OCollectorConfig new) =
     OCollectorConfig (new\<lparr>cc_Conditions := cc_Conditions old\<rparr>)"
| "keep_status old new = new"

fun keep_spec :: "kobj \<Rightarrow> kobj \<Rightarrow> kobj" where
  "keep_spec (OSearch old) (OSearch new) = OSearch (old\<lparr>s_Status := s_Status new\<rparr>)"
| "keep_spec (OCollectorConfig old) (OCollectorConfig new) =
     OCollectorConfig (old\<lparr>cc_Conditions := cc_Conditions new\<rparr>)"
| "keep_spec old new = old"

definition terminated :: "kobj \<Rightarrow> bool" where
  "terminated ob \<longleftrightarrow> DeletionTimestamp (meta_of ob) \<noteq> None \<and> Finalizers (meta_of ob) = []"

type_synonym 'w view = "'w \<Rightarrow> okey \<Rightarrow> kobj option"

definition same_except :: "'w view \<Rightarrow> 'w \<Rightarrow> 'w \<Rightarrow> okey set \<Rightarrow> bool" where
  "same_except objs w w' K \<longleftrightarrow> (\<forall>k. k \<notin> K \<longrightarrow> objs w' k = objs w k)"

definition get_contract :: "'w client \<Rightarrow> 'w view \<Rightarrow> bool" where
  "get_contract c objs \<longleftrightarrow> (\<forall>k w r w'. run_state (cl_Get c k) w = (r, w') \<longrightarrow>
     objs w' = objs w
     \<and> (\<forall>ob. r = Inr ob \<longrightarrow> objs w k = Some ob \<and> key_of ob = k)
     \<and> (\<forall>e. r = Inl e \<longrightarrow> IsNotFound e \<longrightarrow> objs w k = None))"

definition create_contract :: "'w client \<Rightarrow> 'w view \<Rightarrow> bool" where
  "create_contract c objs \<longleftrightarrow> (\<forall>ob w r w'. run_state (cl_Create c ob) w = (r, w') \<longrightarrow>
     same_except objs w w' {key_of ob}
     \<and> (\<forall>ob'. r = Inr ob' \<longrightarrow> objs w (key_of ob) = None \<and> objs w' (key_of ob) = Some ob'
          \<and> content ob' = content ob)
     \<and> (\<forall>e. r = Inl e \<longrightarrow> IsAlreadyExists e \<longrightarrow> objs w (key_of ob) \<noteq> None \<and> objs w' = objs w))"

definition update_contract :: "'w client \<Rightarrow> 'w view \<Rightarrow> bool" where
  "update_contract c objs \<longleftrightarrow> (\<forall>ob w r w'. run_state (cl_Update c ob) w = (r, w') \<longrightarrow>
     same_except objs w w' {key_of ob}
     \<and> (\<forall>ob'. r = Inr ob' \<longrightarrow> (\<exists>old. objs w (key_of ob) = Some old
          \<and> content ob' = content (keep_status old ob)
          \<and> objs w' (key_of ob) = (if terminated ob' then None else Some ob')))
     \<and> (objs w (key_of ob) \<noteq> None \<longrightarrow> \<not> terminated ob \<longrightarrow> objs w' (key_of ob) \<noteq> None))"

definition patch_contract :: "'w client \<Rightarrow> 'w view \<Rightarrow> bool" where
  "patch_contract c objs \<longleftrightarrow> (\<forall>base ob w r w'. run_state (cl_Patch c base ob) w = (r, w') \<longrightarrow>
     same_except objs w w' {key_of ob}
     \<and> (\<forall>ob'. r = Inr ob' \<longrightarrow> objs w (key_of ob) = Some base \<longrightarrow>
          content ob' = content (keep_status base ob)
          \<and> objs w' (key_of ob) = (if terminated ob' then None else Some ob')))"

definition status_contract :: "'w client \<Rightarrow> 'w view \<Rightarrow> bool" where
  "status_contract c objs \<longleftrightarrow> (\<forall>ob w r w'. run_state (cl_StatusUpdate c ob) w = (r, w') \<longrightarrow>
     same_except objs w w' {key_of ob}
     \<and> (\<forall>old. objs w (key_of ob) = Some old \<longrightarrow>
          (\<exists>new. objs w' (key_of ob) = Some new \<and> content new = content (keep_spec old new)))
     \<and> (\<forall>ob'. r = Inr ob' \<longrightarrow> (\<exists>old. objs w (key_of ob) = Some old
          \<and> content ob' = content (keep_spec old ob) \<and> objs w' (key_of ob) = Some ob')))"

definition delete_contract :: "'w client \<Rightarrow> 'w view \<Rightarrow> bool" where
  "delete_contract c objs \<longleftrightarrow> (\<forall>k w r w'. run_state (cl_Delete c k) w = (r, w') \<longrightarrow>
     same_except objs w w' {k}
     \<and> (r = None \<longrightarrow> (\<exists>ob. objs w k = Some ob \<and> (Finalizers (meta_of ob) = [] \<longrightarrow> objs w' k = None)))
     \<and> (\<forall>e. r = Some e \<longrightarrow> IsNotFound e \<longrightarrow> objs w k = None \<and> objs w' = objs w))"

definition selected :: "kind \<Rightarrow> string option \<Rightarrow> (string \<times> string) list \<Rightarrow> kobj \<Rightarrow> bool" where
  "selected k ns sel ob \<longleftrightarrow> kind_of ob = k
     \<and> (case ns of None \<Rightarrow> True | Some n \<Rightarrow> Namespace (meta_of ob) = n)
     \<and> list_all (\<lambda>(l, v). lookup (Labels (meta_of ob)) l = Some v) sel"

definition list_contract :: "'w client \<Rightarrow> 'w view \<Rightarrow> bool" where
  "list_contract c objs \<longleftrightarrow> (\<forall>k ns sel w r w'. run_state (cl_List c k ns sel) w = (r, w') \<longrightarrow>
     objs w' = objs w
     \<and> (\<forall>obs. r = Inr obs \<longrightarrow> distinct (map key_of obs)
          \<and> (\<forall>ob. ob \<in> set obs \<longleftrightarrow> objs w (key_of ob) = Some ob \<and> selected k ns sel ob)))"

text \<open>Each object is stored under its own key.\<close>

definition filed :: "'w view \<Rightarrow> bool" where
  "filed objs \<longleftrightarrow> (\<forall>w k ob. objs w k = Some ob \<longrightarrow> key_of ob = k)"

definition kube_api :: "'w client \<Rightarrow> 'w view \<Rightarrow> bool" where
  "kube_api c objs \<longleftrightarrow> filed objs \<and> get_contract c objs \<and> create_contract c objs \<and> update_contract c objs
     \<and> patch_contract c objs \<and> status_contract c objs \<and> delete_contract c objs \<and> list_contract c objs"

text \<open>
  What \<open>SetControllerReference\<close> promises: on success only the owner references change, and
  the owner is among them as the controller.
\<close>

definition setref_contract :: "golib \<Rightarrow> bool" where
  "setref_contract lib \<longleftrightarrow> (\<forall>inst m m'. lib_SetControllerReference lib inst m = Inr m' \<longrightarrow>
     (\<exists>refs. m' = m\<lparr>OwnerReferences := refs\<rparr>
        \<and> (\<exists>ref \<in> set refs. ref_UID ref = UID (s_meta inst) \<and> ref_Controller ref = Some True)))"

text \<open>
  The documented behaviour of the finalizer functions (on the set of finalizers) and of the
  condition functions: a condition that is set is found afterwards with its status, reason and
  message, and the conditions of other types stay.
\<close>

definition finalizer_contract :: "golib \<Rightarrow> bool" where
  "finalizer_contract lib \<longleftrightarrow> (\<forall>fs f.
     (lib_ContainsFinalizer lib fs f \<longleftrightarrow> f \<in> set fs)
     \<and> set (lib_AddFinalizer lib fs f) = insert f (set fs)
     \<and> set (lib_RemoveFinalizer lib fs f) = set fs - {f})"

definition sameCondition :: "Condition \<Rightarrow> Condition \<Rightarrow> bool" where
  "sameCondition c d \<longleftrightarrow> cond_Type c = cond_Type d \<and> cond_Status c = cond_Status d
     \<and> cond_Reason c = cond_Reason d \<and> cond_Message c = cond_Message d"

definition condition_contract :: "golib \<Rightarrow> bool" where
  "condition_contract lib \<longleftrightarrow> (\<forall>cs.
     (\<forall>t c. lib_FindStatusCondition lib cs t = Some c \<longrightarrow> c \<in> set cs \<and> cond_Type c = t)
     \<and> (\<forall>c. (\<exists>d. lib_FindStatusCondition lib (lib_SetStatusCondition lib cs c) (cond_Type c) = Some d
              \<and> sameCondition d c)
          \<and> filter (\<lambda>d. cond_Type d \<noteq> cond_Type c) (lib_SetStatusCondition lib cs c)
            = filter (\<lambda>d. cond_Type d \<noteq> cond_Type c) cs))"

section \<open>An in-memory API server\<close>

text \<open>
  The script \<open>mem_faults\<close> holds one entry per call: \<open>Some m\<close> makes the call fail with the
  message \<open>m\<close> and no effect; when it is used up, calls succeed.
\<close>

record mem =
  mem_objs :: "kobj list"
  mem_faults :: "string option list"
  mem_clock :: nat
  mem_dyn :: "((gvr \<times> string \<times> string) \<times> json) list"

fun slot :: "okey \<Rightarrow> kobj list \<Rightarrow> kobj option" where
  "slot k [] = None"
| "slot k (ob # obs) = (if key_of ob = k then Some ob else slot k obs)"

fun overwrite :: "kobj \<Rightarrow> kobj list \<Rightarrow> kobj list" where
  "overwrite ob [] = [ob]"
| "overwrite ob (x # obs) = (if key_of x = key_of ob then ob # obs else x # overwrite ob obs)"

definition erase :: "okey \<Rightarrow> kobj list \<Rightarrow> kobj list" where
  "erase k obs = filter (\<lambda>ob. key_of ob \<noteq> k) obs"

definition mem_view :: "mem view" where
  "mem_view w = (\<lambda>k. slot k (mem_objs w))"

definition scripted :: "(go_error \<Rightarrow> 'a) \<Rightarrow> (mem \<Rightarrow> 'a \<times> mem) \<Rightarrow> (mem, 'a) state" where
  "scripted failed f = State (\<lambda>w. case mem_faults w of
       [] \<Rightarrow> f w
     | m # fs \<Rightarrow> (case m of None \<Rightarrow> f (w\<lparr>mem_faults := fs\<rparr>)
         | Some msg \<Rightarrow> (failed (APIError OtherReason msg), w\<lparr>mem_faults := fs\<rparr>)))"

definition save :: "kobj \<Rightarrow> mem \<Rightarrow> mem" where
  "save ob w = w\<lparr>mem_objs :=
     (if terminated ob then erase (key_of ob) (mem_objs w) else overwrite ob (mem_objs w))\<rparr>"

definition mem_get :: "okey \<Rightarrow> mem \<Rightarrow> (go_error + kobj) \<times> mem" where
  "mem_get k w = ((case slot k (mem_objs w) of
       None \<Rightarrow> Inl (APIError NotFound ''not found'')
     | Some ob \<Rightarrow> Inr ob), w)"

definition mem_create :: "kobj \<Rightarrow> mem \<Rightarrow> (go_error + kobj) \<times> mem" where
  "mem_create ob w = (case slot (key_of ob) (mem_objs w) of
       None \<Rightarrow> (Inr ob, w\<lparr>mem_objs := overwrite ob (mem_objs w)\<rparr>)
     | Some _ \<Rightarrow> (Inl (APIError AlreadyExists ''already exists''), w))"

definition mem_update :: "kobj \<Rightarrow> mem \<Rightarrow> (go_error + kobj) \<times> mem" where
  "mem_update ob w = (case slot (key_of ob) (mem_objs w) of
       None \<Rightarrow> (Inl (APIError NotFound ''not found''), w)
     | Some old \<Rightarrow> (Inr (keep_status old ob), save (keep_status old ob) w))"

definition mem_status :: "kobj \<Rightarrow> mem \<Rightarrow> (go_error + kobj) \<times> mem" where
  "mem_status ob w = (case slot (key_of ob) (mem_objs w) of
       None \<Rightarrow> (Inl (APIError NotFound ''not found''), w)
     | Some old \<Rightarrow> (Inr (keep_spec old ob),
         w\<lparr>mem_objs := overwrite (keep_spec old ob) (mem_objs w)\<rparr>))"

definition mem_delete :: "okey \<Rightarrow> mem \<Rightarrow> go_error option \<times> mem" where
  "mem_delete k w = (case slot k (mem_objs w) of
       None \<Rightarrow> (Some (APIError NotFound ''not found''), w)
     | Some ob \<Rightarrow> (None, if Finalizers (meta_of ob) = []
         then w\<lparr>mem_objs := erase k (mem_objs w)\<rparr>
         else w\<lparr>mem_objs := overwrite (map_meta (\<lambda>m. m\<lparr>DeletionTimestamp := Some (mem_clock w)\<rparr>) ob)
                 (mem_objs w)\<rparr>))"

fun first_slots :: "kobj list \<Rightarrow> kobj list" where
  "first_slots [] = []"
| "first_slots (ob # obs) = ob # filter (\<lambda>x. key_of x \<noteq> key_of ob) (first_slots obs)"

definition mem_list ::
  "kind \<Rightarrow> string option \<Rightarrow> (string \<times> string) list \<Rightarrow> mem \<Rightarrow> (go_error + kobj list) \<times> mem" where
  "mem_list k ns sel w = (Inr (filter (selected k ns sel) (first_slots (mem_objs w))), w)"

definition mem_client :: "mem client" where
  "mem_client = \<lparr>
     cl_Get = (\<lambda>k. scripted Inl (mem_get k)),
     cl_Create = (\<lambda>ob. scripted Inl (mem_create ob)),
     cl_Update = (\<lambda>ob. scripted Inl (mem_update ob)),
     cl_Patch = (\<lambda>base ob. scripted Inl (mem_update ob)),
     cl_StatusUpdate = (\<lambda>ob. scripted Inl (mem_status ob)),
     cl_Delete = (\<lambda>k. scripted Some (mem_delete k)),
     cl_List = (\<lambda>k ns sel. scripted Inl (mem_list k ns sel))\<rparr>"

section \<open>Lemmas: the in-memory server meets the contract\<close>

lemma key_of_map_meta [simp]:
  "(\<And>m. Name (f m) = Name m) \<Longrightarrow> (\<And>m. Namespace (f m) = Namespace m) \<Longrightarrow>
     key_of (map_meta f ob) = key_of ob"
  by (cases ob) (auto simp: key_of_def metaKey_def)

lemma key_of_keep_status [simp]: "key_of (keep_status old ob) = key_of ob"
  by (cases "(old, ob)" rule: keep_status.cases) (auto simp: key_of_def)

lemma key_of_keep_spec [simp]: "key_of (keep_spec old ob) = key_of old"
  by (cases "(old, ob)" rule: keep_spec.cases) (auto simp: key_of_def)

lemma slot_key: "slot k obs = Some ob \<Longrightarrow> key_of ob = k"
  by (induction obs) (auto split: if_splits)

lemma slot_overwrite [simp]:
  "slot k (overwrite ob obs) = (if k = key_of ob then Some ob else slot k obs)"
  by (induction obs) auto

lemma slot_erase [simp]: "slot k (erase k' obs) = (if k = k' then None else slot k obs)"
  by (induction obs) (auto simp: erase_def)

lemma first_slots_iff: "ob \<in> set (first_slots obs) \<longleftrightarrow> slot (key_of ob) obs = Some ob"
  by (induction obs) auto

lemma first_slots_distinct: "distinct (map key_of (first_slots obs))"
proof (induction obs)
  case (Cons ob obs)
  then show ?case by (auto simp: distinct_map inj_on_def)
qed simp

lemma run_scripted:
  "run_state (scripted failed f) w = (case mem_faults w of
       [] \<Rightarrow> f w
     | m # fs \<Rightarrow> (case m of None \<Rightarrow> f (w\<lparr>mem_faults := fs\<rparr>)
         | Some msg \<Rightarrow> (failed (APIError OtherReason msg), w\<lparr>mem_faults := fs\<rparr>)))"
  by (simp add: scripted_def)

lemma mem_view_faults [simp]: "mem_view (w\<lparr>mem_faults := fs\<rparr>) = mem_view w"
  by (auto simp: mem_view_def)

lemma scripted_elim:
  assumes "run_state (scripted failed f) w = (r, w')"
  obtains w0 where "mem_objs w0 = mem_objs w" "f w0 = (r, w')"
    | msg where "mem_objs w' = mem_objs w" "r = failed (APIError OtherReason msg)"
proof (cases "mem_faults w")
  case Nil
  then show ?thesis using assms that(1) by (auto simp: run_scripted)
next
  case (Cons m fs)
  then show ?thesis
    using assms that(1) [of "w\<lparr>mem_faults := fs\<rparr>"] that(2)
    by (cases m) (auto simp: run_scripted)
qed

lemma other_reason_flags [simp]:
  "\<not> IsNotFound (APIError OtherReason m)" "\<not> IsAlreadyExists (APIError OtherReason m)"
  "IsNotFound (APIError NotFound m)" "\<not> IsAlreadyExists (APIError NotFound m)"
  "\<not> IsNotFound (APIError AlreadyExists m)" "IsAlreadyExists (APIError AlreadyExists m)"
  by (auto simp: IsNotFound_def IsAlreadyExists_def)

lemma mem_get_contract: "get_contract mem_client mem_view"
  unfolding get_contract_def
  by (auto simp: mem_client_def mem_get_def mem_view_def dest: slot_key
      elim!: scripted_elim split: option.splits)

lemma mem_create_contract: "create_contract mem_client mem_view"
  unfolding create_contract_def
  by (auto simp: mem_client_def mem_create_def same_except_def mem_view_def
      elim!: scripted_elim split: option.splits)

lemma terminated_keep_status [simp]: "terminated (keep_status old ob) = terminated ob"
  by (cases "(old, ob)" rule: keep_status.cases) (auto simp: terminated_def)

lemma mem_update_contract: "update_contract mem_client mem_view"
  unfolding update_contract_def
  by (auto simp: mem_client_def mem_update_def save_def same_except_def mem_view_def
      elim!: scripted_elim split: option.splits)

lemma mem_patch_contract: "patch_contract mem_client mem_view"
  unfolding patch_contract_def
  by (auto simp: mem_client_def mem_update_def save_def same_except_def mem_view_def
      elim!: scripted_elim split: option.splits)

lemma keep_spec_same [simp]: "keep_spec old old = old"
  by (cases old) auto

lemma keep_spec_idem [simp]: "keep_spec old (keep_spec old ob) = keep_spec old ob"
  by (cases "(old, ob)" rule: keep_spec.cases) auto

lemma mem_status_run:
  assumes "mem_status ob w0 = (r, w')"
  shows "same_except mem_view w0 w' {key_of ob}
     \<and> (\<forall>old. slot (key_of ob) (mem_objs w0) = Some old \<longrightarrow>
          (\<exists>new. slot (key_of ob) (mem_objs w') = Some new \<and> content new = content (keep_spec old new)))
     \<and> (\<forall>ob'. r = Inr ob' \<longrightarrow> (\<exists>old. slot (key_of ob) (mem_objs w0) = Some old
          \<and> content ob' = content (keep_spec old ob) \<and> slot (key_of ob) (mem_objs w') = Some ob'))"
proof (cases "slot (key_of ob) (mem_objs w0)")
  case (Some old)
  then have "key_of (keep_spec old ob) = key_of ob" by (simp add: slot_key)
  then show ?thesis using assms Some by (auto simp: mem_status_def same_except_def mem_view_def)
qed (use assms in \<open>auto simp: mem_status_def same_except_def\<close>)

lemma mem_status_contract: "status_contract mem_client mem_view"
  unfolding status_contract_def
  by (auto simp: mem_client_def mem_view_def same_except_def dest!: mem_status_run
      elim!: scripted_elim)

lemma mem_delete_contract: "delete_contract mem_client mem_view"
  unfolding delete_contract_def
  by (auto simp: mem_client_def mem_delete_def same_except_def mem_view_def
      dest: slot_key elim!: scripted_elim split: option.splits if_splits)

lemma mem_list_contract: "list_contract mem_client mem_view"
  unfolding list_contract_def
  by (auto simp: mem_client_def mem_list_def mem_view_def first_slots_iff
      distinct_map_filter [OF first_slots_distinct] elim!: scripted_elim)

lemma mem_filed: "filed mem_view"
  by (auto simp: filed_def mem_view_def dest: slot_key)

lemma mem_kube_api: "kube_api mem_client mem_view"
  by (simp add: kube_api_def mem_filed mem_get_contract mem_create_contract mem_update_contract
      mem_patch_contract mem_status_contract mem_delete_contract mem_list_contract)

section \<open>Lemmas: using the contract\<close>

lemma same_exceptD: "same_except objs w w' K \<Longrightarrow> k \<notin> K \<Longrightarrow> objs w' k = objs w k"
  by (simp add: same_except_def)

lemma same_except_refl [simp]: "same_except objs w w K"
  by (simp add: same_except_def)

lemma same_except_eq: "objs w' = objs w \<Longrightarrow> same_except objs w w' K"
  by (simp add: same_except_def)

lemma same_except_trans:
  "same_except objs w w1 K \<Longrightarrow> same_except objs w1 w2 K \<Longrightarrow> same_except objs w w2 K"
  by (simp add: same_except_def)

lemma same_except_mono: "same_except objs w w' K \<Longrightarrow> K \<subseteq> K' \<Longrightarrow> same_except objs w w' K'"
  by (auto simp: same_except_def)

lemma api_filed: "kube_api c objs \<Longrightarrow> objs w k = Some ob \<Longrightarrow> key_of ob = k"
  unfolding kube_api_def filed_def by blast

lemma api_get_view: "kube_api c objs \<Longrightarrow> run_state (cl_Get c k) w = (r, w') \<Longrightarrow> objs w' = objs w"
  by (auto simp: kube_api_def get_contract_def)

lemma api_get_found:
  "kube_api c objs \<Longrightarrow> run_state (cl_Get c k) w = (Inr ob, w') \<Longrightarrow> objs w k = Some ob \<and> key_of ob = k"
  by (auto simp: kube_api_def get_contract_def)

lemma api_get_missing:
  "kube_api c objs \<Longrightarrow> run_state (cl_Get c k) w = (Inl e, w') \<Longrightarrow> IsNotFound e \<Longrightarrow> objs w k = None"
  by (auto simp: kube_api_def get_contract_def)

lemma api_create_frame:
  "kube_api c objs \<Longrightarrow> run_state (cl_Create c ob) w = (r, w') \<Longrightarrow> same_except objs w w' {key_of ob}"
  unfolding kube_api_def create_contract_def by blast

lemma api_create_ok:
  "kube_api c objs \<Longrightarrow> run_state (cl_Create c ob) w = (Inr ob', w') \<Longrightarrow>
     objs w (key_of ob) = None \<and> objs w' (key_of ob) = Some ob' \<and> content ob' = content ob"
  unfolding kube_api_def create_contract_def by blast

lemma api_update_frame:
  "kube_api c objs \<Longrightarrow> run_state (cl_Update c ob) w = (r, w') \<Longrightarrow> same_except objs w w' {key_of ob}"
  unfolding kube_api_def update_contract_def by blast

lemma api_update_ok:
  "kube_api c objs \<Longrightarrow> run_state (cl_Update c ob) w = (Inr ob', w') \<Longrightarrow>
     \<exists>old. objs w (key_of ob) = Some old \<and> content ob' = content (keep_status old ob)
       \<and> objs w' (key_of ob) = (if terminated ob' then None else Some ob')"
  unfolding kube_api_def update_contract_def by blast

lemma api_update_keeps:
  "kube_api c objs \<Longrightarrow> run_state (cl_Update c ob) w = (r, w') \<Longrightarrow> objs w (key_of ob) \<noteq> None \<Longrightarrow> \<not> terminated ob \<Longrightarrow>
     objs w' (key_of ob) \<noteq> None"
  unfolding kube_api_def update_contract_def by blast

lemma api_patch_frame:
  "kube_api c objs \<Longrightarrow> run_state (cl_Patch c base ob) w = (r, w') \<Longrightarrow> same_except objs w w' {key_of ob}"
  unfolding kube_api_def patch_contract_def by blast

lemma api_patch_ok:
  "kube_api c objs \<Longrightarrow> run_state (cl_Patch c base ob) w = (Inr ob', w') \<Longrightarrow> objs w (key_of ob) = Some base \<Longrightarrow>
     content ob' = content (keep_status base ob)
     \<and> objs w' (key_of ob) = (if terminated ob' then None else Some ob')"
  unfolding kube_api_def patch_contract_def by blast

lemma api_status_frame:
  "kube_api c objs \<Longrightarrow> run_state (cl_StatusUpdate c ob) w = (r, w') \<Longrightarrow>
     same_except objs w w' {key_of ob}"
  unfolding kube_api_def status_contract_def by blast

lemma api_status_ok:
  "kube_api c objs \<Longrightarrow> run_state (cl_StatusUpdate c ob) w = (Inr ob', w') \<Longrightarrow>
     \<exists>old. objs w (key_of ob) = Some old \<and> content ob' = content (keep_spec old ob)
       \<and> objs w' (key_of ob) = Some ob'"
  unfolding kube_api_def status_contract_def by blast

lemma api_status_spec:
  "kube_api c objs \<Longrightarrow> run_state (cl_StatusUpdate c ob) w = (r, w') \<Longrightarrow> objs w (key_of ob) = Some old \<Longrightarrow>
     \<exists>new. objs w' (key_of ob) = Some new \<and> content new = content (keep_spec old new)"
  unfolding kube_api_def status_contract_def by blast

lemma api_delete_frame:
  "kube_api c objs \<Longrightarrow> run_state (cl_Delete c k) w = (r, w') \<Longrightarrow> same_except objs w w' {k}"
  unfolding kube_api_def delete_contract_def by blast

lemma api_delete_ok:
  "kube_api c objs \<Longrightarrow> run_state (cl_Delete c k) w = (None, w') \<Longrightarrow>
     \<exists>ob. objs w k = Some ob \<and> (Finalizers (meta_of ob) = [] \<longrightarrow> objs w' k = None)"
  unfolding kube_api_def delete_contract_def by blast

lemma api_delete_missing:
  "kube_api c objs \<Longrightarrow> run_state (cl_Delete c k) w = (Some e, w') \<Longrightarrow> IsNotFound e \<Longrightarrow>
     objs w k = None \<and> objs w' = objs w"
  unfolding kube_api_def delete_contract_def by blast

lemma api_list_view:
  "kube_api c objs \<Longrightarrow> run_state (cl_List c k ns sel) w = (r, w') \<Longrightarrow> objs w' = objs w"
  unfolding kube_api_def list_contract_def by blast

lemma api_list_ok:
  "kube_api c objs \<Longrightarrow> run_state (cl_List c k ns sel) w = (Inr obs, w') \<Longrightarrow>
     distinct (map key_of obs)
     \<and> (\<forall>ob. ob \<in> set obs \<longleftrightarrow> objs w (key_of ob) = Some ob \<and> selected k ns sel ob)"
  unfolding kube_api_def list_contract_def by blast

text \<open>The typed \<open>Get\<close>.\<close>

lemma run_Get:
  "run_state (Get c as k) w = (case run_state (cl_Get c k) w of (r, w') \<Rightarrow>
     (case r of Inl e \<Rightarrow> Inl e
      | Inr ob \<Rightarrow> (case as ob of None \<Rightarrow> Inl (Errorf ''unexpected type'') | Some x \<Rightarrow> Inr x), w'))"
  by (auto simp: Get_def split: prod.splits)

lemma Get_view: "kube_api c objs \<Longrightarrow> run_state (Get c as k) w = (r, w') \<Longrightarrow> objs w' = objs w"
  by (auto simp: run_Get split: prod.splits dest: api_get_view)

lemma Get_found:
  "kube_api c objs \<Longrightarrow> decodes as con kd \<Longrightarrow> run_state (Get c as k) w = (Inr x, w') \<Longrightarrow>
     objs w k = Some (con x) \<and> key_of (con x) = k"
  by (auto simp: run_Get decodes_def split: prod.splits sum.splits option.splits dest: api_get_found)

lemma Get_missing:
  "kube_api c objs \<Longrightarrow> run_state (Get c as k) w = (Inl e, w') \<Longrightarrow> IsNotFound e \<Longrightarrow> objs w k = None"
  by (auto simp: run_Get IsNotFound_iff split: prod.splits sum.splits option.splits
      dest: api_get_missing)

lemma run_ListOf:
  "run_state (ListOf c as k ns sel) w = (case run_state (cl_List c k ns sel) w of (r, w') \<Rightarrow>
     (case r of Inl e \<Rightarrow> Inl e | Inr obs \<Rightarrow> Inr (List.map_filter as obs), w'))"
  by (auto simp: ListOf_def split: prod.splits)

lemma ListOf_view:
  "kube_api c objs \<Longrightarrow> run_state (ListOf c as k ns sel) w = (r, w') \<Longrightarrow> objs w' = objs w"
  by (auto simp: run_ListOf split: prod.splits dest: api_list_view)

lemma ListOf_ok:
  assumes api: "kube_api c objs" and dec: "decodes as con k"
    and run: "run_state (ListOf c as k ns sel) w = (Inr xs, w')"
  shows "x \<in> set xs \<longleftrightarrow> objs w (key_of (con x)) = Some (con x) \<and> selected k ns sel (con x)"
proof -
  from run obtain obs where l: "run_state (cl_List c k ns sel) w = (Inr obs, w')"
    and xs: "xs = List.map_filter as obs"
    by (auto simp: run_ListOf split: prod.splits sum.splits)
  have inv: "as ob = Some y \<longleftrightarrow> ob = con y" for ob y
    using dec by (simp add: decodes_def)
  then have some: "as (con y) = Some y" for y by simp
  have "x \<in> set xs \<longleftrightarrow> con x \<in> set obs"
    unfolding xs by (induction obs) (auto simp: inv some split: option.splits, metis some option.inject)
  then show ?thesis using api_list_ok [OF api l] by blast
qed

lemma ListOf_distinct:
  assumes api: "kube_api c objs" and dec: "decodes as con k"
    and run: "run_state (ListOf c as k ns sel) w = (Inr xs, w')"
  shows "distinct xs \<and> inj_on (\<lambda>x. key_of (con x)) (set xs)"
proof -
  from run obtain obs where l: "run_state (cl_List c k ns sel) w = (Inr obs, w')"
    and xs: "xs = List.map_filter as obs"
    by (auto simp: run_ListOf split: prod.splits sum.splits)
  have inv: "as ob = Some y \<longleftrightarrow> ob = con y" for ob y
    using dec by (simp add: decodes_def)
  have kd: "kind_of ob = k \<Longrightarrow> \<exists>y. ob = con y" for ob
    using dec by (simp add: decodes_def)
  have "\<forall>ob \<in> set obs. kind_of ob = k"
    using api_list_ok [OF api l] by (auto simp: selected_def)
  then have "map con xs = obs"
    unfolding xs
  proof (induction obs)
    case (Cons ob obs)
    obtain y where "ob = con y" using Cons.prems kd [of ob] by auto
    then have "as ob = Some y" "ob = con y" by (simp_all add: inv)
    then show ?case using Cons by simp
  qed simp
  moreover have "distinct (map key_of obs)" using api_list_ok [OF api l] by blast
  ultimately have "distinct (map (\<lambda>x. key_of (con x)) xs)"
    by (metis (no_types, lifting) comp_def list.map_comp map_eq_conv)
  then show ?thesis by (simp add: distinct_map)
qed

lemma errOf_simps [simp]: "errOf (Inl e) = Some e" "errOf (Inr x) = None"
  by (simp_all add: errOf_def)

lemma errOf_None: "errOf r = None \<longleftrightarrow> (\<exists>x. r = Inr x)"
  by (cases r) auto

section \<open>Sample library functions\<close>

text \<open>
  Library functions to run the code on: \<open>SetControllerReference\<close> as controller-runtime has it
  (an object with another controller is refused, the owner's reference is added or replaced), and
  simple stand-ins for the others.
\<close>

definition controllerRef :: "Search \<Rightarrow> OwnerReference" where
  "controllerRef inst = \<lparr>ref_APIVersion = GroupVersion, ref_Kind = ''Search'', ref_Name = Name (s_meta inst),
     ref_UID = UID (s_meta inst), ref_Controller = Some True\<rparr>"

fun mem_set_condition :: "Condition list \<Rightarrow> Condition \<Rightarrow> Condition list" where
  "mem_set_condition [] c = [c]"
| "mem_set_condition (d # cs) c =
     (if cond_Type d = cond_Type c
      then (if cond_Status d = cond_Status c
            then c\<lparr>cond_LastTransitionTime := cond_LastTransitionTime d\<rparr> else c) # cs
      else d # mem_set_condition cs c)"

definition mem_lib :: golib where
  "mem_lib = \<lparr>
     lib_SetControllerReference = (\<lambda>inst m.
       if list_ex (\<lambda>ref. ref_Controller ref = Some True \<and> ref_UID ref \<noteq> UID (s_meta inst)) (OwnerReferences m)
       then Inl (Errorf ''already owned by another controller'')
       else Inr (m\<lparr>OwnerReferences := filter (\<lambda>ref. ref_UID ref \<noteq> UID (s_meta inst)) (OwnerReferences m)
              @ [controllerRef inst]\<rparr>)),
     lib_ContainsFinalizer = (\<lambda>fs f. f \<in> set fs),
     lib_AddFinalizer = (\<lambda>fs f. if f \<in> set fs then fs else fs @ [f]),
     lib_RemoveFinalizer = (\<lambda>fs f. filter (\<lambda>g. g \<noteq> f) fs),
     lib_FindStatusCondition = (\<lambda>cs t. List.find (\<lambda>c. cond_Type c = t) cs),
     lib_SetStatusCondition = mem_set_condition,
     lib_Unmarshal = (\<lambda>s. if s = [] then Inl (Errorf ''empty document'')
       else Inr \<lparr>cc_meta = newMeta s '''', cc_Spec = \<lparr>ccs_CollectNamespaces = None, CollectionRules = []\<rparr>,
                cc_Conditions = []\<rparr>),
     lib_MustParse = (\<lambda>s. int (length s)),
     lib_JSONPathParses = (\<lambda>s. list_all (\<lambda>c. c \<noteq> CHR '' '') s),
     lib_ShortHash = (\<lambda>s. take 16 (rev s))\<rparr>"

lemma mem_lib_setref: "setref_contract mem_lib"
  unfolding setref_contract_def mem_lib_def
  by (auto simp: controllerRef_def split: if_splits)

lemma mem_lib_finalizers: "finalizer_contract mem_lib"
  by (auto simp: finalizer_contract_def mem_lib_def)

lemma find_mem_set_condition:
  "\<exists>d. List.find (\<lambda>x. cond_Type x = cond_Type c) (mem_set_condition cs c) = Some d \<and> sameCondition d c"
  by (induction cs) (auto simp: sameCondition_def)

lemma filter_mem_set_condition:
  "filter (\<lambda>d. cond_Type d \<noteq> cond_Type c) (mem_set_condition cs c)
     = filter (\<lambda>d. cond_Type d \<noteq> cond_Type c) cs"
  by (induction cs) auto

lemma mem_lib_conditions: "condition_contract mem_lib"
  using find_mem_set_condition filter_mem_set_condition
  by (auto simp: condition_contract_def mem_lib_def find_Some_iff)

lemmas mem_contracts = mem_kube_api mem_lib_setref mem_lib_finalizers mem_lib_conditions

section \<open>Frames\<close>

text \<open>
  \<open>touches objs K m\<close>: running \<open>m\<close> changes no stored object outside the keys \<open>K\<close>. The rules
  follow the shape of the code, so that the frame of an operation is proved by them alone.
\<close>

definition touches :: "'w view \<Rightarrow> okey set \<Rightarrow> ('w, 'a) state \<Rightarrow> bool" where
  "touches objs K m \<longleftrightarrow> (\<forall>w. same_except objs w (snd (run_state m w)) K)"

definition clock_contract :: "'w SearchReconciler \<Rightarrow> 'w view \<Rightarrow> bool" where
  "clock_contract r objs \<longleftrightarrow> (\<forall>w. objs (snd (run_state (Now r) w)) = objs w)"

lemma touchesD: "touches objs K m \<Longrightarrow> run_state m w = (x, w') \<Longrightarrow> k \<notin> K \<Longrightarrow> objs w' k = objs w k"
  unfolding touches_def same_except_def by (metis snd_conv)

lemma touches_mono: "touches objs K m \<Longrightarrow> K \<subseteq> K' \<Longrightarrow> touches objs K' m"
  by (auto simp: touches_def intro: same_except_mono)

lemma touches_ret [world_frame]: "touches objs K (ret x)"
  by (simp add: touches_def)

lemma touches_bind [world_frame]:
  assumes "touches objs K m" "\<And>x. touches objs K (f x)"
  shows "touches objs K (State_Monad.bind m f)"
  unfolding touches_def
proof
  fix w
  obtain x w1 where m: "run_state m w = (x, w1)" by fastforce
  have "same_except objs w w1 K" using assms(1) m unfolding touches_def by (metis snd_conv)
  moreover have "same_except objs w1 (snd (run_state (f x) w1)) K"
    using assms(2) unfolding touches_def by blast
  ultimately show "same_except objs w (snd (run_state (State_Monad.bind m f) w)) K"
    by (simp add: m same_except_trans)
qed

lemma touches_if [world_frame]: "(b \<Longrightarrow> touches objs K m) \<Longrightarrow> (\<not> b \<Longrightarrow> touches objs K n) \<Longrightarrow> touches objs K (if b then m else n)"
  by simp

lemma touches_case_option [world_frame]:
  "(x = None \<Longrightarrow> touches objs K m) \<Longrightarrow> (\<And>a. x = Some a \<Longrightarrow> touches objs K (f a)) \<Longrightarrow>
     touches objs K (case x of None \<Rightarrow> m | Some a \<Rightarrow> f a)"
  by (cases x) auto

lemma touches_case_sum [world_frame]:
  "(\<And>a. x = Inl a \<Longrightarrow> touches objs K (f a)) \<Longrightarrow> (\<And>a. x = Inr a \<Longrightarrow> touches objs K (g a)) \<Longrightarrow>
     touches objs K (case x of Inl a \<Rightarrow> f a | Inr a \<Rightarrow> g a)"
  by (cases x) auto

lemma touches_case_prod [world_frame]:
  "(\<And>a b. x = (a, b) \<Longrightarrow> touches objs K (f a b)) \<Longrightarrow> touches objs K (case x of (a, b) \<Rightarrow> f a b)"
  by (cases x) auto

lemma touches_let [world_frame]: "touches objs K (f x) \<Longrightarrow> touches objs K (let y = x in f y)"
  by simp

lemma touches_Get [world_frame]: "kube_api c objs \<Longrightarrow> touches objs K (Get c as k)"
  unfolding touches_def by (metis Get_view prod.collapse same_except_eq)

lemma touches_List [world_frame]: "kube_api c objs \<Longrightarrow> touches objs K (ListOf c as kd ns sel)"
  unfolding touches_def by (metis ListOf_view prod.collapse same_except_eq)

lemma touches_Create [world_frame]: "kube_api c objs \<Longrightarrow> key_of ob \<in> K \<Longrightarrow> touches objs K (cl_Create c ob)"
  unfolding touches_def by (metis api_create_frame empty_subsetI insert_subset prod.collapse same_except_mono)

lemma touches_Update [world_frame]: "kube_api c objs \<Longrightarrow> key_of ob \<in> K \<Longrightarrow> touches objs K (cl_Update c ob)"
  unfolding touches_def by (metis api_update_frame empty_subsetI insert_subset prod.collapse same_except_mono)

lemma touches_Patch [world_frame]: "kube_api c objs \<Longrightarrow> key_of ob \<in> K \<Longrightarrow> touches objs K (cl_Patch c base ob)"
  unfolding touches_def by (metis api_patch_frame empty_subsetI insert_subset prod.collapse same_except_mono)

lemma touches_Status [world_frame]:
  "kube_api c objs \<Longrightarrow> key_of ob \<in> K \<Longrightarrow> touches objs K (cl_StatusUpdate c ob)"
  unfolding touches_def by (metis api_status_frame empty_subsetI insert_subset prod.collapse same_except_mono)

lemma touches_Delete [world_frame]: "kube_api c objs \<Longrightarrow> k \<in> K \<Longrightarrow> touches objs K (cl_Delete c k)"
  unfolding touches_def by (metis api_delete_frame empty_subsetI insert_subset prod.collapse same_except_mono)

lemma touches_Now [world_frame]: "clock_contract r objs \<Longrightarrow> touches objs K (Now r)"
  by (simp add: touches_def clock_contract_def same_except_eq)

text \<open>Keys of the objects of each kind.\<close>

lemma key_of_simps [simp]:
  "key_of (OSearch x) = metaKey KSearch (s_meta x)"
  "key_of (OCollectorConfig cc) = metaKey KCollectorConfig (cc_meta cc)"
  "key_of (OConfigMap cm) = metaKey KConfigMap (cm_meta cm)"
  "key_of (OSecret sec) = metaKey KSecret (sec_meta sec)"
  "key_of (OService svc) = metaKey KService (svc_meta svc)"
  "key_of (ODeployment d) = metaKey KDeployment (dep_meta d)"
  "key_of (OServiceAccount sa) = metaKey KServiceAccount (sa_meta sa)"
  "key_of (OClusterRole cr) = metaKey KClusterRole (cr_meta cr)"
  "key_of (OClusterRoleBinding crb) = metaKey KClusterRoleBinding (crb_meta crb)"
  "key_of (ONetworkPolicy np) = metaKey KNetworkPolicy (np_meta np)"
  "key_of (OServiceMonitor sm) = metaKey KServiceMonitor (sm_meta sm)"
  "key_of (OPrometheusRule pr) = metaKey KPrometheusRule (prom_meta pr)"
  "key_of (OPersistentVolumeClaim pvc) = metaKey KPersistentVolumeClaim (pvc_meta pvc)"
  "key_of (OPod p) = metaKey KPod (pod_meta p)"
  "key_of (OWebhookConfiguration m) = metaKey KWebhookConfiguration m"
  "key_of (OClusterManagementAddOn m) = metaKey KClusterManagementAddOn m"
  "key_of (ORole m) = metaKey KRole m"
  "key_of (ORoleBinding m) = metaKey KRoleBinding m"
  by (simp_all add: key_of_def)

lemma metaKey_update [simp]:
  "metaKey k (m\<lparr>Labels := l\<rparr>) = metaKey k m" "metaKey k (m\<lparr>Annotations := a\<rparr>) = metaKey k m"
  "metaKey k (m\<lparr>OwnerReferences := refs\<rparr>) = metaKey k m" "metaKey k (m\<lparr>Finalizers := fs\<rparr>) = metaKey k m"
  "metaKey k (m\<lparr>UID := u\<rparr>) = metaKey k m" "metaKey k (m\<lparr>DeletionTimestamp := t\<rparr>) = metaKey k m"
  by (simp_all add: metaKey_def)

lemma metaKey_newMeta [simp]: "metaKey k (newMeta n ns) = mkKey k ns n"
  by (simp add: metaKey_def newMeta_def)

lemma newMeta_simps [simp]:
  "Name (newMeta n ns) = n" "Namespace (newMeta n ns) = ns" "Labels (newMeta n ns) = None"
  "Annotations (newMeta n ns) = None" "OwnerReferences (newMeta n ns) = []" "Finalizers (newMeta n ns) = []"
  "DeletionTimestamp (newMeta n ns) = None" "UID (newMeta n ns) = ''''"
  by (simp_all add: newMeta_def)

lemma setref_meta:
  "setref_contract lib \<Longrightarrow> lib_SetControllerReference lib inst m = Inr m' \<Longrightarrow>
     Name m' = Name m \<and> Namespace m' = Namespace m \<and> Labels m' = Labels m \<and> metaKey k m' = metaKey k m
     \<and> Annotations m' = Annotations m"
  by (fastforce simp: setref_contract_def)

section \<open>Written objects\<close>

text \<open>
  The server keeps no object whose deletion is complete. An object that was written differs from
  what the caller sent in the UID only.
\<close>

definition live :: "'w view \<Rightarrow> 'w \<Rightarrow> bool" where
  "live objs w \<longleftrightarrow> (\<forall>k ob. objs w k = Some ob \<longrightarrow> \<not> terminated ob)"

definition alive :: "'w view \<Rightarrow> 'w \<Rightarrow> okey \<Rightarrow> bool" where
  "alive objs w k \<longleftrightarrow> (\<forall>ob. objs w k = Some ob \<longrightarrow> \<not> terminated ob)"

lemma live_alive: "live objs w \<Longrightarrow> alive objs w k"
  by (simp add: live_def alive_def)

lemma meta_of_map_meta [simp]: "meta_of (map_meta f ob) = f (meta_of ob)"
  by (cases ob) auto

lemma kind_of_map_meta [simp]: "kind_of (map_meta f ob) = kind_of ob"
  by (cases ob) auto

lemma map_meta_comp: "map_meta f (map_meta g ob) = map_meta (\<lambda>m. f (g m)) ob"
  by (cases ob) auto

lemma map_meta_same: "f (meta_of ob) = meta_of ob \<Longrightarrow> map_meta f ob = ob"
  by (cases ob) auto

lemma content_eqD:
  assumes "content ob' = content ob"
  shows "ob' = map_meta (\<lambda>m. m\<lparr>UID := UID (meta_of ob')\<rparr>) ob"
proof -
  let ?f = "\<lambda>m. m\<lparr>UID := UID (meta_of ob')\<rparr>"
  have "ob' = map_meta ?f (content ob')"
    unfolding content_def map_meta_comp by (simp add: map_meta_same)
  also have "\<dots> = map_meta ?f ob"
    unfolding assms unfolding content_def map_meta_comp by simp
  finally show ?thesis .
qed

lemma terminated_map_UID [simp]: "terminated (map_meta (\<lambda>m. m\<lparr>UID := u\<rparr>) ob) = terminated ob"
  by (simp add: terminated_def)

text \<open>What is stored after a successful write.\<close>

lemma create_stores:
  assumes "kube_api c objs" "run_state (cl_Create c ob) w = (Inr ob', w')"
  shows "\<exists>u. objs w' (key_of ob) = Some (map_meta (\<lambda>m. m\<lparr>UID := u\<rparr>) ob)"
  using api_create_ok [OF assms] content_eqD by metis

lemma update_stores:
  assumes "kube_api c objs" "run_state (cl_Update c ob) w = (Inr ob', w')" "\<not> terminated ob"
  shows "\<exists>old u. objs w (key_of ob) = Some old
     \<and> objs w' (key_of ob) = Some (map_meta (\<lambda>m. m\<lparr>UID := u\<rparr>) (keep_status old ob))"
proof -
  from api_update_ok [OF assms(1,2)] obtain old where
    old: "objs w (key_of ob) = Some old" "content ob' = content (keep_status old ob)"
      "objs w' (key_of ob) = (if terminated ob' then None else Some ob')" by auto
  then have eq: "ob' = map_meta (\<lambda>m. m\<lparr>UID := UID (meta_of ob')\<rparr>) (keep_status old ob)"
    using content_eqD by blast
  then have "\<not> terminated ob'" using assms(3) by (metis terminated_keep_status terminated_map_UID)
  then show ?thesis using old eq by metis
qed

lemma patch_stores:
  assumes "kube_api c objs" "run_state (cl_Patch c base ob) w = (Inr ob', w')"
    "objs w (key_of ob) = Some base" "\<not> terminated ob"
  shows "\<exists>u. ob' = map_meta (\<lambda>m. m\<lparr>UID := u\<rparr>) (keep_status base ob) \<and> objs w' (key_of ob) = Some ob'"
proof -
  from api_patch_ok [OF assms(1-3)] have
    p: "content ob' = content (keep_status base ob)"
      "objs w' (key_of ob) = (if terminated ob' then None else Some ob')" by auto
  then have eq: "ob' = map_meta (\<lambda>m. m\<lparr>UID := UID (meta_of ob')\<rparr>) (keep_status base ob)"
    using content_eqD by blast
  then have "\<not> terminated ob'" using assms(4) by (metis terminated_keep_status terminated_map_UID)
  then show ?thesis using p eq by metis
qed

lemma status_stores:
  assumes "kube_api c objs" "run_state (cl_StatusUpdate c ob) w = (Inr ob', w')"
  shows "\<exists>old u. objs w (key_of ob) = Some old
     \<and> objs w' (key_of ob) = Some (map_meta (\<lambda>m. m\<lparr>UID := u\<rparr>) (keep_spec old ob))"
  using api_status_ok [OF assms] content_eqD by metis

lemma touches_bind_result:
  assumes "touches objs K m" "\<And>x w w'. run_state m w = (x, w') \<Longrightarrow> touches objs K (f x)"
  shows "touches objs K (State_Monad.bind m f)"
  unfolding touches_def
proof
  fix w
  obtain x w1 where m: "run_state m w = (x, w1)" by fastforce
  have "same_except objs w w1 K" using assms(1) m unfolding touches_def by (metis snd_conv)
  moreover have "same_except objs w1 (snd (run_state (f x) w1)) K"
    using assms(2) [OF m] unfolding touches_def by blast
  ultimately show "same_except objs w (snd (run_state (State_Monad.bind m f) w)) K"
    by (simp add: m same_except_trans)
qed

section \<open>A reconciler on the in-memory server\<close>

definition mem_reconciler :: "mem SearchReconciler" where
  "mem_reconciler = \<lparr>Client = mem_client, DynamicClient = None, Lib = mem_lib, Getenv = (\<lambda>v. v),
     Now = State (\<lambda>w. (mem_clock w, w\<lparr>mem_clock := mem_clock w + 1\<rparr>))\<rparr>"

lemma mem_clock_contract: "clock_contract mem_reconciler mem_view"
  by (auto simp: clock_contract_def mem_reconciler_def mem_view_def)

lemma mem_reconciler_simps [simp]:
  "Client mem_reconciler = mem_client" "Lib mem_reconciler = mem_lib"
  by (simp_all add: mem_reconciler_def)

definition mem_world :: "kobj list \<Rightarrow> mem" where
  "mem_world obs = \<lparr>mem_objs = obs, mem_faults = [], mem_clock = 1, mem_dyn = []\<rparr>"

lemma mem_world_live: "list_all (\<lambda>ob. \<not> terminated ob) obs \<Longrightarrow> live mem_view (mem_world obs)"
proof -
  assume "list_all (\<lambda>ob. \<not> terminated ob) obs"
  moreover have "slot k obs = Some ob \<Longrightarrow> ob \<in> set obs" for k ob
    by (induction obs) (auto split: if_splits)
  ultimately show ?thesis by (auto simp: live_def mem_view_def mem_world_def list_all_iff)
qed

text \<open>A Search resource to run the code on.\<close>

definition sampleDeploymentConfig :: DeploymentConfig where
  "sampleDeploymentConfig = \<lparr>ReplicaCount = 0, Resources = None, ImageOverride = '''', Arguments = [], Env = []\<rparr>"

definition sampleSearch :: Search where
  "sampleSearch = \<lparr>s_meta = (newMeta ''search-v2-operator'' ''ocm'')\<lparr>UID := ''uid-1''\<rparr>,
     s_Spec = \<lparr>DBStorage = \<lparr>StorageClassName = '''', Size = None\<rparr>, DBConfig = '''',
       Deployments = \<lparr>Database = sampleDeploymentConfig, Indexer = sampleDeploymentConfig,
         Collector = sampleDeploymentConfig, QueryAPI = sampleDeploymentConfig\<rparr>,
       AvailabilityConfig = '''', ExternalDBInstance = '''', ImagePullSecret = '''', ImagePullPolicy = '''',
       NodeSelector = None, Tolerations = []\<rparr>,
     s_Status = \<lparr>DB = '''', Storage = '''', Conditions = []\<rparr>\<rparr>"

end
