(* ===== verification/Go_Regexp.thy ===== *)
theory Go_Regexp
  imports Go_Prelude
begin

text \<open>
  The regular expressions of Go's package \<open>regexp\<close>, as far as the operator uses them: every
  pattern of the source is anchored (\<open>^...$\<close>), so \<open>MatchString\<close> asks whether the whole
  string is in the language of the pattern. \<open>accepts\<close> is that language; \<open>MatchString\<close>
  decides it with derivatives.
\<close>

section \<open>Syntax and matching\<close>

datatype rx =
    RNone
  | REmpty
  | RClass "(char \<times> char) list"
  | RSeq rx rx
  | RAlt rx rx
  | RStar rx

definition in_class :: "(char \<times> char) list \<Rightarrow> char \<Rightarrow> bool" where
  "in_class cs c \<longleftrightarrow> list_ex (\<lambda>(lo, hi). lo \<le> c \<and> c \<le> hi) cs"

definition ROpt :: "rx \<Rightarrow> rx" where
  "ROpt r = RAlt REmpty r"

definition RPlus :: "rx \<Rightarrow> rx" where
  "RPlus r = RSeq r (RStar r)"

fun RLit :: "string \<Rightarrow> rx" where
  "RLit [] = REmpty"
| "RLit (c # s) = RSeq (RClass [(c, c)]) (RLit s)"

fun nullable :: "rx \<Rightarrow> bool" where
  "nullable RNone = False"
| "nullable REmpty = True"
| "nullable (RClass cs) = False"
| "nullable (RSeq r q) = (nullable r \<and> nullable q)"
| "nullable (RAlt r q) = (nullable r \<or> nullable q)"
| "nullable (RStar r) = True"

fun deriv :: "char \<Rightarrow> rx \<Rightarrow> rx" where
  "deriv c RNone = RNone"
| "deriv c REmpty = RNone"
| "deriv c (RClass cs) = (if in_class cs c then REmpty else RNone)"
| "deriv c (RSeq r q) =
     (if nullable r then RAlt (RSeq (deriv c r) q) (deriv c q) else RSeq (deriv c r) q)"
| "deriv c (RAlt r q) = RAlt (deriv c r) (deriv c q)"
| "deriv c (RStar r) = RSeq (deriv c r) (RStar r)"

fun MatchString :: "rx \<Rightarrow> string \<Rightarrow> bool" where
  "MatchString r [] = nullable r"
| "MatchString r (c # s) = MatchString (deriv c r) s"

inductive accepts :: "rx \<Rightarrow> string \<Rightarrow> bool" where
  acc_empty: "accepts REmpty []"
| acc_class: "in_class cs c \<Longrightarrow> accepts (RClass cs) [c]"
| acc_seq: "accepts r s \<Longrightarrow> accepts q t \<Longrightarrow> accepts (RSeq r q) (s @ t)"
| acc_left: "accepts r s \<Longrightarrow> accepts (RAlt r q) s"
| acc_right: "accepts q s \<Longrightarrow> accepts (RAlt r q) s"
| acc_stop: "accepts (RStar r) []"
| acc_more: "accepts r s \<Longrightarrow> accepts (RStar r) t \<Longrightarrow> accepts (RStar r) (s @ t)"

inductive_simps accepts_RNone [simp]: "accepts RNone s"
inductive_simps accepts_REmpty [simp]: "accepts REmpty s"
inductive_simps accepts_RClass: "accepts (RClass cs) s"
inductive_simps accepts_RSeq: "accepts (RSeq r q) s"
inductive_simps accepts_RAlt [simp]: "accepts (RAlt r q) s"

section \<open>The matcher decides the language\<close>

lemma nullable_accepts: "nullable r \<longleftrightarrow> accepts r []"
  by (induction r) (auto simp: accepts_RClass accepts_RSeq intro: acc_stop)

lemma star_head_nonempty:
  "accepts q u \<Longrightarrow> q = RStar r \<Longrightarrow> u = c # s \<Longrightarrow>
     \<exists>a b. s = a @ b \<and> accepts r (c # a) \<and> accepts (RStar r) b"
proof (induction arbitrary: s rule: accepts.induct)
  case (acc_more r' x t)
  then show ?case
  proof (cases x)
    case Nil
    then show ?thesis using acc_more by simp
  next
    case (Cons d a)
    then show ?thesis using acc_more by auto
  qed
qed auto

lemma deriv_accepts: "accepts (deriv c r) s \<longleftrightarrow> accepts r (c # s)"
proof (induction r arbitrary: s)
  case (RSeq r q)
  have "accepts (RSeq r q) (c # s) \<longleftrightarrow>
      (accepts r [] \<and> accepts q (c # s)) \<or> (\<exists>a b. s = a @ b \<and> accepts r (c # a) \<and> accepts q b)"
    by (auto simp: accepts_RSeq Cons_eq_append_conv)
  then show ?case using RSeq by (auto simp: accepts_RSeq nullable_accepts)
next
  case (RStar r)
  have "accepts (RStar r) (c # s) \<longleftrightarrow> (\<exists>a b. s = a @ b \<and> accepts r (c # a) \<and> accepts (RStar r) b)"
    using star_head_nonempty acc_more by (metis append_Cons)
  then show ?case using RStar by (auto simp: accepts_RSeq)
qed (auto simp: accepts_RClass)

lemma MatchString_accepts: "MatchString r s \<longleftrightarrow> accepts r s"
  by (induction s arbitrary: r) (auto simp: nullable_accepts deriv_accepts)

section \<open>Languages of the shapes the source uses\<close>

lemma accepts_star_class: "accepts (RStar (RClass cs)) s \<longleftrightarrow> list_all (in_class cs) s"
proof (induction s)
  case Nil
  then show ?case by (simp add: acc_stop)
next
  case (Cons c s)
  have "accepts (RStar (RClass cs)) (c # s) \<longleftrightarrow> accepts (RSeq (deriv c (RClass cs)) (RStar (RClass cs))) s"
    by (metis deriv.simps(6) deriv_accepts)
  also have "\<dots> \<longleftrightarrow> in_class cs c \<and> accepts (RStar (RClass cs)) s"
    by (auto simp: accepts_RSeq)
  finally show ?case using Cons.IH by simp
qed

lemma accepts_plus_class: "accepts (RPlus (RClass cs)) s \<longleftrightarrow> s \<noteq> [] \<and> list_all (in_class cs) s"
  unfolding RPlus_def accepts_RSeq accepts_RClass accepts_star_class
  by (cases s) (auto intro: exI [of _ "[_]"])

lemma accepts_opt: "accepts (ROpt r) s \<longleftrightarrow> s = [] \<or> accepts r s"
  by (auto simp: ROpt_def)

lemma in_class_single: "in_class [(c, c)] d \<longleftrightarrow> d = c"
  by (auto simp: in_class_def)

lemma accepts_lit: "accepts (RLit w) s \<longleftrightarrow> s = w"
proof (induction w arbitrary: s)
  case (Cons c w)
  then show ?case by (auto simp: accepts_RSeq accepts_RClass in_class_single)
qed simp

lemmas rx_simps = MatchString_accepts accepts_star_class accepts_plus_class accepts_opt accepts_lit
  accepts_RSeq accepts_RClass

end
