(* ===== verification/Image_Validation.thy ===== *)
theory Image_Validation
  imports Go_Prelude
begin

text \<open>
  Package \<open>internal/imagevalidation.go\<close>: which registries an image override may come from.
\<close>

definition TrustedImagePrefixes :: "string list" where
  "TrustedImagePrefixes = [''quay.io/stolostron/'', ''quay.io/acm-d/'', ''registry.redhat.io/'']"

fun trustedBy :: "string list \<Rightarrow> string \<Rightarrow> bool" where
  "trustedBy [] img = False"
| "trustedBy (pre # ps) img = (if HasPrefix img pre then True else trustedBy ps img)"

definition IsTrustedImage :: "string \<Rightarrow> bool" where
  "IsTrustedImage img = trustedBy TrustedImagePrefixes img"

definition ValidateImageRepo :: "string \<Rightarrow> go_error option" where
  "ValidateImageRepo img =
     (if img = '''' then Some (Errorf ''image reference must not be empty'')
      else if \<not> IsTrustedImage img
      then Some (Errorf (''image '' @ dquote @ img @ dquote
        @ '' is not from a trusted registry; allowed prefixes: '' @ show_strings TrustedImagePrefixes))
      else None)"

lemma trustedBy_iff: "trustedBy ps img \<longleftrightarrow> (\<exists>pre \<in> set ps. \<exists>rest. img = pre @ rest)"
  by (induction ps) (auto simp: HasPrefix_iff)

lemma IsTrustedImage_iff:
  "IsTrustedImage img \<longleftrightarrow> (\<exists>rest. img = ''quay.io/stolostron/'' @ rest
     \<or> img = ''quay.io/acm-d/'' @ rest \<or> img = ''registry.redhat.io/'' @ rest)"
  unfolding IsTrustedImage_def trustedBy_iff TrustedImagePrefixes_def by auto

lemma untrusted_empty [simp]: "\<not> IsTrustedImage ''''"
  by (simp add: IsTrustedImage_def TrustedImagePrefixes_def)

text \<open>An image reference is valid exactly when a trusted registry prefix starts it.\<close>

theorem ValidateImageRepo_exact: "ValidateImageRepo img = None \<longleftrightarrow> (\<exists>pre rest.
    pre \<in> {''quay.io/stolostron/'', ''quay.io/acm-d/'', ''registry.redhat.io/''} \<and> img = pre @ rest)"
proof -
  have "ValidateImageRepo img = None \<longleftrightarrow> IsTrustedImage img"
    by (auto simp: ValidateImageRepo_def)
  then show ?thesis
    unfolding IsTrustedImage_def trustedBy_iff TrustedImagePrefixes_def by auto
qed

end
