(* ===== verification/Common.thy ===== *)
theory Common
  imports Kube_Client Go_Regexp Image_Validation
begin

text \<open>
  The helpers of \<open>controllers/common.go\<close> and the defaults of \<open>controllers/defaults.go\<close>:
  names and labels, what a deployment takes from the spec of the Search resource (arguments,
  environment, image, replicas, requests and limits), and the database parameter. The theorems say
  what a user of the Search resource cannot do through them: run an image of another registry, pass
  a container argument other than the verbosity, mount a secret the operator does not manage, or put
  anything but a memory size into the database's start script.
\<close>

section \<open>Names\<close>

definition apiDeploymentName :: string where "apiDeploymentName = ''search-api''"
definition collectorDeploymentName :: string where "collectorDeploymentName = ''search-collector''"
definition indexerDeploymentName :: string where "indexerDeploymentName = ''search-indexer''"
definition postgresDeploymentName :: string where "postgresDeploymentName = ''search-postgres''"
definition indexerConfigmapName :: string where "indexerConfigmapName = ''search-indexer''"
definition postgresConfigmapName :: string where "postgresConfigmapName = ''search-postgres''"
definition caCertConfigmapName :: string where "caCertConfigmapName = ''search-ca-crt''"
definition apiSecretName :: string where "apiSecretName = ''search-api-certs''"
definition indexerSecretName :: string where "indexerSecretName = ''search-indexer-certs''"
definition postgresSecretName :: string where "postgresSecretName = ''search-postgres-certs''"
definition apiReadonlySecretName :: string where "apiReadonlySecretName = ''search-postgres-api-readonly''"
definition mcpReadonlySecretName :: string where "mcpReadonlySecretName = ''search-postgres-mcp-readonly''"
definition ResourceCPU :: string where "ResourceCPU = ''cpu''"
definition ResourceMemory :: string where "ResourceMemory = ''memory''"
definition ResourceHugePages2Mi :: string where "ResourceHugePages2Mi = ''hugepages-2Mi''"
definition ResourceHugePages1Gi :: string where "ResourceHugePages1Gi = ''hugepages-1Gi''"
definition backupLabel :: string where "backupLabel = ''cluster.open-cluster-management.io/backup''"
definition AnnotationSearchPause :: string where "AnnotationSearchPause = ''search-pause''"
definition certDefaultMode :: int where "certDefaultMode = 416"
definition searchFinalizer :: string where "searchFinalizer = ''search.open-cluster-management.io/finalizer''"
definition OperatorName :: string where "OperatorName = ''search-v2-operator''"

lemmas name_defs = apiDeploymentName_def collectorDeploymentName_def indexerDeploymentName_def
  postgresDeploymentName_def indexerConfigmapName_def postgresConfigmapName_def caCertConfigmapName_def
  apiSecretName_def indexerSecretName_def postgresSecretName_def apiReadonlySecretName_def
  mcpReadonlySecretName_def ResourceCPU_def ResourceMemory_def ResourceHugePages2Mi_def
  ResourceHugePages1Gi_def backupLabel_def AnnotationSearchPause_def certDefaultMode_def
  searchFinalizer_def OperatorName_def

section \<open>Defaults\<close>

definition default_API_CPURequest :: string where "default_API_CPURequest = ''10m''"
definition default_API_MemoryRequest :: string where "default_API_MemoryRequest = ''512Mi''"
definition default_Indexer_CPURequest :: string where "default_Indexer_CPURequest = ''10m''"
definition default_Indexer_MemoryRequest :: string where "default_Indexer_MemoryRequest = ''32Mi''"
definition default_Collector_CPURequest :: string where "default_Collector_CPURequest = ''25m''"
definition default_Collector_MemoryRequest :: string where "default_Collector_MemoryRequest = ''128Mi''"
definition default_Postgres_CPURequest :: string where "default_Postgres_CPURequest = ''25m''"
definition default_Postgres_MemoryLimit :: string where "default_Postgres_MemoryLimit = ''4Gi''"
definition default_Postgres_MemoryRequest :: string where "default_Postgres_MemoryRequest = ''1Gi''"
definition default_Postgres_SharedMemory :: string where "default_Postgres_SharedMemory = ''1Gi''"
definition default_POSTGRESQL_EFFECTIVE_CACHE_SIZE :: string where
  "default_POSTGRESQL_EFFECTIVE_CACHE_SIZE = ''2GB''"
definition default_POSTGRESQL_SHARED_BUFFERS :: string where
  "default_POSTGRESQL_SHARED_BUFFERS = ''1GB''"
definition default_WORK_MEM :: string where "default_WORK_MEM = ''64MB''"

definition defaultResourceMap :: "string \<Rightarrow> string \<Rightarrow> string option" where
  "defaultResourceMap deployment = (case map_of
     [(apiDeploymentName, [(''CPURequest'', default_API_CPURequest),
        (''MemoryRequest'', default_API_MemoryRequest)]),
      (collectorDeploymentName, [(''CPURequest'', default_Collector_CPURequest),
        (''MemoryRequest'', default_Collector_MemoryRequest)]),
      (indexerDeploymentName, [(''CPURequest'', default_Indexer_CPURequest),
        (''MemoryRequest'', default_Indexer_MemoryRequest)]),
      (postgresDeploymentName, [(''CPURequest'', default_Postgres_CPURequest),
        (''MemoryLimit'', default_Postgres_MemoryLimit),
        (''MemoryRequest'', default_Postgres_MemoryRequest)])] deployment of
     None \<Rightarrow> Map.empty | Some m \<Rightarrow> map_of m)"

definition defaultReplicaMap :: "string \<Rightarrow> int option" where
  "defaultReplicaMap = map_of [(apiDeploymentName, 1), (collectorDeploymentName, 1),
     (indexerDeploymentName, 1), (postgresDeploymentName, 1)]"

section \<open>Labels, accounts and roles\<close>

definition generateLabels :: "string \<Rightarrow> string \<Rightarrow> smap" where
  "generateLabels key val = put key val (mapOf [(''component'', ''search-v2-operator''), (''app'', ''search'')])"

definition getAPIServiceAccountName :: string where "getAPIServiceAccountName = ''search-api-sa''"
definition getPostgresServiceAccountName :: string where "getPostgresServiceAccountName = ''search-postgres-sa''"
definition getIndexerServiceAccountName :: string where "getIndexerServiceAccountName = ''search-indexer-sa''"
definition getCollectorServiceAccountName :: string where "getCollectorServiceAccountName = ''search-collector-sa''"
definition getRoleName :: string where "getRoleName = ''search''"
definition getRoleBindingName :: string where "getRoleBindingName = ''search''"

definition orgChart :: "(string \<Rightarrow> string) \<Rightarrow> string" where
  "orgChart getenv =
     (let org = (if getenv ''OPERATOR_ORG'' = '''' then ''open-cluster-management'' else getenv ''OPERATOR_ORG'');
          chart = (if getenv ''OPERATOR_CHART'' = '''' then ''search-v2-operator'' else getenv ''OPERATOR_CHART'')
      in org @ '':'' @ chart)"

definition getAPIClusterRoleName :: "(string \<Rightarrow> string) \<Rightarrow> string" where
  "getAPIClusterRoleName getenv = orgChart getenv @ '':search-api''"

definition getCollectorClusterRoleName :: "(string \<Rightarrow> string) \<Rightarrow> string" where
  "getCollectorClusterRoleName getenv = orgChart getenv @ '':search-collector''"

definition getPVCName :: "string \<Rightarrow> string" where
  "getPVCName scName = scName @ ''-search''"

definition getAddonRoleName :: string where
  "getAddonRoleName = ''open-cluster-management:addons:search-collector''"

definition getSearchUserRoleName :: string where "getSearchUserRoleName = ''global-search-user''"

definition searchLabels :: "smap \<Rightarrow> bool" where
  "searchLabels labels = (case lookup labels ''component'' of
     None \<Rightarrow> False | Some value \<Rightarrow> value = ''search-v2-operator'')"

definition IsPaused :: "smap \<Rightarrow> bool" where
  "IsPaused annotations =
     (if annotations = None then False
      else if index annotations AnnotationSearchPause \<noteq> ''''
        \<and> EqualFold (index annotations AnnotationSearchPause) ''true'' then True
      else False)"

section \<open>What a deployment takes from the Search resource\<close>

definition emptyDeploymentConfig :: DeploymentConfig where
  "emptyDeploymentConfig = \<lparr>ReplicaCount = 0, Resources = None, ImageOverride = '''', Arguments = [], Env = []\<rparr>"

definition getDeploymentConfig :: "string \<Rightarrow> Search \<Rightarrow> DeploymentConfig" where
  "getDeploymentConfig name inst =
     (let d = Deployments (s_Spec inst) in
      if name = apiDeploymentName then QueryAPI d
      else if name = collectorDeploymentName then Collector d
      else if name = indexerDeploymentName then Indexer d
      else if name = postgresDeploymentName then Database d
      else emptyDeploymentConfig)"

definition newMetadataEnvVar :: "string \<Rightarrow> string \<Rightarrow> EnvVar" where
  "newMetadataEnvVar name key = \<lparr>ev_Name = name, ev_Value = '''', ev_ValueFrom = Some
     \<lparr>evs_FieldRef = Some key, evs_SecretKeyRef = None, evs_ConfigMapKeyRef = None, evs_ResourceFieldRef = None\<rparr>\<rparr>"

definition getNodeSelector :: "string \<Rightarrow> Search \<Rightarrow> smap" where
  "getNodeSelector deploymentName inst =
     (if NodeSelector (s_Spec inst) \<noteq> None then NodeSelector (s_Spec inst) else None)"

definition getTolerations :: "string \<Rightarrow> Search \<Rightarrow> Toleration list" where
  "getTolerations deploymentName inst =
     (if Tolerations (s_Spec inst) \<noteq> [] then Tolerations (s_Spec inst) else [])"

definition getPodSecurityContext :: PodSecurityContext where
  "getPodSecurityContext = \<lparr>psc_RunAsNonRoot = Some True, psc_SeccompProfile = ''RuntimeDefault''\<rparr>"

definition getContainerSecurityContext :: SecurityContext where
  "getContainerSecurityContext = \<lparr>sc_Privileged = Some False, sc_AllowPrivilegeEscalation = Some False,
     sc_ReadOnlyRootFilesystem = Some True, sc_RunAsNonRoot = Some True, sc_DropCapabilities = [''ALL'']\<rparr>"

definition getImagePullPolicy :: "string \<Rightarrow> Search \<Rightarrow> string" where
  "getImagePullPolicy deploymentName inst =
     (if ImagePullPolicy (s_Spec inst) \<noteq> '''' then ImagePullPolicy (s_Spec inst) else ''IfNotPresent'')"

definition getPostgresVolume :: "Search \<Rightarrow> Volume" where
  "getPostgresVolume inst =
     (let storageClass = StorageClassName (DBStorage (s_Spec inst)) in
      if storageClass \<noteq> ''''
      then \<lparr>vol_Name = ''postgresdb'', vol_Source = PersistentVolumeClaimSource (getPVCName storageClass)\<rparr>
      else \<lparr>vol_Name = ''postgresdb'', vol_Source = EmptyDirSource ''''\<rparr>)"

definition getContainerArgs :: "string \<Rightarrow> Search \<Rightarrow> string list" where
  "getContainerArgs deploymentName inst =
     filter (\<lambda>arg. HasPrefix arg ''-v='' \<or> HasPrefix arg ''--v='')
       (Arguments (getDeploymentConfig deploymentName inst))"

definition operatorManagedSecrets :: "string list" where
  "operatorManagedSecrets = [''search-postgres'', apiReadonlySecretName, mcpReadonlySecretName]"

definition keepEnvVar :: "string \<Rightarrow> EnvVar \<Rightarrow> bool" where
  "keepEnvVar deploymentName e =
     (if deploymentName = postgresDeploymentName \<and> ev_Name e = ''WORK_MEM'' then False
      else (case ev_ValueFrom e of None \<Rightarrow> True
        | Some src \<Rightarrow> (case evs_SecretKeyRef src of None \<Rightarrow> True
            | Some ref \<Rightarrow> sks_Name ref \<in> set operatorManagedSecrets)))"

definition getContainerEnvVar :: "string \<Rightarrow> Search \<Rightarrow> EnvVar list" where
  "getContainerEnvVar deploymentName inst =
     filter (keepEnvVar deploymentName) (Env (getDeploymentConfig deploymentName inst))"

definition getDeployment :: "string \<Rightarrow> Search \<Rightarrow> Deployment" where
  "getDeployment deploymentName inst =
     (let deploymentLabels = generateLabels ''name'' deploymentName in
      \<lparr>dep_meta = newMeta deploymentName (Namespace (s_meta inst)),
       dep_Spec = \<lparr>ds_Replicas = None, ds_SelectorLabels = deploymentLabels,
         ds_TemplateLabels = deploymentLabels, ds_TemplateAnnotations = None,
         ds_PodSpec = \<lparr>ps_SecurityContext = None, ps_Containers = [], ps_Volumes = [],
           ps_ServiceAccountName = '''', ps_TerminationGracePeriodSeconds = None,
           ps_NodeSelector = None, ps_Tolerations = []\<rparr>,
         ds_Strategy = ''''\<rparr>\<rparr>)"

text \<open>
  \<open>resources.Requests.Cpu()\<close> and its siblings: zero when the entry is missing. \<open>customEntry\<close>
  is one \<open>if !q.IsZero() { m[name] = q }\<close>.
\<close>

definition quantityOf :: "ResourceList \<Rightarrow> string \<Rightarrow> quantity" where
  "quantityOf m name = (case lookup m name of None \<Rightarrow> 0 | Some q \<Rightarrow> q)"

definition customEntry :: "ResourceList \<Rightarrow> string \<Rightarrow> ResourceList \<Rightarrow> ResourceList" where
  "customEntry custom name m = (if quantityOf custom name \<noteq> 0 then put name (quantityOf custom name) m else m)"

definition customEntries :: "ResourceList \<Rightarrow> ResourceList \<Rightarrow> ResourceList" where
  "customEntries custom m = customEntry custom ResourceHugePages1Gi (customEntry custom ResourceHugePages2Mi
     (customEntry custom ResourceMemory (customEntry custom ResourceCPU m)))"

definition getRequests :: "golib \<Rightarrow> string \<Rightarrow> Search \<Rightarrow> ResourceList" where
  "getRequests lib deployment inst =
     (let requests = Some fmempty;
          requests = (case defaultResourceMap deployment ''CPURequest'' of None \<Rightarrow> requests
            | Some cpu \<Rightarrow> put ResourceCPU (lib_MustParse lib cpu) requests);
          requests = (case defaultResourceMap deployment ''MemoryRequest'' of None \<Rightarrow> requests
            | Some memory \<Rightarrow> put ResourceMemory (lib_MustParse lib memory) requests)
      in case Resources (getDeploymentConfig deployment inst) of None \<Rightarrow> requests
         | Some resources \<Rightarrow> if Requests resources \<noteq> None then customEntries (Requests resources) requests
             else requests)"

definition getLimits :: "golib \<Rightarrow> string \<Rightarrow> Search \<Rightarrow> ResourceList" where
  "getLimits lib deployment inst =
     (let limits = Some fmempty;
          limits = (case defaultResourceMap deployment ''MemoryLimit'' of None \<Rightarrow> limits
            | Some memory \<Rightarrow> put ResourceMemory (lib_MustParse lib memory) limits)
      in case Resources (getDeploymentConfig deployment inst) of None \<Rightarrow> limits
         | Some resources \<Rightarrow> if Limits resources \<noteq> None then customEntries (Limits resources) limits
             else limits)"

definition getResourceRequirements :: "golib \<Rightarrow> string \<Rightarrow> Search \<Rightarrow> ResourceRequirements" where
  "getResourceRequirements lib deploymentName inst =
     (if deploymentName \<in> {apiDeploymentName, collectorDeploymentName, indexerDeploymentName,
           postgresDeploymentName}
      then \<lparr>Requests = getRequests lib deploymentName inst, Limits = getLimits lib deploymentName inst\<rparr>
      else \<lparr>Requests = None, Limits = None\<rparr>)"

definition getReplicaCount :: "string \<Rightarrow> Search \<Rightarrow> int" where
  "getReplicaCount deploymentName inst =
     (let count = (case defaultReplicaMap deploymentName of None \<Rightarrow> 1 | Some c \<Rightarrow> c);
          deploymentConfig = getDeploymentConfig deploymentName inst
      in if ReplicaCount deploymentConfig > 0
         then if deploymentName = collectorDeploymentName \<or> deploymentName = postgresDeploymentName
              then count else ReplicaCount deploymentConfig
         else count)"

definition trustedOverride :: "string \<Rightarrow> string \<Rightarrow> string" where
  "trustedOverride override envImage =
     (if override = '''' then envImage else if IsTrustedImage override then override else envImage)"

definition getImageSha :: "(string \<Rightarrow> string) \<Rightarrow> string \<Rightarrow> Search \<Rightarrow> string" where
  "getImageSha getenv deploymentName inst =
     (let d = Deployments (s_Spec inst) in
      if deploymentName = apiDeploymentName
      then trustedOverride (ImageOverride (QueryAPI d)) (getenv ''API_IMAGE'')
      else if deploymentName = collectorDeploymentName
      then trustedOverride (ImageOverride (Collector d)) (getenv ''COLLECTOR_IMAGE'')
      else if deploymentName = indexerDeploymentName
      then trustedOverride (ImageOverride (Indexer d)) (getenv ''INDEXER_IMAGE'')
      else if deploymentName = postgresDeploymentName
      then trustedOverride (ImageOverride (Database d)) (getenv ''POSTGRES_IMAGE'')
      else '''')"

text \<open>
  \<open>equality.Semantic.DeepEqual\<close> on deployment specs: equal up to the difference between nil and
  empty maps, which \<open>normSpec\<close> removes.
\<close>

definition normMap :: "('k, 'v) gomap \<Rightarrow> ('k, 'v) gomap" where
  "normMap m = Some (entries m)"

definition normContainer :: "Container \<Rightarrow> Container" where
  "normContainer c = c\<lparr>c_Resources := \<lparr>Requests = normMap (Requests (c_Resources c)),
     Limits = normMap (Limits (c_Resources c))\<rparr>\<rparr>"

definition normSpec :: "DeploymentSpec \<Rightarrow> DeploymentSpec" where
  "normSpec s = s\<lparr>ds_SelectorLabels := normMap (ds_SelectorLabels s),
     ds_TemplateLabels := normMap (ds_TemplateLabels s),
     ds_TemplateAnnotations := normMap (ds_TemplateAnnotations s),
     ds_PodSpec := (ds_PodSpec s)\<lparr>ps_NodeSelector := normMap (ps_NodeSelector (ds_PodSpec s)),
       ps_Containers := map normContainer (ps_Containers (ds_PodSpec s))\<rparr>\<rparr>"

definition DeploymentEquals :: "Deployment \<Rightarrow> Deployment \<Rightarrow> bool" where
  "DeploymentEquals current new \<longleftrightarrow> normSpec (dep_Spec current) = normSpec (dep_Spec new)"

section \<open>The database parameter\<close>

definition dbDefaultMap :: smap where
  "dbDefaultMap = mapOf [(''WORK_MEM'', default_WORK_MEM)]"

definition getDefaultDBConfig :: "string \<Rightarrow> string" where
  "getDefaultDBConfig varName = (case lookup dbDefaultMap varName of Some value \<Rightarrow> value | None \<Rightarrow> '''')"

definition workMemPattern :: rx where
  "workMemPattern = RSeq (RPlus (RClass [(CHR ''0'', CHR ''9'')]))
     (ROpt (RAlt (RLit ''kB'') (RAlt (RLit ''MB'') (RAlt (RLit ''GB'') (RLit ''TB'')))))"

definition sanitizeDBConfig :: "string \<Rightarrow> string \<Rightarrow> string" where
  "sanitizeDBConfig configName value =
     (if configName = ''WORK_MEM''
      then if \<not> MatchString workMemPattern value then default_WORK_MEM else value
      else value)"

definition getDBConfigData :: "'w SearchReconciler \<Rightarrow> Search \<Rightarrow> ('w, smap) state" where
  "getDBConfigData r inst =
     (if DBConfig (s_Spec inst) = '''' then ret None
      else do {
        res \<leftarrow> Get (Client r) asConfigMap (mkKey KConfigMap (Namespace (s_meta inst)) (DBConfig (s_Spec inst)));
        ret (case res of Inl err \<Rightarrow> None | Inr found \<Rightarrow> cm_Data found)
      })"

definition GetDBConfigFromSearchCR :: "'w SearchReconciler \<Rightarrow> Search \<Rightarrow> string \<Rightarrow> ('w, string) state" where
  "GetDBConfigFromSearchCR r inst configName =
     (case List.find (\<lambda>e. ev_Name e = configName) (Env (getDeploymentConfig postgresDeploymentName inst)) of
        Some env \<Rightarrow> ret (sanitizeDBConfig configName (ev_Value env))
      | None \<Rightarrow> do {
          customMap \<leftarrow> getDBConfigData r inst;
          ret (case lookup customMap configName of
              Some value \<Rightarrow> sanitizeDBConfig configName value
            | None \<Rightarrow> getDefaultDBConfig configName)
        })"

text \<open>
  \<open>SetControllerReference\<close> as the builders use it: when it fails, the failure is logged and the
  object keeps its metadata.
\<close>

definition withOwner :: "golib \<Rightarrow> Search \<Rightarrow> ObjectMeta \<Rightarrow> ObjectMeta" where
  "withOwner lib inst m = (case lib_SetControllerReference lib inst m of Inl err \<Rightarrow> m | Inr m' \<Rightarrow> m')"

section \<open>Lemmas on the spec of the Search resource\<close>

lemma deployment_names_distinct [simp]:
  "apiDeploymentName \<noteq> collectorDeploymentName" "apiDeploymentName \<noteq> indexerDeploymentName"
  "apiDeploymentName \<noteq> postgresDeploymentName" "collectorDeploymentName \<noteq> apiDeploymentName"
  "collectorDeploymentName \<noteq> indexerDeploymentName" "collectorDeploymentName \<noteq> postgresDeploymentName"
  "indexerDeploymentName \<noteq> apiDeploymentName" "indexerDeploymentName \<noteq> collectorDeploymentName"
  "indexerDeploymentName \<noteq> postgresDeploymentName" "postgresDeploymentName \<noteq> apiDeploymentName"
  "postgresDeploymentName \<noteq> collectorDeploymentName" "postgresDeploymentName \<noteq> indexerDeploymentName"
  by (simp_all add: name_defs)

lemma getContainerArgs_verbosity:
  "arg \<in> set (getContainerArgs deploymentName inst) \<Longrightarrow> HasPrefix arg ''-v='' \<or> HasPrefix arg ''--v=''"
  by (auto simp: getContainerArgs_def)

definition managed_env :: "EnvVar \<Rightarrow> bool" where
  "managed_env e \<longleftrightarrow> (\<forall>src ref. ev_ValueFrom e = Some src \<longrightarrow> evs_SecretKeyRef src = Some ref
     \<longrightarrow> sks_Name ref \<in> set operatorManagedSecrets)"

lemma getContainerEnvVar_managed: "list_all managed_env (getContainerEnvVar deploymentName inst)"
  by (auto simp: getContainerEnvVar_def keepEnvVar_def managed_env_def list_all_iff split: if_splits)

lemma getContainerEnvVar_keeps:
  "e \<in> set (Env (getDeploymentConfig deploymentName inst)) \<Longrightarrow> managed_env e \<Longrightarrow>
     deploymentName = postgresDeploymentName \<longrightarrow> ev_Name e \<noteq> ''WORK_MEM'' \<Longrightarrow>
     e \<in> set (getContainerEnvVar deploymentName inst)"
  by (auto simp: getContainerEnvVar_def keepEnvVar_def managed_env_def split: option.splits)

definition envImages :: "(string \<Rightarrow> string) \<Rightarrow> string set" where
  "envImages getenv = {getenv ''API_IMAGE'', getenv ''COLLECTOR_IMAGE'', getenv ''INDEXER_IMAGE'',
     getenv ''POSTGRES_IMAGE''}"

lemma getImageSha_trusted:
  "deploymentName \<in> {apiDeploymentName, collectorDeploymentName, indexerDeploymentName, postgresDeploymentName}
     \<Longrightarrow> IsTrustedImage (getImageSha getenv deploymentName inst)
       \<or> getImageSha getenv deploymentName inst \<in> envImages getenv"
  by (auto simp: getImageSha_def trustedOverride_def envImages_def Let_def)

lemma getReplicaCount_pos: "getReplicaCount deploymentName inst \<ge> 1"
  by (auto simp: getReplicaCount_def defaultReplicaMap_def Let_def split: option.splits if_splits)

lemma getReplicaCount_single:
  "deploymentName \<in> {collectorDeploymentName, postgresDeploymentName} \<Longrightarrow> getReplicaCount deploymentName inst = 1"
  by (auto simp: getReplicaCount_def defaultReplicaMap_def Let_def)

lemma lookup_customEntry:
  "lookup (customEntry custom n m) k =
     (if k = n \<and> quantityOf custom n \<noteq> 0 then Some (quantityOf custom n) else lookup m k)"
  by (simp add: customEntry_def)

text \<open>
  The four resources of a list with custom entries: the custom value when it is not zero, else
  what was there; every other entry is kept.
\<close>

lemma lookup_customEntries:
  "lookup (customEntries custom m) k =
     (if k \<in> {ResourceCPU, ResourceMemory, ResourceHugePages2Mi, ResourceHugePages1Gi} \<and> quantityOf custom k \<noteq> 0
      then Some (quantityOf custom k) else lookup m k)"
  by (auto simp: customEntries_def lookup_customEntry name_defs)

text \<open>
  The resource requests of a component: for CPU, memory and the two huge-page sizes the value of
  the Search resource when it is given and not zero, else the component's default; no other resource
  is requested.
\<close>

theorem getRequests_lookup:
  "lookup (getRequests lib deployment inst) k =
     (let custom = (case Resources (getDeploymentConfig deployment inst) of None \<Rightarrow> None | Some rs \<Rightarrow> Requests rs);
          default = (if k = ResourceCPU then defaultResourceMap deployment ''CPURequest''
            else if k = ResourceMemory then defaultResourceMap deployment ''MemoryRequest'' else None)
      in if k \<in> {ResourceCPU, ResourceMemory, ResourceHugePages2Mi, ResourceHugePages1Gi} \<and> quantityOf custom k \<noteq> 0
         then Some (quantityOf custom k) else map_option (lib_MustParse lib) default)"
proof -
  have empty: "lookup (Some fmempty) k = None" for k :: string
    by (simp add: lookup_def entries_def)
  have nil: "quantityOf None k = 0" for k by (simp add: quantityOf_def)
  have "ResourceCPU \<noteq> ResourceMemory" by (simp add: name_defs)
  then show ?thesis
    by (auto simp: getRequests_def lookup_customEntries empty nil Let_def split: option.splits)
qed

section \<open>The database parameter is a memory size\<close>

definition is_memory_size :: "string \<Rightarrow> bool" where
  "is_memory_size s \<longleftrightarrow> (\<exists>digits unit. s = digits @ unit \<and> digits \<noteq> []
     \<and> (\<forall>d \<in> set digits. CHR ''0'' \<le> d \<and> d \<le> CHR ''9'') \<and> unit \<in> {'''', ''kB'', ''MB'', ''GB'', ''TB''})"

lemma workMemPattern_exact: "MatchString workMemPattern s \<longleftrightarrow> is_memory_size s"
  unfolding is_memory_size_def workMemPattern_def MatchString_accepts accepts_RSeq accepts_plus_class
    accepts_opt accepts_RAlt accepts_lit
  by (auto simp: in_class_def list_all_iff; blast)

lemma default_WORK_MEM_size: "is_memory_size default_WORK_MEM"
  unfolding workMemPattern_exact [symmetric] by code_simp

lemma sanitizeDBConfig_size: "is_memory_size (sanitizeDBConfig ''WORK_MEM'' value)"
  by (simp add: sanitizeDBConfig_def workMemPattern_exact default_WORK_MEM_size)

lemma sanitizeDBConfig_valid: "is_memory_size value \<Longrightarrow> sanitizeDBConfig ''WORK_MEM'' value = value"
  by (simp add: sanitizeDBConfig_def workMemPattern_exact)

lemma getDefaultDBConfig_WORK_MEM: "getDefaultDBConfig ''WORK_MEM'' = default_WORK_MEM"
  by (simp add: getDefaultDBConfig_def dbDefaultMap_def)

text \<open>
  C26. Whatever the Search resource, the referenced config map and the API server hold or answer, the
  value used for \<open>WORK_MEM\<close> is a number with an optional unit: nothing else reaches the database
  container's start script.
\<close>

theorem WORK_MEM_injection_free:
  "is_memory_size (fst (run_state (GetDBConfigFromSearchCR r inst ''WORK_MEM'') w))"
  by (auto simp: GetDBConfigFromSearchCR_def sanitizeDBConfig_size getDefaultDBConfig_WORK_MEM
      default_WORK_MEM_size split: option.splits prod.splits)

end
