(* ===== verification/CC_Webhook.thy ===== *)
theory CC_Webhook
  imports Kube_Client Go_Regexp
begin

text \<open>
  The admission webhook of \<open>CollectorConfig\<close>
  (\<open>api/v1alpha1/collectorconfig_webhook.go\<close>): the validation of the spec as a list of field
  errors, the protection of the configs the operator owns, the check of exclude rules against the
  integration teams' include rules, and the three handlers. The handlers take the admission request
  of the context (or the error of extracting it) and the webhook's client, which is nil when no
  manager is registered.

  The theorems say which configs are admitted (an exact characterisation by a specification of a
  valid rule), what an admitted exclude rule can never do, and who may change a config the operator
  owns.
\<close>

section \<open>Patterns and formats\<close>

definition fieldNamePattern :: rx where
  "fieldNamePattern = RSeq (RClass [(CHR ''a'', CHR ''z''), (CHR ''A'', CHR ''Z'')])
     (RStar (RClass [(CHR ''a'', CHR ''z''), (CHR ''A'', CHR ''Z''), (CHR ''0'', CHR ''9''),
        (CHR ''-'', CHR ''-''), (CHR ''_'', CHR ''_''), (CHR ''.'', CHR ''.'')]))"

definition fieldSuffixPattern :: rx where
  "fieldSuffixPattern = RPlus (RClass [(CHR ''a'', CHR ''z''), (CHR ''0'', CHR ''9''),
     (CHR ''-'', CHR ''-''), (CHR ''.'', CHR ''.'')])"

definition isValidFieldName :: "string \<Rightarrow> bool" where
  "isValidFieldName name = MatchString fieldNamePattern name"

definition isValidFieldSuffix :: "string \<Rightarrow> bool" where
  "isValidFieldSuffix sfx = MatchString fieldSuffixPattern sfx"

definition isValidJSONPath :: "golib \<Rightarrow> string \<Rightarrow> bool" where
  "isValidJSONPath lib jsonPath =
     (let normalized = ''{'' @ TrimSuffix (TrimPrefix jsonPath ''{'') ''}'' @ ''}'' in
      if \<not> HasPrefix normalized ''{.'' then False
      else let inner = TrimPrefix (TrimSuffix normalized ''}'') ''{.'' in
        if length inner < 1 then False
        else lib_JSONPathParses lib normalized)"

fun contains :: "string list \<Rightarrow> string \<Rightarrow> bool" where
  "contains [] item = False"
| "contains (s # slice) item = (if s = item then True else contains slice item)"

section \<open>Validation of the spec\<close>

definition protectedKinds :: "(string \<times> string) list" where
  "protectedKinds = [(''ManagedCluster'', ''cluster.open-cluster-management.io''), (''Namespace'', '''')]"

definition protectedAPIGroups :: "string list" where
  "protectedAPIGroups = ['''', ''config.openshift.io'', ''template.openshift.io'',
     ''admissionregistration.k8s.io'', ''operator.open-cluster-management.io'',
     ''search.open-cluster-management.io'']"

definition validateField :: "golib \<Rightarrow> Field \<Rightarrow> field_path \<Rightarrow> field_error list" where
  "validateField lib customField path =
     (if f_Name customField = '''' then [Required (path @ [Child ''name'']) ''field name is required'']
      else if \<not> isValidFieldName (f_Name customField)
      then [Invalid (path @ [Child ''name'']) (BadString (f_Name customField))
        (''must start with a letter and contain only alphanumeric characters, '' @ squote @ ''-'' @ squote
          @ '', '' @ squote @ ''_'' @ squote @ '', or '' @ squote @ ''.'' @ squote)]
      else [])
     @ (if f_JSONPath customField = '''' then [Required (path @ [Child ''jsonPath'']) ''jsonPath is required'']
        else if \<not> isValidJSONPath lib (f_JSONPath customField)
        then [Invalid (path @ [Child ''jsonPath'']) (BadString (f_JSONPath customField))
          (''must be a valid JSONPath expression (e.g. '' @ dquote @ ''.spec.myField'' @ dquote @ '' or ''
            @ dquote @ ''{.spec.myField}'' @ dquote @ '')'')]
        else [])
     @ (if f_Type customField \<noteq> '''' then
          let validTypes = [DataTypeString, DataTypeInteger, DataTypeFloat, DataTypeBytes, DataTypeBoolean]
          in if \<not> contains validTypes (f_Type customField)
             then [NotSupported (path @ [Child ''type'']) (BadString (f_Type customField)) validTypes]
             else []
        else [])"

definition validateResourceSelector :: "ResourceSelector \<Rightarrow> field_path \<Rightarrow> field_error list" where
  "validateResourceSelector selector path =
     (if length (APIGroups selector) = 0
      then [Required (path @ [Child ''apiGroups'']) ''must specify at least one apiGroup''] else [])
     @ (if length (Kinds selector) = 0
        then [Required (path @ [Child ''kinds'']) ''must specify at least one kind''] else [])"

fun validateSpecificKindAgainstProtected ::
  "string \<Rightarrow> string \<Rightarrow> string list \<Rightarrow> field_path \<Rightarrow> field_error list" where
  "validateSpecificKindAgainstProtected kind protectedGroup [] path = []"
| "validateSpecificKindAgainstProtected kind protectedGroup (apiGroup # apiGroups) path =
     (if apiGroup = protectedGroup \<or> apiGroup = ''*''
      then [Invalid (path @ [Child ''resourceSelector'', Child ''kinds'']) (BadString kind)
        (''cannot exclude '' @ kind @ '' '' @ em_dash
          @ '' search depends on it for RBAC and cluster-scoped queries'')]
      else validateSpecificKindAgainstProtected kind protectedGroup apiGroups path)"

text \<open>
  One entry of \<open>protectedKinds\<close> against the apiGroups; the source ranges over the map, in any
  order, the model in the order of the table.
\<close>

fun validateWildcardEntry ::
  "string \<Rightarrow> string \<Rightarrow> string list \<Rightarrow> field_path \<Rightarrow> field_error list" where
  "validateWildcardEntry protectedKind protectedGroup [] path = []"
| "validateWildcardEntry protectedKind protectedGroup (apiGroup # apiGroups) path =
     (if apiGroup = ''*'' \<or> apiGroup = protectedGroup
      then [Invalid (path @ [Child ''resourceSelector'', Child ''apiGroups'']) (BadString apiGroup)
        (''cannot exclude all kinds in this apiGroup '' @ em_dash @ '' it contains '' @ protectedKind
          @ '', which search depends on for RBAC and cluster-scoped queries'')]
      else validateWildcardEntry protectedKind protectedGroup apiGroups path)"

definition validateWildcardKindAgainstProtected :: "string list \<Rightarrow> field_path \<Rightarrow> field_error list" where
  "validateWildcardKindAgainstProtected apiGroups path =
     concat (map (\<lambda>(protectedKind, protectedGroup).
       validateWildcardEntry protectedKind protectedGroup apiGroups path) protectedKinds)"

fun validateProtectedKindList :: "string list \<Rightarrow> string list \<Rightarrow> field_path \<Rightarrow> field_error list" where
  "validateProtectedKindList [] apiGroups path = []"
| "validateProtectedKindList (kind # kinds) apiGroups path =
     (if kind = ''*'' then validateWildcardKindAgainstProtected apiGroups path
      else (case map_of protectedKinds kind of
          None \<Rightarrow> []
        | Some protectedGroup \<Rightarrow> validateSpecificKindAgainstProtected kind protectedGroup apiGroups path))
     @ validateProtectedKindList kinds apiGroups path"

definition validateProtectedKinds :: "CollectionRule \<Rightarrow> field_path \<Rightarrow> field_error list" where
  "validateProtectedKinds rule path =
     validateProtectedKindList (Kinds (RuleSelector rule)) (APIGroups (RuleSelector rule)) path"

fun validateExcludedGroups :: "string list \<Rightarrow> field_path \<Rightarrow> field_error list" where
  "validateExcludedGroups [] path = []"
| "validateExcludedGroups (apiGroup # apiGroups) path =
     (if apiGroup = ''*''
      then [Invalid (path @ [Child ''resourceSelector'', Child ''apiGroups'']) (BadString apiGroup)
        (''cannot exclude all apiGroups '' @ em_dash
          @ '' resources in many groups are necessary for system functionality'')]
      else (if apiGroup \<in> set protectedAPIGroups
        then [Invalid (path @ [Child ''resourceSelector'', Child ''apiGroups'']) (BadString apiGroup)
          (''cannot exclude resources in apiGroup '' @ apiGroup @ '' '' @ em_dash
            @ '' these resources are necessary for system functionality'')]
        else []) @ validateExcludedGroups apiGroups path)"

definition validateExcludeRule :: "CollectionRule \<Rightarrow> field_path \<Rightarrow> field_error list" where
  "validateExcludeRule rule path =
     (if length (Fields rule) > 0
      then [Invalid (path @ [Child ''fields''])
        (BadFields (map (\<lambda>f. (f_Name f, f_JSONPath f, f_Type f)) (Fields rule)))
        ''fields cannot be specified on an exclude rule''] else [])
     @ (case CollectConditions rule of None \<Rightarrow> []
        | Some b \<Rightarrow> [Invalid (path @ [Child ''collectConditions'']) (BadBool b)
            ''collectConditions cannot be set on an exclude rule''])
     @ (case CollectAnnotations rule of None \<Rightarrow> []
        | Some b \<Rightarrow> [Invalid (path @ [Child ''collectAnnotations'']) (BadBool b)
            ''collectAnnotations cannot be set on an exclude rule''])
     @ (if FieldSuffix rule \<noteq> ''''
        then [Invalid (path @ [Child ''fieldSuffix'']) (BadString (FieldSuffix rule))
          ''fieldSuffix cannot be specified on an exclude rule''] else [])
     @ (case CollectAdditionalPrinterColumnsPriority rule of None \<Rightarrow> []
        | Some p \<Rightarrow> [Invalid (path @ [Child ''collectAdditionalPrinterColumnsPriority'']) (BadInt p)
            ''collectAdditionalPrinterColumnsPriority cannot be set on an exclude rule''])
     @ validateProtectedKinds rule path
     @ validateExcludedGroups (APIGroups (RuleSelector rule)) path"

text \<open>The body of the loop over \<open>spec.collectionRules\<close>, for one rule at its path.\<close>

definition validateRule :: "golib \<Rightarrow> CollectionRule \<Rightarrow> field_path \<Rightarrow> field_error list" where
  "validateRule lib rule rulePath =
     (let sel = RuleSelector rule; hasFields = length (Fields rule) > 0 in
      (if Action rule \<noteq> ActionInclude \<and> Action rule \<noteq> ActionExclude
       then [NotSupported (rulePath @ [Child ''action'']) (BadString (Action rule))
         [ActionInclude, ActionExclude]] else [])
      @ validateResourceSelector sel (rulePath @ [Child ''resourceSelector''])
      @ (if Action rule = ActionInclude \<and> hasFields \<and> ''*'' \<in> set (Kinds sel)
         then [Invalid (rulePath @ [Child ''resourceSelector'', Child ''kinds'']) (BadStrings (Kinds sel))
           (''wildcard kind '' @ dquote @ ''*'' @ dquote @ '' cannot be used with fields'')] else [])
      @ (if Action rule = ActionInclude \<and> hasFields then
          (if length (Kinds sel) \<noteq> 1
           then [Invalid (rulePath @ [Child ''resourceSelector'', Child ''kinds'']) (BadStrings (Kinds sel))
             ''must specify exactly 1 kind when fields are defined''] else [])
          @ (if length (APIGroups sel) \<noteq> 1
             then [Invalid (rulePath @ [Child ''resourceSelector'', Child ''apiGroups''])
               (BadStrings (APIGroups sel))
               ''must specify exactly 1 apiGroup when fields are defined''] else [])
          @ concat (map (\<lambda>(j, customField).
              validateField lib customField (rulePath @ [Child ''fields'', Index j]))
              (enumerate 0 (Fields rule)))
         else [])
      @ (case CollectAdditionalPrinterColumnsPriority rule of None \<Rightarrow> []
         | Some p \<Rightarrow> if p < -1
             then [Invalid (rulePath @ [Child ''collectAdditionalPrinterColumnsPriority'']) (BadInt p)
               ''must be >= -1 (-1 disables collection)''] else [])
      @ (if Action rule = ActionInclude \<and> FieldSuffix rule \<noteq> ''''
         then if \<not> isValidFieldSuffix (FieldSuffix rule)
           then [Invalid (rulePath @ [Child ''fieldSuffix'']) (BadString (FieldSuffix rule))
             (''must contain only lowercase alphanumeric characters, '' @ squote @ ''-'' @ squote
               @ '', or '' @ squote @ ''.'' @ squote)] else []
         else [])
      @ (if Action rule = ActionExclude then validateExcludeRule rule rulePath else []))"

definition validateCollectorConfig :: "golib \<Rightarrow> CollectorConfig \<Rightarrow> go_error option" where
  "validateCollectorConfig lib cc =
     ToAggregate (concat (map (\<lambda>(i, rule).
       validateRule lib rule [Child ''spec'', Child ''collectionRules'', Index i])
       (enumerate 0 (CollectionRules (cc_Spec cc)))))"

section \<open>Who may change an operator-owned config\<close>

datatype WebhookOperation = WebhookOperationCreate | WebhookOperationUpdate | WebhookOperationDelete

record AdmissionRequest =
  req_Username :: string
  req_Namespace :: string

type_synonym admission_context = "go_error + AdmissionRequest"

definition isOperatorOwned :: "CollectorConfig \<Rightarrow> bool" where
  "isOperatorOwned cc = list_ex (\<lambda>ref. ref_Controller ref = Some True) (OwnerReferences (cc_meta cc))"

definition garbageCollector :: string where
  "garbageCollector = ''system:serviceaccount:kube-system:generic-garbage-collector''"

fun errorText :: "go_error \<Rightarrow> string" where
  "errorText (APIError _ m) = m"
| "errorText (Errorf m) = m"
| "errorText (Aggregate es) = ''aggregate''"

definition rejectIfProtected ::
  "admission_context \<Rightarrow> CollectorConfig \<Rightarrow> WebhookOperation \<Rightarrow> go_error option" where
  "rejectIfProtected ctx cc operation =
     (if \<not> isOperatorOwned cc then None
      else (case ctx of
        Inl err \<Rightarrow> Some (Errorf (''could not extract admission request: '' @ errorText err))
      | Inr req \<Rightarrow>
          if req_Username req = garbageCollector \<and> operation = WebhookOperationDelete then None
          else let expectedPrefix = ''system:serviceaccount:'' @ req_Namespace req @ '':'' in
            if HasPrefix (req_Username req) expectedPrefix then None
            else Some (Errorf (Name (cc_meta cc)
              @ '' is managed by the search operator and cannot be modified directly''))))"

section \<open>Exclude rules against integration include rules\<close>

fun webhookMatchesAny :: "string \<Rightarrow> string list \<Rightarrow> bool" where
  "webhookMatchesAny x [] = False"
| "webhookMatchesAny x (y # b) = (if x = ''*'' \<or> y = ''*'' \<or> x = y then True else webhookMatchesAny x b)"

fun webhookSetsIntersect :: "string list \<Rightarrow> string list \<Rightarrow> bool" where
  "webhookSetsIntersect [] b = False"
| "webhookSetsIntersect (x # a) b = (if webhookMatchesAny x b then True else webhookSetsIntersect a b)"

text \<open>The errors of one exclude rule at its path, one per include rule it overlaps.\<close>

definition overlapErrors ::
  "CollectionRule \<Rightarrow> CollectorConfig list \<Rightarrow> field_path \<Rightarrow> field_error list" where
  "overlapErrors excludeRule integrations path =
     concat (map (\<lambda>ic. concat (map (\<lambda>teamRule.
         if Action teamRule \<noteq> ActionInclude then []
         else if webhookSetsIntersect (APIGroups (RuleSelector excludeRule)) (APIGroups (RuleSelector teamRule))
           \<and> webhookSetsIntersect (Kinds (RuleSelector excludeRule)) (Kinds (RuleSelector teamRule))
         then [Invalid (path @ [Child ''resourceSelector''])
           (BadSelector (APIGroups (RuleSelector excludeRule)) (Kinds (RuleSelector excludeRule)))
           (''cannot exclude these resources '' @ em_dash
             @ '' they are necessary for system functionality'')]
         else [])
       (CollectionRules (cc_Spec ic)))) integrations)"

definition validateExcludeAgainstIntegrationConfigs ::
  "'w client option \<Rightarrow> CollectorConfig \<Rightarrow> ('w, go_error option) state" where
  "validateExcludeAgainstIntegrationConfigs webhookClient cc =
     (case webhookClient of None \<Rightarrow> ret None
      | Some c \<Rightarrow>
        if index (Labels (cc_meta cc)) IntegrationTeamLabel = IntegrationTeamLabelValue then ret None
        else if filter (\<lambda>rule. Action rule = ActionExclude) (CollectionRules (cc_Spec cc)) = []
        then ret None
        else do {
          r \<leftarrow> ListOf c asCollectorConfig KCollectorConfig (Some (Namespace (cc_meta cc)))
                 [(IntegrationTeamLabel, IntegrationTeamLabelValue)];
          ret (case r of
              Inl err \<Rightarrow> None
            | Inr integrations \<Rightarrow>
                ToAggregate (concat (map (\<lambda>(i, excludeRule).
                  if Action excludeRule \<noteq> ActionExclude then []
                  else overlapErrors excludeRule integrations
                    [Child ''spec'', Child ''collectionRules'', Index i])
                  (enumerate 0 (CollectionRules (cc_Spec cc))))))
        })"

section \<open>The handlers\<close>

datatype runtime_object = CollectorConfigObject CollectorConfig | OtherObject string

definition wrongType :: "string \<Rightarrow> go_error" where
  "wrongType t = Errorf (''expected a CollectorConfig object but got '' @ t)"

fun ValidateCreate ::
  "golib \<Rightarrow> 'w client option \<Rightarrow> admission_context \<Rightarrow> runtime_object \<Rightarrow> ('w, go_error option) state" where
  "ValidateCreate lib webhookClient ctx (OtherObject t) = ret (Some (wrongType t))"
| "ValidateCreate lib webhookClient ctx (CollectorConfigObject cc) =
     (case rejectIfProtected ctx cc WebhookOperationCreate of Some err \<Rightarrow> ret (Some err)
      | None \<Rightarrow> (case validateCollectorConfig lib cc of Some err \<Rightarrow> ret (Some err)
          | None \<Rightarrow> validateExcludeAgainstIntegrationConfigs webhookClient cc))"

fun ValidateUpdate ::
  "golib \<Rightarrow> 'w client option \<Rightarrow> admission_context \<Rightarrow> runtime_object \<Rightarrow> runtime_object
    \<Rightarrow> ('w, go_error option) state" where
  "ValidateUpdate lib webhookClient ctx oldObj (OtherObject t) = ret (Some (wrongType t))"
| "ValidateUpdate lib webhookClient ctx (OtherObject t) (CollectorConfigObject cc) = ret (Some (wrongType t))"
| "ValidateUpdate lib webhookClient ctx (CollectorConfigObject oldCC) (CollectorConfigObject cc) =
     (case rejectIfProtected ctx cc WebhookOperationUpdate of Some err \<Rightarrow> ret (Some err)
      | None \<Rightarrow> (case rejectIfProtected ctx oldCC WebhookOperationUpdate of Some err \<Rightarrow> ret (Some err)
          | None \<Rightarrow> (case validateCollectorConfig lib cc of Some err \<Rightarrow> ret (Some err)
              | None \<Rightarrow> validateExcludeAgainstIntegrationConfigs webhookClient cc)))"

fun ValidateDelete :: "admission_context \<Rightarrow> runtime_object \<Rightarrow> go_error option" where
  "ValidateDelete ctx (OtherObject t) = Some (wrongType t)"
| "ValidateDelete ctx (CollectorConfigObject cc) =
     (case rejectIfProtected ctx cc WebhookOperationDelete of Some err \<Rightarrow> Some err | None \<Rightarrow> None)"

section \<open>What a selector selects\<close>

text \<open>
  The specification: an entry list matches a name when it holds the name or the wildcard; a
  selector selects a resource (an API group and a kind) when both its lists match; two rules
  overlap when some resource is selected by both.
\<close>

definition matches :: "string list \<Rightarrow> string \<Rightarrow> bool" where
  "matches xs s \<longleftrightarrow> ''*'' \<in> set xs \<or> s \<in> set xs"

definition selects :: "ResourceSelector \<Rightarrow> string \<Rightarrow> string \<Rightarrow> bool" where
  "selects sel apiGroup kind \<longleftrightarrow> matches (APIGroups sel) apiGroup \<and> matches (Kinds sel) kind"

definition overlaps :: "ResourceSelector \<Rightarrow> ResourceSelector \<Rightarrow> bool" where
  "overlaps sel sel' \<longleftrightarrow> (\<exists>apiGroup kind. selects sel apiGroup kind \<and> selects sel' apiGroup kind)"

text \<open>
  The interface of an intersection test on entry lists: it tells whether some name is matched by
  both. The webhook and the merge each have their own copy of the test, for the same contract.
\<close>

locale intersection_test =
  fixes intersect :: "string list \<Rightarrow> string list \<Rightarrow> bool"
  assumes intersect_matches: "intersect a b \<longleftrightarrow> (\<exists>s. matches a s \<and> matches b s)"
begin

lemma selectors_overlap:
  "intersect (APIGroups sel) (APIGroups sel') \<and> intersect (Kinds sel) (Kinds sel') \<longleftrightarrow> overlaps sel sel'"
  by (auto simp: overlaps_def selects_def intersect_matches)

lemma intersect_sym: "intersect a b = intersect b a"
  by (auto simp: intersect_matches)

lemma intersect_wildcard: "''*'' \<in> set a \<Longrightarrow> b \<noteq> [] \<Longrightarrow> intersect a b"
  by (cases b) (auto simp: intersect_matches matches_def)

lemma intersect_mono: "set a \<subseteq> set a' \<Longrightarrow> intersect a b \<Longrightarrow> intersect a' b"
  by (auto simp: intersect_matches matches_def)

end

lemma matches_both:
  "(\<exists>s. matches a s \<and> matches b s) \<longleftrightarrow> (\<exists>x \<in> set a. \<exists>y \<in> set b. x = ''*'' \<or> y = ''*'' \<or> x = y)"
proof
  assume "\<exists>s. matches a s \<and> matches b s"
  then show "\<exists>x \<in> set a. \<exists>y \<in> set b. x = ''*'' \<or> y = ''*'' \<or> x = y"
    by (auto simp: matches_def)
next
  assume "\<exists>x \<in> set a. \<exists>y \<in> set b. x = ''*'' \<or> y = ''*'' \<or> x = y"
  then obtain x y where "x \<in> set a" "y \<in> set b" "x = ''*'' \<or> y = ''*'' \<or> x = y" by auto
  then show "\<exists>s. matches a s \<and> matches b s"
    by (cases "x = ''*''") (auto simp: matches_def)
qed

lemma webhookMatchesAny_iff:
  "webhookMatchesAny x b \<longleftrightarrow> (\<exists>y \<in> set b. x = ''*'' \<or> y = ''*'' \<or> x = y)"
  by (induction b) auto

lemma webhookSetsIntersect_iff:
  "webhookSetsIntersect a b \<longleftrightarrow> (\<exists>x \<in> set a. \<exists>y \<in> set b. x = ''*'' \<or> y = ''*'' \<or> x = y)"
  by (induction a) (auto simp: webhookMatchesAny_iff)

interpretation webhook_sets: intersection_test webhookSetsIntersect
  by unfold_locales (simp only: webhookSetsIntersect_iff matches_both)

section \<open>When a spec is valid\<close>

text \<open>The specification of a valid field and a valid rule.\<close>

definition valid_field :: "golib \<Rightarrow> Field \<Rightarrow> bool" where
  "valid_field lib f \<longleftrightarrow> isValidFieldName (f_Name f) \<and> isValidJSONPath lib (f_JSONPath f)
     \<and> f_Type f \<in> {'''', DataTypeString, DataTypeInteger, DataTypeFloat, DataTypeBytes, DataTypeBoolean}"

definition valid_include :: "golib \<Rightarrow> CollectionRule \<Rightarrow> bool" where
  "valid_include lib rule \<longleftrightarrow>
     (Fields rule = [] \<or> (\<exists>kind apiGroup. Kinds (RuleSelector rule) = [kind] \<and> kind \<noteq> ''*''
        \<and> APIGroups (RuleSelector rule) = [apiGroup] \<and> list_all (valid_field lib) (Fields rule)))
     \<and> (FieldSuffix rule = '''' \<or> isValidFieldSuffix (FieldSuffix rule))
     \<and> (case CollectAdditionalPrinterColumnsPriority rule of None \<Rightarrow> True | Some p \<Rightarrow> p \<ge> -1)"

definition protected_resource :: "string \<Rightarrow> string \<Rightarrow> bool" where
  "protected_resource apiGroup kind \<longleftrightarrow>
     apiGroup \<in> set protectedAPIGroups \<or> (kind, apiGroup) \<in> set protectedKinds"

definition valid_exclude :: "CollectionRule \<Rightarrow> bool" where
  "valid_exclude rule \<longleftrightarrow>
     Fields rule = [] \<and> FieldSuffix rule = '''' \<and> CollectConditions rule = None
     \<and> CollectAnnotations rule = None \<and> CollectAdditionalPrinterColumnsPriority rule = None
     \<and> (\<forall>apiGroup kind. protected_resource apiGroup kind \<longrightarrow> \<not> selects (RuleSelector rule) apiGroup kind)"

definition valid_rule :: "golib \<Rightarrow> CollectionRule \<Rightarrow> bool" where
  "valid_rule lib rule \<longleftrightarrow>
     APIGroups (RuleSelector rule) \<noteq> [] \<and> Kinds (RuleSelector rule) \<noteq> []
     \<and> (Action rule = ActionInclude \<and> valid_include lib rule
        \<or> Action rule = ActionExclude \<and> valid_exclude rule)"

lemma actions_differ [simp]: "ActionInclude \<noteq> ActionExclude" "ActionExclude \<noteq> ActionInclude"
  by (simp_all add: ActionInclude_def ActionExclude_def)

lemma contains_iff: "contains slice item \<longleftrightarrow> item \<in> set slice"
  by (induction slice) auto

lemma isValidFieldName_Nil [simp]: "\<not> isValidFieldName ''''"
  by (simp add: isValidFieldName_def fieldNamePattern_def)

lemma isValidJSONPath_Nil [simp]: "\<not> isValidJSONPath lib ''''"
  by (simp add: isValidJSONPath_def TrimPrefix_def TrimSuffix_def HasSuffix_def)

lemma validateField_Nil: "validateField lib f p = [] \<longleftrightarrow> valid_field lib f"
  by (auto simp: validateField_def valid_field_def contains_iff Let_def)

lemma validateFields_Nil:
  "(\<forall>jf \<in> set (enumerate n fs). (case jf of (j, f) \<Rightarrow> validateField lib f (p j)) = [])
     \<longleftrightarrow> list_all (valid_field lib) fs"
  by (induction fs arbitrary: n) (auto simp: validateField_Nil)

lemma validateSpecific_Nil:
  "validateSpecificKindAgainstProtected kind pg gs p = [] \<longleftrightarrow> \<not> matches gs pg"
  by (induction gs) (auto simp: matches_def)

lemma validateWildcardEntry_Nil: "validateWildcardEntry pk pg gs p = [] \<longleftrightarrow> \<not> matches gs pg"
  by (induction gs) (auto simp: matches_def)

lemma validateProtectedKindList_Nil:
  "validateProtectedKindList ks gs p = [] \<longleftrightarrow>
     (\<forall>(pk, pg) \<in> set protectedKinds. \<not> (matches ks pk \<and> matches gs pg))"
proof (induction ks)
  case Nil
  then show ?case by (simp add: matches_def)
next
  case (Cons k ks)
  have "matches (k # ks) pk \<longleftrightarrow> k = ''*'' \<or> k = pk \<or> matches ks pk" for pk
    by (auto simp: matches_def)
  then show ?case
    using Cons.IH
    by (auto simp: validateWildcardKindAgainstProtected_def protectedKinds_def
        validateSpecific_Nil validateWildcardEntry_Nil)
qed

lemma validateExcludedGroups_Nil:
  "validateExcludedGroups gs p = [] \<longleftrightarrow> ''*'' \<notin> set gs \<and> (\<forall>g \<in> set protectedAPIGroups. g \<notin> set gs)"
  by (induction gs) auto

lemma protected_selection:
  assumes "Kinds sel \<noteq> []"
  shows "(\<forall>apiGroup kind. protected_resource apiGroup kind \<longrightarrow> \<not> selects sel apiGroup kind)
    \<longleftrightarrow> validateProtectedKindList (Kinds sel) (APIGroups sel) p = []
       \<and> validateExcludedGroups (APIGroups sel) q = []"
proof -
  obtain k where k: "matches (Kinds sel) k"
    using assms by (cases "Kinds sel") (auto simp: matches_def)
  have ne: "'''' \<in> set protectedAPIGroups" by (simp add: protectedAPIGroups_def)
  show ?thesis
    unfolding validateProtectedKindList_Nil validateExcludedGroups_Nil
  proof (intro iffI conjI)
    assume safe: "\<forall>apiGroup kind. protected_resource apiGroup kind \<longrightarrow> \<not> selects sel apiGroup kind"
    then show "\<forall>(pk, pg) \<in> set protectedKinds. \<not> (matches (Kinds sel) pk \<and> matches (APIGroups sel) pg)"
      by (auto simp: protected_resource_def selects_def)
    have none: "\<not> matches (APIGroups sel) g" if "g \<in> set protectedAPIGroups" for g
      using safe k that unfolding protected_resource_def selects_def by blast
    then show "''*'' \<notin> set (APIGroups sel)" using ne by (auto simp: matches_def)
    show "\<forall>g \<in> set protectedAPIGroups. g \<notin> set (APIGroups sel)"
      using none by (auto simp: matches_def)
  next
    assume "(\<forall>(pk, pg) \<in> set protectedKinds. \<not> (matches (Kinds sel) pk \<and> matches (APIGroups sel) pg))
      \<and> ''*'' \<notin> set (APIGroups sel) \<and> (\<forall>g \<in> set protectedAPIGroups. g \<notin> set (APIGroups sel))"
    then show "\<forall>apiGroup kind. protected_resource apiGroup kind \<longrightarrow> \<not> selects sel apiGroup kind"
      unfolding protected_resource_def selects_def matches_def by blast
  qed
qed

lemma validateExcludeRule_Nil:
  assumes "Kinds (RuleSelector rule) \<noteq> []"
  shows "validateExcludeRule rule p = [] \<longleftrightarrow> valid_exclude rule"
  using protected_selection [OF assms, of p p]
  by (auto simp: validateExcludeRule_def valid_exclude_def validateProtectedKinds_def split: option.splits)

lemma singleton_iff: "length xs = Suc 0 \<longleftrightarrow> (\<exists>x. xs = [x])"
  by (simp add: length_Suc_conv)

lemma validateRule_Nil: "validateRule lib rule p = [] \<longleftrightarrow> valid_rule lib rule"
proof (cases "APIGroups (RuleSelector rule) = [] \<or> Kinds (RuleSelector rule) = []")
  case True
  then show ?thesis
    by (auto simp: validateRule_def validateResourceSelector_def valid_rule_def Let_def)
next
  case False
  then have "Kinds (RuleSelector rule) \<noteq> []" by simp
  note exclude = validateExcludeRule_Nil [OF this]
  show ?thesis
    using False
    by (auto simp: validateRule_def validateResourceSelector_def valid_rule_def valid_include_def Let_def
        exclude validateFields_Nil singleton_iff valid_exclude_def split: option.splits if_splits)
qed

lemma validateCollectorConfig_rules:
  "concat (map (\<lambda>(i, rule). validateRule lib rule (p i)) (enumerate n rules)) = []
     \<longleftrightarrow> list_all (valid_rule lib) rules"
  by (induction rules arbitrary: n) (auto simp: validateRule_Nil)

section \<open>Where the errors are\<close>

fun error_path :: "field_error \<Rightarrow> field_path" where
  "error_path (NotSupported p v s) = p"
| "error_path (Invalid p v d) = p"
| "error_path (Required p d) = p"

text \<open>Every error is at the path a validator is called with, or below it.\<close>

definition located :: "field_path \<Rightarrow> field_error list \<Rightarrow> bool" where
  "located p es \<longleftrightarrow> (\<forall>e \<in> set es. \<exists>q. error_path e = p @ q)"

lemma located_simps [simp]:
  "located p []" "located p (es @ fs) \<longleftrightarrow> located p es \<and> located p fs"
  "located p (e # es) \<longleftrightarrow> (\<exists>q. error_path e = p @ q) \<and> located p es"
  "located p (concat ess) \<longleftrightarrow> (\<forall>es \<in> set ess. located p es)"
  by (auto simp: located_def)

lemma located_deeper: "located (p @ q) es \<Longrightarrow> located p es"
  by (fastforce simp: located_def)

lemma located_protected [simp]:
  "located p (validateSpecificKindAgainstProtected kind pg gs p)"
  "located p (validateWildcardEntry pk pg gs p)"
  "located p (validateExcludedGroups gs p)"
  by (induction gs) auto

lemma located_kinds [simp]: "located p (validateProtectedKindList ks gs p)"
  by (induction ks) (auto simp: validateWildcardKindAgainstProtected_def split: option.splits)

lemma located_exclude [simp]: "located p (validateExcludeRule rule p)"
  by (auto simp: validateExcludeRule_def validateProtectedKinds_def split: option.splits)

lemma located_if: "located p (if b then es else fs) \<longleftrightarrow> (b \<longrightarrow> located p es) \<and> (\<not> b \<longrightarrow> located p fs)"
  by simp

lemma located_field: "located p (validateField lib f p)"
  by (simp add: validateField_def Let_def)

lemma located_selector: "located p (validateResourceSelector sel p)"
  by (simp add: validateResourceSelector_def)

lemmas located_parts = located_deeper [OF located_field] located_deeper [OF located_selector]

lemma located_rule: "located p (validateRule lib rule p)"
  by (auto simp: validateRule_def Let_def located_if located_parts simp del: if_split
      split: option.split prod.split)

definition rulePath :: "nat \<Rightarrow> field_path" where
  "rulePath i = [Child ''spec'', Child ''collectionRules'', Index i]"

lemma rulePath_inj: "rulePath i @ q = rulePath j @ q' \<longleftrightarrow> i = j \<and> q = q'"
  by (auto simp: rulePath_def)

definition reported :: "field_error list \<Rightarrow> nat \<Rightarrow> bool" where
  "reported es i \<longleftrightarrow> (\<exists>e \<in> set es. \<exists>q. error_path e = rulePath i @ q)"

lemma reported_rules:
  "reported (concat (map (\<lambda>(i, rule). validateRule lib rule (rulePath i)) (enumerate 0 rules))) i
     \<longleftrightarrow> i < length rules \<and> \<not> valid_rule lib (rules ! i)" (is "?L \<longleftrightarrow> ?R")
proof
  assume ?L
  then obtain j e q where j: "j < length rules" "e \<in> set (validateRule lib (rules ! j) (rulePath j))"
    and e: "error_path e = rulePath i @ q"
    by (fastforce simp: reported_def in_set_enumerate_eq)
  then obtain q' where "error_path e = rulePath j @ q'"
    using located_rule unfolding located_def by blast
  then have "j = i" using e by (simp add: rulePath_inj)
  moreover have "validateRule lib (rules ! j) (rulePath j) \<noteq> []" using j by auto
  ultimately show ?R using j by (simp add: validateRule_Nil)
next
  assume r: ?R
  then have "validateRule lib (rules ! i) (rulePath i) \<noteq> []" by (simp add: validateRule_Nil)
  then obtain e where e: "e \<in> set (validateRule lib (rules ! i) (rulePath i))"
    by (cases "validateRule lib (rules ! i) (rulePath i)") auto
  then obtain q where "error_path e = rulePath i @ q"
    using located_rule unfolding located_def by blast
  moreover have "(i, rules ! i) \<in> set (enumerate 0 rules)"
    using r by (simp add: in_set_enumerate_eq)
  ultimately show ?L using e unfolding reported_def set_concat set_map by force
qed

section \<open>The properties of the webhook\<close>

text \<open>
  C6. The spec of a config passes the validation exactly when every rule of it is valid: known
  action, a non-empty selector, the constraints of an include rule (one concrete kind and one group
  when it defines fields, valid fields, valid suffix, priority at least -1) or of an exclude rule.
\<close>

theorem validateCollectorConfig_exact:
  "validateCollectorConfig lib cc = None \<longleftrightarrow> list_all (valid_rule lib) (CollectionRules (cc_Spec cc))"
  unfolding validateCollectorConfig_def ToAggregate_None by (rule validateCollectorConfig_rules)

text \<open>
  When the validation fails, the error list points at the offending rules and at no other: a
  path \<open>spec.collectionRules[i]...\<close> is reported exactly for the positions \<open>i\<close> of rules that are
  not valid.
\<close>

theorem validateCollectorConfig_reports:
  "case validateCollectorConfig lib cc of
     None \<Rightarrow> list_all (valid_rule lib) (CollectionRules (cc_Spec cc))
   | Some e \<Rightarrow> \<exists>es. e = Aggregate es \<and> {i. reported es i}
       = {i. i < length (CollectionRules (cc_Spec cc)) \<and> \<not> valid_rule lib (CollectionRules (cc_Spec cc) ! i)}"
  using validateCollectorConfig_rules [of lib rulePath 0 "CollectionRules (cc_Spec cc)"]
  unfolding validateCollectorConfig_def ToAggregate_def rulePath_def [symmetric]
  by (auto simp: reported_rules simp del: concat_eq_Nil_conv)

text \<open>
  C20. No admitted exclude rule selects a protected resource: not \<open>ManagedCluster\<close> or
  \<open>Namespace\<close>, and nothing in a protected API group, by name or by wildcard.
\<close>

theorem admitted_exclude_harmless:
  assumes "validateCollectorConfig lib cc = None"
    and "rule \<in> set (CollectionRules (cc_Spec cc))" and "Action rule = ActionExclude"
    and "protected_resource apiGroup kind"
  shows "\<not> selects (RuleSelector rule) apiGroup kind"
  using assms
  by (auto simp: validateCollectorConfig_def validateCollectorConfig_rules list_all_iff valid_rule_def
      valid_exclude_def simp del: concat_eq_Nil_conv)

definition sampleExclude :: CollectionRule where
  "sampleExclude = \<lparr>Action = ActionExclude,
     RuleSelector = \<lparr>APIGroups = [''apps''], Kinds = [''*'', ''Namespace'']\<rparr>, Fields = [],
     FieldSuffix = '''', CollectAnnotations = None, CollectConditions = None,
     CollectAdditionalPrinterColumnsPriority = None\<rparr>"

definition sampleConfig :: CollectorConfig where
  "sampleConfig = \<lparr>cc_meta = newMeta ''user-config'' ''ocm'',
     cc_Spec = \<lparr>ccs_CollectNamespaces = None, CollectionRules = [sampleExclude]\<rparr>, cc_Conditions = []\<rparr>"

lemma sampleConfig_valid: "validateCollectorConfig mem_lib sampleConfig = None"
  by code_simp

theorem admitted_exclude_harmless_witness:
  "\<not> selects (RuleSelector sampleExclude) '''' ''Namespace''"
  by (rule admitted_exclude_harmless [OF sampleConfig_valid])
    (simp_all add: sampleConfig_def sampleExclude_def protected_resource_def protectedAPIGroups_def)

text \<open>
  A JSONPath may be written with or without braces: for a path without outer braces both forms
  are accepted alike, exactly when the path is a dot and at least one more byte and the parser takes
  the braced form.
\<close>

theorem isValidJSONPath_forms:
  assumes "\<not> HasPrefix path ''{''" and "\<not> HasSuffix path ''}''"
  shows "isValidJSONPath lib (''{'' @ path @ ''}'') = isValidJSONPath lib path
    \<and> (isValidJSONPath lib path \<longleftrightarrow>
         (\<exists>c rest. path = CHR ''.'' # c # rest) \<and> lib_JSONPathParses lib (''{'' @ path @ ''}''))"
proof -
  have strip: "TrimSuffix (TrimPrefix path ''{'') ''}'' = path"
    using assms by (simp add: TrimPrefix_def TrimSuffix_def)
  have braced: "TrimSuffix (TrimPrefix (''{'' @ path @ ''}'') ''{'') ''}'' = path"
    by (simp add: TrimPrefix_def TrimSuffix_def HasSuffix_def)
  have inner: "TrimSuffix (''{'' @ path @ ''}'') ''}'' = ''{'' @ path"
    by (simp add: TrimSuffix_def HasSuffix_def)
  show ?thesis
    unfolding isValidJSONPath_def strip braced inner Let_def
    by (cases path; cases "tl path") (auto simp: TrimPrefix_def)
qed

theorem isValidJSONPath_forms_witness:
  "isValidJSONPath mem_lib ''{.spec.replicas}'' \<and> isValidJSONPath mem_lib ''.spec.replicas''"
proof -
  have "\<not> HasPrefix ''.spec.replicas'' ''{''" and "\<not> HasSuffix ''.spec.replicas'' ''}''"
    by (simp_all add: HasSuffix_def)
  note forms = isValidJSONPath_forms [OF this, of mem_lib]
  have "lib_JSONPathParses mem_lib (''{'' @ ''.spec.replicas'' @ ''}'')" by (simp add: mem_lib_def)
  then show ?thesis using forms by simp
qed

definition may_change :: "admission_context \<Rightarrow> WebhookOperation \<Rightarrow> bool" where
  "may_change ctx operation \<longleftrightarrow> (\<exists>req. ctx = Inr req \<and>
     (operation = WebhookOperationDelete \<and> req_Username req = garbageCollector
      \<or> (\<exists>account. req_Username req = ''system:serviceaccount:'' @ req_Namespace req @ '':'' @ account)))"

lemma rejectIfProtected_None:
  "rejectIfProtected ctx cc operation = None \<longleftrightarrow> isOperatorOwned cc \<longrightarrow> may_change ctx operation"
  by (auto simp: rejectIfProtected_def may_change_def HasPrefix_iff Let_def split: sum.splits)

text \<open>
  Who may delete a config with a controller owner reference: exactly a service account of the
  request's namespace and the garbage collector. Any other caller, and a request that cannot be
  read, is refused; a config without such a reference is not protected.
\<close>

theorem ValidateDelete_exact:
  "ValidateDelete ctx (CollectorConfigObject cc) \<noteq> None
     \<longleftrightarrow> isOperatorOwned cc \<and> \<not> may_change ctx WebhookOperationDelete"
  using rejectIfProtected_None [of ctx cc WebhookOperationDelete] by (auto split: option.splits)

text \<open>
  C21. An update is admitted exactly when the caller may change the config as it was and as it would
  be (so the protection cannot be shed by dropping the owner reference in the update itself), the
  new spec is valid, and the exclude rules pass the check against the integration configs.
\<close>

theorem ValidateUpdate_exact:
  "fst (run_state (ValidateUpdate lib c ctx (CollectorConfigObject oldCC) (CollectorConfigObject cc)) w) = None
     \<longleftrightarrow> (\<not> isOperatorOwned oldCC \<and> \<not> isOperatorOwned cc \<or> may_change ctx WebhookOperationUpdate)
       \<and> list_all (valid_rule lib) (CollectionRules (cc_Spec cc))
       \<and> fst (run_state (validateExcludeAgainstIntegrationConfigs c cc) w) = None"
proof -
  have valid: "validateCollectorConfig lib cc = None
      \<longleftrightarrow> list_all (valid_rule lib) (CollectionRules (cc_Spec cc))"
    unfolding validateCollectorConfig_def ToAggregate_None by (rule validateCollectorConfig_rules)
  show ?thesis
    using rejectIfProtected_None [of ctx cc WebhookOperationUpdate]
      rejectIfProtected_None [of ctx oldCC WebhookOperationUpdate] valid
    by (auto split: option.splits)
qed

section \<open>The check against integration configs\<close>

text \<open>The selectors of the include rules of the integration configs stored in a namespace.\<close>

definition team_include :: "'w view \<Rightarrow> 'w \<Rightarrow> string \<Rightarrow> ResourceSelector \<Rightarrow> bool" where
  "team_include objs w ns sel \<longleftrightarrow> (\<exists>ic teamRule.
     objs w (key_of (OCollectorConfig ic)) = Some (OCollectorConfig ic)
     \<and> Namespace (cc_meta ic) = ns
     \<and> lookup (Labels (cc_meta ic)) IntegrationTeamLabel = Some IntegrationTeamLabelValue
     \<and> teamRule \<in> set (CollectionRules (cc_Spec ic)) \<and> Action teamRule = ActionInclude
     \<and> sel = RuleSelector teamRule)"

lemma overlapErrors_Nil:
  "overlapErrors rule ics p = [] \<longleftrightarrow> (\<forall>ic \<in> set ics. \<forall>teamRule \<in> set (CollectionRules (cc_Spec ic)).
     Action teamRule = ActionInclude \<longrightarrow> \<not> overlaps (RuleSelector rule) (RuleSelector teamRule))"
  unfolding overlapErrors_def webhook_sets.selectors_overlap by auto

lemma enumerate_all:
  "(\<forall>x \<in> set (enumerate n xs). case x of (i, a) \<Rightarrow> P a) \<longleftrightarrow> (\<forall>a \<in> set xs. P a)"
  by (induction xs arbitrary: n) auto

lemma overlapErrors_all_Nil:
  "concat (map (\<lambda>(i, rule). if Action rule \<noteq> ActionExclude then [] else overlapErrors rule ics (p i))
       (enumerate n rules)) = []
     \<longleftrightarrow> (\<forall>rule \<in> set rules. Action rule = ActionExclude \<longrightarrow> overlapErrors rule ics [] = [])"
  by (induction rules arbitrary: n) (auto simp: overlapErrors_Nil)

lemma exclude_check:
  assumes api: "kube_api c objs"
  shows "fst (run_state (validateExcludeAgainstIntegrationConfigs (Some c) cc) w) = None \<longleftrightarrow>
    index (Labels (cc_meta cc)) IntegrationTeamLabel = IntegrationTeamLabelValue
    \<or> (\<exists>e. fst (run_state (cl_List c KCollectorConfig (Some (Namespace (cc_meta cc)))
          [(IntegrationTeamLabel, IntegrationTeamLabelValue)]) w) = Inl e)
    \<or> (\<forall>rule \<in> set (CollectionRules (cc_Spec cc)). Action rule = ActionExclude \<longrightarrow>
        \<not> (\<exists>sel. team_include objs w (Namespace (cc_meta cc)) sel \<and> overlaps (RuleSelector rule) sel))"
proof -
  define ns where "ns = Namespace (cc_meta cc)"
  define sel where "sel = [(IntegrationTeamLabel, IntegrationTeamLabelValue)]"
  define rules where "rules = CollectionRules (cc_Spec cc)"
  obtain r w1 where run: "run_state (ListOf c asCollectorConfig KCollectorConfig (Some ns) sel) w = (r, w1)"
    by fastforce
  have none: "(\<forall>rule \<in> set rules. Action rule = ActionExclude \<longrightarrow> \<not> P rule)"
    if "filter (\<lambda>rule. Action rule = ActionExclude) rules = []" for P
    using that by (auto simp: filter_empty_conv)
  show ?thesis
  proof (cases r)
    case (Inl e)
    then have "fst (run_state (cl_List c KCollectorConfig (Some ns) sel) w) = Inl e"
      using run by (auto simp: run_ListOf split: prod.splits sum.splits)
    then show ?thesis
      using run Inl unfolding ns_def sel_def
      by (auto simp: validateExcludeAgainstIntegrationConfigs_def)
  next
    case (Inr ics)
    then have listed: "\<not> (\<exists>e. fst (run_state (cl_List c KCollectorConfig (Some ns) sel) w) = Inl e)"
      using run by (auto simp: run_ListOf split: prod.splits sum.splits)
    have mem: "ic \<in> set ics \<longleftrightarrow> objs w (key_of (OCollectorConfig ic)) = Some (OCollectorConfig ic)
        \<and> Namespace (cc_meta ic) = ns
        \<and> lookup (Labels (cc_meta ic)) IntegrationTeamLabel = Some IntegrationTeamLabelValue" for ic
      using ListOf_ok [OF api decodes_kinds(2) run [unfolded Inr]]
      by (simp add: selected_def sel_def)
    have safe: "overlapErrors rule ics [] = []
        \<longleftrightarrow> \<not> (\<exists>sel. team_include objs w ns sel \<and> overlaps (RuleSelector rule) sel)" for rule
      unfolding overlapErrors_Nil team_include_def using mem by blast
    show ?thesis
      using run Inr listed none
      unfolding ns_def [symmetric] sel_def [symmetric] rules_def [symmetric]
        validateExcludeAgainstIntegrationConfigs_def
      by (auto simp: overlapErrors_all_Nil safe simp del: concat_eq_Nil_conv)
  qed
qed

text \<open>
  C24. A config passes the check exactly when listing the integration configs fails (the check is
  then skipped), or it is an integration config itself, or none of its exclude rules overlaps an
  include rule of an integration config stored in its namespace: no resource is selected by both.
\<close>

theorem exclude_check_exact:
  assumes api: "kube_api c objs"
  shows "fst (run_state (validateExcludeAgainstIntegrationConfigs (Some c) cc) w) = None \<longleftrightarrow>
    index (Labels (cc_meta cc)) IntegrationTeamLabel = IntegrationTeamLabelValue
    \<or> (\<exists>e. fst (run_state (cl_List c KCollectorConfig (Some (Namespace (cc_meta cc)))
          [(IntegrationTeamLabel, IntegrationTeamLabelValue)]) w) = Inl e)
    \<or> (\<forall>rule \<in> set (CollectionRules (cc_Spec cc)). Action rule = ActionExclude \<longrightarrow>
        \<not> (\<exists>sel. team_include objs w (Namespace (cc_meta cc)) sel \<and> overlaps (RuleSelector rule) sel))"
  by (rule exclude_check [OF api])

definition sampleTeamRule :: CollectionRule where
  "sampleTeamRule = sampleExclude\<lparr>Action := ActionInclude,
     RuleSelector := \<lparr>APIGroups = [''apps''], Kinds = [''Deployment'']\<rparr>\<rparr>"

definition teamConfig :: CollectorConfig where
  "teamConfig = \<lparr>cc_meta = (newMeta ''team-config'' ''ocm'')
       \<lparr>Labels := mapOf [(IntegrationTeamLabel, IntegrationTeamLabelValue)]\<rparr>,
     cc_Spec = \<lparr>ccs_CollectNamespaces = None, CollectionRules = [sampleTeamRule]\<rparr>, cc_Conditions = []\<rparr>"

definition teamWorld :: mem where
  "teamWorld = \<lparr>mem_objs = [OCollectorConfig teamConfig], mem_faults = [], mem_clock = 0, mem_dyn = []\<rparr>"

lemma teamWorld_check:
  "fst (run_state (validateExcludeAgainstIntegrationConfigs (Some mem_client) sampleConfig) teamWorld) \<noteq> None"
  by code_simp

theorem exclude_check_exact_witness:
  "\<exists>sel. team_include mem_view teamWorld ''ocm'' sel \<and> overlaps (RuleSelector sampleExclude) sel"
  using teamWorld_check exclude_check_exact [OF mem_kube_api, of sampleConfig teamWorld]
  by (auto simp: sampleConfig_def newMeta_def)

end
