(* ===== verification/CC_Merge.thy ===== *)
theory CC_Merge
  imports Common CC_Webhook
begin

text \<open>
  The merge of collector configs (\<open>controllers/create_collectorconfig.go\<close>): the integration
  configs of the namespace, found by label and taken in the order of their names, and the user's
  config are merged into \<open>merged-collector-config\<close>, which the collectors read. A user's exclude
  rule that overlaps an integration include rule is dropped and reported on the user's config.
  Every source config gets the backup label on the way.

  The theorems say what the stored merged config holds after a successful run, which rules are
  dropped and how that is reported, and that the run changes nothing else.
\<close>

section \<open>Operations\<close>

definition userCollectorConfigName :: string where "userCollectorConfigName = ''user-collector-config''"
definition mergedCollectorConfigName :: string where "mergedCollectorConfigName = ''merged-collector-config''"
definition webhookConfigName :: string where
  "webhookConfigName = ''search-v2-operator-validating-webhook-configuration''"
definition caInjectionAnnotation :: string where
  "caInjectionAnnotation = ''service.beta.openshift.io/inject-cabundle''"

text \<open>
  A call that writes an object fills the caller's variable with the server's answer; the variable
  keeps its value when the answer is of another type.
\<close>

definition answer :: "(kobj \<Rightarrow> 'o option) \<Rightarrow> 'o \<Rightarrow> kobj \<Rightarrow> 'o" where
  "answer as x ob = (case as ob of None \<Rightarrow> x | Some y \<Rightarrow> y)"

definition addBackupLabel ::
  "'w SearchReconciler \<Rightarrow> CollectorConfig \<Rightarrow> ('w, go_error + CollectorConfig) state" where
  "addBackupLabel r cc =
     (if lookup (Labels (cc_meta cc)) backupLabel \<noteq> None then ret (Inr cc)
      else do {
        let labelled = cc\<lparr>cc_meta := (cc_meta cc)\<lparr>Labels := put backupLabel '''' (Labels (cc_meta cc))\<rparr>\<rparr>;
        res \<leftarrow> cl_Patch (Client r) (OCollectorConfig cc) (OCollectorConfig labelled);
        ret (case res of Inl err \<Rightarrow> Inl err | Inr ob \<Rightarrow> Inr (answer asCollectorConfig labelled ob))
      })"

definition ensureWebhookCAInjection :: "'w SearchReconciler \<Rightarrow> ('w, go_error option) state" where
  "ensureWebhookCAInjection r = do {
     res \<leftarrow> Get (Client r) asWebhookConfiguration (mkKey KWebhookConfiguration '''' webhookConfigName);
     case res of
       Inl err \<Rightarrow> if IsNotFound err then ret None else ret (Some err)
     | Inr vwc \<Rightarrow>
         if index (Annotations vwc) caInjectionAnnotation = ''true'' then ret None
         else do {
           u \<leftarrow> cl_Update (Client r) (OWebhookConfiguration
             (vwc\<lparr>Annotations := put caInjectionAnnotation ''true'' (Annotations vwc)\<rparr>));
           ret (errOf u)
         }
   }"

fun matchesAny :: "string \<Rightarrow> string list \<Rightarrow> bool" where
  "matchesAny x [] = False"
| "matchesAny x (y # b) = (if x = ''*'' \<or> y = ''*'' \<or> x = y then True else matchesAny x b)"

fun setsIntersect :: "string list \<Rightarrow> string list \<Rightarrow> bool" where
  "setsIntersect [] b = False"
| "setsIntersect (x # a) b = (if matchesAny x b then True else setsIntersect a b)"

definition rulesOverlap :: "ResourceSelector \<Rightarrow> ResourceSelector \<Rightarrow> bool" where
  "rulesOverlap a b =
     (if \<not> setsIntersect (APIGroups a) (APIGroups b) then False else setsIntersect (Kinds a) (Kinds b))"

fun overlapsInclude :: "CollectionRule \<Rightarrow> CollectionRule list \<Rightarrow> bool" where
  "overlapsInclude excludeRule [] = False"
| "overlapsInclude excludeRule (team # rules) =
     (if Action team \<noteq> ActionInclude then overlapsInclude excludeRule rules
      else if rulesOverlap (RuleSelector excludeRule) (RuleSelector team) then True
      else overlapsInclude excludeRule rules)"

fun excludeOverlapsIntegrationIncludes :: "CollectionRule \<Rightarrow> CollectorConfig list \<Rightarrow> bool" where
  "excludeOverlapsIntegrationIncludes excludeRule [] = False"
| "excludeOverlapsIntegrationIncludes excludeRule (tc # teamConfigs) =
     (if overlapsInclude excludeRule (CollectionRules (cc_Spec tc)) then True
      else excludeOverlapsIntegrationIncludes excludeRule teamConfigs)"

definition appliedCondition :: "golib \<Rightarrow> time \<Rightarrow> Condition list \<Rightarrow> string list \<Rightarrow> Condition" where
  "appliedCondition lib now conditions droppedMessages =
     (let (conditionStatus, reason, message) =
        (if length droppedMessages > 0
         then (''False'', CollectorConfigReasonRulesSkipped, Join droppedMessages ''; '')
         else (''True'', CollectorConfigReasonApplied, ''Configuration merged successfully.''));
        newCondition = \<lparr>cond_Type = CollectorConfigConditionApplied, cond_Status = conditionStatus,
          cond_LastTransitionTime = now, cond_Reason = reason, cond_Message = message\<rparr>
      in case lib_FindStatusCondition lib conditions CollectorConfigConditionApplied of
           None \<Rightarrow> newCondition
         | Some existing \<Rightarrow> if cond_Status existing = conditionStatus
             then newCondition\<lparr>cond_LastTransitionTime := cond_LastTransitionTime existing\<rparr>
             else newCondition)"

definition updateUserCCStatus ::
  "'w SearchReconciler \<Rightarrow> CollectorConfig \<Rightarrow> string list \<Rightarrow> ('w, go_error option) state" where
  "updateUserCCStatus r userCC droppedMessages = do {
     now \<leftarrow> Now r;
     let newCondition = appliedCondition (Lib r) now (cc_Conditions userCC) droppedMessages;
     res \<leftarrow> cl_StatusUpdate (Client r) (OCollectorConfig
       (userCC\<lparr>cc_Conditions := lib_SetStatusCondition (Lib r) (cc_Conditions userCC) newCondition\<rparr>));
     ret (errOf res)
   }"

definition droppedMessage :: "CollectionRule \<Rightarrow> string" where
  "droppedMessage rule = ''exclude rule for kinds '' @ show_strings (Kinds (RuleSelector rule))
     @ '' (apiGroups '' @ show_strings (APIGroups (RuleSelector rule)) @ '') was not applied ''
     @ em_dash @ '' resource is necessary for system functionality''"

text \<open>The loop over the user's rules: the rules that are kept and the messages for the others.\<close>

fun mergeUserRules :: "CollectionRule list \<Rightarrow> CollectorConfig list \<Rightarrow> CollectionRule list \<times> string list" where
  "mergeUserRules [] teamConfigs = ([], [])"
| "mergeUserRules (rule # rules) teamConfigs =
     (let (kept, messages) = mergeUserRules rules teamConfigs in
      if Action rule = ActionExclude \<and> excludeOverlapsIntegrationIncludes rule teamConfigs
      then (kept, droppedMessage rule # messages)
      else (rule # kept, messages))"

text \<open>The loop that adds the backup label to the listed integration configs.\<close>

fun labelTeams ::
  "'w SearchReconciler \<Rightarrow> CollectorConfig list \<Rightarrow> ('w, go_error + CollectorConfig list) state" where
  "labelTeams r [] = ret (Inr [])"
| "labelTeams r (tc # tcs) = do {
     res \<leftarrow> addBackupLabel r tc;
     case res of Inl err \<Rightarrow> ret (Inl err)
     | Inr tc' \<Rightarrow> do {
         rest \<leftarrow> labelTeams r tcs;
         ret (case rest of Inl err \<Rightarrow> Inl err | Inr tcs' \<Rightarrow> Inr (tc' # tcs'))
       }
   }"

text \<open>\<open>equality.Semantic.DeepEqual\<close> on specs: equal up to the difference between nil and empty.\<close>

definition normNamespaces :: "CollectNamespaces \<Rightarrow> CollectNamespaces" where
  "normNamespaces ns = ns\<lparr>cns_NamespaceSelector := map_option
     (\<lambda>sel. sel\<lparr>nss_MatchLabels := normMap (nss_MatchLabels sel)\<rparr>) (cns_NamespaceSelector ns)\<rparr>"

definition semEqSpec :: "CollectorConfigSpec \<Rightarrow> CollectorConfigSpec \<Rightarrow> bool" where
  "semEqSpec a b \<longleftrightarrow> CollectionRules a = CollectionRules b
     \<and> map_option normNamespaces (ccs_CollectNamespaces a) = map_option normNamespaces (ccs_CollectNamespaces b)"

text \<open>The second half of the operation: create or update the merged config with a given spec.\<close>

definition writeMerged ::
  "'w SearchReconciler \<Rightarrow> Search \<Rightarrow> CollectorConfigSpec \<Rightarrow> ('w, step_ret) state" where
  "writeMerged r inst mergedSpec = do {
     let namespace = Namespace (s_meta inst);
     res \<leftarrow> Get (Client r) asCollectorConfig (mkKey KCollectorConfig namespace mergedCollectorConfigName);
     case res of
       Inl err \<Rightarrow>
         if IsNotFound err
         then (case lib_SetControllerReference (Lib r) inst (newMeta mergedCollectorConfigName namespace) of
             Inl errRef \<Rightarrow> ret (failWith errRef)
           | Inr meta \<Rightarrow> do {
               c \<leftarrow> cl_Create (Client r) (OCollectorConfig
                 \<lparr>cc_meta = meta, cc_Spec = mergedSpec, cc_Conditions = []\<rparr>);
               ret (case c of Inl e \<Rightarrow> failWith e | Inr _ \<Rightarrow> done_ok)
             })
         else ret (failWith err)
     | Inr found \<Rightarrow>
         if \<not> semEqSpec (cc_Spec found) mergedSpec
         then do {
           u \<leftarrow> cl_Update (Client r) (OCollectorConfig (found\<lparr>cc_Spec := mergedSpec\<rparr>));
           ret (case u of Inl e \<Rightarrow> failWith e | Inr _ \<Rightarrow> done_ok)
         }
         else ret done_ok
   }"

text \<open>
  The merge of the user's config, when there is one: the label, the status (whose failure is only
  logged) and the merged spec; an error of the label ends the operation.
\<close>

definition mergeUser ::
  "'w SearchReconciler \<Rightarrow> string \<Rightarrow> CollectionRule list \<Rightarrow> CollectorConfig list
    \<Rightarrow> ('w, go_error + CollectorConfigSpec) state" where
  "mergeUser r namespace teamRules teamConfigs = do {
     res \<leftarrow> Get (Client r) asCollectorConfig (mkKey KCollectorConfig namespace userCollectorConfigName);
     case res of
       Inl err \<Rightarrow> if \<not> IsNotFound err then ret (Inl err)
         else ret (Inr \<lparr>ccs_CollectNamespaces = None, CollectionRules = teamRules\<rparr>)
     | Inr userCC \<Rightarrow> do {
         let (kept, messages) = mergeUserRules (CollectionRules (cc_Spec userCC)) teamConfigs;
         lab \<leftarrow> addBackupLabel r userCC;
         case lab of Inl err \<Rightarrow> ret (Inl err)
         | Inr labelled \<Rightarrow> do {
             st \<leftarrow> updateUserCCStatus r labelled messages;
             ret (Inr \<lparr>ccs_CollectNamespaces = ccs_CollectNamespaces (cc_Spec userCC),
                       CollectionRules = teamRules @ kept\<rparr>)
           }
       }
   }"

definition createOrUpdateMergedCollectorConfig ::
  "'w SearchReconciler \<Rightarrow> Search \<Rightarrow> ('w, step_ret) state" where
  "createOrUpdateMergedCollectorConfig r inst = do {
     let namespace = Namespace (s_meta inst);
     res \<leftarrow> ListOf (Client r) asCollectorConfig KCollectorConfig (Some namespace)
       [(IntegrationTeamLabel, IntegrationTeamLabelValue)];
     case res of
       Inl err \<Rightarrow> ret (failWith err)
     | Inr items \<Rightarrow> do {
         let teamConfigs = sort_key (\<lambda>tc. Name (cc_meta tc)) items;
         let teamRules = concat (map (\<lambda>tc. CollectionRules (cc_Spec tc)) teamConfigs);
         lab \<leftarrow> labelTeams r teamConfigs;
         case lab of Inl err \<Rightarrow> ret (failWith err)
         | Inr labelled \<Rightarrow> do {
             spec \<leftarrow> mergeUser r namespace teamRules labelled;
             case spec of Inl err \<Rightarrow> ret (failWith err)
             | Inr mergedSpec \<Rightarrow> writeMerged r inst mergedSpec
           }
       }
   }"

section \<open>The overlap test of the merge\<close>

lemma setsIntersect_iff:
  "setsIntersect a b \<longleftrightarrow> (\<exists>x \<in> set a. \<exists>y \<in> set b. x = ''*'' \<or> y = ''*'' \<or> x = y)"
proof -
  have "matchesAny x b \<longleftrightarrow> (\<exists>y \<in> set b. x = ''*'' \<or> y = ''*'' \<or> x = y)" for x
    by (induction b) auto
  then show ?thesis by (induction a) auto
qed

interpretation merge_sets: intersection_test setsIntersect
  by unfold_locales (simp only: setsIntersect_iff matches_both)

lemma rulesOverlap_iff: "rulesOverlap a b \<longleftrightarrow> overlaps a b"
  using merge_sets.selectors_overlap [of a b] by (auto simp: rulesOverlap_def)

definition suppressed :: "CollectorConfig list \<Rightarrow> CollectionRule \<Rightarrow> bool" where
  "suppressed teams rule \<longleftrightarrow> Action rule = ActionExclude \<and> (\<exists>tc \<in> set teams.
     \<exists>team \<in> set (CollectionRules (cc_Spec tc)). Action team = ActionInclude
       \<and> overlaps (RuleSelector rule) (RuleSelector team))"

lemma overlapsInclude_iff:
  "overlapsInclude rule rules \<longleftrightarrow> (\<exists>team \<in> set rules. Action team = ActionInclude
     \<and> overlaps (RuleSelector rule) (RuleSelector team))"
  by (induction rules) (auto simp: rulesOverlap_iff)

lemma suppressed_iff:
  "suppressed teams rule \<longleftrightarrow> Action rule = ActionExclude \<and> excludeOverlapsIntegrationIncludes rule teams"
proof -
  have "excludeOverlapsIntegrationIncludes rule teams \<longleftrightarrow> (\<exists>tc \<in> set teams.
      overlapsInclude rule (CollectionRules (cc_Spec tc)))"
    by (induction teams) auto
  then show ?thesis by (simp add: suppressed_def overlapsInclude_iff)
qed

lemma suppressed_specs: "map cc_Spec teams = map cc_Spec teams' \<Longrightarrow> suppressed teams = suppressed teams'"
proof -
  assume eq: "map cc_Spec teams = map cc_Spec teams'"
  have specs: "suppressed ts rule \<longleftrightarrow> Action rule = ActionExclude \<and> (\<exists>s \<in> set (map cc_Spec ts).
     \<exists>team \<in> set (CollectionRules s). Action team = ActionInclude
       \<and> overlaps (RuleSelector rule) (RuleSelector team))" for ts rule
    by (auto simp: suppressed_def)
  show ?thesis by (rule ext) (simp only: specs eq)
qed

lemma mergeUserRules_eq:
  "mergeUserRules rules teams =
     (filter (\<lambda>rule. \<not> suppressed teams rule) rules, map droppedMessage (filter (suppressed teams) rules))"
  by (induction rules) (auto simp: suppressed_iff)

section \<open>What the steps store\<close>

definition spec_at :: "'w view \<Rightarrow> 'w \<Rightarrow> okey \<Rightarrow> CollectorConfigSpec option" where
  "spec_at objs w k = (case objs w k of Some (OCollectorConfig cc) \<Rightarrow> Some (cc_Spec cc) | _ \<Rightarrow> None)"

abbreviation ccKey :: "CollectorConfig \<Rightarrow> okey" where
  "ccKey cc \<equiv> metaKey KCollectorConfig (cc_meta cc)"

lemma spec_at_update:
  assumes "same_except objs w w' {k}" "objs w k = Some (OCollectorConfig cc)"
    "objs w' k = Some (OCollectorConfig cc')" "cc_Spec cc' = cc_Spec cc"
  shows "spec_at objs w' = spec_at objs w"
proof
  fix k'
  show "spec_at objs w' k' = spec_at objs w k'"
    using assms by (cases "k' = k") (auto simp: spec_at_def same_except_def)
qed

lemma live_update:
  assumes "same_except objs w w' {k}" "live objs w" "objs w' k = Some ob" "\<not> terminated ob"
  shows "live objs w'"
  unfolding live_def
proof (intro allI impI)
  fix k' ob' assume "objs w' k' = Some ob'"
  then show "\<not> terminated ob'" using assms by (cases "k' = k") (auto simp: same_except_def live_def)
qed

lemma alive_update:
  assumes "same_except objs w w' {k}" "objs w' k = Some ob" "\<not> terminated ob" "alive objs w k'"
  shows "alive objs w' k'"
  using assms by (cases "k' = k") (auto simp: same_except_def alive_def)

lemma addBackupLabel_ok:
  assumes api: "kube_api (Client r) objs" and live: "alive objs w (ccKey cc)"
    and stored: "objs w (ccKey cc) = Some (OCollectorConfig cc)"
    and run: "run_state (addBackupLabel r cc) w = (Inr cc', w')"
  shows "same_except objs w w' {ccKey cc} \<and> cc_Spec cc' = cc_Spec cc \<and> ccKey cc' = ccKey cc
    \<and> objs w' (ccKey cc) = Some (OCollectorConfig cc') \<and> lookup (Labels (cc_meta cc')) backupLabel \<noteq> None
    \<and> (\<forall>k. alive objs w k \<longrightarrow> alive objs w' k) \<and> spec_at objs w' = spec_at objs w"
proof (cases "lookup (Labels (cc_meta cc)) backupLabel")
  case (Some v)
  then show ?thesis using assms by (auto simp: addBackupLabel_def)
next
  case None
  define lab where "lab = cc\<lparr>cc_meta := (cc_meta cc)\<lparr>Labels := put backupLabel '''' (Labels (cc_meta cc))\<rparr>\<rparr>"
  have key: "key_of (OCollectorConfig lab) = ccKey cc" by (simp add: lab_def)
  have "\<not> terminated (OCollectorConfig cc)" using live stored unfolding alive_def by blast
  then have notterm: "\<not> terminated (OCollectorConfig lab)" by (simp add: terminated_def lab_def)
  obtain res where p: "run_state (cl_Patch (Client r) (OCollectorConfig cc) (OCollectorConfig lab)) w = (res, w')"
    and res: "(case res of Inl err \<Rightarrow> Inl err | Inr ob \<Rightarrow> Inr (answer asCollectorConfig lab ob)) = (Inr cc' :: go_error + CollectorConfig)"
    using run None by (auto simp: addBackupLabel_def lab_def [symmetric] Let_def split: prod.splits)
  then obtain ob where ob: "res = Inr ob" by (cases res) auto
  have frame: "same_except objs w w' {ccKey cc}" using api_patch_frame [OF api p] key by simp
  from patch_stores [OF api p [unfolded ob]] key stored notterm obtain u where
    u: "ob = map_meta (\<lambda>m. m\<lparr>UID := u\<rparr>) (keep_status (OCollectorConfig cc) (OCollectorConfig lab))"
      "objs w' (ccKey cc) = Some ob" by auto
  then have cc': "ob = OCollectorConfig cc'" "cc_Spec cc' = cc_Spec cc" "ccKey cc' = ccKey cc"
      "lookup (Labels (cc_meta cc')) backupLabel \<noteq> None"
    using res ob by (auto simp: answer_def lab_def)
  moreover have "\<forall>k. alive objs w k \<longrightarrow> alive objs w' k"
    using alive_update [OF frame u(2)] notterm u(1) by (metis terminated_keep_status terminated_map_UID)
  moreover have "spec_at objs w' = spec_at objs w"
    using spec_at_update [OF frame stored] u(2) cc' by simp
  ultimately show ?thesis using frame u(2) by simp
qed

lemma addBackupLabel_key:
  assumes api: "kube_api (Client r) objs" and stored: "objs w (ccKey cc) = Some (OCollectorConfig cc)"
    and run: "run_state (addBackupLabel r cc) w = (Inr cc', w')"
  shows "ccKey cc' = ccKey cc"
proof (cases "lookup (Labels (cc_meta cc)) backupLabel")
  case None
  define lab where "lab = cc\<lparr>cc_meta := (cc_meta cc)\<lparr>Labels := put backupLabel '''' (Labels (cc_meta cc))\<rparr>\<rparr>"
  obtain res where p: "run_state (cl_Patch (Client r) (OCollectorConfig cc) (OCollectorConfig lab)) w = (res, w')"
    and res: "(case res of Inl err \<Rightarrow> Inl err | Inr ob \<Rightarrow> Inr (answer asCollectorConfig lab ob)) = (Inr cc' :: go_error + CollectorConfig)"
    using run None by (auto simp: addBackupLabel_def lab_def [symmetric] Let_def split: prod.splits)
  then obtain ob where ob: "res = Inr ob" by (cases res) auto
  have c: "content ob = content (keep_status (OCollectorConfig cc) (OCollectorConfig lab))"
    using api p stored unfolding ob kube_api_def patch_contract_def by (simp add: lab_def)
  from content_eqD [OF c] obtain u where "ob = map_meta (\<lambda>m. m\<lparr>UID := u\<rparr>) (keep_status (OCollectorConfig cc) (OCollectorConfig lab))"
    by blast
  then show ?thesis using res ob by (auto simp: answer_def lab_def)
qed (use run in \<open>auto simp: addBackupLabel_def\<close>)

lemma labelTeams_ok:
  assumes api: "kube_api (Client r) objs"
  shows "(\<And>tc. tc \<in> set tcs \<Longrightarrow> alive objs w (ccKey tc)) \<Longrightarrow> distinct (map ccKey tcs) \<Longrightarrow>
    (\<And>tc. tc \<in> set tcs \<Longrightarrow> objs w (ccKey tc) = Some (OCollectorConfig tc)) \<Longrightarrow>
    run_state (labelTeams r tcs) w = (Inr tcs', w') \<Longrightarrow>
    map cc_Spec tcs' = map cc_Spec tcs \<and> spec_at objs w' = spec_at objs w \<and> (\<forall>k. alive objs w k \<longrightarrow> alive objs w' k)"
proof (induction tcs arbitrary: w tcs')
  case Nil
  then show ?case by simp
next
  case (Cons tc tcs)
  obtain tc' w1 rest where l: "run_state (addBackupLabel r tc) w = (Inr tc', w1)"
    and rest: "run_state (labelTeams r tcs) w1 = (Inr rest, w')" and tcs': "tcs' = tc' # rest"
    using Cons.prems(4) by (auto split: prod.splits sum.splits)
  note lab = addBackupLabel_ok [OF api Cons.prems(1) [of tc] Cons.prems(3) [of tc] l, simplified]
  have "objs w1 (ccKey t) = Some (OCollectorConfig t)" if "t \<in> set tcs" for t
  proof -
    have "ccKey tc \<notin> ccKey ` set tcs" using Cons.prems(2) by simp
    then have "ccKey t \<noteq> ccKey tc" using imageI [OF that, of ccKey] by auto
    then show ?thesis using lab Cons.prems(3) [of t] that by (simp add: same_except_def)
  qed
  then show ?case
    using Cons.IH [of w1 rest] lab rest Cons.prems(1,2) tcs' by simp
qed

lemma touches_updateUserCCStatus [world_frame]:
  "kube_api (Client r) objs \<Longrightarrow> clock_contract r objs \<Longrightarrow> ccKey cc \<in> K \<Longrightarrow>
     touches objs K (updateUserCCStatus r cc messages)"
  unfolding updateUserCCStatus_def Let_def by (auto intro!: world_frame)

text \<open>The merged spec, given the integration configs (in order) and the spec of the user's config.\<close>

definition merge_spec :: "CollectorConfig list \<Rightarrow> CollectorConfigSpec option \<Rightarrow> CollectorConfigSpec" where
  "merge_spec teams user =
     \<lparr>ccs_CollectNamespaces = (case user of None \<Rightarrow> None | Some s \<Rightarrow> ccs_CollectNamespaces s),
      CollectionRules = concat (map (\<lambda>tc. CollectionRules (cc_Spec tc)) teams)
        @ filter (\<lambda>rule. \<not> suppressed teams rule) (case user of None \<Rightarrow> [] | Some s \<Rightarrow> CollectionRules s)\<rparr>"

lemma mergeUser_ok:
  assumes api: "kube_api (Client r) objs" and clock: "clock_contract r objs"
    and live: "alive objs w (mkKey KCollectorConfig ns userCollectorConfigName)"
    and run: "run_state (mergeUser r ns (concat (map (\<lambda>tc. CollectionRules (cc_Spec tc)) teams)) teams) w
      = (Inr spec, w')"
  shows "spec = merge_spec teams (spec_at objs w (mkKey KCollectorConfig ns userCollectorConfigName))
    \<and> same_except objs w w' {mkKey KCollectorConfig ns userCollectorConfigName}"
proof -
  let ?k = "mkKey KCollectorConfig ns userCollectorConfigName"
  obtain res w1 where g: "run_state (Get (Client r) asCollectorConfig ?k) w = (res, w1)" by fastforce
  note view = Get_view [OF api g]
  show ?thesis
  proof (cases res)
    case (Inl err)
    then have "IsNotFound err" "w' = w1"
      "spec = \<lparr>ccs_CollectNamespaces = None, CollectionRules = concat (map (\<lambda>tc. CollectionRules (cc_Spec tc)) teams)\<rparr>"
      using run g by (auto simp: mergeUser_def split: if_splits)
    moreover have "objs w ?k = None" using Get_missing [OF api g [unfolded Inl]] calculation by simp
    ultimately show ?thesis using view by (simp add: spec_at_def merge_spec_def same_except_eq)
  next
    case (Inr u)
    have stored: "objs w ?k = Some (OCollectorConfig u)" "ccKey u = ?k"
      using Get_found [OF api decodes_kinds(2) g [unfolded Inr]] by simp_all
    have live1: "alive objs w1 (ccKey u)" using live view stored(2) by (simp add: alive_def)
    obtain lab w2 where l: "run_state (addBackupLabel r u) w1 = (Inr lab, w2)"
      and st: "snd (run_state (updateUserCCStatus r lab
          (snd (mergeUserRules (CollectionRules (cc_Spec u)) teams))) w2) = w'"
      and spec: "spec = \<lparr>ccs_CollectNamespaces = ccs_CollectNamespaces (cc_Spec u),
          CollectionRules = concat (map (\<lambda>tc. CollectionRules (cc_Spec tc)) teams)
            @ fst (mergeUserRules (CollectionRules (cc_Spec u)) teams)\<rparr>"
      using run g Inr by (auto simp: mergeUser_def Let_def split: prod.splits sum.splits)
    note lk = addBackupLabel_ok [OF api live1 _ l] stored view
    have "touches objs {?k} (updateUserCCStatus r lab (snd (mergeUserRules (CollectionRules (cc_Spec u)) teams)))"
      using lk by (auto intro!: world_frame api clock)
    then have "same_except objs w2 w' {?k}" using st by (auto simp: touches_def)
    then have "same_except objs w w' {?k}"
      using lk by (auto simp: same_except_def)
    then show ?thesis
      using spec stored by (simp add: merge_spec_def spec_at_def mergeUserRules_eq)
  qed
qed

lemma semEqSpec_refl [simp]: "semEqSpec s s"
  by (simp add: semEqSpec_def)

lemma writeMerged_ok:
  assumes api: "kube_api (Client r) objs" and setref: "setref_contract (Lib r)"
    and alive: "\<And>ob. objs w (mkKey KCollectorConfig (Namespace (s_meta inst)) mergedCollectorConfigName) = Some ob
      \<Longrightarrow> \<not> terminated ob"
    and run: "run_state (writeMerged r inst spec) w = (done_ok, w')"
  shows "\<exists>cc. objs w' (mkKey KCollectorConfig (Namespace (s_meta inst)) mergedCollectorConfigName)
      = Some (OCollectorConfig cc) \<and> semEqSpec (cc_Spec cc) spec"
proof -
  let ?k = "mkKey KCollectorConfig (Namespace (s_meta inst)) mergedCollectorConfigName"
  obtain res w1 where g: "run_state (Get (Client r) asCollectorConfig ?k) w = (res, w1)" by fastforce
  note view = Get_view [OF api g]
  show ?thesis
  proof (cases res)
    case (Inl err)
    then obtain meta ob where meta: "lib_SetControllerReference (Lib r) inst
          (newMeta mergedCollectorConfigName (Namespace (s_meta inst))) = Inr meta"
      and c: "run_state (cl_Create (Client r) (OCollectorConfig
          \<lparr>cc_meta = meta, cc_Spec = spec, cc_Conditions = []\<rparr>)) w1 = (Inr ob, w')"
      using run g by (auto simp: writeMerged_def ret_defs Let_def split: if_splits sum.splits prod.splits)
    have "metaKey KCollectorConfig meta = ?k" using setref_meta [OF setref meta] by simp
    then show ?thesis using create_stores [OF api c] by auto
  next
    case (Inr found)
    note stored = Get_found [OF api decodes_kinds(2) g [unfolded Inr]]
    show ?thesis
    proof (cases "semEqSpec (cc_Spec found) spec")
      case True
      then show ?thesis using run g Inr stored view by (auto simp: writeMerged_def Let_def)
    next
      case False
      then obtain ob where u: "run_state (cl_Update (Client r) (OCollectorConfig (found\<lparr>cc_Spec := spec\<rparr>))) w1 = (Inr ob, w')"
        using run g Inr by (auto simp: writeMerged_def ret_defs Let_def split: sum.splits prod.splits)
      have "\<not> terminated (OCollectorConfig (found\<lparr>cc_Spec := spec\<rparr>))"
        using alive [of "OCollectorConfig found"] stored by (simp add: terminated_def)
      from update_stores [OF api u this] obtain old uid where
        "objs w1 ?k = Some old"
        "objs w' ?k = Some (map_meta (\<lambda>m. m\<lparr>UID := uid\<rparr>) (keep_status old (OCollectorConfig (found\<lparr>cc_Spec := spec\<rparr>))))"
        using stored by auto
      then show ?thesis using stored view by auto
    qed
  qed
qed

section \<open>The properties of the merge\<close>

lemma merge_stores:
  assumes api: "kube_api (Client r) objs" and clock: "clock_contract r objs"
    and setref: "setref_contract (Lib r)" and live: "\<And>n. alive objs w (mkKey KCollectorConfig (Namespace (s_meta inst)) n)"
    and run: "run_state (createOrUpdateMergedCollectorConfig r inst) w = (done_ok, w')"
  shows "\<exists>teams cc. sorted_wrt (<) (map (\<lambda>tc. Name (cc_meta tc)) teams)
    \<and> (\<forall>tc. tc \<in> set teams \<longleftrightarrow> objs w (metaKey KCollectorConfig (cc_meta tc)) = Some (OCollectorConfig tc)
         \<and> Namespace (cc_meta tc) = Namespace (s_meta inst)
         \<and> lookup (Labels (cc_meta tc)) IntegrationTeamLabel = Some IntegrationTeamLabelValue)
    \<and> objs w' (mkKey KCollectorConfig (Namespace (s_meta inst)) mergedCollectorConfigName) = Some (OCollectorConfig cc)
    \<and> semEqSpec (cc_Spec cc) (merge_spec teams
         (spec_at objs w (mkKey KCollectorConfig (Namespace (s_meta inst)) userCollectorConfigName)))"
proof -
  define ns where "ns = Namespace (s_meta inst)"
  let ?sel = "[(IntegrationTeamLabel, IntegrationTeamLabelValue)]"
  let ?rules = "\<lambda>ts. concat (map (\<lambda>tc. CollectionRules (cc_Spec tc)) ts)"
  obtain items w1 where l: "run_state (ListOf (Client r) asCollectorConfig KCollectorConfig (Some ns) ?sel) w
      = (Inr items, w1)"
    and rest: "run_state (do {
         lab \<leftarrow> labelTeams r (sort_key (\<lambda>tc. Name (cc_meta tc)) items);
         case lab of Inl err \<Rightarrow> ret (failWith err)
         | Inr labelled \<Rightarrow> do {
             spec \<leftarrow> mergeUser r ns (?rules (sort_key (\<lambda>tc. Name (cc_meta tc)) items)) labelled;
             case spec of Inl err \<Rightarrow> ret (failWith err)
             | Inr mergedSpec \<Rightarrow> writeMerged r inst mergedSpec
           }}) w1 = (done_ok, w')"
    using run unfolding createOrUpdateMergedCollectorConfig_def ns_def Let_def
    by (auto simp: ret_defs split: prod.splits sum.splits)
  define teams where "teams = sort_key (\<lambda>tc. Name (cc_meta tc)) items"
  from rest obtain labelled w2 spec w3 where
    lab: "run_state (labelTeams r teams) w1 = (Inr labelled, w2)"
    and mu: "run_state (mergeUser r ns (?rules teams) labelled) w2 = (Inr spec, w3)"
    and wr: "run_state (writeMerged r inst spec) w3 = (done_ok, w')"
    unfolding teams_def by (auto simp: ret_defs split: prod.splits sum.splits)
  note view = ListOf_view [OF api l]
  have mem: "tc \<in> set teams \<longleftrightarrow> objs w (ccKey tc) = Some (OCollectorConfig tc)
      \<and> Namespace (cc_meta tc) = ns
      \<and> lookup (Labels (cc_meta tc)) IntegrationTeamLabel = Some IntegrationTeamLabelValue" for tc
    using ListOf_ok [OF api decodes_kinds(2) l] by (auto simp: teams_def selected_def)
  have dist: "distinct (map ccKey teams)"
    using ListOf_distinct [OF api decodes_kinds(2) l] by (simp add: teams_def distinct_map)
  have "inj_on (\<lambda>tc. Name (cc_meta tc)) (set teams)"
  proof (rule inj_onI)
    fix x y assume "x \<in> set teams" "y \<in> set teams" "Name (cc_meta x) = Name (cc_meta y)"
    moreover from this have "ccKey x = ccKey y" by (simp add: mem metaKey_def)
    ultimately show "x = y" using dist by (simp add: distinct_map inj_on_def)
  qed
  then have sorted: "sorted_wrt (<) (map (\<lambda>tc. Name (cc_meta tc)) teams)"
    using dist by (simp add: strict_sorted_iff distinct_map teams_def)
  have live1: "alive objs w1 (mkKey KCollectorConfig ns n)" for n using live [of n] view by (simp add: alive_def ns_def)
  have "alive objs w1 (ccKey tc)" "objs w1 (ccKey tc) = Some (OCollectorConfig tc)" if "tc \<in> set teams" for tc
    using that mem [of tc] live1 [of "Name (cc_meta tc)"] view by (auto simp: metaKey_def)
  from labelTeams_ok [OF api this(1) dist this(2) lab] live1
  have labels: "map cc_Spec labelled = map cc_Spec teams" "spec_at objs w2 = spec_at objs w1"
    and live2: "alive objs w2 (mkKey KCollectorConfig ns n)" for n by blast+
  then have "?rules teams = ?rules labelled"
    by (metis (no_types, lifting) list.map_comp comp_def map_eq_conv)
  then have spec: "spec = merge_spec labelled (spec_at objs w2 (mkKey KCollectorConfig ns userCollectorConfigName))"
    and frame: "same_except objs w2 w3 {mkKey KCollectorConfig ns userCollectorConfigName}"
    using mergeUser_ok [OF api clock live2 mu [unfolded \<open>?rules teams = ?rules labelled\<close>]] by auto
  have "objs w3 (mkKey KCollectorConfig ns mergedCollectorConfigName) = objs w2 (mkKey KCollectorConfig ns mergedCollectorConfigName)"
    using frame by (simp add: same_except_def mkKey_def userCollectorConfigName_def mergedCollectorConfigName_def)
  then obtain cc where cc: "objs w' (mkKey KCollectorConfig ns mergedCollectorConfigName) = Some (OCollectorConfig cc)"
      "semEqSpec (cc_Spec cc) spec"
    using writeMerged_ok [OF api setref _ wr] live2 [of mergedCollectorConfigName] unfolding ns_def alive_def by metis
  have "spec = merge_spec teams (spec_at objs w (mkKey KCollectorConfig ns userCollectorConfigName))"
    using spec labels view suppressed_specs [of labelled teams] \<open>?rules teams = ?rules labelled\<close>
    by (simp add: merge_spec_def spec_at_def)
  then show ?thesis using sorted mem cc unfolding ns_def by blast
qed

text \<open>
  C2. After a successful run the stored merged config holds the rules of all integration configs of
  the namespace, in the order of their names, followed by the user's rules without the exclude rules
  that overlap an integration include, and the user's namespace selection; all read from the objects
  stored when the run began.
\<close>

theorem merged_config_correct:
  assumes api: "kube_api (Client r) objs" and clock: "clock_contract r objs"
    and setref: "setref_contract (Lib r)" and live: "live objs w"
    and run: "run_state (createOrUpdateMergedCollectorConfig r inst) w = (done_ok, w')"
  shows "\<exists>teams cc. sorted_wrt (<) (map (\<lambda>tc. Name (cc_meta tc)) teams)
    \<and> (\<forall>tc. tc \<in> set teams \<longleftrightarrow> objs w (metaKey KCollectorConfig (cc_meta tc)) = Some (OCollectorConfig tc)
         \<and> Namespace (cc_meta tc) = Namespace (s_meta inst)
         \<and> lookup (Labels (cc_meta tc)) IntegrationTeamLabel = Some IntegrationTeamLabelValue)
    \<and> objs w' (mkKey KCollectorConfig (Namespace (s_meta inst)) mergedCollectorConfigName) = Some (OCollectorConfig cc)
    \<and> semEqSpec (cc_Spec cc) (merge_spec teams
         (spec_at objs w (mkKey KCollectorConfig (Namespace (s_meta inst)) userCollectorConfigName)))"
  by (rule merge_stores [OF api clock setref live_alive [OF live] run])

definition sampleUser :: CollectorConfig where
  "sampleUser = sampleConfig\<lparr>cc_meta := newMeta userCollectorConfigName ''ocm''\<rparr>"

definition mergeWorld :: mem where
  "mergeWorld = mem_world [OCollectorConfig sampleUser, OCollectorConfig teamConfig]"

lemma mergeWorld_live: "live mem_view mergeWorld"
  unfolding mergeWorld_def by (rule mem_world_live) code_simp

lemma mergeWorld_run:
  "fst (run_state (createOrUpdateMergedCollectorConfig mem_reconciler sampleSearch) mergeWorld) = done_ok"
  by code_simp

theorem merged_config_correct_witness:
  "\<exists>teams cc. (\<forall>tc. tc \<in> set teams \<longleftrightarrow> mem_view mergeWorld (metaKey KCollectorConfig (cc_meta tc)) = Some (OCollectorConfig tc)
       \<and> Namespace (cc_meta tc) = ''ocm''
       \<and> lookup (Labels (cc_meta tc)) IntegrationTeamLabel = Some IntegrationTeamLabelValue)
    \<and> mem_view (snd (run_state (createOrUpdateMergedCollectorConfig mem_reconciler sampleSearch) mergeWorld))
        (mkKey KCollectorConfig ''ocm'' mergedCollectorConfigName) = Some (OCollectorConfig cc)
    \<and> semEqSpec (cc_Spec cc) (merge_spec teams (Some (cc_Spec sampleUser)))"
proof -
  have ns: "Namespace (s_meta sampleSearch) = ''ocm''" by (simp add: sampleSearch_def)
  have user: "spec_at mem_view mergeWorld (mkKey KCollectorConfig ''ocm'' userCollectorConfigName) = Some (cc_Spec sampleUser)"
    by (simp add: spec_at_def mergeWorld_def mem_world_def mem_view_def sampleUser_def sampleConfig_def)
  show ?thesis
    using merged_config_correct [of mem_reconciler mem_view mergeWorld sampleSearch
        "snd (run_state (createOrUpdateMergedCollectorConfig mem_reconciler sampleSearch) mergeWorld)"]
      mem_kube_api mem_clock_contract mem_lib_setref mergeWorld_live mergeWorld_run
    by (auto simp: ns user prod_eq_iff)
qed

text \<open>
  The merge drops exactly the user's exclude rules that select a resource which some integration
  config includes, reports each of them in order, and keeps all other rules in order.
\<close>

theorem mergeUserRules_exact:
  "mergeUserRules rules teams =
     (filter (\<lambda>rule. \<not> suppressed teams rule) rules, map droppedMessage (filter (suppressed teams) rules))"
  by (rule mergeUserRules_eq)

text \<open>
  When the status of the user's config can be written, its \<open>Applied\<close> condition afterwards is
  False with the reason \<open>RulesSkipped\<close> and the joined messages if rules were dropped, and True with
  the reason \<open>Applied\<close> if none was; its spec and metadata stay as they are stored.
\<close>

theorem updateUserCCStatus_reports:
  assumes api: "kube_api (Client r) objs" and clock: "clock_contract r objs"
    and conds: "condition_contract (Lib r)"
    and stored: "objs w (metaKey KCollectorConfig (cc_meta userCC)) = Some (OCollectorConfig old)"
    and run: "run_state (updateUserCCStatus r userCC messages) w = (None, w')"
  shows "\<exists>cc c. objs w' (metaKey KCollectorConfig (cc_meta userCC)) = Some (OCollectorConfig cc)
    \<and> cc_Spec cc = cc_Spec old \<and> Labels (cc_meta cc) = Labels (cc_meta old)
    \<and> lib_FindStatusCondition (Lib r) (cc_Conditions cc) CollectorConfigConditionApplied = Some c
    \<and> (if messages = [] then cond_Status c = ''True'' \<and> cond_Reason c = CollectorConfigReasonApplied
       else cond_Status c = ''False'' \<and> cond_Reason c = CollectorConfigReasonRulesSkipped
         \<and> cond_Message c = Join messages ''; '')"
proof -
  obtain now w1 where t: "run_state (Now r) w = (now, w1)" by fastforce
  have view: "objs w1 = objs w" using clock t unfolding clock_contract_def by (metis snd_conv)
  define cond where "cond = appliedCondition (Lib r) now (cc_Conditions userCC) messages"
  have ctype: "cond_Type cond = CollectorConfigConditionApplied"
    and vals: "if messages = [] then cond_Status cond = ''True'' \<and> cond_Reason cond = CollectorConfigReasonApplied
       else cond_Status cond = ''False'' \<and> cond_Reason cond = CollectorConfigReasonRulesSkipped
         \<and> cond_Message cond = Join messages ''; ''"
    by (simp_all add: cond_def appliedCondition_def Let_def split: option.split)
  obtain ob where s: "run_state (cl_StatusUpdate (Client r) (OCollectorConfig
      (userCC\<lparr>cc_Conditions := lib_SetStatusCondition (Lib r) (cc_Conditions userCC) cond\<rparr>))) w1 = (Inr ob, w')"
    using run t unfolding updateUserCCStatus_def Let_def
    by (auto simp: errOf_None cond_def split: prod.splits)
  from status_stores [OF api s] stored view obtain u where
    new: "objs w' (ccKey userCC) = Some (map_meta (\<lambda>m. m\<lparr>UID := u\<rparr>) (keep_spec (OCollectorConfig old)
      (OCollectorConfig (userCC\<lparr>cc_Conditions := lib_SetStatusCondition (Lib r) (cc_Conditions userCC) cond\<rparr>))))"
    by auto
  obtain d where d: "lib_FindStatusCondition (Lib r) (lib_SetStatusCondition (Lib r) (cc_Conditions userCC) cond)
      CollectorConfigConditionApplied = Some d" "sameCondition d cond"
    using conds ctype unfolding condition_contract_def by metis
  then have "if messages = [] then cond_Status d = ''True'' \<and> cond_Reason d = CollectorConfigReasonApplied
       else cond_Status d = ''False'' \<and> cond_Reason d = CollectorConfigReasonRulesSkipped
         \<and> cond_Message d = Join messages ''; ''"
    using vals by (simp add: sameCondition_def)
  then show ?thesis using new d by auto
qed

theorem updateUserCCStatus_reports_witness:
  "\<exists>cc c. mem_view (snd (run_state (updateUserCCStatus mem_reconciler sampleUser [''dropped'']) mergeWorld))
       (metaKey KCollectorConfig (cc_meta sampleUser)) = Some (OCollectorConfig cc)
    \<and> lib_FindStatusCondition mem_lib (cc_Conditions cc) CollectorConfigConditionApplied = Some c
    \<and> cond_Status c = ''False'' \<and> cond_Message c = ''dropped''"
proof -
  have stored: "mem_view mergeWorld (metaKey KCollectorConfig (cc_meta sampleUser)) = Some (OCollectorConfig sampleUser)"
    by (simp add: mergeWorld_def mem_world_def mem_view_def)
  have "fst (run_state (updateUserCCStatus mem_reconciler sampleUser [''dropped'']) mergeWorld) = None"
    by code_simp
  then show ?thesis
    using updateUserCCStatus_reports [of mem_reconciler mem_view mergeWorld sampleUser sampleUser "[''dropped'']"
        "snd (run_state (updateUserCCStatus mem_reconciler sampleUser [''dropped'']) mergeWorld)"]
      mem_kube_api mem_clock_contract mem_lib_conditions stored
    by (auto simp: prod_eq_iff)
qed

section \<open>What the merge leaves alone\<close>

lemma touches_addBackupLabel:
  "kube_api (Client r) objs \<Longrightarrow> ccKey cc \<in> K \<Longrightarrow> touches objs K (addBackupLabel r cc)"
  unfolding addBackupLabel_def Let_def by (auto intro!: world_frame)

lemma touches_labelTeams:
  assumes api: "kube_api (Client r) objs"
  shows "(\<And>tc. tc \<in> set tcs \<Longrightarrow> ccKey tc \<in> K) \<Longrightarrow> touches objs K (labelTeams r tcs)"
  by (induction tcs) (auto intro!: world_frame touches_addBackupLabel api)

definition configs_of :: "string \<Rightarrow> okey set" where
  "configs_of ns = {k. key_kind k = KCollectorConfig \<and> key_namespace k = ns}"

lemma configs_of_iff: "ccKey cc \<in> configs_of ns \<longleftrightarrow> Namespace (cc_meta cc) = ns"
  by (simp add: configs_of_def metaKey_def mkKey_def cluster_scoped_def)

lemma mergeUser_frame:
  assumes api: "kube_api (Client r) objs" and clock: "clock_contract r objs"
    and run: "run_state (mergeUser r ns rules teams) w = (res, w')"
  shows "same_except objs w w' (configs_of ns)"
proof -
  let ?k = "mkKey KCollectorConfig ns userCollectorConfigName"
  have k: "?k \<in> configs_of ns" by (simp add: configs_of_def mkKey_def cluster_scoped_def)
  obtain g w1 where g: "run_state (Get (Client r) asCollectorConfig ?k) w = (g, w1)" by fastforce
  note view = Get_view [OF api g]
  show ?thesis
  proof (cases g)
    case (Inl err)
    then have "w' = w1" using run g by (auto simp: mergeUser_def split: if_splits)
    then show ?thesis using view by (simp add: same_except_eq)
  next
    case (Inr u)
    have stored: "objs w1 ?k = Some (OCollectorConfig u)" "ccKey u = ?k"
      using Get_found [OF api decodes_kinds(2) g [unfolded Inr]] view by simp_all
    obtain l w2 where l: "run_state (addBackupLabel r u) w1 = (l, w2)" by fastforce
    have f1: "same_except objs w1 w2 (configs_of ns)"
      using touches_addBackupLabel [OF api, of u "configs_of ns"] stored k l
      unfolding touches_def by (metis snd_conv)
    have f2: "same_except objs w2 w' (configs_of ns)"
    proof (cases l)
      case (Inl e)
      then have "w' = w2" using run g Inr l by (auto simp: mergeUser_def split: prod.splits)
      then show ?thesis by simp
    next
      case (Inr lab)
      have "ccKey lab = ?k" using addBackupLabel_key [OF api _ l [unfolded Inr]] stored by simp
      then have "touches objs (configs_of ns) (updateUserCCStatus r lab messages)" for messages
        using k by (intro world_frame api clock) simp
      moreover have "w' = snd (run_state (updateUserCCStatus r lab
          (snd (mergeUserRules (CollectionRules (cc_Spec u)) teams))) w2)"
        using run g \<open>g = Inr u\<close> l Inr by (auto simp: mergeUser_def split: prod.splits)
      ultimately show ?thesis by (simp add: touches_def)
    qed
    show ?thesis using f1 f2 view by (auto simp: same_except_def)
  qed
qed

lemma touches_writeMerged:
  assumes api: "kube_api (Client r) objs" and setref: "setref_contract (Lib r)"
  shows "touches objs (configs_of (Namespace (s_meta inst))) (writeMerged r inst spec)"
proof -
  let ?k = "mkKey KCollectorConfig (Namespace (s_meta inst)) mergedCollectorConfigName"
  have k: "?k \<in> configs_of (Namespace (s_meta inst))" by (simp add: configs_of_def mkKey_def cluster_scoped_def)
  have meta: "metaKey KCollectorConfig m = ?k"
    if "lib_SetControllerReference (Lib r) inst (newMeta mergedCollectorConfigName (Namespace (s_meta inst))) = Inr m" for m
    using setref_meta [OF setref that] by simp
  show ?thesis
    unfolding writeMerged_def Let_def
    by (intro touches_bind_result world_frame api)
      (use k in \<open>auto simp: meta dest: Get_found [OF api decodes_kinds(2)]\<close>)
qed

lemma merge_touches:
  assumes api: "kube_api (Client r) objs" and clock: "clock_contract r objs"
    and setref: "setref_contract (Lib r)"
  shows "touches objs (configs_of (Namespace (s_meta inst))) (createOrUpdateMergedCollectorConfig r inst)"
  unfolding touches_def
proof
  fix w
  obtain res w' where run: "run_state (createOrUpdateMergedCollectorConfig r inst) w = (res, w')" by fastforce
  define ns where "ns = Namespace (s_meta inst)"
  define sel where "sel = [(IntegrationTeamLabel, IntegrationTeamLabelValue)]"
  let ?teams = "\<lambda>items. sort_key (\<lambda>tc. Name (cc_meta tc)) items"
  obtain l w1 where l: "run_state (ListOf (Client r) asCollectorConfig KCollectorConfig (Some ns) sel) w = (l, w1)"
    by fastforce
  note view = ListOf_view [OF api l]
  have "same_except objs w w' (configs_of ns)"
  proof (cases l)
    case (Inl e)
    then have "w' = w1" using run l by (auto simp: createOrUpdateMergedCollectorConfig_def ns_def sel_def Let_def)
    then show ?thesis using view by (simp add: same_except_eq)
  next
    case (Inr items)
    have mem: "tc \<in> set (?teams items) \<Longrightarrow> objs w1 (ccKey tc) = Some (OCollectorConfig tc) \<and> ccKey tc \<in> configs_of ns" for tc
      using ListOf_ok [OF api decodes_kinds(2) l [unfolded Inr]] view
      by (auto simp: selected_def configs_of_iff)
    obtain lab w2 where lab: "run_state (labelTeams r (?teams items)) w1 = (lab, w2)" by fastforce
    have f1: "same_except objs w1 w2 (configs_of ns)"
      using touches_labelTeams [OF api, of "?teams items" "configs_of ns"] mem lab
      unfolding touches_def by (metis snd_conv)
    have f2: "same_except objs w2 w' (configs_of ns)"
    proof (cases lab)
      case (Inl e)
      then have "w' = w2"
        using run l \<open>l = Inr items\<close> lab by (auto simp: createOrUpdateMergedCollectorConfig_def ns_def sel_def Let_def)
      then show ?thesis by simp
    next
      case (Inr labelled)
      obtain m w3 where m: "run_state (mergeUser r ns (concat (map (\<lambda>tc. CollectionRules (cc_Spec tc)) (?teams items))) labelled) w2 = (m, w3)"
        by fastforce
      have "same_except objs w3 w' (configs_of ns)"
      proof (cases m)
        case (Inl e)
        then have "w' = w3"
          using run l \<open>l = Inr items\<close> lab Inr m \<open>lab = Inr labelled\<close>
          by (auto simp: createOrUpdateMergedCollectorConfig_def ns_def sel_def Let_def)
        then show ?thesis by simp
      next
        case (Inr spec)
        then have "w' = snd (run_state (writeMerged r inst spec) w3)"
          using run l \<open>l = Inr items\<close> lab m \<open>lab = Inr labelled\<close>
          by (auto simp: createOrUpdateMergedCollectorConfig_def ns_def sel_def Let_def)
        then show ?thesis using touches_writeMerged [OF api setref] by (simp add: touches_def ns_def)
      qed
      then show ?thesis by (rule same_except_trans [OF mergeUser_frame [OF api clock m]])
    qed
    show ?thesis using f1 f2 view by (auto simp: same_except_def)
  qed
  then show "same_except objs w (snd (run_state (createOrUpdateMergedCollectorConfig r inst) w)) (configs_of (Namespace (s_meta inst)))"
    using run by (simp add: ns_def)
qed

text \<open>
  C25. However the run of the merge ends, only collector configs of the instance's namespace can have
  changed: every other object of the cluster is as before.
\<close>

theorem merge_frame:
  assumes api: "kube_api (Client r) objs" and clock: "clock_contract r objs"
    and setref: "setref_contract (Lib r)"
    and run: "run_state (createOrUpdateMergedCollectorConfig r inst) w = (res, w')"
    and other: "key_kind k \<noteq> KCollectorConfig \<or> key_namespace k \<noteq> Namespace (s_meta inst)"
  shows "objs w' k = objs w k"
  using touchesD [OF merge_touches [OF api clock setref] run] other by (simp add: configs_of_def)

theorem merge_frame_witness:
  "mem_view (snd (run_state (createOrUpdateMergedCollectorConfig mem_reconciler sampleSearch) mergeWorld))
     (mkKey KSecret ''ocm'' ''search-postgres'') = mem_view mergeWorld (mkKey KSecret ''ocm'' ''search-postgres'')"
proof (rule merge_frame [where r = mem_reconciler and objs = mem_view and w = mergeWorld and inst = sampleSearch])
  show "kube_api (Client mem_reconciler) mem_view" using mem_kube_api by simp
  show "setref_contract (Lib mem_reconciler)" using mem_lib_setref by simp
  show "run_state (createOrUpdateMergedCollectorConfig mem_reconciler sampleSearch) mergeWorld
    = (fst (run_state (createOrUpdateMergedCollectorConfig mem_reconciler sampleSearch) mergeWorld),
       snd (run_state (createOrUpdateMergedCollectorConfig mem_reconciler sampleSearch) mergeWorld))"
    by (rule prod.collapse [symmetric])
  show "key_kind (mkKey KSecret ''ocm'' ''search-postgres'') \<noteq> KCollectorConfig
      \<or> key_namespace (mkKey KSecret ''ocm'' ''search-postgres'') \<noteq> Namespace (s_meta sampleSearch)"
    by (simp add: mkKey_def)
qed (rule mem_clock_contract)+

section \<open>The webhook configuration\<close>

text \<open>
  When the call succeeds and the webhook configuration exists, it carries the annotation that
  makes the platform inject the CA bundle, with its other annotations unchanged; a missing
  configuration is not an error and nothing is created.
\<close>

theorem ensureWebhookCAInjection_annotates:
  assumes api: "kube_api (Client r) objs" and live: "live objs w"
    and run: "run_state (ensureWebhookCAInjection r) w = (None, w')"
  shows "case objs w (mkKey KWebhookConfiguration '''' webhookConfigName) of
      None \<Rightarrow> objs w' = objs w
    | Some ob \<Rightarrow> \<exists>vwc vwc'. ob = OWebhookConfiguration vwc
        \<and> objs w' (mkKey KWebhookConfiguration '''' webhookConfigName) = Some (OWebhookConfiguration vwc')
        \<and> (\<forall>a. index (Annotations vwc') a = (if a = caInjectionAnnotation then ''true'' else index (Annotations vwc) a))"
proof -
  let ?k = "mkKey KWebhookConfiguration '''' webhookConfigName"
  obtain g w1 where g: "run_state (Get (Client r) asWebhookConfiguration ?k) w = (g, w1)" by fastforce
  note view = Get_view [OF api g]
  show ?thesis
  proof (cases g)
    case (Inl e)
    then have "IsNotFound e" "w' = w1" using run g by (auto simp: ensureWebhookCAInjection_def split: if_splits)
    then show ?thesis using Get_missing [OF api g [unfolded Inl]] view by simp
  next
    case (Inr vwc)
    have stored: "objs w ?k = Some (OWebhookConfiguration vwc)" "metaKey KWebhookConfiguration vwc = ?k"
      using Get_found [OF api decodes_kinds(15) g [unfolded Inr]] by simp_all
    show ?thesis
    proof (cases "index (Annotations vwc) caInjectionAnnotation = ''true''")
      case True
      then have "w' = w1" using run g Inr by (auto simp: ensureWebhookCAInjection_def)
      then show ?thesis using stored view True by auto
    next
      case False
      let ?new = "vwc\<lparr>Annotations := put caInjectionAnnotation ''true'' (Annotations vwc)\<rparr>"
      obtain ob where u: "run_state (cl_Update (Client r) (OWebhookConfiguration ?new)) w1 = (Inr ob, w')"
        using run g Inr False by (auto simp: ensureWebhookCAInjection_def errOf_None split: prod.splits)
      have "\<not> terminated (OWebhookConfiguration vwc)" using live stored unfolding live_def by blast
      then have "\<not> terminated (OWebhookConfiguration ?new)" by (simp add: terminated_def)
      from update_stores [OF api u this] obtain old uid where
        "objs w' ?k = Some (map_meta (\<lambda>m. m\<lparr>UID := uid\<rparr>) (OWebhookConfiguration ?new))"
        using stored by auto
      then show ?thesis using stored by auto
    qed
  qed
qed

definition webhookWorld :: mem where
  "webhookWorld = mem_world [OWebhookConfiguration (newMeta webhookConfigName '''')]"

theorem ensureWebhookCAInjection_annotates_witness:
  "\<exists>vwc'. mem_view (snd (run_state (ensureWebhookCAInjection mem_reconciler) webhookWorld))
       (mkKey KWebhookConfiguration '''' webhookConfigName) = Some (OWebhookConfiguration vwc')
     \<and> index (Annotations vwc') caInjectionAnnotation = ''true''"
proof -
  have "fst (run_state (ensureWebhookCAInjection mem_reconciler) webhookWorld) = None" by code_simp
  moreover have "live mem_view webhookWorld" unfolding webhookWorld_def by (rule mem_world_live) code_simp
  moreover have "mem_view webhookWorld (mkKey KWebhookConfiguration '''' webhookConfigName)
      = Some (OWebhookConfiguration (newMeta webhookConfigName ''''))"
    by (simp add: webhookWorld_def mem_world_def mem_view_def)
  ultimately show ?thesis
    using ensureWebhookCAInjection_annotates [of mem_reconciler mem_view webhookWorld
        "snd (run_state (ensureWebhookCAInjection mem_reconciler) webhookWorld)"] mem_kube_api
    by (fastforce simp: prod_eq_iff)
qed

end
