(* ===== verification/CC_Seeder.thy ===== *)
theory CC_Seeder
  imports CC_Merge
begin

text \<open>
  The integration configs the operator ships (\<open>controllers/create_integration_collectorconfigs.go\<close>)
  and the runnable that applies them at start (\<open>controllers/integration_collectorconfig_seeder.go\<close>).
  The embedded directory is a parameter (\<open>filesystem\<close>). The poll of the runnable is a recursion on
  the number of polls that happen before the context ends.

  The theorems say what is stored after a successful application, that a config with the manual
  override is left alone, that one failing file does not keep the others from being applied, and
  that nothing is written while the Search resource is paused.
\<close>

section \<open>Applying the shipped configs\<close>

record filesystem =
  fs_ReadDir :: "string \<Rightarrow> go_error + (string \<times> bool) list"
  fs_ReadFile :: "string \<Rightarrow> go_error + string"

definition integrationconfigs_Dir :: string where
  "integrationconfigs_Dir = ''integration_collector_configs''"

definition hasControllerOwnerRef :: "ObjectMeta \<Rightarrow> Search \<Rightarrow> bool" where
  "hasControllerOwnerRef obj owner =
     (if UID (s_meta owner) = '''' then True
      else list_ex (\<lambda>ref. ref_UID ref = UID (s_meta owner)) (OwnerReferences obj))"

definition emptyMap :: "smap \<Rightarrow> bool" where
  "emptyMap m = fmpred (\<lambda>k v. False) (entries m)"

definition hasDesiredLabels :: "CollectorConfig \<Rightarrow> CollectorConfig \<Rightarrow> bool" where
  "hasDesiredLabels found desired =
     (if Labels (cc_meta found) = None then emptyMap (Labels (cc_meta desired))
      else if \<not> fmpred (\<lambda>k v. index (Labels (cc_meta found)) k = v) (entries (Labels (cc_meta desired)))
      then False
      else index (Labels (cc_meta found)) IntegrationTeamLabel = IntegrationTeamLabelValue)"

definition mergeLabels :: "smap \<Rightarrow> smap \<Rightarrow> smap" where
  "mergeLabels found desired = Some (entries found ++\<^sub>f entries desired)"

text \<open>
  The create branch and the update branch of \<open>applyOneIntegrationCollectorConfig\<close>; both set the
  owner under a condition.
\<close>

definition ownIf :: "bool \<Rightarrow> golib \<Rightarrow> Search \<Rightarrow> ObjectMeta \<Rightarrow> go_error + ObjectMeta" where
  "ownIf cond lib owner m = (if cond then lib_SetControllerReference lib owner m else Inr m)"

definition createIntegration ::
  "'w client \<Rightarrow> golib \<Rightarrow> bool \<Rightarrow> Search \<Rightarrow> string \<Rightarrow> CollectorConfig \<Rightarrow> ('w, go_error option) state" where
  "createIntegration c lib scheme owner namespace desired =
     (let meta0 = (newMeta (Name (cc_meta desired)) namespace)
            \<lparr>Labels := put IntegrationTeamLabel IntegrationTeamLabelValue (Labels (cc_meta desired))\<rparr>
      in case ownIf (scheme \<and> UID (s_meta owner) \<noteq> '''') lib owner meta0 of
           Inl err \<Rightarrow> ret (Some err)
         | Inr meta \<Rightarrow> do {
             res \<leftarrow> cl_Create c (OCollectorConfig
               \<lparr>cc_meta = meta, cc_Spec = cc_Spec desired, cc_Conditions = []\<rparr>);
             ret (errOf res)
           })"

definition updateIntegration ::
  "'w client \<Rightarrow> golib \<Rightarrow> bool \<Rightarrow> Search \<Rightarrow> CollectorConfig \<Rightarrow> CollectorConfig \<Rightarrow> ('w, go_error option) state" where
  "updateIntegration c lib scheme owner found desired =
     (if lookup (Annotations (cc_meta found)) AnnotationManualOverride \<noteq> None then ret None
      else if hasDesiredLabels found desired \<and> hasControllerOwnerRef (cc_meta found) owner
        \<and> semEqSpec (cc_Spec found) (cc_Spec desired) then ret None
      else
        let labels = put IntegrationTeamLabel IntegrationTeamLabelValue
              (mergeLabels (Labels (cc_meta found)) (Labels (cc_meta desired)));
            meta0 = (cc_meta found)\<lparr>Labels := labels\<rparr>
        in case ownIf (scheme \<and> UID (s_meta owner) \<noteq> '''' \<and> \<not> hasControllerOwnerRef (cc_meta found) owner)
             lib owner meta0 of
             Inl err \<Rightarrow> ret (Some err)
           | Inr meta \<Rightarrow> do {
               res \<leftarrow> cl_Update c (OCollectorConfig (found\<lparr>cc_meta := meta, cc_Spec := cc_Spec desired\<rparr>));
               ret (errOf res)
             })"

definition applyOneIntegrationCollectorConfig ::
  "'w client \<Rightarrow> golib \<Rightarrow> bool \<Rightarrow> Search \<Rightarrow> string \<Rightarrow> filesystem \<Rightarrow> string \<Rightarrow> string
    \<Rightarrow> ('w, go_error option) state" where
  "applyOneIntegrationCollectorConfig c lib scheme owner namespace fsys dir filename =
     (case fs_ReadFile fsys (dir @ ''/'' @ filename) of
        Inl err \<Rightarrow> ret (Some err)
      | Inr raw \<Rightarrow> (case lib_Unmarshal lib raw of
          Inl err \<Rightarrow> ret (Some err)
        | Inr desired \<Rightarrow>
            if Name (cc_meta desired) = '''' then ret None
            else do {
              res \<leftarrow> Get c asCollectorConfig (mkKey KCollectorConfig namespace (Name (cc_meta desired)));
              case res of
                Inl err \<Rightarrow> if IsNotFound err then createIntegration c lib scheme owner namespace desired
                  else ret (Some err)
              | Inr found \<Rightarrow> updateIntegration c lib scheme owner found desired
            }))"

text \<open>The loop over the directory: the first error is returned, the rest is applied all the same.\<close>

fun applyEntries ::
  "'w client \<Rightarrow> golib \<Rightarrow> bool \<Rightarrow> Search \<Rightarrow> string \<Rightarrow> filesystem \<Rightarrow> string \<Rightarrow> (string \<times> bool) list
    \<Rightarrow> go_error option \<Rightarrow> ('w, go_error option) state" where
  "applyEntries c lib scheme owner namespace fsys dir [] firstErr = ret firstErr"
| "applyEntries c lib scheme owner namespace fsys dir ((name, isDir) # es) firstErr =
     (if isDir then applyEntries c lib scheme owner namespace fsys dir es firstErr
      else do {
        err \<leftarrow> applyOneIntegrationCollectorConfig c lib scheme owner namespace fsys dir name;
        applyEntries c lib scheme owner namespace fsys dir es
          (case err of None \<Rightarrow> firstErr | Some e \<Rightarrow> (case firstErr of None \<Rightarrow> Some e | Some f \<Rightarrow> Some f))
      })"

definition applyIntegrationCollectorConfigsFrom ::
  "'w client \<Rightarrow> golib \<Rightarrow> bool \<Rightarrow> Search \<Rightarrow> filesystem \<Rightarrow> string \<Rightarrow> ('w, go_error option) state" where
  "applyIntegrationCollectorConfigsFrom c lib scheme owner fsys dir =
     (case fs_ReadDir fsys dir of
        Inl err \<Rightarrow> ret (Some err)
      | Inr es \<Rightarrow> applyEntries c lib scheme owner (Namespace (s_meta owner)) fsys dir (sort_key fst es) None)"

definition applyIntegrationCollectorConfigs ::
  "filesystem \<Rightarrow> 'w client \<Rightarrow> golib \<Rightarrow> bool \<Rightarrow> Search \<Rightarrow> ('w, go_error option) state" where
  "applyIntegrationCollectorConfigs embedded c lib scheme owner =
     applyIntegrationCollectorConfigsFrom c lib scheme owner embedded integrationconfigs_Dir"

section \<open>The seeder\<close>

record 'w IntegrationCollectorConfigSeeder =
  sd_Client :: "'w client"
  sd_Scheme :: bool
  sd_Namespace :: string

definition emptySearch :: Search where
  "emptySearch = \<lparr>s_meta = newMeta '''' '''',
     s_Spec = \<lparr>DBStorage = \<lparr>StorageClassName = '''', Size = None\<rparr>, DBConfig = '''',
       Deployments = \<lparr>Database = emptyDeploymentConfig, Indexer = emptyDeploymentConfig,
         Collector = emptyDeploymentConfig, QueryAPI = emptyDeploymentConfig\<rparr>,
       AvailabilityConfig = '''', ExternalDBInstance = '''', ImagePullSecret = '''', ImagePullPolicy = '''',
       NodeSelector = None, Tolerations = []\<rparr>,
     s_Status = \<lparr>DB = '''', Storage = '''', Conditions = []\<rparr>\<rparr>"

text \<open>The loop over the listed Search resources, with the match found so far.\<close>

fun findSearch :: "Search list \<Rightarrow> Search option \<Rightarrow> go_error + Search option" where
  "findSearch [] match = Inr match"
| "findSearch (x # items) match =
     (if Name (s_meta x) = OperatorName
      then (case match of
          Some m \<Rightarrow> Inl (Errorf (''found multiple search CRs named '' @ dquote @ OperatorName @ dquote
            @ '' (namespaces '' @ dquote @ Namespace (s_meta m) @ dquote @ '' and '' @ dquote
            @ Namespace (s_meta x) @ dquote @ '') '' @ em_dash @ '' refusing to guess which one to use''))
        | None \<Rightarrow> findSearch items (Some x))
      else findSearch items match)"

definition resolveSearch ::
  "'w IntegrationCollectorConfigSeeder \<Rightarrow> ('w, go_error + Search \<times> bool) state" where
  "resolveSearch s =
     (if sd_Namespace s \<noteq> ''''
      then ret (Inr (emptySearch\<lparr>s_meta := newMeta '''' (sd_Namespace s)\<rparr>, False))
      else do {
        res \<leftarrow> ListOf (sd_Client s) asSearch KSearch None [];
        ret (case res of Inl err \<Rightarrow> Inl err
          | Inr items \<Rightarrow> (case findSearch items None of
              Inl err \<Rightarrow> Inl err
            | Inr None \<Rightarrow> Inl (Errorf (''search CR '' @ dquote @ OperatorName @ dquote
                @ '' not found in any namespace''))
            | Inr (Some match) \<Rightarrow> Inr (match, IsPaused (Annotations (s_meta match)))))
      })"

text \<open>One poll: whether seeding is done.\<close>

definition seedOnce ::
  "filesystem \<Rightarrow> golib \<Rightarrow> 'w IntegrationCollectorConfigSeeder \<Rightarrow> ('w, bool) state" where
  "seedOnce embedded lib s = do {
     res \<leftarrow> resolveSearch s;
     case res of
       Inl err \<Rightarrow> ret False
     | Inr (searchCR, paused) \<Rightarrow>
         if paused then ret False
         else do {
           err \<leftarrow> applyIntegrationCollectorConfigs embedded (sd_Client s) lib (sd_Scheme s) searchCR;
           ret (err = None)
         }
   }"

text \<open>
  \<open>wait.PollUntilContextCancel\<close> polls at once and then at every interval, until the condition
  holds or the context ends: here after \<open>polls\<close> polls.
\<close>

fun Start ::
  "filesystem \<Rightarrow> golib \<Rightarrow> 'w IntegrationCollectorConfigSeeder \<Rightarrow> nat \<Rightarrow> ('w, go_error option) state" where
  "Start embedded lib s 0 = ret None"
| "Start embedded lib s (Suc polls) = do {
     done \<leftarrow> seedOnce embedded lib s;
     if done then ret None else Start embedded lib s polls
   }"

section \<open>What one file leaves behind\<close>

text \<open>
  The specification of a seeded config, from the world before to the world after: it is stored
  and left to a user who set the manual override, or with the shipped spec, the owner, and the shipped
  labels, each with its value, and the integration label. Two exceptions are for configs that are left as
  they were found: a shipped label with the empty value may be missing, and a config without
  any label passes for a shipped one without labels.
\<close>

definition seeded :: "'w view \<Rightarrow> 'w \<Rightarrow> 'w \<Rightarrow> bool \<Rightarrow> Search \<Rightarrow> string \<Rightarrow> CollectorConfig \<Rightarrow> bool" where
  "seeded objs w w' scheme owner ns desired \<longleftrightarrow> (let k = mkKey KCollectorConfig ns (Name (cc_meta desired)) in
     \<exists>cc. objs w' k = Some (OCollectorConfig cc)
     \<and> (lookup (Annotations (cc_meta cc)) AnnotationManualOverride \<noteq> None \<and> objs w' k = objs w k
        \<or> semEqSpec (cc_Spec cc) (cc_Spec desired)
          \<and> (\<forall>l v. l \<noteq> IntegrationTeamLabel \<longrightarrow> lookup (Labels (cc_meta desired)) l = Some v \<longrightarrow>
               lookup (Labels (cc_meta cc)) l = Some v
               \<or> v = '''' \<and> lookup (Labels (cc_meta cc)) l = None \<and> objs w' k = objs w k)
          \<and> (lookup (Labels (cc_meta cc)) IntegrationTeamLabel = Some IntegrationTeamLabelValue
             \<or> Labels (cc_meta cc) = None \<and> emptyMap (Labels (cc_meta desired)) \<and> objs w' k = objs w k)
          \<and> (scheme \<longrightarrow> hasControllerOwnerRef (cc_meta cc) owner)))"

lemma emptyMap_iff: "emptyMap m \<longleftrightarrow> (\<forall>k. lookup m k = None)"
  by (auto simp: emptyMap_def lookup_def fmpred_iff)

lemma lookup_mergeLabels:
  "lookup (mergeLabels a b) k = (case lookup b k of None \<Rightarrow> lookup a k | Some v \<Rightarrow> Some v)"
  by (auto simp: mergeLabels_def lookup_def entries_def fmlookup_dom_iff split: option.splits)

lemma setref_owner:
  assumes "setref_contract lib" "lib_SetControllerReference lib owner m = Inr m'"
  shows "hasControllerOwnerRef m' owner"
  using assms by (fastforce simp: setref_contract_def hasControllerOwnerRef_def list_ex_iff)

lemma setref_terminated:
  assumes "setref_contract lib" "lib_SetControllerReference lib owner m = Inr m'"
  shows "DeletionTimestamp m' = DeletionTimestamp m \<and> Finalizers m' = Finalizers m \<and> Annotations m' = Annotations m"
  using assms by (fastforce simp: setref_contract_def)

lemma createIntegration_ok:
  assumes api: "kube_api c objs" and setref: "setref_contract lib" and live: "live objs w"
    and run: "run_state (createIntegration c lib scheme owner ns desired) w = (None, w')"
  shows "seeded objs w w' scheme owner ns desired \<and> live objs w'"
proof -
  let ?m = "(newMeta (Name (cc_meta desired)) ns)
    \<lparr>Labels := put IntegrationTeamLabel IntegrationTeamLabelValue (Labels (cc_meta desired))\<rparr>"
  let ?cc = "\<lambda>m. \<lparr>cc_meta = m, cc_Spec = cc_Spec desired, cc_Conditions = []\<rparr>"
  obtain m ob where m: "ownIf (scheme \<and> UID (s_meta owner) \<noteq> '''') lib owner ?m = Inr m"
    and c: "run_state (cl_Create c (OCollectorConfig (?cc m))) w = (Inr ob, w')"
    using run unfolding createIntegration_def Let_def
    by (auto simp: errOf_None split: sum.splits prod.splits)
  have key: "metaKey KCollectorConfig m = mkKey KCollectorConfig ns (Name (cc_meta desired))"
    and labels: "Labels m = Labels ?m" and del: "DeletionTimestamp m = None"
    using m setref_meta [OF setref, of owner ?m m] setref_terminated [OF setref, of owner ?m m]
    by (auto simp: ownIf_def split: if_splits)
  have owned: "scheme \<longrightarrow> hasControllerOwnerRef m owner"
    using m setref_owner [OF setref, of owner ?m m]
    by (auto simp: ownIf_def hasControllerOwnerRef_def split: if_splits)
  obtain u where u: "objs w' (mkKey KCollectorConfig ns (Name (cc_meta desired)))
      = Some (map_meta (\<lambda>m. m\<lparr>UID := u\<rparr>) (OCollectorConfig (?cc m)))"
    using create_stores [OF api c] key by auto
  moreover have "live objs w'"
    using live_update [OF api_create_frame [OF api c] live, simplified key_of_simps] u key del
    by (auto simp: terminated_def)
  moreover have "seeded objs w w' scheme owner ns desired"
    unfolding seeded_def Let_def using u labels owned
    by (auto simp: hasControllerOwnerRef_def lookup_put)
  ultimately show ?thesis by blast
qed

lemma updateIntegration_ok:
  assumes api: "kube_api c objs" and setref: "setref_contract lib" and live: "live objs w"
    and stored: "objs w (mkKey KCollectorConfig ns (Name (cc_meta desired))) = Some (OCollectorConfig found)"
    and key: "metaKey KCollectorConfig (cc_meta found) = mkKey KCollectorConfig ns (Name (cc_meta desired))"
    and run: "run_state (updateIntegration c lib scheme owner found desired) w = (None, w')"
  shows "seeded objs w w' scheme owner ns desired \<and> live objs w'"
proof (cases "lookup (Annotations (cc_meta found)) AnnotationManualOverride \<noteq> None
    \<or> hasDesiredLabels found desired \<and> hasControllerOwnerRef (cc_meta found) owner
      \<and> semEqSpec (cc_Spec found) (cc_Spec desired)")
  case True
  then have same: "w' = w" using run by (auto simp: updateIntegration_def split: if_splits)
  have labels: "lookup (Labels (cc_meta found)) l = Some v \<or> v = '''' \<and> lookup (Labels (cc_meta found)) l = None"
    if "hasDesiredLabels found desired" "lookup (Labels (cc_meta desired)) l = Some v" for l v
  proof -
    have "index (Labels (cc_meta found)) l = v"
      using that by (auto simp: hasDesiredLabels_def emptyMap_iff fmpred_iff lookup_def split: if_splits)
    then show ?thesis by (auto simp: index_def split: option.splits)
  qed
  have team: "lookup (Labels (cc_meta found)) IntegrationTeamLabel = Some IntegrationTeamLabelValue
      \<or> Labels (cc_meta found) = None \<and> emptyMap (Labels (cc_meta desired))" if "hasDesiredLabels found desired"
    using that by (auto simp: hasDesiredLabels_def index_def IntegrationTeamLabelValue_def split: if_splits option.splits)
  show ?thesis
    using True
  proof
    assume "lookup (Annotations (cc_meta found)) AnnotationManualOverride \<noteq> None"
    then show ?thesis using same stored live by (simp add: seeded_def)
  next
    assume "hasDesiredLabels found desired \<and> hasControllerOwnerRef (cc_meta found) owner
      \<and> semEqSpec (cc_Spec found) (cc_Spec desired)"
    then show ?thesis using same stored live labels team by (auto simp: seeded_def)
  qed
next
  case False
  define meta0 where "meta0 = (cc_meta found)\<lparr>Labels := put IntegrationTeamLabel IntegrationTeamLabelValue
    (mergeLabels (Labels (cc_meta found)) (Labels (cc_meta desired)))\<rparr>"
  let ?cc = "\<lambda>m. found\<lparr>cc_meta := m, cc_Spec := cc_Spec desired\<rparr>"
  obtain m ob where m: "ownIf (scheme \<and> UID (s_meta owner) \<noteq> '''' \<and> \<not> hasControllerOwnerRef (cc_meta found) owner)
        lib owner meta0 = Inr m"
    and c: "run_state (cl_Update c (OCollectorConfig (?cc m))) w = (Inr ob, w')"
    using run False unfolding updateIntegration_def Let_def meta0_def [symmetric]
    by (auto simp: errOf_None split: sum.splits prod.splits if_splits)
  have km: "metaKey KCollectorConfig m = mkKey KCollectorConfig ns (Name (cc_meta desired))"
    and labels: "Labels m = Labels meta0"
    and del: "DeletionTimestamp m = DeletionTimestamp (cc_meta found)" "Finalizers m = Finalizers (cc_meta found)"
    using m setref_meta [OF setref, of owner meta0 m] setref_terminated [OF setref, of owner meta0 m] key
    by (auto simp: ownIf_def meta0_def split: if_splits)
  have owned: "scheme \<longrightarrow> hasControllerOwnerRef m owner"
    using m setref_owner [OF setref, of owner meta0 m]
    by (auto simp: ownIf_def hasControllerOwnerRef_def meta0_def split: if_splits)
  have "\<not> terminated (OCollectorConfig found)" using live stored unfolding live_def by blast
  then have alive: "\<not> terminated (OCollectorConfig (?cc m))" using del by (simp add: terminated_def)
  obtain u where u: "objs w' (mkKey KCollectorConfig ns (Name (cc_meta desired)))
      = Some (map_meta (\<lambda>m. m\<lparr>UID := u\<rparr>) (keep_status (OCollectorConfig found) (OCollectorConfig (?cc m))))"
    using update_stores [OF api c alive] km stored by auto
  moreover have "live objs w'"
    using live_update [OF api_update_frame [OF api c] live, simplified key_of_simps] u km alive
    by (simp add: terminated_def)
  moreover have "seeded objs w w' scheme owner ns desired"
    unfolding seeded_def Let_def using u labels owned
    by (auto simp: hasControllerOwnerRef_def meta0_def lookup_put lookup_mergeLabels)
  ultimately show ?thesis by blast
qed

section \<open>All files\<close>

definition shipped :: "golib \<Rightarrow> filesystem \<Rightarrow> string \<Rightarrow> string \<Rightarrow> CollectorConfig option" where
  "shipped lib fsys dir filename = (case fs_ReadFile fsys (dir @ ''/'' @ filename) of Inl _ \<Rightarrow> None
     | Inr raw \<Rightarrow> (case lib_Unmarshal lib raw of Inl _ \<Rightarrow> None | Inr desired \<Rightarrow> Some desired))"

definition seedKey :: "golib \<Rightarrow> filesystem \<Rightarrow> string \<Rightarrow> string \<Rightarrow> string \<Rightarrow> okey set" where
  "seedKey lib fsys dir ns filename = (case shipped lib fsys dir filename of None \<Rightarrow> {}
     | Some desired \<Rightarrow> {mkKey KCollectorConfig ns (Name (cc_meta desired))})"

lemma applyOne_shipped:
  "applyOneIntegrationCollectorConfig c lib scheme owner ns fsys dir filename =
     (case shipped lib fsys dir filename of
        None \<Rightarrow> ret (case fs_ReadFile fsys (dir @ ''/'' @ filename) of Inl err \<Rightarrow> Some err
          | Inr raw \<Rightarrow> (case lib_Unmarshal lib raw of Inl err \<Rightarrow> Some err | Inr _ \<Rightarrow> None))
      | Some desired \<Rightarrow>
            if Name (cc_meta desired) = '''' then ret None
            else do {
              res \<leftarrow> Get c asCollectorConfig (mkKey KCollectorConfig ns (Name (cc_meta desired)));
              case res of
                Inl err \<Rightarrow> if IsNotFound err then createIntegration c lib scheme owner ns desired
                  else ret (Some err)
              | Inr found \<Rightarrow> updateIntegration c lib scheme owner found desired
            })"
  by (auto simp: applyOneIntegrationCollectorConfig_def shipped_def split: sum.splits)

lemma ownIf_key:
  "setref_contract lib \<Longrightarrow> ownIf b lib owner m = Inr m' \<Longrightarrow> metaKey k m' = metaKey k m"
  using setref_meta by (fastforce simp: ownIf_def split: if_splits)

lemma touches_createIntegration:
  assumes "kube_api c objs" "setref_contract lib" "mkKey KCollectorConfig ns (Name (cc_meta desired)) \<in> K"
  shows "touches objs K (createIntegration c lib scheme owner ns desired)"
  unfolding createIntegration_def Let_def
  by (intro world_frame assms) (use assms in \<open>auto dest!: ownIf_key [where k = KCollectorConfig]\<close>)

lemma touches_updateIntegration:
  assumes "kube_api c objs" "setref_contract lib" "metaKey KCollectorConfig (cc_meta found) \<in> K"
  shows "touches objs K (updateIntegration c lib scheme owner found desired)"
  unfolding updateIntegration_def Let_def
  by (intro world_frame assms) (use assms in \<open>auto dest!: ownIf_key [where k = KCollectorConfig]\<close>)

lemma touches_applyOne:
  assumes api: "kube_api c objs" and setref: "setref_contract lib"
  shows "touches objs (seedKey lib fsys dir ns filename)
    (applyOneIntegrationCollectorConfig c lib scheme owner ns fsys dir filename)"
  unfolding applyOne_shipped
proof (intro touches_case_option touches_ret)
  fix desired assume d: "shipped lib fsys dir filename = Some desired"
  have k: "seedKey lib fsys dir ns filename = {mkKey KCollectorConfig ns (Name (cc_meta desired))}"
    using d by (simp add: seedKey_def)
  show "touches objs (seedKey lib fsys dir ns filename)
    (if Name (cc_meta desired) = '''' then ret None
     else do {
       res \<leftarrow> Get c asCollectorConfig (mkKey KCollectorConfig ns (Name (cc_meta desired)));
       case res of
         Inl err \<Rightarrow> if IsNotFound err then createIntegration c lib scheme owner ns desired else ret (Some err)
       | Inr found \<Rightarrow> updateIntegration c lib scheme owner found desired
     })"
    unfolding k
    by (intro touches_if touches_ret touches_bind_result touches_case_sum touches_Get api
        touches_createIntegration touches_updateIntegration setref)
      (auto dest: Get_found [OF api decodes_kinds(2)])
qed

lemma applyOne_ok:
  assumes api: "kube_api c objs" and setref: "setref_contract lib" and live: "live objs w"
    and run: "run_state (applyOneIntegrationCollectorConfig c lib scheme owner ns fsys dir filename) w = (None, w')"
  shows "live objs w' \<and> (\<exists>desired. shipped lib fsys dir filename = Some desired
    \<and> (Name (cc_meta desired) \<noteq> '''' \<longrightarrow> seeded objs w w' scheme owner ns desired))"
proof -
  obtain desired where d: "shipped lib fsys dir filename = Some desired"
    using run by (auto simp: applyOne_shipped shipped_def split: option.splits sum.splits)
  show ?thesis
  proof (cases "Name (cc_meta desired) = ''''")
    case True
    then show ?thesis using run d live by (auto simp: applyOne_shipped)
  next
    case False
    let ?k = "mkKey KCollectorConfig ns (Name (cc_meta desired))"
    obtain res w1 where g: "run_state (Get c asCollectorConfig ?k) w = (res, w1)" by fastforce
    note view = Get_view [OF api g]
    have live1: "live objs w1" using live view by (simp add: live_def)
    show ?thesis
    proof (cases res)
      case (Inl err)
      then have "run_state (createIntegration c lib scheme owner ns desired) w1 = (None, w')"
        using run d False g by (auto simp: applyOne_shipped split: if_splits)
      then show ?thesis using createIntegration_ok [OF api setref live1] d view by (auto simp: seeded_def Let_def)
    next
      case (Inr found)
      then have "run_state (updateIntegration c lib scheme owner found desired) w1 = (None, w')"
        using run d False g by (auto simp: applyOne_shipped)
      moreover have "objs w1 ?k = Some (OCollectorConfig found)" "metaKey KCollectorConfig (cc_meta found) = ?k"
        using Get_found [OF api decodes_kinds(2) g [unfolded Inr]] view by simp_all
      ultimately show ?thesis using updateIntegration_ok [OF api setref live1] d view by (auto simp: seeded_def Let_def)
    qed
  qed
qed

lemma applyEntries_error:
  "run_state (applyEntries c lib scheme owner ns fsys dir es (Some e)) w = (r, w') \<Longrightarrow> r = Some e"
  by (induction es arbitrary: w) (auto split: if_splits prod.splits option.splits)

lemma seeded_frame:
  "seeded objs w w' scheme owner ns desired \<Longrightarrow> objs v (mkKey KCollectorConfig ns (Name (cc_meta desired))) = objs w (mkKey KCollectorConfig ns (Name (cc_meta desired)))
     \<Longrightarrow> objs v' (mkKey KCollectorConfig ns (Name (cc_meta desired))) = objs w' (mkKey KCollectorConfig ns (Name (cc_meta desired)))
     \<Longrightarrow> seeded objs v v' scheme owner ns desired"
  by (simp add: seeded_def Let_def)

lemma touches_applyEntries:
  assumes api: "kube_api c objs" and setref: "setref_contract lib"
  shows "(\<And>f. (f, False) \<in> set es \<Longrightarrow> seedKey lib fsys dir ns f \<subseteq> K) \<Longrightarrow>
    touches objs K (applyEntries c lib scheme owner ns fsys dir es firstErr)"
proof (induction es arbitrary: firstErr)
  case Nil
  then show ?case by (simp add: touches_ret)
next
  case (Cons e es)
  obtain f isDir where e: "e = (f, isDir)" by fastforce
  have rest: "touches objs K (applyEntries c lib scheme owner ns fsys dir es x)" for x
    using Cons.IH Cons.prems by auto
  show ?case
  proof (cases isDir)
    case True
    then show ?thesis using rest e by simp
  next
    case False
    then have "seedKey lib fsys dir ns f \<subseteq> K" using Cons.prems e by auto
    then have "touches objs K (applyOneIntegrationCollectorConfig c lib scheme owner ns fsys dir f)"
      using touches_mono [OF touches_applyOne [OF api setref]] by blast
    then show ?thesis using rest e False by (simp add: touches_bind)
  qed
qed

text \<open>The files of a directory ship configs with different names.\<close>

fun distinct_configs :: "golib \<Rightarrow> filesystem \<Rightarrow> string \<Rightarrow> (string \<times> bool) list \<Rightarrow> bool" where
  "distinct_configs lib fsys dir [] = True"
| "distinct_configs lib fsys dir ((f, isDir) # es) =
     ((isDir \<or> list_all (\<lambda>(g, isDir'). isDir' \<or> (case (shipped lib fsys dir f, shipped lib fsys dir g) of
          (Some d, Some d') \<Rightarrow> Name (cc_meta d) \<noteq> Name (cc_meta d') | _ \<Rightarrow> True)) es)
      \<and> distinct_configs lib fsys dir es)"

lemma applyEntries_ok:
  assumes api: "kube_api c objs" and setref: "setref_contract lib"
  shows "live objs w \<Longrightarrow> distinct_configs lib fsys dir es \<Longrightarrow>
    run_state (applyEntries c lib scheme owner ns fsys dir es None) w = (None, w') \<Longrightarrow>
    (f, False) \<in> set es \<Longrightarrow> \<exists>desired. shipped lib fsys dir f = Some desired
      \<and> (Name (cc_meta desired) \<noteq> '''' \<longrightarrow> seeded objs w w' scheme owner ns desired)"
proof (induction es arbitrary: w)
  case Nil
  then show ?case by simp
next
  case (Cons e es)
  obtain g isDir where e: "e = (g, isDir)" by fastforce
  show ?case
  proof (cases isDir)
    case True
    then show ?thesis using Cons e by auto
  next
    case False
    obtain r w1 where one: "run_state (applyOneIntegrationCollectorConfig c lib scheme owner ns fsys dir g) w = (r, w1)"
      by fastforce
    have r: "r = None" and rest: "run_state (applyEntries c lib scheme owner ns fsys dir es None) w1 = (None, w')"
      using Cons.prems(3) e False one
      by (auto split: option.splits dest: applyEntries_error)
    note ok = applyOne_ok [OF api setref Cons.prems(1) one [unfolded r]]
    obtain d where d: "shipped lib fsys dir g = Some d"
      "Name (cc_meta d) \<noteq> '''' \<longrightarrow> seeded objs w w1 scheme owner ns d" using ok by blast
    let ?k = "\<lambda>c. mkKey KCollectorConfig ns (Name (cc_meta c))"
    have apart: "?k c \<noteq> ?k d" if "(h, False) \<in> set es" "shipped lib fsys dir h = Some c" for h c
      using Cons.prems(2) that d(1) e \<open>\<not> isDir\<close> by (fastforce simp: list_all_iff mkKey_def)
    show ?thesis
    proof (cases "f = g \<and> (f, False) \<notin> set es")
      case False
      then have "(f, False) \<in> set es" using Cons.prems(4) e by auto
      moreover have "live objs w1" "distinct_configs lib fsys dir es" using ok Cons.prems(2) e by auto
      ultimately obtain c where c: "shipped lib fsys dir f = Some c"
        "Name (cc_meta c) \<noteq> '''' \<longrightarrow> seeded objs w1 w' scheme owner ns c" using Cons.IH [of w1] rest by blast
      have "same_except objs w w1 (seedKey lib fsys dir ns g)"
        using touches_applyOne [OF api setref] one unfolding touches_def by (metis snd_conv)
      then have "objs w (?k c) = objs w1 (?k c)"
        using apart [OF \<open>(f, False) \<in> set es\<close> c(1)] d(1) by (simp add: same_except_def seedKey_def)
      then show ?thesis using c seeded_frame [of objs w1 w' scheme owner ns c w w'] by auto
    next
      case True
      have "seedKey lib fsys dir ns h \<subseteq> - {?k d}" if "(h, False) \<in> set es" for h
        using apart [OF that] by (auto simp: seedKey_def split: option.splits)
      then have "touches objs (- {?k d}) (applyEntries c lib scheme owner ns fsys dir es None)"
        by (rule touches_applyEntries [OF api setref])
      then have "same_except objs w1 w' (- {?k d})" using rest unfolding touches_def by (metis snd_conv)
      then have "objs w' (?k d) = objs w1 (?k d)" by (simp add: same_except_def)
      then show ?thesis using d True seeded_frame [of objs w w1 scheme owner ns d w w'] by auto
    qed
  qed
qed

section \<open>The properties of the seeder\<close>

text \<open>
  C9. After a successful application of the shipped directory, every file of it was read and parsed,
  and the config it ships (when it has a name) is stored in the owner's namespace: untouched under a
  manual override of the user, or with the shipped spec, the owner, the integration label and every shipped label
  with its value. But a config that was found matching otherwise is left as it was although a shipped label
  with an empty value is missing (the backup label has one): such a label is not restored, as the
  comment in the source says it is.
\<close>

theorem seeding_complete:
  assumes api: "kube_api c objs" and setref: "setref_contract lib" and live: "live objs w"
    and dir: "fs_ReadDir fsys dir = Inr es" and dist: "distinct_configs lib fsys dir (sort_key fst es)"
    and run: "run_state (applyIntegrationCollectorConfigsFrom c lib scheme owner fsys dir) w = (None, w')"
    and ships: "(f, False) \<in> set es"
  shows "\<exists>desired. shipped lib fsys dir f = Some desired
    \<and> (Name (cc_meta desired) \<noteq> '''' \<longrightarrow> seeded objs w w' scheme owner (Namespace (s_meta owner)) desired)"
  using applyEntries_ok [OF api setref live dist, of scheme owner "Namespace (s_meta owner)" w' f] run dir ships
  by (simp add: applyIntegrationCollectorConfigsFrom_def)

definition sampleFS :: filesystem where
  "sampleFS = \<lparr>fs_ReadDir = (\<lambda>d. Inr [(''b.yaml'', False), (''sub'', True), (''a.yaml'', False)]),
     fs_ReadFile = (\<lambda>p. Inr p)\<rparr>"

definition emptyWorld :: mem where
  "emptyWorld = mem_world []"

lemma emptyWorld_live: "live mem_view emptyWorld"
  unfolding emptyWorld_def by (rule mem_world_live) simp

theorem seeding_complete_witness:
  "\<exists>desired. shipped mem_lib sampleFS ''d'' ''a.yaml'' = Some desired
    \<and> (Name (cc_meta desired) \<noteq> '''' \<longrightarrow> seeded mem_view emptyWorld
         (snd (run_state (applyIntegrationCollectorConfigsFrom mem_client mem_lib True sampleSearch sampleFS ''d'') emptyWorld))
         True sampleSearch (Namespace (s_meta sampleSearch)) desired)"
proof (rule seeding_complete [OF mem_kube_api mem_lib_setref emptyWorld_live])
  show "fs_ReadDir sampleFS ''d'' = Inr [(''b.yaml'', False), (''sub'', True), (''a.yaml'', False)]"
    by (simp add: sampleFS_def)
  show "distinct_configs mem_lib sampleFS ''d'' (sort_key fst [(''b.yaml'', False), (''sub'', True), (''a.yaml'', False)])"
    by code_simp
  have "fst (run_state (applyIntegrationCollectorConfigsFrom mem_client mem_lib True sampleSearch sampleFS ''d'') emptyWorld) = None"
    by code_simp
  then show "run_state (applyIntegrationCollectorConfigsFrom mem_client mem_lib True sampleSearch sampleFS ''d'') emptyWorld
    = (None, snd (run_state (applyIntegrationCollectorConfigsFrom mem_client mem_lib True sampleSearch sampleFS ''d'') emptyWorld))"
    by (simp only: prod_eq_iff fst_conv snd_conv)
qed simp

text \<open>
  C27. A stored config with the manual override is never touched: applying its file changes no object
  at all, on every branch.
\<close>

theorem manual_override_respected:
  assumes api: "kube_api c objs" and ships: "shipped lib fsys dir f = Some desired"
    and stored: "objs w (mkKey KCollectorConfig ns (Name (cc_meta desired))) = Some (OCollectorConfig found)"
    and manual: "lookup (Annotations (cc_meta found)) AnnotationManualOverride \<noteq> None"
    and run: "run_state (applyOneIntegrationCollectorConfig c lib scheme owner ns fsys dir f) w = (r, w')"
  shows "objs w' = objs w"
proof (cases "Name (cc_meta desired) = ''''")
  case True
  then show ?thesis using run ships by (simp add: applyOne_shipped)
next
  case False
  let ?k = "mkKey KCollectorConfig ns (Name (cc_meta desired))"
  obtain res w1 where g: "run_state (Get c asCollectorConfig ?k) w = (res, w1)" by fastforce
  have "w' = w1"
  proof (cases res)
    case (Inl err)
    then have "\<not> IsNotFound err" using Get_missing [OF api g [unfolded Inl]] stored by auto
    then show ?thesis using run ships False g Inl by (simp add: applyOne_shipped)
  next
    case (Inr x)
    then have "x = found" using Get_found [OF api decodes_kinds(2) g [unfolded Inr]] stored by simp
    then show ?thesis using run ships False g Inr manual by (simp add: applyOne_shipped updateIntegration_def)
  qed
  then show ?thesis using Get_view [OF api g] by simp
qed

definition overridden :: CollectorConfig where
  "overridden = \<lparr>cc_meta = (newMeta ''d/a.yaml'' ''ocm'')\<lparr>Annotations := mapOf [(AnnotationManualOverride, '''')]\<rparr>,
     cc_Spec = \<lparr>ccs_CollectNamespaces = None, CollectionRules = [sampleExclude]\<rparr>, cc_Conditions = []\<rparr>"

theorem manual_override_respected_witness:
  "mem_view (snd (run_state (applyOneIntegrationCollectorConfig mem_client mem_lib True sampleSearch ''ocm''
     sampleFS ''d'' ''a.yaml'') (mem_world [OCollectorConfig overridden]))) = mem_view (mem_world [OCollectorConfig overridden])"
proof (rule manual_override_respected [OF mem_kube_api])
  show "shipped mem_lib sampleFS ''d'' ''a.yaml'' = Some \<lparr>cc_meta = newMeta ''d/a.yaml'' '''',
      cc_Spec = \<lparr>ccs_CollectNamespaces = None, CollectionRules = []\<rparr>, cc_Conditions = []\<rparr>"
    by (simp add: shipped_def sampleFS_def mem_lib_def)
  show "mem_view (mem_world [OCollectorConfig overridden]) (mkKey KCollectorConfig ''ocm'' (Name (cc_meta
      \<lparr>cc_meta = newMeta ''d/a.yaml'' '''', cc_Spec = \<lparr>ccs_CollectNamespaces = None, CollectionRules = []\<rparr>,
       cc_Conditions = []\<rparr>))) = Some (OCollectorConfig overridden)"
    by (simp add: mem_view_def mem_world_def overridden_def)
  show "lookup (Annotations (cc_meta overridden)) AnnotationManualOverride \<noteq> None"
    by (simp add: overridden_def)
qed (rule prod.collapse [symmetric])

text \<open>
  A shipped label with an empty value (as the backup label has) is not restored when it was
  removed from the stored config: as long as the other labels, the owner and the spec match, the
  seeder makes no update.
\<close>

theorem empty_label_not_restored:
  assumes "lookup (Annotations (cc_meta found)) AnnotationManualOverride = None"
    and "Labels (cc_meta found) \<noteq> None"
    and "\<forall>k v. lookup (Labels (cc_meta desired)) k = Some v \<longrightarrow> v \<noteq> '''' \<longrightarrow> lookup (Labels (cc_meta found)) k = Some v"
    and "\<forall>k. lookup (Labels (cc_meta desired)) k = Some '''' \<longrightarrow> lookup (Labels (cc_meta found)) k = None"
    and "lookup (Labels (cc_meta found)) IntegrationTeamLabel = Some IntegrationTeamLabelValue"
    and "hasControllerOwnerRef (cc_meta found) owner" and "cc_Spec found = cc_Spec desired"
  shows "run_state (updateIntegration c lib scheme owner found desired) w = (None, w)"
proof -
  have "index (Labels (cc_meta found)) k = v" if "fmlookup (entries (Labels (cc_meta desired))) k = Some v" for k v
    using assms(3,4) that by (cases "v = ''''") (simp_all add: index_def lookup_def)
  then have "hasDesiredLabels found desired"
    using assms(2,5) by (auto simp: hasDesiredLabels_def fmpred_iff index_def)
  then show ?thesis using assms by (simp add: updateIntegration_def)
qed

theorem empty_label_not_restored_witness:
  "run_state (updateIntegration mem_client mem_lib True (sampleSearch\<lparr>s_meta := newMeta '''' ''ocm''\<rparr>) teamConfig
     (teamConfig\<lparr>cc_meta := (cc_meta teamConfig)\<lparr>Labels := mapOf [(IntegrationTeamLabel, IntegrationTeamLabelValue),
        (backupLabel, '''')]\<rparr>\<rparr>)) emptyWorld = (None, emptyWorld)"
  by (rule empty_label_not_restored)
    (simp_all add: teamConfig_def mapOf_def hasControllerOwnerRef_def IntegrationTeamLabel_def
      IntegrationTeamLabelValue_def backupLabel_def lookup_def entries_def fmlookup_of_list)

text \<open>
  All files of a directory attempted one after the other, whatever their errors: the specification
  of the loop.
\<close>

fun attemptAll ::
  "(string \<Rightarrow> ('w, go_error option) state) \<Rightarrow> (string \<times> bool) list \<Rightarrow> 'w \<Rightarrow> go_error option list \<times> 'w" where
  "attemptAll one [] w = ([], w)"
| "attemptAll one ((f, isDir) # es) w =
     (if isDir then attemptAll one es w
      else let (e, w1) = run_state (one f) w; (errs, w2) = attemptAll one es w1 in (e # errs, w2))"

fun firstError :: "go_error option list \<Rightarrow> go_error option" where
  "firstError [] = None"
| "firstError (None # errs) = firstError errs"
| "firstError (Some e # errs) = Some e"

lemma applyEntries_attempts:
  "run_state (applyEntries c lib scheme owner ns fsys dir es firstErr) w =
     (let (errs, w') = attemptAll (applyOneIntegrationCollectorConfig c lib scheme owner ns fsys dir) es w
      in (firstError (firstErr # errs), w'))"
proof (induction es arbitrary: w firstErr)
  case Nil
  then show ?case by (cases firstErr) auto
next
  case (Cons e es)
  then show ?case
    by (cases e; cases firstErr) (auto simp: Let_def split: prod.splits option.splits)
qed

text \<open>
  A file that fails does not keep the others from being applied: every file of the directory is
  attempted in the order of the names, and the error returned is the first one met.
\<close>

theorem one_failure_does_not_stop:
  "run_state (applyIntegrationCollectorConfigsFrom c lib scheme owner fsys dir) w =
     (case fs_ReadDir fsys dir of Inl err \<Rightarrow> (Some err, w)
      | Inr es \<Rightarrow> let (errs, w') = attemptAll (applyOneIntegrationCollectorConfig c lib scheme owner
            (Namespace (s_meta owner)) fsys dir) (sort_key fst es) w
          in (firstError errs, w'))"
  by (auto simp: applyIntegrationCollectorConfigsFrom_def applyEntries_attempts Let_def
      split: sum.splits prod.splits)

lemma findSearch_ok:
  "findSearch items m = Inr (Some x) \<Longrightarrow> m = Some x \<or> x \<in> set items \<and> Name (s_meta x) = OperatorName"
  by (induction items arbitrary: m) (auto split: if_splits option.splits)

lemma resolveSearch_found:
  assumes api: "kube_api (sd_Client s) objs" and ns: "sd_Namespace s = ''''"
    and run: "run_state (resolveSearch s) w = (Inr (x, paused), w')"
  shows "objs w (metaKey KSearch (s_meta x)) = Some (OSearch x) \<and> Name (s_meta x) = OperatorName
    \<and> paused = IsPaused (Annotations (s_meta x))"
proof -
  obtain items where l: "run_state (ListOf (sd_Client s) asSearch KSearch None []) w = (Inr items, w')"
    and f: "findSearch items None = Inr (Some x)" and p: "paused = IsPaused (Annotations (s_meta x))"
    using run ns by (auto simp: resolveSearch_def split: prod.splits sum.splits option.splits)
  then show ?thesis
    using findSearch_ok [OF f] ListOf_ok [OF api decodes_kinds(1) l] by auto
qed

lemma touches_resolveSearch:
  "kube_api (sd_Client s) objs \<Longrightarrow> touches objs K (resolveSearch s)"
  unfolding resolveSearch_def by (intro world_frame)

text \<open>
  C28. While the Search resource is paused the seeder writes nothing and keeps polling: if every
  stored Search resource with the operator's name is paused, a poll changes no object and is not the
  last one.
\<close>

theorem paused_seeder_writes_nothing:
  assumes api: "kube_api (sd_Client s) objs" and ns: "sd_Namespace s = ''''"
    and paused: "\<And>x. objs w (metaKey KSearch (s_meta x)) = Some (OSearch x) \<Longrightarrow> Name (s_meta x) = OperatorName
      \<Longrightarrow> IsPaused (Annotations (s_meta x))"
    and run: "run_state (seedOnce embedded lib s) w = (finished, w')"
  shows "\<not> finished \<and> objs w' = objs w"
proof -
  obtain res w1 where r: "run_state (resolveSearch s) w = (res, w1)" by fastforce
  have view: "objs w1 = objs w"
    using touchesD [OF touches_resolveSearch [OF api, of "{}"] r] by auto
  have "\<not> finished \<and> w' = w1"
  proof (cases res)
    case (Inl e)
    then show ?thesis using run r by (simp add: seedOnce_def)
  next
    case (Inr xp)
    obtain x p where xp: "xp = (x, p)" by fastforce
    then have p using resolveSearch_found [OF api ns r [unfolded Inr xp]] paused by blast
    then show ?thesis using run r Inr xp by (simp add: seedOnce_def)
  qed
  then show ?thesis using view by simp
qed

definition memSeeder :: "mem IntegrationCollectorConfigSeeder" where
  "memSeeder = \<lparr>sd_Client = mem_client, sd_Scheme = True, sd_Namespace = ''''\<rparr>"

definition pausedSearch :: Search where
  "pausedSearch = sampleSearch\<lparr>s_meta := (s_meta sampleSearch)\<lparr>Annotations := mapOf [(AnnotationSearchPause, ''True'')]\<rparr>\<rparr>"

lemma pausedSearch_paused: "IsPaused (Annotations (s_meta pausedSearch))"
  by code_simp

theorem paused_seeder_writes_nothing_witness:
  "\<not> fst (run_state (seedOnce sampleFS mem_lib memSeeder) (mem_world [OSearch pausedSearch]))
   \<and> mem_view (snd (run_state (seedOnce sampleFS mem_lib memSeeder) (mem_world [OSearch pausedSearch])))
     = mem_view (mem_world [OSearch pausedSearch])"
proof (rule paused_seeder_writes_nothing [where s = memSeeder])
  show "kube_api (sd_Client memSeeder) mem_view" using mem_kube_api by (simp add: memSeeder_def)
  show "IsPaused (Annotations (s_meta x))"
    if "mem_view (mem_world [OSearch pausedSearch]) (metaKey KSearch (s_meta x)) = Some (OSearch x)" for x
    using that pausedSearch_paused by (auto simp: mem_view_def mem_world_def split: if_splits)
qed (simp_all add: memSeeder_def prod_eq_iff)

text \<open>The world after a number of polls, and whether the next one finishes.\<close>

fun pollWorld :: "('w, bool) state \<Rightarrow> nat \<Rightarrow> 'w \<Rightarrow> 'w" where
  "pollWorld poll 0 w = w"
| "pollWorld poll (Suc n) w = pollWorld poll n (snd (run_state poll w))"

lemma Start_fails:
  "(\<forall>i < n. \<not> fst (run_state (seedOnce embedded lib s) (pollWorld (seedOnce embedded lib s) i w))) \<Longrightarrow>
     run_state (Start embedded lib s (n + m)) w
     = run_state (Start embedded lib s m) (pollWorld (seedOnce embedded lib s) n w)"
proof (induction n arbitrary: w)
  case 0
  then show ?case by simp
next
  case (Suc n)
  have "\<not> fst (run_state (seedOnce embedded lib s) w)" using Suc.prems by force
  moreover have "\<forall>i < n. \<not> fst (run_state (seedOnce embedded lib s)
      (pollWorld (seedOnce embedded lib s) i (snd (run_state (seedOnce embedded lib s) w))))"
    using Suc.prems by force
  ultimately show ?case using Suc.IH by (auto split: prod.splits)
qed

text \<open>
  The seeder returns without an error after its first successful poll and polls no more: if the
  polls before the \<open>n\<close>-th fail and the \<open>n\<close>-th succeeds before the context ends, the run ends in the
  world that poll left.
\<close>

theorem Start_stops_at_success:
  assumes "n < polls"
    and "\<forall>i < n. \<not> fst (run_state (seedOnce embedded lib s) (pollWorld (seedOnce embedded lib s) i w))"
    and "fst (run_state (seedOnce embedded lib s) (pollWorld (seedOnce embedded lib s) n w))"
  shows "run_state (Start embedded lib s polls) w
    = (None, snd (run_state (seedOnce embedded lib s) (pollWorld (seedOnce embedded lib s) n w)))"
proof -
  obtain m where "polls = n + Suc m" using assms(1) less_imp_Suc_add by fastforce
  then show ?thesis using Start_fails [OF assms(2), of "Suc m"] assms(3) by (auto split: prod.splits)
qed

theorem Start_stops_at_success_witness:
  "run_state (Start sampleFS mem_lib memSeeder 3) (mem_world [OSearch sampleSearch])
    = (None, snd (run_state (seedOnce sampleFS mem_lib memSeeder) (mem_world [OSearch sampleSearch])))"
proof -
  have "fst (run_state (seedOnce sampleFS mem_lib memSeeder) (mem_world [OSearch sampleSearch]))"
    by code_simp
  then show ?thesis
    using Start_stops_at_success [of 0 3 sampleFS mem_lib memSeeder "mem_world [OSearch sampleSearch]"] by simp
qed

end
