(* ===== verification/Postgres_Scripts.thy ===== *)
theory Postgres_Scripts
  imports Go_Prelude
begin

text \<open>
  The scripts the operator puts into the \<open>search-postgres\<close> config map, as
  \<open>controllers/create_pgconfigmap.go\<close> spells them: the check before the start, the statements
  that create the tables and the indexes, the statements that provision the read-only roles, and the
  SQL of the triggers. They are lists of lines joined by newlines.
\<close>

definition backslash :: string where
  "backslash = [CHR 0x5C]"

definition preStartScript :: string where
  "preStartScript = Join [
     ''#!/bin/bash'',
     ''set -euo pipefail'',
     ''DATA_DIR='' @ dquote @ ''/var/lib/pgsql/data'' @ dquote,
     ''echo '' @ dquote @ ''[INFO] Running before-start.sh pre-check...'' @ dquote,
     ''# Check if PG_VERSION exists'',
     ''PG_VERSION_FILE='' @ dquote @ ''$DATA_DIR/userdata/PG_VERSION'' @ dquote,
     ''if ['' @ ''[ -f '' @ dquote @ ''$PG_VERSION_FILE'' @ dquote @ '' ]'' @ '']; then'',
     ''   CURRENT_VERSION=$(cat '' @ dquote @ ''$PG_VERSION_FILE'' @ dquote @ '')'',
     ''   echo '' @ dquote @ ''[INFO] Detected existing PostgreSQL version: $CURRENT_VERSION'' @ dquote,
     ''else'',
     ''   echo '' @ dquote @ ''[INFO] No existing PG_VERSION file found. Assuming fresh install.'' @ dquote,
     ''   CURRENT_VERSION='' @ dquote @ dquote,
     ''fi'',
     ''# Determine version of Postgres in this container'',
     ''INSTALL_VERSION=$(postgres -V | awk '' @ squote @ ''{print $3}'' @ squote @ '' | cut -d. -f1)'',
     ''echo '' @ dquote @ ''[INFO] Container PostgreSQL version: $INSTALL_VERSION'' @ dquote,
     ''# Only clear data if versions mismatch'',
     ''if ['' @ ''[ '' @ dquote @ ''$CURRENT_VERSION'' @ dquote @ '' != '' @ dquote @ dquote @ '' && '' @ dquote @ ''$CURRENT_VERSION'' @ dquote @ '' != '' @ dquote @ ''$INSTALL_VERSION'' @ dquote @ '' ]'' @ '']; then'',
     ''   echo '' @ dquote @ ''[INFO] PG_VERSION mismatch ($CURRENT_VERSION vs $INSTALL_VERSION). Clearing data directory...'' @ dquote,
     ''   # Remove all files including hidden ones'',
     ''   # It'' @ squote @ ''s okay to delete this data because it will repopulate with fresh data from the collectors.'',
     ''   rm -rf '' @ dquote @ ''$DATA_DIR'' @ dquote @ ''/* '' @ dquote @ ''$DATA_DIR'' @ dquote @ ''/.[!.]*'',
     ''else'',
     ''   echo '' @ dquote @ ''[INFO] PG_VERSION is up-to-date or no previous data. Keeping existing data.'' @ dquote,
     ''fi'',
     ''echo '' @ dquote @ ''[INFO] Pre-check complete. Handing off to Postgres...'' @ dquote,
     ''''] newline"

definition createTablesScript :: string where
  "createTablesScript = Join [
     ''psql -d search -U searchuser -c '' @ dquote @ ''CREATE SCHEMA IF NOT EXISTS search'' @ dquote,
     ''psql -d search -U searchuser -c '' @ dquote @ ''CREATE TABLE IF NOT EXISTS search.resources (uid TEXT PRIMARY KEY, cluster TEXT, data JSONB)'' @ dquote,
     ''psql -d search -U searchuser -c '' @ dquote @ ''CREATE TABLE IF NOT EXISTS search.edges (sourceId TEXT, sourceKind TEXT,destId TEXT,destKind TEXT,edgeType TEXT,cluster TEXT, PRIMARY KEY(sourceId, destId, edgeType))'' @ dquote,
     ''psql -d search -U searchuser -c '' @ dquote @ ''CREATE INDEX IF NOT EXISTS data_kind_idx ON search.resources USING GIN ((data -> '' @ squote @ ''kind'' @ squote @ ''))'' @ dquote,
     ''psql -d search -U searchuser -c '' @ dquote @ ''CREATE INDEX IF NOT EXISTS data_namespace_idx ON search.resources USING GIN ((data -> '' @ squote @ ''namespace'' @ squote @ ''))'' @ dquote,
     ''psql -d search -U searchuser -c '' @ dquote @ ''CREATE INDEX IF NOT EXISTS data_name_idx ON search.resources USING GIN ((data ->  '' @ squote @ ''name'' @ squote @ ''))'' @ dquote,
     ''psql -d search -U searchuser -c '' @ dquote @ ''CREATE INDEX IF NOT EXISTS data_cluster_idx ON search.resources USING btree (cluster)'' @ dquote,
     ''psql -d search -U searchuser -c '' @ dquote @ ''CREATE INDEX IF NOT EXISTS data_composite_idx ON search.resources USING GIN ((data -> '' @ squote @ ''_hubClusterResource'' @ squote @ ''::text), (data -> '' @ squote @ ''namespace'' @ squote @ ''::text), (data -> '' @ squote @ ''apigroup'' @ squote @ ''::text), (data -> '' @ squote @ ''kind_plural'' @ squote @ ''::text))'' @ dquote,
     ''psql -d search -U searchuser -c '' @ dquote @ ''CREATE INDEX IF NOT EXISTS data_hubCluster_idx ON search.resources USING GIN ((data ->  '' @ squote @ ''_hubClusterResource'' @ squote @ '')) WHERE data ? '' @ squote @ ''_hubClusterResource'' @ squote @ dquote,
     ''psql -d search -U searchuser -c '' @ dquote @ ''CREATE INDEX IF NOT EXISTS edges_sourceid_idx ON search.edges USING btree (sourceid)'' @ dquote,
     ''psql -d search -U searchuser -c '' @ dquote @ ''CREATE INDEX IF NOT EXISTS edges_destid_idx ON search.edges USING btree (destid)'' @ dquote,
     ''psql -d search -U searchuser -c '' @ dquote @ ''CREATE INDEX IF NOT EXISTS edges_cluster_idx ON search.edges USING btree (cluster)'' @ dquote,
     ''psql -d search -U searchuser -f /opt/app-root/src/postgresql-start/postgresql.sql'',
     ''''] newline"

definition provisionRolesScript :: string where
  "provisionRolesScript = Join [
     '''',
     ''psql -d search -U postgres '' @ backslash,
     ''  -v '' @ dquote @ ''READONLY_API_PASSWORD=$READONLY_API_PASSWORD'' @ dquote @ '' '' @ backslash,
     ''  -v '' @ dquote @ ''READONLY_MCP_PASSWORD=$READONLY_MCP_PASSWORD'' @ dquote @ '' << '' @ squote @ ''EOSQL'' @ squote,
     ''SELECT NOT EXISTS (SELECT FROM pg_roles WHERE rolname = '' @ squote @ ''search_api_ro'' @ squote @ '') AS create_api_role '' @ backslash @ ''gset'',
     backslash @ ''if :create_api_role'',
     ''  CREATE ROLE search_api_ro WITH LOGIN PASSWORD :'' @ squote @ ''READONLY_API_PASSWORD'' @ squote @ '';'',
     backslash @ ''else'',
     ''  ALTER ROLE search_api_ro WITH PASSWORD :'' @ squote @ ''READONLY_API_PASSWORD'' @ squote @ '';'',
     backslash @ ''endif'',
     ''SELECT NOT EXISTS (SELECT FROM pg_roles WHERE rolname = '' @ squote @ ''search_mcp_ro'' @ squote @ '') AS create_mcp_role '' @ backslash @ ''gset'',
     backslash @ ''if :create_mcp_role'',
     ''  CREATE ROLE search_mcp_ro WITH LOGIN PASSWORD :'' @ squote @ ''READONLY_MCP_PASSWORD'' @ squote @ '';'',
     backslash @ ''else'',
     ''  ALTER ROLE search_mcp_ro WITH PASSWORD :'' @ squote @ ''READONLY_MCP_PASSWORD'' @ squote @ '';'',
     backslash @ ''endif'',
     ''GRANT USAGE ON SCHEMA search TO search_api_ro, search_mcp_ro;'',
     ''GRANT SELECT ON search.resources TO search_api_ro, search_mcp_ro;'',
     ''DO $$'',
     ''BEGIN'',
     ''  IF EXISTS ('',
     ''    SELECT FROM information_schema.tables'',
     ''    WHERE table_schema = '' @ squote @ ''search'' @ squote @ '' AND table_name = '' @ squote @ ''edges'' @ squote,
     ''  ) THEN'',
     ''    EXECUTE '' @ squote @ ''GRANT SELECT ON search.edges TO search_api_ro, search_mcp_ro'' @ squote @ '';'',
     ''  END IF;'',
     ''END $$;'',
     ''ALTER DEFAULT PRIVILEGES IN SCHEMA search GRANT SELECT ON TABLES TO search_api_ro, search_mcp_ro;'',
     ''EOSQL'',
     ''''] newline"

definition postgresqlSql :: string where
  "postgresqlSql = Join [
     ''CREATE OR REPLACE FUNCTION search.intercluster_edges()'',
     ''  RETURNS TRIGGER AS'',
     ''$BODY$'',
     ''BEGIN'',
     ''IF (TG_OP = '' @ squote @ ''UPDATE'' @ squote @ '')'',
     ''THEN'',
     ''  IF coalesce(NEW.data->>'' @ squote @ ''_hostingSubscription'' @ squote @ '','' @ squote @ squote @ '') <> coalesce(OLD.data->>'' @ squote @ ''_hostingSubscription'' @ squote @ '','' @ squote @ squote @ '')'',
     ''  THEN'',
     ''    DELETE FROM search.edges WHERE sourceid=OLD.uid OR destid=OLD.uid AND edgetype='' @ squote @ ''interCluster'' @ squote @ '';'',
     ''  ELSE'',
     ''    RETURN NEW;'',
     ''  END IF;'',
     ''END IF;'',
     ''IF (TG_OP = '' @ squote @ ''INSERT'' @ squote @ '') OR (TG_OP = '' @ squote @ ''UPDATE'' @ squote @ '')'',
     ''THEN'',
     ''  IF NEW.data->>'' @ squote @ ''_hostingSubscription'' @ squote @ '' is not null'',
     ''  THEN'',
     ''    INSERT INTO search.edges(sourceid ,sourcekind,destid ,destkind ,edgetype ,cluster)'',
     ''    SELECT NEW.uid AS sourceid, NEW.data ->> '' @ squote @ ''kind'' @ squote @ ''::text AS sourcekind, res.uid AS destid,'',
     ''      res.data ->> '' @ squote @ ''kind'' @ squote @ ''::text AS destkind,'' @ squote @ ''interCluster'' @ squote @ ''::text AS edgetype, NEW.cluster'',
     ''    FROM search.resources res'',
     ''    WHERE data->>'' @ squote @ ''kind'' @ squote @ '' = '' @ squote @ ''Subscription'' @ squote @ '' AND NEW.data->>'' @ squote @ ''_hostingSubscription'' @ squote @ '' is not null'',
     ''    AND split_part(NEW.data ->> '' @ squote @ ''_hostingSubscription'' @ squote @ ''::text, '' @ squote @ ''/'' @ squote @ ''::text, 1) = res.data->>'' @ squote @ ''namespace'' @ squote,
     ''    AND split_part(NEW.data ->> '' @ squote @ ''_hostingSubscription'' @ squote @ ''::text, '' @ squote @ ''/'' @ squote @ ''::text, 2) = res.data->>'' @ squote @ ''name'' @ squote,
     ''    AND res.uid <> NEW.uid AND res.cluster <> NEW.cluster AND res.data ->> '' @ squote @ ''_hostingSubscription'' @ squote @ '' IS NULL'',
     ''    ON CONFLICT (sourceid, destid, edgetype) DO NOTHING;'',
     ''  ELSEIF NEW.data->>'' @ squote @ ''_hostingSubscription'' @ squote @ '' is null'',
     ''  THEN'',
     ''    INSERT INTO search.edges(sourceid ,sourcekind,destid ,destkind ,edgetype ,cluster)'',
     ''    SELECT res.uid AS sourceid, res.data ->> '' @ squote @ ''kind'' @ squote @ ''::text AS sourcekind, NEW.uid AS destid,'',
     ''      NEW.data ->> '' @ squote @ ''kind'' @ squote @ ''::text AS destkind, '' @ squote @ ''interCluster'' @ squote @ ''::text AS edgetype, res.cluster'',
     ''    FROM search.resources res'',
     ''    WHERE res.data->>'' @ squote @ ''kind'' @ squote @ '' = '' @ squote @ ''Subscription'' @ squote,
     ''    AND split_part(res.data ->> '' @ squote @ ''_hostingSubscription'' @ squote @ ''::text, '' @ squote @ ''/'' @ squote @ ''::text, 1) = NEW.data->>'' @ squote @ ''namespace'' @ squote,
     ''    AND split_part(res.data ->> '' @ squote @ ''_hostingSubscription'' @ squote @ ''::text, '' @ squote @ ''/'' @ squote @ ''::text, 2) = NEW.data->>'' @ squote @ ''name'' @ squote,
     ''    AND res.uid <> NEW.uid AND res.cluster <> NEW.cluster'',
     ''    ON CONFLICT (sourceid, destid, edgetype) DO NOTHING;'',
     ''  END IF;'',
     ''  RETURN NEW;'',
     ''ELSEIF (TG_OP = '' @ squote @ ''DELETE'' @ squote @ '')'',
     ''THEN'',
     ''  DELETE FROM search.edges WHERE sourceid=OLD.uid OR destid=OLD.uid AND edgetype='' @ squote @ ''interCluster'' @ squote @ '';'',
     ''  RETURN OLD;'',
     ''END IF;'',
     ''END;'',
     ''$BODY$'',
     ''language plpgsql;'',
     ''DROP TRIGGER IF EXISTS resources_upsert on search.resources;'',
     ''CREATE TRIGGER resources_upsert AFTER INSERT OR UPDATE ON search.resources FOR EACH ROW WHEN (NEW.data->>'' @ squote @ ''kind'' @ squote @ '' = '' @ squote @ ''Subscription'' @ squote @ '') EXECUTE PROCEDURE search.intercluster_edges();'',
     ''DROP TRIGGER IF EXISTS resources_delete on search.resources;'',
     ''CREATE TRIGGER resources_delete AFTER DELETE ON search.resources FOR EACH ROW WHEN (OLD.data->>'' @ squote @ ''kind'' @ squote @ '' = '' @ squote @ ''Subscription'' @ squote @ '') EXECUTE PROCEDURE search.intercluster_edges();'',
     ''-- LISTEN/NOTIFY trigger for search-v2-api WebSocket subscription support.'',
     ''-- Provisioned here so search-v2-api can connect with a read-only role (search_api_ro)'',
     ''-- and does not require CREATE TRIGGER privilege on search.resources.'',
     ''DROP TRIGGER IF EXISTS search_resources_notify_trigger ON search.resources;'',
     ''DROP FUNCTION IF EXISTS search.notify_resources_change();'',
     ''CREATE OR REPLACE FUNCTION search.notify_resources_change()'',
     ''RETURNS trigger AS $$'',
     ''DECLARE'',
     ''    notification_payload json;'',
     ''    new_data_json json;'',
     ''    old_data_json json;'',
     ''    new_data_size integer;'',
     ''    old_data_size integer;'',
     ''BEGIN'',
     ''    -- NEW is NULL for DELETE and OLD is NULL for INSERT; OCTET_LENGTH(NULL) returns NULL,'',
     ''    -- which is safe here because each branch only uses the size variable valid for its operation.'',
     ''    new_data_size := OCTET_LENGTH(NEW.data::text);'',
     ''    old_data_size := OCTET_LENGTH(OLD.data::text);'',
     ''    IF TG_OP = '' @ squote @ ''DELETE'' @ squote @ '' THEN'',
     ''        new_data_json := NULL;'',
     ''        IF old_data_size < 7000 THEN'',
     ''            old_data_json := OLD.data;'',
     ''        ELSE'',
     ''            old_data_json := NULL;'',
     ''        END IF;'',
     ''    ELSEIF TG_OP = '' @ squote @ ''INSERT'' @ squote @ '' THEN'',
     ''        IF new_data_size < 7000 THEN'',
     ''            new_data_json := NEW.data;'',
     ''        ELSE'',
     ''            new_data_json := NULL;'',
     ''        END IF;'',
     ''        old_data_json := NULL;'',
     ''    ELSEIF TG_OP = '' @ squote @ ''UPDATE'' @ squote @ '' THEN'',
     ''        IF (new_data_size + old_data_size) < 7000 THEN'',
     ''            new_data_json := NEW.data;'',
     ''            old_data_json := OLD.data;'',
     ''        ELSEIF old_data_size < 7000 THEN'',
     ''            new_data_json := NULL;'',
     ''            old_data_json := OLD.data;'',
     ''        ELSE'',
     ''            new_data_json := NULL;'',
     ''            old_data_json := NULL;'',
     ''        END IF;'',
     ''    END IF;'',
     ''    notification_payload := json_build_object('',
     ''        '' @ squote @ ''operation'' @ squote @ '', TG_OP,'',
     ''        '' @ squote @ ''uid'' @ squote @ '', COALESCE(NEW.uid, OLD.uid),'',
     ''        '' @ squote @ ''cluster'' @ squote @ '', COALESCE(NEW.cluster, OLD.cluster),'',
     ''        '' @ squote @ ''newData'' @ squote @ '', new_data_json,'',
     ''        '' @ squote @ ''oldData'' @ squote @ '', old_data_json,'',
     ''        '' @ squote @ ''timestamp'' @ squote @ '', NOW()'',
     ''    );'',
     ''    IF OCTET_LENGTH(notification_payload::text) < 7500 THEN'',
     ''        PERFORM pg_notify('' @ squote @ ''search_resources_notify'' @ squote @ '', notification_payload::text);'',
     ''    END IF;'',
     ''    IF TG_OP = '' @ squote @ ''DELETE'' @ squote @ '' THEN'',
     ''        RETURN OLD;'',
     ''    ELSE'',
     ''        RETURN NEW;'',
     ''    END IF;'',
     ''END;'',
     ''$$ LANGUAGE plpgsql;'',
     ''CREATE TRIGGER search_resources_notify_trigger'',
     ''    AFTER INSERT OR UPDATE OR DELETE ON search.resources'',
     ''    FOR EACH ROW'',
     ''    EXECUTE FUNCTION search.notify_resources_change();'',
     ''''] newline"

end
