(* ===== verification/Postgres_Config.thy ===== *)
theory Postgres_Config
  imports Common Postgres_Scripts "HOL-Library.Word"
begin

text \<open>
  The TLS settings of the components (\<open>controllers/tlsconfig.go\<close>) and the config map of the
  database (\<open>controllers/create_pgconfigmap.go\<close>): its texts, the merge with the stored config map
  that keeps a user's customisations, and the hash that makes a changed configuration restart the
  database. The OpenShift TLS library and the cipher tables of \<open>crypto/tls\<close> are parameters
  (\<open>tlslib\<close>).

  The theorems say that the customisations survive any number of reconciliations and that the merge
  reaches a fixed point after two of them, that the start script holds a memory size and nothing
  else of the user's, and that the TLS settings are always ones the database accepts.
\<close>

section \<open>The TLS profile\<close>

record TLSProfileSpec =
  Ciphers :: "string list"
  MinTLSVersion :: string

text \<open>
  The Intermediate profile, the resolution of the JSON of a profile (marshal, unmarshal and
  \<open>GetTLSProfileSpec\<close>), the minimal version and cipher suite numbers of a resolved profile, and the
  tables of secure and insecure suites.
\<close>

record tlslib =
  tls_Intermediate :: TLSProfileSpec
  tls_Resolve :: "json \<Rightarrow> go_error + TLSProfileSpec"
  tls_FromProfile :: "TLSProfileSpec \<Rightarrow> 16 word \<times> 16 word list"
  tls_CipherSuites :: "(16 word \<times> string) list"
  tls_InsecureCipherSuites :: "(16 word \<times> string) list"

definition apiServerGVR :: gvr where
  "apiServerGVR = (''config.openshift.io'', ''v1'', ''apiservers'')"

definition newEnvVar :: "string \<Rightarrow> string \<Rightarrow> EnvVar" where
  "newEnvVar name value = \<lparr>ev_Name = name, ev_Value = value, ev_ValueFrom = None\<rparr>"

definition defaultProfileSpec :: "tlslib \<Rightarrow> TLSProfileSpec" where
  "defaultProfileSpec tls = tls_Intermediate tls"

definition profileOf :: "tlslib \<Rightarrow> json \<Rightarrow> go_error + TLSProfileSpec" where
  "profileOf tls obj = (case jget (jfields obj) ''spec'' of
     JObject spec \<Rightarrow> (let profileRaw = jget spec ''tlsSecurityProfile'' in
       if profileRaw = JNull then Inr (defaultProfileSpec tls) else tls_Resolve tls profileRaw)
   | _ \<Rightarrow> Inr (defaultProfileSpec tls))"

definition fetchTLSProfileSpec ::
  "'w dynamic \<Rightarrow> tlslib \<Rightarrow> ('w, go_error + TLSProfileSpec) state" where
  "fetchTLSProfileSpec dyn tls = do {
     res \<leftarrow> dyn_Get dyn apiServerGVR '''' ''cluster'';
     ret (case res of
         Inl err \<Rightarrow> Inl (Errorf ''failed to get APIServer resource'')
       | Inr obj \<Rightarrow> profileOf tls obj)
   }"

definition cipherIDsToIANA :: "tlslib \<Rightarrow> 16 word list \<Rightarrow> string list" where
  "cipherIDsToIANA tls ids =
     List.map_filter (map_of (rev (tls_CipherSuites tls @ tls_InsecureCipherSuites tls))) ids"

text \<open>\<open>strconv.FormatUint(n, 10)\<close>.\<close>

fun FormatUint :: "nat \<Rightarrow> string" where
  "FormatUint n = (if n < 10 then [char_of (48 + n)] else FormatUint (n div 10) @ [char_of (48 + n mod 10)])"

declare FormatUint.simps [simp del]

definition getTLSEnvVars :: "'w dynamic \<Rightarrow> tlslib \<Rightarrow> ('w, EnvVar list) state" where
  "getTLSEnvVars dyn tls = do {
     res \<leftarrow> fetchTLSProfileSpec dyn tls;
     ret (case res of
         Inl err \<Rightarrow> []
       | Inr profileSpec \<Rightarrow> (case tls_FromProfile tls profileSpec of (minVersion, suites) \<Rightarrow>
           [newEnvVar ''TLS_MIN_VERSION'' (FormatUint (unat minVersion)),
            newEnvVar ''TLS_CIPHERS'' (Join (cipherIDsToIANA tls suites) '','')]))
   }"

record PostgresTLSConfig =
  SSLMinProtocolVersion :: string
  SSLCiphers :: string

definition tlsVersionToPostgres :: "string \<Rightarrow> string" where
  "tlsVersionToPostgres v =
     (if v = ''VersionTLS10'' then ''TLSv1''
      else if v = ''VersionTLS11'' then ''TLSv1.1''
      else if v = ''VersionTLS12'' then ''TLSv1.2''
      else if v = ''VersionTLS13'' then ''TLSv1.3''
      else ''TLSv1.2'')"

definition opensslCiphersFromProfile :: "string list \<Rightarrow> string" where
  "opensslCiphersFromProfile ciphers =
     (let filtered = filter (\<lambda>c. \<not> HasPrefix c ''TLS_'') ciphers in
      if length filtered = 0 then ''HIGH:!aNULL'' else Join filtered '':'')"

definition getPostgresTLSConfig :: "'w dynamic \<Rightarrow> tlslib \<Rightarrow> ('w, PostgresTLSConfig) state" where
  "getPostgresTLSConfig dyn tls = do {
     res \<leftarrow> fetchTLSProfileSpec dyn tls;
     let profileSpec = (case res of Inl err \<Rightarrow> defaultProfileSpec tls | Inr p \<Rightarrow> p);
     ret \<lparr>SSLMinProtocolVersion = tlsVersionToPostgres (MinTLSVersion profileSpec),
          SSLCiphers = opensslCiphersFromProfile (Ciphers profileSpec)\<rparr>
   }"

section \<open>The config map of the database\<close>

definition postgresqlConf :: "PostgresTLSConfig \<Rightarrow> string" where
  "postgresqlConf pgTLS = Join [
     ''ssl = '' @ squote @ ''on'' @ squote,
     ''ssl_cert_file = '' @ squote @ ''/sslcert/tls.crt'' @ squote,
     ''ssl_key_file = '' @ squote @ ''/sslcert/tls.key'' @ squote,
     ''ssl_min_protocol_version = '' @ squote @ SSLMinProtocolVersion pgTLS @ squote,
     ''ssl_ciphers = '' @ squote @ SSLCiphers pgTLS @ squote,
     ''max_parallel_workers_per_gather = '' @ squote @ ''8'' @ squote,
     ''statement_timeout = '' @ squote @ ''60000'' @ squote,
     ''logging_collector = '' @ squote @ ''false'' @ squote] newline"

definition workMemQuery :: "string \<Rightarrow> string" where
  "workMemQuery work_mem = ''psql -d search -U searchuser -c '' @ dquote
     @ ''ALTER ROLE searchuser set work_mem='' @ squote @ work_mem @ squote @ dquote"

definition startScriptText :: "string \<Rightarrow> string" where
  "startScriptText work_mem = createTablesScript @ workMemQuery work_mem @ provisionRolesScript"

definition PostgresConfigmap ::
  "'w SearchReconciler \<Rightarrow> Search \<Rightarrow> PostgresTLSConfig \<Rightarrow> ('w, ConfigMap) state" where
  "PostgresConfigmap r inst pgTLS = do {
     work_mem \<leftarrow> GetDBConfigFromSearchCR r inst ''WORK_MEM'';
     let data = mapOf [
       (''custom-postgresql.conf'', ''# Customizations appended to postgresql.conf.'' @ newline),
       (''postgresql.conf'', postgresqlConf pgTLS),
       (''postgresql-pre-start.sh'', preStartScript),
       (''postgresql-start.sh'', startScriptText work_mem),
       (''postgresql.sql'', postgresqlSql)];
     ret \<lparr>cm_meta = withOwner (Lib r) inst
            ((newMeta postgresConfigmapName (Namespace (s_meta inst)))\<lparr>Labels := mapOf [(backupLabel, '''')]\<rparr>),
          cm_Data = data\<rparr>
   }"

text \<open>The lines of the current configuration that the default does not hold, for the migration.\<close>

fun migratedLines :: "string \<Rightarrow> string list \<Rightarrow> string" where
  "migratedLines defaultConfig [] = []"
| "migratedLines defaultConfig (line # ls) =
     (if \<not> Contains defaultConfig line then newline @ line else []) @ migratedLines defaultConfig ls"

definition UpdatePostgresConfigmap :: "ConfigMap \<Rightarrow> ConfigMap \<Rightarrow> ConfigMap" where
  "UpdatePostgresConfigmap existing new =
     (let currentPostgresConfig = index (cm_Data existing) ''postgresql.conf'';
          customPostgresConfig = index (cm_Data existing) ''custom-postgresql.conf'';
          defaultPostgresConfig = index (cm_Data new) ''postgresql.conf''
      in if customPostgresConfig = '''' \<and> currentPostgresConfig \<noteq> defaultPostgresConfig
         then new\<lparr>cm_Data := put ''custom-postgresql.conf''
           (''# Customizations appended to postgresql.conf''
             @ migratedLines defaultPostgresConfig (Split currentPostgresConfig (hd newline))) (cm_Data new)\<rparr>
         else
           let merged = (if \<not> Contains defaultPostgresConfig customPostgresConfig
               then put ''postgresql.conf'' (defaultPostgresConfig @ newline @ customPostgresConfig) (cm_Data new)
               else cm_Data new)
           in new\<lparr>cm_Data := (if customPostgresConfig \<noteq> ''''
               then put ''custom-postgresql.conf'' customPostgresConfig merged else merged)\<rparr>)"

definition postgresConfigHash :: "golib \<Rightarrow> smap \<Rightarrow> string" where
  "postgresConfigHash lib data = lib_ShortHash lib (index data ''postgresql.conf'')"

section \<open>Customisations are kept\<close>

abbreviation conf :: "ConfigMap \<Rightarrow> string" where
  "conf cm \<equiv> index (cm_Data cm) ''postgresql.conf''"

abbreviation custom :: "ConfigMap \<Rightarrow> string" where
  "custom cm \<equiv> index (cm_Data cm) ''custom-postgresql.conf''"

text \<open>The result when there are customisations depends on them and on the new config map only.\<close>

definition withCustom :: "string \<Rightarrow> ConfigMap \<Rightarrow> ConfigMap" where
  "withCustom c new = new\<lparr>cm_Data := put ''custom-postgresql.conf'' c
     (if \<not> Contains (conf new) c then put ''postgresql.conf'' (conf new @ newline @ c) (cm_Data new)
      else cm_Data new)\<rparr>"

lemma update_with_custom: "custom existing \<noteq> '''' \<Longrightarrow> UpdatePostgresConfigmap existing new = withCustom (custom existing) new"
  by (simp add: UpdatePostgresConfigmap_def withCustom_def Let_def)

lemma custom_withCustom [simp]: "custom (withCustom c new) = c"
  by (simp add: withCustom_def)

lemma conf_withCustom: "conf (withCustom c new) = (if Contains (conf new) c then conf new else conf new @ newline @ c)"
  by (simp add: withCustom_def)

lemma update_plain:
  "custom existing = '''' \<Longrightarrow> conf existing = conf new \<Longrightarrow> UpdatePostgresConfigmap existing new = new"
  by (simp add: UpdatePostgresConfigmap_def Let_def)

text \<open>The heading that the migration puts before the moved lines.\<close>

definition migrationHeading :: string where
  "migrationHeading = ''# Customizations appended to postgresql.conf''"

lemma migrationHeading_facts: "migrationHeading \<noteq> ''''" "hd newline \<notin> set migrationHeading"
  by (simp_all add: migrationHeading_def newline_def)

lemma update_migrates:
  assumes "custom existing = ''''" "conf existing \<noteq> conf new"
  shows "conf (UpdatePostgresConfigmap existing new) = conf new
    \<and> custom (UpdatePostgresConfigmap existing new) = migrationHeading @ migratedLines (conf new) (Split (conf existing) (hd newline))"
  using assms by (simp add: UpdatePostgresConfigmap_def migrationHeading_def Let_def)

lemma Contains_appendI2: "Contains b x \<Longrightarrow> Contains (a @ b) x"
  unfolding Contains_iff by (metis append.assoc)

lemma Contains_trans: "Contains a b \<Longrightarrow> Contains b c \<Longrightarrow> Contains a c"
  unfolding Contains_iff by (metis append.assoc)

text \<open>
  C29. The merge of the database configuration settles: for a fixed default, updating from the stored
  config map again and again changes nothing after the second time.
\<close>

theorem UpdatePostgresConfigmap_settles:
  "UpdatePostgresConfigmap (UpdatePostgresConfigmap (UpdatePostgresConfigmap existing new) new) new
    = UpdatePostgresConfigmap (UpdatePostgresConfigmap existing new) new"
proof -
  let ?u = "\<lambda>e. UpdatePostgresConfigmap e new"
  have fixed: "?u (?u e) = ?u e" if "custom e \<noteq> ''''" for e
    using that by (simp add: update_with_custom)
  show ?thesis
  proof (cases "custom (?u existing) = ''''")
    case False
    then show ?thesis by (rule fixed)
  next
    case True
    have "custom existing = ''''"
    proof (rule ccontr)
      assume "custom existing \<noteq> ''''"
      then show False using True by (simp add: update_with_custom)
    qed
    moreover from this have "conf existing = conf new"
      using True update_migrates [of existing new] migrationHeading_facts(1) by (cases "conf existing = conf new") simp_all
    ultimately have "?u existing = new" by (rule update_plain)
    then show ?thesis using True by (simp add: update_plain)
  qed
qed

text \<open>The lines of a configuration file.\<close>

abbreviation lines :: "string \<Rightarrow> string list" where
  "lines s \<equiv> Split s (hd newline)"

lemma lines_append: "lines (a @ newline @ b) = lines a @ lines b"
  using Split_append [of a "hd newline" b] by (simp add: newline_def)

lemma heading_line: "lines migrationHeading = [migrationHeading]"
  by (rule Split_alone) (rule migrationHeading_facts)

lemma lines_migrated:
  "list_all (\<lambda>l. hd newline \<notin> set l) ls \<Longrightarrow> lines (a @ migratedLines d ls) = lines a @ filter (\<lambda>l. \<not> Contains d l) ls"
proof (induction ls arbitrary: a)
  case (Cons l ls)
  then have rest: "lines (b @ migratedLines d ls) = lines b @ filter (\<lambda>l. \<not> Contains d l) ls" for b by simp
  show ?case
  proof (cases "Contains d l")
    case False
    have "lines (a @ migratedLines d (l # ls)) = lines (a @ newline @ (l @ migratedLines d ls))" using False by simp
    also have "\<dots> = lines a @ lines l @ filter (\<lambda>l. \<not> Contains d l) ls" by (simp only: lines_append rest)
    also have "lines l = [l]" using Cons.prems by (simp add: Split_alone)
    finally show ?thesis using False by simp
  qed (use rest in simp)
qed simp

lemma lines_moved:
  "lines (migrationHeading @ migratedLines d (lines s)) = migrationHeading # filter (\<lambda>l. \<not> Contains d l) (lines s)"
  by (subst lines_migrated) (auto simp: list_all_iff heading_line dest: Split_no_sep)

text \<open>
  C22. No customisation is lost, line by line. A custom part is kept as it is, and the lines of the effective
  configuration are those of the default followed by those of the custom part (unless its text is in the
  default already). A config map from before the custom part existed is migrated: the first update
  gives the default and moves every line of the old configuration whose text the default does not hold,
  in order, to the custom part; from the second update on the effective configuration is the default, a heading and
  these lines, each on a line of its own. The default does not hold the heading.
\<close>

theorem UpdatePostgresConfigmap_keeps_customisations:
  assumes "\<not> Contains (conf new) migrationHeading"
  shows "if custom existing \<noteq> ''''
   then custom (UpdatePostgresConfigmap existing new) = custom existing
     \<and> lines (conf (UpdatePostgresConfigmap existing new))
        = lines (conf new) @ (if Contains (conf new) (custom existing) then [] else lines (custom existing))
   else if conf existing = conf new then UpdatePostgresConfigmap existing new = new
   else conf (UpdatePostgresConfigmap existing new) = conf new
     \<and> lines (custom (UpdatePostgresConfigmap existing new))
        = migrationHeading # filter (\<lambda>l. \<not> Contains (conf new) l) (lines (conf existing))
     \<and> lines (conf (UpdatePostgresConfigmap (UpdatePostgresConfigmap existing new) new))
        = lines (conf new) @ migrationHeading # filter (\<lambda>l. \<not> Contains (conf new) l) (lines (conf existing))"
proof (cases "custom existing = ''''")
  case False
  then show ?thesis by (simp add: update_with_custom conf_withCustom lines_append)
next
  case True
  let ?u = "\<lambda>e. UpdatePostgresConfigmap e new"
  show ?thesis
  proof (cases "conf existing = conf new")
    case True
    then show ?thesis using \<open>custom existing = ''''\<close> by (simp add: update_plain)
  next
    case False
    note mig = update_migrates [OF True False]
    have "Contains (custom (?u existing)) migrationHeading" unfolding conjunct2 [OF mig] by (rule Contains_appendI) (rule Contains_refl)
    then have "\<not> Contains (conf new) (custom (?u existing))" using assms Contains_trans by blast
    moreover have "custom (?u existing) \<noteq> ''''" using mig migrationHeading_facts(1) by simp
    ultimately have "lines (conf (?u (?u existing))) = lines (conf new) @ lines (custom (?u existing))"
      by (simp add: update_with_custom conf_withCustom lines_append)
    then show ?thesis using True False mig lines_moved by simp
  qed
qed

definition oldConfigMap :: ConfigMap where
  "oldConfigMap = \<lparr>cm_meta = newMeta postgresConfigmapName ''ocm'',
     cm_Data = mapOf [(''postgresql.conf'', ''ssl = on'' @ newline @ ''max_connections = 50'')]\<rparr>"

definition plainConfigMap :: ConfigMap where
  "plainConfigMap = oldConfigMap\<lparr>cm_Data := mapOf [(''postgresql.conf'', ''ssl = on'')]\<rparr>"

theorem UpdatePostgresConfigmap_keeps_customisations_witness:
  "lines (conf (UpdatePostgresConfigmap (UpdatePostgresConfigmap oldConfigMap plainConfigMap) plainConfigMap))
     = [''ssl = on'', migrationHeading, ''max_connections = 50'']"
proof -
  have "\<not> Contains (conf plainConfigMap) migrationHeading" "custom oldConfigMap = ''''" "conf oldConfigMap \<noteq> conf plainConfigMap"
    "lines (conf plainConfigMap) = [''ssl = on'']"
    "filter (\<lambda>l. \<not> Contains (conf plainConfigMap) l) (lines (conf oldConfigMap)) = [''max_connections = 50'']"
    by code_simp+
  then show ?thesis using UpdatePostgresConfigmap_keeps_customisations [of plainConfigMap oldConfigMap] by simp
qed

section \<open>The texts\<close>

text \<open>
  The start script of the database is the fixed text that creates the tables, one statement that
  sets \<open>work_mem\<close> to a memory size between its quotes, and the fixed text that provisions the
  read-only roles: nothing else of the Search resource or of the referenced config map is in it.
\<close>

theorem start_script_fixed_but_work_mem:
  "\<exists>work_mem. is_memory_size work_mem
     \<and> index (cm_Data (fst (run_state (PostgresConfigmap r inst pgTLS) w))) ''postgresql-start.sh''
       = createTablesScript @ (''psql -d search -U searchuser -c '' @ dquote
           @ ''ALTER ROLE searchuser set work_mem='' @ squote @ work_mem @ squote @ dquote) @ provisionRolesScript"
proof -
  obtain m w' where run: "run_state (GetDBConfigFromSearchCR r inst ''WORK_MEM'') w = (m, w')" by fastforce
  have "is_memory_size m"
    using run by (auto simp: GetDBConfigFromSearchCR_def sanitizeDBConfig_size getDefaultDBConfig_WORK_MEM
        default_WORK_MEM_size split: option.splits prod.splits)
  moreover have "index (cm_Data (fst (run_state (PostgresConfigmap r inst pgTLS) w))) ''postgresql-start.sh''
      = startScriptText m"
    by (simp add: PostgresConfigmap_def Let_def run)
  ultimately show ?thesis unfolding startScriptText_def workMemQuery_def by blast
qed

text \<open>What the cluster asks for: the profile of its \<open>APIServer\<close> object, or the Intermediate one.\<close>

definition wantedProfile :: "tlslib \<Rightarrow> go_error + json \<Rightarrow> TLSProfileSpec" where
  "wantedProfile tls answer = (case answer of
     Inr obj \<Rightarrow> (case jget (jfields (jget (jfields obj) ''spec'')) ''tlsSecurityProfile'' of
         JNull \<Rightarrow> tls_Intermediate tls
       | profile \<Rightarrow> (case tls_Resolve tls profile of Inr p \<Rightarrow> p | Inl e \<Rightarrow> tls_Intermediate tls))
   | Inl e \<Rightarrow> tls_Intermediate tls)"

lemma profileOf_wanted:
  "(case profileOf tls obj of Inl err \<Rightarrow> defaultProfileSpec tls | Inr p \<Rightarrow> p) = wantedProfile tls (Inr obj)"
proof (cases "jget (jfields obj) ''spec''")
  case (JObject spec)
  then show ?thesis
    by (cases "jget spec ''tlsSecurityProfile''")
      (simp_all add: profileOf_def wantedProfile_def defaultProfileSpec_def Let_def split: sum.splits)
qed (simp_all add: profileOf_def wantedProfile_def defaultProfileSpec_def jget_def)

text \<open>
  C30. The TLS settings of the database follow the cluster's profile (the Intermediate one when none can be read):
  the protocol version is the database's name of the profile's minimal version, and 1.2 for one it does not
  know; the colon-separated names of its cipher string are exactly the profile's ciphers but those of
  TLS 1.3, in order, or the default \<open>HIGH\<close> without anonymous ones when none is left. No cipher has
  a colon in its name.
\<close>

theorem getPostgresTLSConfig_sound:
  assumes get: "run_state (dyn_Get dyn apiServerGVR '''' ''cluster'') w = (answer, w')"
    and names: "list_all (\<lambda>c. CHR '':'' \<notin> set c) (Ciphers (wantedProfile tls answer))"
  shows "\<exists>config. run_state (getPostgresTLSConfig dyn tls) w = (config, w')
    \<and> SSLMinProtocolVersion config = (case map_of [(''VersionTLS10'', ''TLSv1''), (''VersionTLS11'', ''TLSv1.1''),
        (''VersionTLS12'', ''TLSv1.2''), (''VersionTLS13'', ''TLSv1.3'')] (MinTLSVersion (wantedProfile tls answer)) of
        Some v \<Rightarrow> v | None \<Rightarrow> ''TLSv1.2'')
    \<and> (let kept = filter (\<lambda>c. take 4 c \<noteq> ''TLS_'') (Ciphers (wantedProfile tls answer)) in
       Split (SSLCiphers config) CHR '':'' = (if kept = [] then [''HIGH'', ''!aNULL''] else kept))"
proof -
  let ?p = "wantedProfile tls answer"
  let ?kept = "filter (\<lambda>c. \<not> HasPrefix c ''TLS_'') (Ciphers ?p)"
  have kept: "filter (\<lambda>c. take 4 c \<noteq> ''TLS_'') (Ciphers ?p) = ?kept" by (simp add: HasPrefix_def eval_nat_numeral)
  have run: "run_state (getPostgresTLSConfig dyn tls) w = (\<lparr>SSLMinProtocolVersion = tlsVersionToPostgres (MinTLSVersion ?p),
      SSLCiphers = opensslCiphersFromProfile (Ciphers ?p)\<rparr>, w')"
  proof (cases answer)
    case (Inl e)
    then show ?thesis using get by (simp add: getPostgresTLSConfig_def fetchTLSProfileSpec_def wantedProfile_def defaultProfileSpec_def Let_def)
  next
    case (Inr obj)
    then show ?thesis using get by (simp add: getPostgresTLSConfig_def fetchTLSProfileSpec_def profileOf_wanted Let_def)
  qed
  have "Split (opensslCiphersFromProfile (Ciphers ?p)) CHR '':'' = (if ?kept = [] then [''HIGH'', ''!aNULL''] else ?kept)"
  proof (cases "?kept = []")
    case True
    then show ?thesis by (simp add: opensslCiphersFromProfile_def Let_def)
  next
    case False
    have "list_all (\<lambda>c. CHR '':'' \<notin> set c) ?kept" using names by (simp add: list_all_iff)
    then show ?thesis using False Split_Join [OF False] by (simp add: opensslCiphersFromProfile_def Let_def)
  qed
  moreover have "tlsVersionToPostgres v = (case map_of [(''VersionTLS10'', ''TLSv1''), (''VersionTLS11'', ''TLSv1.1''),
        (''VersionTLS12'', ''TLSv1.2''), (''VersionTLS13'', ''TLSv1.3'')] v of Some v \<Rightarrow> v | None \<Rightarrow> ''TLSv1.2'')" for v
    by (simp add: tlsVersionToPostgres_def)
  ultimately show ?thesis using run kept by (simp add: Let_def)
qed

definition modernTLS :: tlslib where
  "modernTLS = (let spec = \<lparr>Ciphers = [''TLS_AES_128_GCM_SHA256'', ''ECDHE-RSA-AES128-GCM-SHA256'', ''DHE-RSA-AES256-GCM-SHA384''],
       MinTLSVersion = ''VersionTLS12''\<rparr>
     in \<lparr>tls_Intermediate = spec, tls_Resolve = (\<lambda>_. Inr (spec\<lparr>MinTLSVersion := ''VersionTLS13''\<rparr>)),
       tls_FromProfile = (\<lambda>_. (771, [])), tls_CipherSuites = [], tls_InsecureCipherSuites = []\<rparr>)"

text \<open>A cluster that asks for the Modern profile.\<close>

definition modernCluster :: "unit dynamic" where
  "modernCluster = \<lparr>dyn_Get = (\<lambda>g ns n. ret (Inr (JObject [(''spec'', JObject [(''tlsSecurityProfile'', JObject [(''type'', JString ''Modern'')])])]))),
     dyn_List = (\<lambda>g. ret (Some [], None)), dyn_Create = (\<lambda>g ns ob. ret None), dyn_Update = (\<lambda>g ns ob. ret None),
     dyn_Delete = (\<lambda>g ns n. ret None)\<rparr>"

theorem getPostgresTLSConfig_sound_witness:
  "\<exists>config. run_state (getPostgresTLSConfig modernCluster modernTLS) () = (config, ())
     \<and> SSLMinProtocolVersion config = ''TLSv1.3''
     \<and> Split (SSLCiphers config) CHR '':'' = [''ECDHE-RSA-AES128-GCM-SHA256'', ''DHE-RSA-AES256-GCM-SHA384'']"
proof -
  let ?obj = "JObject [(''spec'', JObject [(''tlsSecurityProfile'', JObject [(''type'', JString ''Modern'')])])]"
  have get: "run_state (dyn_Get modernCluster apiServerGVR '''' ''cluster'') () = (Inr ?obj, ())" by (simp add: modernCluster_def)
  have wanted: "wantedProfile modernTLS (Inr ?obj) = \<lparr>Ciphers = [''TLS_AES_128_GCM_SHA256'', ''ECDHE-RSA-AES128-GCM-SHA256'',
      ''DHE-RSA-AES256-GCM-SHA384''], MinTLSVersion = ''VersionTLS13''\<rparr>"
    by (simp add: wantedProfile_def modernTLS_def jget_def)
  from getPostgresTLSConfig_sound [OF get, of modernTLS, unfolded wanted] show ?thesis by (simp add: Let_def)
qed

text \<open>Decimal numerals and their value.\<close>

definition decimal_value :: "string \<Rightarrow> nat" where
  "decimal_value s = foldl (\<lambda>n c. 10 * n + (of_char c - 48)) 0 s"

lemma FormatUint_value: "decimal_value (FormatUint n) = n"
proof (induction n rule: FormatUint.induct)
  case (1 n)
  show ?case
  proof (cases "n < 10")
    case True
    then show ?thesis by (simp add: FormatUint.simps [of n] decimal_value_def)
  next
    case False
    moreover have "(48 + n mod 10) mod 256 = 48 + n mod 10" by simp
    ultimately show ?thesis using 1 by (simp add: FormatUint.simps [of n] decimal_value_def)
  qed
qed

text \<open>
  When the cluster's TLS profile can be read and resolved, the components get its minimal version
  as a decimal numeral of a 16-bit number, and the IANA names of its cipher suites that the tables
  know, in the profile's order; when it cannot, they get no TLS variable.
\<close>

theorem getTLSEnvVars_exact:
  "fst (run_state (getTLSEnvVars dyn tls) w) =
     (case fst (run_state (fetchTLSProfileSpec dyn tls) w) of Inl e \<Rightarrow> []
      | Inr p \<Rightarrow> [newEnvVar ''TLS_MIN_VERSION'' (FormatUint (unat (fst (tls_FromProfile tls p)))),
                 newEnvVar ''TLS_CIPHERS'' (Join (cipherIDsToIANA tls (snd (tls_FromProfile tls p))) '','')])
   \<and> (\<forall>v :: 16 word. decimal_value (FormatUint (unat v)) = unat v \<and> unat v < 65536)"
proof -
  have "unat v < 2 ^ LENGTH(16)" for v :: "16 word" by (rule unsigned_less)
  then have "unat v < 65536" for v :: "16 word" by simp
  then show ?thesis
    by (auto simp: getTLSEnvVars_def FormatUint_value split: prod.splits sum.splits)
qed

end
