(* ===== verification/Write_Operations.thy ===== *)
theory Write_Operations
  imports Postgres_Config
begin

text \<open>
  How the reconciler writes the objects it wants (\<open>controllers/common.go\<close> 561-814,
  \<open>create_metrics_monitor.go\<close>, \<open>create_prometheus_alerts.go\<close>): one operation per kind, each a
  \<open>Get\<close> followed by a \<open>Create\<close> or an \<open>Update\<close>. Two interfaces describe them. An operation of
  \<open>preserving_creator\<close> writes its object only when it is missing; \<open>create_if_missing\<close> adds
  that it reports every failure, so that success means the object is there. An operation of
  \<open>desired_writer\<close> brings the stored object to the wanted state.
\<close>

section \<open>The operations\<close>

definition createConfigMap :: "'w SearchReconciler \<Rightarrow> ConfigMap \<Rightarrow> ('w, step_ret) state" where
  "createConfigMap r cm = do {
     res \<leftarrow> Get (Client r) asConfigMap (metaKey KConfigMap (cm_meta cm));
     case res of
       Inl err \<Rightarrow>
         if IsNotFound err then do {
           res \<leftarrow> cl_Create (Client r) (OConfigMap cm);
           case res of Inl err \<Rightarrow> ret (failWith err) | Inr _ \<Rightarrow> ret done_ok
         } else ret done_ok
     | Inr found \<Rightarrow> ret done_ok
   }"

text \<open>
  Any answer but \<open>NotFound\<close> counts as a stored config map; after an error it is the empty one the
  variable was initialised with.
\<close>

definition emptyConfigMap :: ConfigMap where
  "emptyConfigMap = \<lparr>cm_meta = newMeta '''' '''', cm_Data = None\<rparr>"

definition mergedConfigMap :: "ConfigMap \<Rightarrow> ConfigMap \<Rightarrow> ConfigMap" where
  "mergedConfigMap found cm =
     (if Name (cm_meta cm) = postgresConfigmapName then UpdatePostgresConfigmap found cm else cm)"

text \<open>
  The config map is a pointer, and the caller uses what it points to afterwards: it is returned.
\<close>

definition needsUpdate :: "ConfigMap \<Rightarrow> ConfigMap \<Rightarrow> bool" where
  "needsUpdate found cm =
     (let cmWantsLabel = (lookup (Labels (cm_meta cm)) backupLabel \<noteq> None);
          foundHasLabel = (lookup (Labels (cm_meta found)) backupLabel \<noteq> None)
      in \<not> semEqMap (cm_Data found) (cm_Data cm) \<or> cmWantsLabel \<and> \<not> foundHasLabel)"

definition updateConfigMap ::
  "'w SearchReconciler \<Rightarrow> ConfigMap \<Rightarrow> ConfigMap \<Rightarrow> ('w, step_ret \<times> ConfigMap) state" where
  "updateConfigMap r found cm =
     (let cm = mergedConfigMap found cm
      in if needsUpdate found cm then do {
           res \<leftarrow> cl_Update (Client r) (OConfigMap cm);
           case res of Inl err \<Rightarrow> ret (failWith err, cm) | Inr _ \<Rightarrow> ret (done_ok, cm)
         } else ret (done_ok, cm))"

definition createOrUpdateConfigMap :: "'w SearchReconciler \<Rightarrow> ConfigMap \<Rightarrow> ('w, step_ret \<times> ConfigMap) state" where
  "createOrUpdateConfigMap r cm = do {
     res \<leftarrow> Get (Client r) asConfigMap (metaKey KConfigMap (cm_meta cm));
     case res of
       Inl err \<Rightarrow>
         if IsNotFound err then do {
           res \<leftarrow> cl_Create (Client r) (OConfigMap cm);
           case res of Inl err \<Rightarrow> ret (failWith err, cm) | Inr _ \<Rightarrow> ret (done_ok, cm)
         } else updateConfigMap r emptyConfigMap cm
     | Inr found \<Rightarrow> updateConfigMap r found cm
   }"

text \<open>\<open>equality.Semantic.DeepEqual\<close> on network policy specs.\<close>

definition normPeer :: "NetworkPolicyPeer \<Rightarrow> NetworkPolicyPeer" where
  "normPeer p = p\<lparr>peer_NamespaceSelector := map_option normMap (peer_NamespaceSelector p),
     peer_PodSelector := map_option normMap (peer_PodSelector p)\<rparr>"

definition normPolicySpec :: "NetworkPolicySpec \<Rightarrow> NetworkPolicySpec" where
  "normPolicySpec s = s\<lparr>nps_PodSelector := normMap (nps_PodSelector s),
     nps_Ingress := map (\<lambda>i. i\<lparr>ing_From := map normPeer (ing_From i)\<rparr>) (nps_Ingress s),
     nps_Egress := map (\<lambda>e. e\<lparr>eg_To := map normPeer (eg_To e)\<rparr>) (nps_Egress s)\<rparr>"

definition samePolicy :: "NetworkPolicy \<Rightarrow> NetworkPolicy \<Rightarrow> bool" where
  "samePolicy a b \<longleftrightarrow> normPolicySpec (np_Spec a) = normPolicySpec (np_Spec b)
     \<and> semEqMap (Labels (np_meta a)) (Labels (np_meta b))
     \<and> OwnerReferences (np_meta a) = OwnerReferences (np_meta b)"

definition createOrUpdateNetworkPolicy :: "'w SearchReconciler \<Rightarrow> NetworkPolicy \<Rightarrow> ('w, step_ret) state" where
  "createOrUpdateNetworkPolicy r np = do {
     res \<leftarrow> Get (Client r) asNetworkPolicy (metaKey KNetworkPolicy (np_meta np));
     case res of
       Inl err \<Rightarrow>
         if IsNotFound err then do {
           res \<leftarrow> cl_Create (Client r) (ONetworkPolicy np);
           case res of Inl err \<Rightarrow> ret (failWith err) | Inr _ \<Rightarrow> ret done_ok
         } else ret (failWith err)
     | Inr found \<Rightarrow>
         if \<not> samePolicy found np then do {
           res \<leftarrow> cl_Update (Client r) (ONetworkPolicy (found\<lparr>np_Spec := np_Spec np,
             np_meta := (np_meta found)\<lparr>Labels := Labels (np_meta np),
               OwnerReferences := OwnerReferences (np_meta np)\<rparr>\<rparr>));
           case res of Inl err \<Rightarrow> ret (failWith err) | Inr _ \<Rightarrow> ret done_ok
         } else ret done_ok
   }"

definition createOrUpdateDeployment :: "'w SearchReconciler \<Rightarrow> Deployment \<Rightarrow> ('w, step_ret) state" where
  "createOrUpdateDeployment r deploy = do {
     res \<leftarrow> Get (Client r) asDeployment (metaKey KDeployment (dep_meta deploy));
     case res of
       Inl err \<Rightarrow>
         if IsNotFound err then do {
           res \<leftarrow> cl_Create (Client r) (ODeployment deploy);
           case res of Inl err \<Rightarrow> ret (failWith err) | Inr _ \<Rightarrow> ret done_ok
         } else ret (failWith err)
     | Inr found \<Rightarrow>
         if \<not> DeploymentEquals found deploy then do {
           res \<leftarrow> cl_Update (Client r) (ODeployment deploy);
           case res of Inl err \<Rightarrow> ret done_ok | Inr _ \<Rightarrow> ret done_ok
         } else ret done_ok
   }"

definition createService :: "'w SearchReconciler \<Rightarrow> Service \<Rightarrow> ('w, step_ret) state" where
  "createService r svc = do {
     res \<leftarrow> Get (Client r) asService (metaKey KService (svc_meta svc));
     case res of
       Inl err \<Rightarrow>
         if IsNotFound err then do {
           res \<leftarrow> cl_Create (Client r) (OService svc);
           case res of Inl err \<Rightarrow> ret (failWith err) | Inr _ \<Rightarrow> ret done_ok
         } else ret (failWith err)
     | Inr found \<Rightarrow> ret done_ok
   }"

definition createSecret :: "'w SearchReconciler \<Rightarrow> Secret \<Rightarrow> ('w, step_ret) state" where
  "createSecret r secret = do {
     res \<leftarrow> Get (Client r) asSecret (metaKey KSecret (sec_meta secret));
     case res of
       Inl err \<Rightarrow>
         if IsNotFound err then do {
           res \<leftarrow> cl_Create (Client r) (OSecret secret);
           case res of Inl err \<Rightarrow> ret (failWith err) | Inr _ \<Rightarrow> ret done_ok
         } else ret (failWith err)
     | Inr found \<Rightarrow> ret done_ok
   }"

definition createServiceMonitor :: "'w SearchReconciler \<Rightarrow> ServiceMonitor \<Rightarrow> ('w, step_ret) state" where
  "createServiceMonitor r smonitor = do {
     res \<leftarrow> Get (Client r) asServiceMonitor (metaKey KServiceMonitor (sm_meta smonitor));
     case res of
       Inl err \<Rightarrow>
         if IsNotFound err then do {
           res \<leftarrow> cl_Create (Client r) (OServiceMonitor smonitor);
           case res of Inl err \<Rightarrow> ret (failWith err) | Inr _ \<Rightarrow> ret done_ok
         } else ret done_ok
     | Inr found \<Rightarrow> ret done_ok
   }"

text \<open>\<open>equality.Semantic.DeepEqual\<close> on the rule groups.\<close>

definition normRule :: "AlertRule \<Rightarrow> AlertRule" where
  "normRule a = a\<lparr>ar_Labels := normMap (ar_Labels a), ar_Annotations := normMap (ar_Annotations a)\<rparr>"

definition normGroups :: "(string \<times> AlertRule list) list \<Rightarrow> (string \<times> AlertRule list) list" where
  "normGroups = map (\<lambda>(name, rules). (name, map normRule rules))"

definition createOrUpdatePrometheusRule :: "'w SearchReconciler \<Rightarrow> PrometheusRule \<Rightarrow> ('w, step_ret) state" where
  "createOrUpdatePrometheusRule r rule = do {
     res \<leftarrow> Get (Client r) asPrometheusRule (metaKey KPrometheusRule (prom_meta rule));
     case res of
       Inl err \<Rightarrow>
         if IsNotFound err then do {
           res \<leftarrow> cl_Create (Client r) (OPrometheusRule rule);
           case res of Inl err \<Rightarrow> ret (failWith err) | Inr _ \<Rightarrow> ret done_ok
         } else ret (failWith err)
     | Inr found \<Rightarrow>
         if normGroups (prom_Groups found) \<noteq> normGroups (prom_Groups rule) then do {
           res \<leftarrow> cl_Update (Client r) (OPrometheusRule (found\<lparr>prom_Groups := prom_Groups rule\<rparr>));
           case res of Inl err \<Rightarrow> ret (failWith err) | Inr _ \<Rightarrow> ret done_ok
         } else ret done_ok
   }"

section \<open>The common shape\<close>

text \<open>
  Look the object up, create it when it is missing, handle the other two answers. The operations
  above are instances, so their laws come from one case rule.
\<close>

definition ensure ::
  "'w client \<Rightarrow> (kobj \<Rightarrow> 'o option) \<Rightarrow> ('o \<Rightarrow> kobj) \<Rightarrow> 'o \<Rightarrow> (go_error \<Rightarrow> ('w, step_ret) state)
    \<Rightarrow> ('o \<Rightarrow> ('w, step_ret) state) \<Rightarrow> ('w, step_ret) state" where
  "ensure c as con x other present = do {
     res \<leftarrow> Get c as (key_of (con x));
     case res of
       Inl err \<Rightarrow>
         if IsNotFound err then do {
           res \<leftarrow> cl_Create c (con x);
           case res of Inl err \<Rightarrow> ret (failWith err) | Inr _ \<Rightarrow> ret done_ok
         } else other err
     | Inr found \<Rightarrow> present found
   }"

lemma ensure_cases:
  assumes api: "kube_api c objs" and dec: "decodes as con kd"
    and run: "run_state (ensure c as con x other present) w = (res, w')"
  obtains (created) u where "objs w (key_of (con x)) = None" "res = done_ok"
      "objs w' (key_of (con x)) = Some (map_meta (\<lambda>m. m\<lparr>UID := u\<rparr>) (con x))"
    | (failed) err where "objs w (key_of (con x)) = None" "res = failWith err"
    | (other) err w1 where "\<not> IsNotFound err" "objs w1 = objs w" "run_state (other err) w1 = (res, w')"
    | (present) y w1 where "objs w1 = objs w" "objs w (key_of (con x)) = Some (con y)"
      "key_of (con y) = key_of (con x)" "run_state (present y) w1 = (res, w')"
proof -
  obtain g w1 where g: "run_state (Get c as (key_of (con x))) w = (g, w1)" by fastforce
  note view = Get_view [OF api g]
  show ?thesis
  proof (cases g)
    case (Inr y)
    show ?thesis
      using present [OF view] Get_found [OF api dec g [unfolded Inr]] run g Inr by (simp add: ensure_def)
  next
    case (Inl err)
    show ?thesis
    proof (cases "IsNotFound err")
      case False
      then show ?thesis using other [OF _ view] run g Inl by (simp add: ensure_def)
    next
      case True
      note none = Get_missing [OF api g [unfolded Inl] True]
      obtain c' w2 where c: "run_state (cl_Create c (con x)) w1 = (c', w2)" by fastforce
      show ?thesis
      proof (cases c')
        case (Inl e)
        then show ?thesis using failed [OF none, of e] run g \<open>g = Inl err\<close> True c by (simp add: ensure_def)
      next
        case (Inr ob)
        then have r: "res = done_ok" "w' = w2" using run g \<open>g = Inl err\<close> True c by (simp_all add: ensure_def)
        from create_stores [OF api c [unfolded Inr]] obtain u where
          "objs w2 (key_of (con x)) = Some (map_meta (\<lambda>m. m\<lparr>UID := u\<rparr>) (con x))" by auto
        then show ?thesis using created [OF none] r by simp
      qed
    qed
  qed
qed

lemma touches_ensure [world_frame]:
  assumes "kube_api c objs" "key_of (con x) \<in> K" "\<And>err. touches objs K (other err)"
    "\<And>y. key_of (con y) = key_of (con x) \<Longrightarrow> touches objs K (present y)" "decodes as con kd"
  shows "touches objs K (ensure c as con x other present)"
  unfolding ensure_def
  using assms(1-4) Get_found [OF assms(1,5)]
  by (intro touches_bind_result [OF touches_Get]) (auto intro!: world_frame split: sum.splits)

lemma ensure_simps:
  "createConfigMap r cm = ensure (Client r) asConfigMap OConfigMap cm (\<lambda>e. ret done_ok) (\<lambda>y. ret done_ok)"
  "createService r svc = ensure (Client r) asService OService svc (\<lambda>e. ret (failWith e)) (\<lambda>y. ret done_ok)"
  "createSecret r secret = ensure (Client r) asSecret OSecret secret (\<lambda>e. ret (failWith e)) (\<lambda>y. ret done_ok)"
  "createServiceMonitor r sm = ensure (Client r) asServiceMonitor OServiceMonitor sm
     (\<lambda>e. ret done_ok) (\<lambda>y. ret done_ok)"
  by (simp_all add: ensure_def createConfigMap_def createService_def
      createSecret_def createServiceMonitor_def)

lemma ret_distinct [simp]: "done_ok \<noteq> failWith e" "failWith e \<noteq> done_ok"
  by (simp_all add: ret_defs)

section \<open>The interfaces\<close>

locale preserving_creator =
  fixes con :: "'o \<Rightarrow> kobj" and op :: "'w SearchReconciler \<Rightarrow> 'o \<Rightarrow> ('w, step_ret) state"
  assumes frame: "kube_api (Client r) objs \<Longrightarrow> touches objs {key_of (con x)} (op r x)"
    and keeps: "kube_api (Client r) objs \<Longrightarrow> run_state (op r x) w = (res, w') \<Longrightarrow>
      objs w (key_of (con x)) = Some old \<Longrightarrow> objs w' (key_of (con x)) = Some old"
begin

lemma present_unchanged:
  assumes "kube_api (Client r) objs" "run_state (op r x) w = (res, w')" "objs w (key_of (con x)) = Some old"
  shows "objs w' = objs w"
proof
  fix k
  show "objs w' k = objs w k"
    using keeps [OF assms] touchesD [OF frame [OF assms(1)] assms(2), of k] assms(3)
    by (cases "k = key_of (con x)") auto
qed

end

locale create_if_missing = preserving_creator +
  assumes creates: "kube_api (Client r) objs \<Longrightarrow> run_state (op r x) w = (done_ok, w') \<Longrightarrow>
      objs w (key_of (con x)) = None \<Longrightarrow>
      \<exists>u. objs w' (key_of (con x)) = Some (map_meta (\<lambda>m. m\<lparr>UID := u\<rparr>) (con x))"
begin

lemma present_after:
  assumes "kube_api (Client r) objs" "run_state (op r x) w = (done_ok, w')"
  shows "objs w' (key_of (con x)) \<noteq> None"
proof (cases "objs w (key_of (con x))")
  case None
  then show ?thesis using creates [OF assms] by auto
next
  case (Some old)
  then show ?thesis using keeps [OF assms] by auto
qed

lemma second_run_idle:
  assumes "kube_api (Client r) objs" "run_state (op r x) w = (done_ok, w')"
    "run_state (op r y) w' = (res, w'')" "key_of (con y) = key_of (con x)"
  shows "objs w'' = objs w'"
  using present_after [OF assms(1,2)] present_unchanged [OF assms(1,3)] assms(4) by auto

end

locale desired_writer =
  fixes con :: "'o \<Rightarrow> kobj" and op :: "'w SearchReconciler \<Rightarrow> 'o \<Rightarrow> ('w, step_ret) state"
    and agrees :: "'o \<Rightarrow> 'o \<Rightarrow> bool"
  assumes frame: "kube_api (Client r) objs \<Longrightarrow> touches objs {key_of (con x)} (op r x)"
    and reaches: "kube_api (Client r) objs \<Longrightarrow> alive objs w (key_of (con x)) \<Longrightarrow> \<not> terminated (con x) \<Longrightarrow>
      run_state (op r x) w = (done_ok, w') \<Longrightarrow>
      \<exists>y. objs w' (key_of (con x)) = Some (con y) \<and> agrees y x"
    and rests: "kube_api (Client r) objs \<Longrightarrow> run_state (op r x) w = (res, w') \<Longrightarrow>
      objs w (key_of (con x)) = Some (con y) \<Longrightarrow> agrees y x \<Longrightarrow> objs w' = objs w"
begin

lemma second_run_idle:
  assumes "kube_api (Client r) objs" "alive objs w (key_of (con x))" "\<not> terminated (con x)" "run_state (op r x) w = (done_ok, w')"
    "run_state (op r x) w' = (res, w'')"
  shows "objs w'' = objs w'"
  using reaches [OF assms(1-4)] rests [OF assms(1,5)] by auto

end

section \<open>The operations meet their interfaces\<close>

text \<open>The operations that leave a stored object alone.\<close>

lemma ensure_ret_frame:
  "kube_api c objs \<Longrightarrow> decodes as con kd \<Longrightarrow>
     touches objs {key_of (con x)} (ensure c as con x (\<lambda>e. ret (f e)) (\<lambda>y. ret (g y)))"
  by (rule touches_ensure) (auto intro: touches_ret)

lemma ensure_ret_keeps:
  assumes "kube_api c objs" "decodes as con kd" "objs w (key_of (con x)) = Some old"
    and run: "run_state (ensure c as con x (\<lambda>e. ret (f e)) (\<lambda>y. ret (g y))) w = (res, w')"
  shows "objs w' (key_of (con x)) = Some old"
  using run by (rule ensure_cases [OF assms(1,2)]) (use assms(3) in auto)

lemma ensure_ret_creates:
  assumes "kube_api c objs" "decodes as con kd" "objs w (key_of (con x)) = None"
    and run: "run_state (ensure c as con x (\<lambda>e. ret (failWith e)) (\<lambda>y. ret (g y))) w = (done_ok, w')"
  shows "\<exists>u. objs w' (key_of (con x)) = Some (map_meta (\<lambda>m. m\<lparr>UID := u\<rparr>) (con x))"
  using run by (rule ensure_cases [OF assms(1,2)]) (use assms(3) in auto)

lemmas ensure_ret_laws = ensure_ret_frame ensure_ret_keeps ensure_ret_creates

interpretation config_map_creator: preserving_creator OConfigMap createConfigMap
  by (unfold_locales, unfold ensure_simps) (assumption | rule ensure_ret_laws decodes_kinds)+

interpretation service_monitor_creator: preserving_creator OServiceMonitor createServiceMonitor
  by (unfold_locales, unfold ensure_simps) (assumption | rule ensure_ret_laws decodes_kinds)+

interpretation service_creator: create_if_missing OService createService
  by (unfold_locales, unfold ensure_simps) (assumption | rule ensure_ret_laws decodes_kinds)+

interpretation secret_creator: create_if_missing OSecret createSecret
  by (unfold_locales, unfold ensure_simps) (assumption | rule ensure_ret_laws decodes_kinds)+

text \<open>
  The operations that update a stored object that does not agree with the wanted one, with
  \<open>upd y x\<close> the stored object \<open>y\<close> with the wanted parts of \<open>x\<close>.
\<close>

definition ensureUpdated ::
  "'w client \<Rightarrow> (kobj \<Rightarrow> 'o option) \<Rightarrow> ('o \<Rightarrow> kobj) \<Rightarrow> ('o \<Rightarrow> 'o \<Rightarrow> bool) \<Rightarrow> ('o \<Rightarrow> 'o \<Rightarrow> 'o) \<Rightarrow> 'o
    \<Rightarrow> ('w, step_ret) state" where
  "ensureUpdated c as con agrees upd x = ensure c as con x (\<lambda>e. ret (failWith e)) (\<lambda>y.
     if \<not> agrees y x then do {
       res \<leftarrow> cl_Update c (con (upd y x));
       case res of Inl err \<Rightarrow> ret (failWith err) | Inr _ \<Rightarrow> ret done_ok
     } else ret done_ok)"

definition reconcilable :: "('o \<Rightarrow> kobj) \<Rightarrow> ('o \<Rightarrow> 'o \<Rightarrow> bool) \<Rightarrow> ('o \<Rightarrow> 'o \<Rightarrow> 'o) \<Rightarrow> bool" where
  "reconcilable con agrees upd \<longleftrightarrow> (\<forall>x y u old.
     key_of (con (upd y x)) = key_of (con y)
     \<and> (terminated (con (upd y x)) \<longleftrightarrow> terminated (con y))
     \<and> keep_status old (con x) = con x
     \<and> (\<exists>z. map_meta (\<lambda>m. m\<lparr>UID := u\<rparr>) (con (upd y x)) = con z \<and> agrees z x)
     \<and> (\<exists>z. map_meta (\<lambda>m. m\<lparr>UID := u\<rparr>) (con x) = con z \<and> agrees z x))"

lemma ensureUpdated_frame:
  assumes "kube_api c objs" "decodes as con kd" "reconcilable con agrees upd"
  shows "touches objs {key_of (con x)} (ensureUpdated c as con agrees upd x)"
  unfolding ensureUpdated_def using assms
  by (intro touches_ensure [OF assms(1) _ _ _ assms(2)] touches_ret touches_if touches_bind
      touches_Update touches_case_sum) (simp_all add: reconcilable_def)

lemma ensureUpdated_rests:
  assumes "kube_api c objs" and dec: "decodes as con kd"
    and run: "run_state (ensureUpdated c as con agrees upd x) w = (res, w')"
    and y: "objs w (key_of (con x)) = Some (con y)" "agrees y x"
  shows "objs w' = objs w"
  using run unfolding ensureUpdated_def
proof (rule ensure_cases [OF assms(1,2)])
  fix z w1
  assume z: "objs w1 = objs w" "objs w (key_of (con x)) = Some (con z)"
    "run_state (if \<not> agrees z x then cl_Update c (con (upd z x)) \<bind>
       (\<lambda>res. case res of Inl err \<Rightarrow> ret (failWith err) | Inr _ \<Rightarrow> ret done_ok) else ret done_ok) w1 = (res, w')"
  have "z = y" using y(1) z(2) dec unfolding decodes_def by (metis option.inject)
  then show ?thesis using z y(2) by simp
qed (use y in auto)

lemma ensureUpdated_reaches:
  assumes api: "kube_api c objs" and dec: "decodes as con kd" and rec: "reconcilable con agrees upd"
    and alive: "alive objs w (key_of (con x))" and run: "run_state (ensureUpdated c as con agrees upd x) w = (done_ok, w')"
  shows "\<exists>z. objs w' (key_of (con x)) = Some (con z) \<and> agrees z x"
  using run unfolding ensureUpdated_def
proof (rule ensure_cases [OF api dec])
  fix u
  assume "objs w' (key_of (con x)) = Some (map_meta (\<lambda>m. m\<lparr>UID := u\<rparr>) (con x))"
  then show ?thesis using rec unfolding reconcilable_def by metis
next
  fix y w1
  assume y: "objs w1 = objs w" "objs w (key_of (con x)) = Some (con y)" "key_of (con y) = key_of (con x)"
    "run_state (if \<not> agrees y x then cl_Update c (con (upd y x)) \<bind>
       (\<lambda>res. case res of Inl err \<Rightarrow> ret (failWith err) | Inr _ \<Rightarrow> ret done_ok) else ret done_ok) w1 = (done_ok, w')"
  show ?thesis
  proof (cases "agrees y x")
    case True
    then show ?thesis using y by auto
  next
    case False
    then obtain ob where up: "run_state (cl_Update c (con (upd y x))) w1 = (Inr ob, w')"
      using y(4) by (auto simp: ret_defs split: sum.splits prod.splits)
    have nt: "\<not> terminated (con (upd y x))" and key: "key_of (con (upd y x)) = key_of (con x)"
      using rec alive y(2,3) by (auto simp: reconcilable_def alive_def)
    obtain old u where "objs w' (key_of (con x)) = Some (map_meta (\<lambda>m. m\<lparr>UID := u\<rparr>) (con (upd y x)))"
      using update_stores [OF api up nt] rec unfolding key reconcilable_def by metis
    then show ?thesis using rec unfolding reconcilable_def by metis
  qed
qed auto

lemma normalised_updates:
  "createOrUpdateNetworkPolicy r np = ensureUpdated (Client r) asNetworkPolicy ONetworkPolicy samePolicy
     (\<lambda>found np. found\<lparr>np_Spec := np_Spec np, np_meta := (np_meta found)\<lparr>Labels := Labels (np_meta np),
        OwnerReferences := OwnerReferences (np_meta np)\<rparr>\<rparr>) np"
  "createOrUpdatePrometheusRule r rule = ensureUpdated (Client r) asPrometheusRule OPrometheusRule
     (\<lambda>found rule. normGroups (prom_Groups found) = normGroups (prom_Groups rule))
     (\<lambda>found rule. found\<lparr>prom_Groups := prom_Groups rule\<rparr>) rule"
  by (simp_all add: ensureUpdated_def ensure_def createOrUpdateNetworkPolicy_def createOrUpdatePrometheusRule_def)

lemma reconcilable_kinds:
  "reconcilable ONetworkPolicy samePolicy
     (\<lambda>found np. found\<lparr>np_Spec := np_Spec np, np_meta := (np_meta found)\<lparr>Labels := Labels (np_meta np),
        OwnerReferences := OwnerReferences (np_meta np)\<rparr>\<rparr>)"
  "reconcilable OPrometheusRule
     (\<lambda>found rule. normGroups (prom_Groups found) = normGroups (prom_Groups rule))
     (\<lambda>found rule. found\<lparr>prom_Groups := prom_Groups rule\<rparr>)"
  by (simp_all add: reconcilable_def terminated_def samePolicy_def)

lemmas ensureUpdated_laws = ensureUpdated_frame ensureUpdated_reaches ensureUpdated_rests

interpretation network_policy_writer: desired_writer ONetworkPolicy createOrUpdateNetworkPolicy samePolicy
  by (unfold_locales, unfold normalised_updates)
    (assumption | rule ensureUpdated_laws decodes_kinds reconcilable_kinds)+

interpretation prometheus_rule_writer: desired_writer OPrometheusRule createOrUpdatePrometheusRule
  "\<lambda>found rule. normGroups (prom_Groups found) = normGroups (prom_Groups rule)"
  by (unfold_locales, unfold normalised_updates)
    (assumption | rule ensureUpdated_laws decodes_kinds reconcilable_kinds)+

section \<open>The database configuration\<close>

lemma mergedConfigMap_meta [simp]: "cm_meta (mergedConfigMap found cm) = cm_meta cm"
  by (simp add: mergedConfigMap_def UpdatePostgresConfigmap_def Let_def)

lemma conf_merged: "conf cm \<noteq> '''' \<Longrightarrow> conf (mergedConfigMap found cm) \<noteq> ''''"
  by (simp add: mergedConfigMap_def UpdatePostgresConfigmap_def Let_def)

text \<open>After a successful update the stored data is the merged data.\<close>

lemma updateConfigMap_stores:
  assumes api: "kube_api (Client r) objs" and nt: "\<not> terminated (OConfigMap cm)"
    and run: "run_state (updateConfigMap r found cm) w = ((done_ok, cm'), w')"
    and same: "semEqMap (cm_Data found) (cm_Data (mergedConfigMap found cm)) \<Longrightarrow>
      objs w (metaKey KConfigMap (cm_meta cm)) = Some (OConfigMap found)"
  shows "cm' = mergedConfigMap found cm \<and> (\<exists>stored. objs w' (metaKey KConfigMap (cm_meta cm)) = Some (OConfigMap stored)
    \<and> semEqMap (cm_Data stored) (cm_Data cm'))"
proof (cases "needsUpdate found (mergedConfigMap found cm)")
  case False
  then have "semEqMap (cm_Data found) (cm_Data (mergedConfigMap found cm))"
    by (simp add: needsUpdate_def Let_def)
  then show ?thesis using False run same by (simp add: updateConfigMap_def)
next
  case True
  obtain res w1 where up: "run_state (cl_Update (Client r) (OConfigMap (mergedConfigMap found cm))) w = (res, w1)"
    by fastforce
  have "run_state (updateConfigMap r found cm) w =
      ((case res of Inl err \<Rightarrow> failWith err | Inr _ \<Rightarrow> done_ok, mergedConfigMap found cm), w1)"
    using True by (simp add: updateConfigMap_def Let_def up split: sum.splits)
  then obtain ob where "res = Inr ob" "w1 = w'" and cm': "cm' = mergedConfigMap found cm"
    using run by (cases res) simp_all
  have "\<not> terminated (OConfigMap (mergedConfigMap found cm))" using nt by (simp add: terminated_def)
  from update_stores [OF api up [unfolded \<open>res = Inr ob\<close> \<open>w1 = w'\<close>] this] cm' show ?thesis by auto
qed

lemma createOrUpdateConfigMap_stores:
  assumes api: "kube_api (Client r) objs" and nt: "\<not> terminated (OConfigMap cm)" and ne: "conf cm \<noteq> ''''"
    and run: "run_state (createOrUpdateConfigMap r cm) w = ((done_ok, cm'), w')"
  shows "(\<exists>stored. objs w' (metaKey KConfigMap (cm_meta cm)) = Some (OConfigMap stored)
      \<and> semEqMap (cm_Data stored) (cm_Data cm'))
    \<and> cm' = (case fst (run_state (Get (Client r) asConfigMap (metaKey KConfigMap (cm_meta cm))) w) of
         Inl err \<Rightarrow> if IsNotFound err then cm else mergedConfigMap emptyConfigMap cm
       | Inr found \<Rightarrow> mergedConfigMap found cm)"
proof -
  let ?k = "metaKey KConfigMap (cm_meta cm)"
  obtain g w1 where g: "run_state (Get (Client r) asConfigMap ?k) w = (g, w1)" by fastforce
  note view = Get_view [OF api g]
  show ?thesis
  proof (cases g)
    case (Inr found)
    then have up: "run_state (updateConfigMap r found cm) w1 = ((done_ok, cm'), w')"
      using run g by (simp add: createOrUpdateConfigMap_def)
    have "objs w1 ?k = Some (OConfigMap found)"
      using Get_found [OF api decodes_kinds(3) g [unfolded Inr]] view by simp
    from updateConfigMap_stores [OF api nt up this] show ?thesis by (auto simp: g Inr)
  next
    case (Inl err)
    show ?thesis
    proof (cases "IsNotFound err")
      case True
      then obtain ob where "run_state (cl_Create (Client r) (OConfigMap cm)) w1 = (Inr ob, w')" "cm' = cm"
        using run g Inl by (auto simp: createOrUpdateConfigMap_def ret_defs split: sum.splits prod.splits)
      then show ?thesis using create_stores [OF api] True by (fastforce simp: g Inl)
    next
      case False
      then have up: "run_state (updateConfigMap r emptyConfigMap cm) w1 = ((done_ok, cm'), w')"
        using run g Inl by (simp add: createOrUpdateConfigMap_def)
      have "\<not> semEqMap (cm_Data emptyConfigMap) (cm_Data (mergedConfigMap emptyConfigMap cm))"
        using conf_merged [OF ne, of emptyConfigMap]
          semEqMap_index [of "cm_Data emptyConfigMap" _ "''postgresql.conf''"]
        by (auto simp: emptyConfigMap_def)
      then show ?thesis using updateConfigMap_stores [OF api nt up] False by (auto simp: g Inl)
    qed
  qed
qed

section \<open>The properties of the write operations\<close>

text \<open>
  C23. The configuration the database pod is rolled out for is the stored one: when the database's
  config map has been written, the hash of the config map the reconciliation goes on with is the hash
  of what is stored, and what is stored is the merge of the operator's default with the
  customisations that were read.
\<close>

theorem database_config_hash_is_stored:
  assumes "kube_api (Client r) objs" "\<not> terminated (OConfigMap cm)" "conf cm \<noteq> ''''"
    "run_state (createOrUpdateConfigMap r cm) w = ((done_ok, cm'), w')"
  shows "\<exists>stored. objs w' (metaKey KConfigMap (cm_meta cm)) = Some (OConfigMap stored)
    \<and> postgresConfigHash (Lib r) (cm_Data cm') = postgresConfigHash (Lib r) (cm_Data stored)
    \<and> (\<forall>found w1. run_state (Get (Client r) asConfigMap (metaKey KConfigMap (cm_meta cm))) w = (Inr found, w1)
         \<longrightarrow> semEqMap (cm_Data stored) (cm_Data (mergedConfigMap found cm)))"
proof -
  note st = createOrUpdateConfigMap_stores [OF assms]
  then obtain stored where stored: "objs w' (metaKey KConfigMap (cm_meta cm)) = Some (OConfigMap stored)"
    "semEqMap (cm_Data stored) (cm_Data cm')" by blast
  then show ?thesis using st
    by (intro exI [of _ stored]) (auto simp: postgresConfigHash_def semEqMap_index)
qed

definition sampleDatabaseConfig :: "string \<Rightarrow> ConfigMap" where
  "sampleDatabaseConfig c = \<lparr>cm_meta = newMeta postgresConfigmapName ''ocm'',
     cm_Data = mapOf [(''postgresql.conf'', ''ssl''), (''custom-postgresql.conf'', c)]\<rparr>"

definition databaseWorld :: "string option list \<Rightarrow> mem" where
  "databaseWorld faults = (mem_world [OConfigMap (sampleDatabaseConfig ''jit = off'')])\<lparr>mem_faults := faults\<rparr>"

lemmas mem_run_simps = mem_client_def run_scripted run_Get mem_get_def mem_create_def mem_update_def save_def
  mem_world_def metaKey_def mkKey_def cluster_scoped_def newMeta_def terminated_def

lemma databaseWorld_run:
  "run_state (createOrUpdateConfigMap mem_reconciler (sampleDatabaseConfig [])) (databaseWorld [])
     = ((done_ok, mergedConfigMap (sampleDatabaseConfig ''jit = off'') (sampleDatabaseConfig [])),
        mem_world [OConfigMap (mergedConfigMap (sampleDatabaseConfig ''jit = off'') (sampleDatabaseConfig []))])"
proof -
  have "needsUpdate (sampleDatabaseConfig ''jit = off'')
     (mergedConfigMap (sampleDatabaseConfig ''jit = off'') (sampleDatabaseConfig []))"
    using semEqMap_index [of _ _ "''postgresql.conf''"]
    by (force simp: needsUpdate_def Let_def mergedConfigMap_def sampleDatabaseConfig_def
        UpdatePostgresConfigmap_def)
  then show ?thesis
    by (simp add: createOrUpdateConfigMap_def updateConfigMap_def Let_def databaseWorld_def mem_run_simps
        sampleDatabaseConfig_def)
qed

theorem database_config_hash_is_stored_witness:
  "\<exists>stored. mem_view (snd (run_state (createOrUpdateConfigMap mem_reconciler (sampleDatabaseConfig [])) (databaseWorld [])))
      (metaKey KConfigMap (cm_meta (sampleDatabaseConfig []))) = Some (OConfigMap stored)
    \<and> postgresConfigHash mem_lib (cm_Data (mergedConfigMap (sampleDatabaseConfig ''jit = off'') (sampleDatabaseConfig [])))
        = postgresConfigHash mem_lib (cm_Data stored)"
proof -
  have "\<not> terminated (OConfigMap (sampleDatabaseConfig []))" "conf (sampleDatabaseConfig []) \<noteq> ''''"
    by (simp_all add: sampleDatabaseConfig_def terminated_def)
  from database_config_hash_is_stored [where r = mem_reconciler, unfolded mem_reconciler_simps,
      OF mem_kube_api this databaseWorld_run] show ?thesis
    by (auto simp: databaseWorld_run)
qed

text \<open>
  C32. Customisations are lost when the stored config map cannot be read: if the read fails with
  anything but \<open>NotFound\<close> and the update succeeds, the stored configuration is the operator's
  default and the custom part is an empty comment, whatever was stored before.
\<close>

theorem read_error_discards_customisations:
  assumes "kube_api (Client r) objs" "\<not> terminated (OConfigMap cm)" "conf cm \<noteq> ''''"
    "Name (cm_meta cm) = postgresConfigmapName"
    "run_state (createOrUpdateConfigMap r cm) w = ((done_ok, cm'), w')"
    "run_state (Get (Client r) asConfigMap (metaKey KConfigMap (cm_meta cm))) w = (Inl err, w1)"
    "\<not> IsNotFound err"
  shows "\<exists>stored. objs w' (metaKey KConfigMap (cm_meta cm)) = Some (OConfigMap stored)
    \<and> conf stored = conf cm \<and> custom stored = ''# Customizations appended to postgresql.conf''"
proof -
  from createOrUpdateConfigMap_stores [OF assms(1-3,5)] assms(6,7) obtain stored where
    stored: "objs w' (metaKey KConfigMap (cm_meta cm)) = Some (OConfigMap stored)"
      "semEqMap (cm_Data stored) (cm_Data (mergedConfigMap emptyConfigMap cm))" by auto
  have "custom emptyConfigMap = ''''" "conf emptyConfigMap \<noteq> conf cm"
    using assms(3) by (simp_all add: emptyConfigMap_def)
  from update_migrates [OF this] have
    "conf (mergedConfigMap emptyConfigMap cm) = conf cm"
    "custom (mergedConfigMap emptyConfigMap cm) = ''# Customizations appended to postgresql.conf''"
    using assms(4) by (simp_all add: mergedConfigMap_def emptyConfigMap_def migrationHeading_def)
  then show ?thesis using stored semEqMap_index [OF stored(2)] by auto
qed

lemma databaseWorld_fault:
  "run_state (Get mem_client asConfigMap (metaKey KConfigMap (cm_meta (sampleDatabaseConfig []))))
      (databaseWorld [Some ''timeout'']) = (Inl (APIError OtherReason ''timeout''), databaseWorld [])"
  "run_state (createOrUpdateConfigMap mem_reconciler (sampleDatabaseConfig [])) (databaseWorld [Some ''timeout''])
     = ((done_ok, mergedConfigMap emptyConfigMap (sampleDatabaseConfig [])),
        mem_world [OConfigMap (mergedConfigMap emptyConfigMap (sampleDatabaseConfig []))])"
proof -
  have "needsUpdate emptyConfigMap (mergedConfigMap emptyConfigMap (sampleDatabaseConfig []))"
    using semEqMap_index [of _ _ "''postgresql.conf''"]
    by (force simp: needsUpdate_def Let_def mergedConfigMap_def sampleDatabaseConfig_def emptyConfigMap_def
        UpdatePostgresConfigmap_def)
  then show "run_state (createOrUpdateConfigMap mem_reconciler (sampleDatabaseConfig [])) (databaseWorld [Some ''timeout''])
     = ((done_ok, mergedConfigMap emptyConfigMap (sampleDatabaseConfig [])),
        mem_world [OConfigMap (mergedConfigMap emptyConfigMap (sampleDatabaseConfig []))])"
    by (simp add: createOrUpdateConfigMap_def updateConfigMap_def Let_def databaseWorld_def mem_run_simps
        sampleDatabaseConfig_def)
qed (simp add: databaseWorld_def mem_run_simps)

theorem read_error_discards_customisations_witness:
  "mem_view (databaseWorld [Some ''timeout'']) (mkKey KConfigMap ''ocm'' postgresConfigmapName)
     = Some (OConfigMap (sampleDatabaseConfig ''jit = off''))
   \<and> (\<exists>stored. mem_view (snd (run_state (createOrUpdateConfigMap mem_reconciler (sampleDatabaseConfig []))
          (databaseWorld [Some ''timeout'']))) (metaKey KConfigMap (cm_meta (sampleDatabaseConfig []))) = Some (OConfigMap stored)
      \<and> conf stored = ''ssl'' \<and> custom stored = ''# Customizations appended to postgresql.conf'')"
proof
  show "mem_view (databaseWorld [Some ''timeout'']) (mkKey KConfigMap ''ocm'' postgresConfigmapName)
     = Some (OConfigMap (sampleDatabaseConfig ''jit = off''))"
    by (simp add: databaseWorld_def mem_view_def mem_world_def sampleDatabaseConfig_def)
  have s: "\<not> terminated (OConfigMap (sampleDatabaseConfig []))" "conf (sampleDatabaseConfig []) \<noteq> ''''"
    "Name (cm_meta (sampleDatabaseConfig [])) = postgresConfigmapName" "conf (sampleDatabaseConfig []) = ''ssl''"
    "\<not> IsNotFound (APIError OtherReason ''timeout'')"
    by (simp_all add: sampleDatabaseConfig_def terminated_def)
  from read_error_discards_customisations [where r = mem_reconciler, unfolded mem_reconciler_simps,
      OF mem_kube_api s(1-3) databaseWorld_fault(2,1) s(5)]
  show "\<exists>stored. mem_view (snd (run_state (createOrUpdateConfigMap mem_reconciler (sampleDatabaseConfig []))
          (databaseWorld [Some ''timeout'']))) (metaKey KConfigMap (cm_meta (sampleDatabaseConfig []))) = Some (OConfigMap stored)
      \<and> conf stored = ''ssl'' \<and> custom stored = ''# Customizations appended to postgresql.conf''"
    unfolding databaseWorld_fault(2) snd_conv s(4) .
qed

text \<open>
  C3. Network policies and alert rules are brought to the wanted state: after a success the stored
  object agrees with the wanted one (for a policy in spec, labels and owners), nothing else has
  changed, and running the step again changes nothing.
\<close>

theorem policies_and_alerts_converge:
  assumes "kube_api (Client r) objs" "live objs w" "\<not> terminated (ONetworkPolicy np)" "\<not> terminated (OPrometheusRule rule)"
    "run_state (createOrUpdateNetworkPolicy r np) w = (done_ok, w1)"
    "run_state (createOrUpdatePrometheusRule r rule) w = (done_ok, w2)"
  shows "(\<exists>y. objs w1 (metaKey KNetworkPolicy (np_meta np)) = Some (ONetworkPolicy y) \<and> samePolicy y np)
    \<and> (\<exists>y. objs w2 (metaKey KPrometheusRule (prom_meta rule)) = Some (OPrometheusRule y)
         \<and> normGroups (prom_Groups y) = normGroups (prom_Groups rule))
    \<and> same_except objs w w1 {metaKey KNetworkPolicy (np_meta np)}
    \<and> same_except objs w w2 {metaKey KPrometheusRule (prom_meta rule)}
    \<and> objs (snd (run_state (createOrUpdateNetworkPolicy r np) w1)) = objs w1
    \<and> objs (snd (run_state (createOrUpdatePrometheusRule r rule) w2)) = objs w2"
proof (intro conjI)
  note alive = live_alive [OF assms(2)]
  show "\<exists>y. objs w1 (metaKey KNetworkPolicy (np_meta np)) = Some (ONetworkPolicy y) \<and> samePolicy y np"
    using network_policy_writer.reaches [OF assms(1) alive assms(3,5)] by simp
  show "\<exists>y. objs w2 (metaKey KPrometheusRule (prom_meta rule)) = Some (OPrometheusRule y)
      \<and> normGroups (prom_Groups y) = normGroups (prom_Groups rule)"
    using prometheus_rule_writer.reaches [OF assms(1) alive assms(4,6)] by simp
  show "same_except objs w w1 {metaKey KNetworkPolicy (np_meta np)}"
    using network_policy_writer.frame [OF assms(1)] assms(5) unfolding touches_def key_of_simps by (metis snd_conv)
  show "same_except objs w w2 {metaKey KPrometheusRule (prom_meta rule)}"
    using prometheus_rule_writer.frame [OF assms(1)] assms(6) unfolding touches_def key_of_simps by (metis snd_conv)
  show "objs (snd (run_state (createOrUpdateNetworkPolicy r np) w1)) = objs w1"
    by (rule network_policy_writer.second_run_idle [OF assms(1) alive assms(3,5) prod.collapse [symmetric]])
  show "objs (snd (run_state (createOrUpdatePrometheusRule r rule) w2)) = objs w2"
    by (rule prometheus_rule_writer.second_run_idle [OF assms(1) alive assms(4,6) prod.collapse [symmetric]])
qed

definition samplePolicy :: "string list \<Rightarrow> NetworkPolicy" where
  "samplePolicy types = \<lparr>np_meta = newMeta ''search-api'' ''ocm'',
     np_Spec = \<lparr>nps_PodSelector = None, nps_PolicyTypes = types, nps_Ingress = [], nps_Egress = []\<rparr>\<rparr>"

definition sampleAlerts :: PrometheusRule where
  "sampleAlerts = \<lparr>prom_meta = newMeta ''search-pvc-info-alert'' ''ocm'', prom_Groups = [(''search-pvc-alerts'', [])]\<rparr>"

lemma drifted_policy_runs:
  "run_state (createOrUpdateNetworkPolicy mem_reconciler (samplePolicy [''Ingress''])) (mem_world [ONetworkPolicy (samplePolicy [])])
     = (done_ok, mem_world [ONetworkPolicy (samplePolicy [''Ingress''])])"
  "run_state (createOrUpdatePrometheusRule mem_reconciler sampleAlerts) (mem_world [ONetworkPolicy (samplePolicy [])])
     = (done_ok, mem_world [ONetworkPolicy (samplePolicy []), OPrometheusRule sampleAlerts])"
  by (simp_all add: createOrUpdateNetworkPolicy_def createOrUpdatePrometheusRule_def samplePolicy_def sampleAlerts_def
      mem_run_simps samePolicy_def normPolicySpec_def)

theorem policies_and_alerts_converge_witness:
  "(\<exists>y. mem_view (mem_world [ONetworkPolicy (samplePolicy [''Ingress''])]) (metaKey KNetworkPolicy (np_meta (samplePolicy [''Ingress''])))
      = Some (ONetworkPolicy y) \<and> samePolicy y (samplePolicy [''Ingress'']))
   \<and> run_state (createOrUpdateNetworkPolicy mem_reconciler (samplePolicy [''Ingress''])) (mem_world [ONetworkPolicy (samplePolicy [])])
     = (done_ok, mem_world [ONetworkPolicy (samplePolicy [''Ingress''])])"
proof -
  have "live mem_view (mem_world [ONetworkPolicy (samplePolicy [])])"
    by (rule mem_world_live) (simp add: samplePolicy_def terminated_def)
  moreover have "\<not> terminated (ONetworkPolicy (samplePolicy [''Ingress'']))" "\<not> terminated (OPrometheusRule sampleAlerts)"
    by (simp_all add: samplePolicy_def sampleAlerts_def terminated_def)
  ultimately show ?thesis
    using policies_and_alerts_converge [where r = mem_reconciler, unfolded mem_reconciler_simps,
        OF mem_kube_api _ _ _ drifted_policy_runs] drifted_policy_runs(1) by simp
qed

end
