(* ===== verification/Deployments.thy ===== *)
theory Deployments
  imports Postgres_Config
begin

text \<open>
  The four deployments (\<open>controllers/create_apideployment.go\<close>,
  \<open>create_indexerdeployment.go\<close>, \<open>create_collectordeployment.go\<close>,
  \<open>create_pgdeployment.go\<close>). Each builder takes the reconciler, the Search resource and what the
  reconciliation passes on: the TLS variables, the cluster's name, the hash of the database
  configuration. The locale \<open>search_deployment\<close> states what the builders have in common; the
  theorems follow from it for all four: images, arguments, environment, security contexts, replica
  counts and accounts.
\<close>

section \<open>Parts\<close>

definition newSecretEnvVar :: "string \<Rightarrow> string \<Rightarrow> string \<Rightarrow> EnvVar" where
  "newSecretEnvVar name key secretName = \<lparr>ev_Name = name, ev_Value = '''', ev_ValueFrom = Some
     \<lparr>evs_FieldRef = None, evs_SecretKeyRef = Some \<lparr>sks_Key = key, sks_Name = secretName\<rparr>,
      evs_ConfigMapKeyRef = None, evs_ResourceFieldRef = None\<rparr>\<rparr>"

definition httpProbe :: "int \<Rightarrow> int \<Rightarrow> int \<Rightarrow> string \<Rightarrow> string \<Rightarrow> Probe" where
  "httpProbe initial timeout port path scheme =
     \<lparr>InitialDelaySeconds = initial, TimeoutSeconds = timeout, ProbeHandler = HTTPGet port path scheme\<rparr>"

definition execProbe :: "int \<Rightarrow> int \<Rightarrow> string list \<Rightarrow> Probe" where
  "execProbe initial timeout command =
     \<lparr>InitialDelaySeconds = initial, TimeoutSeconds = timeout, ProbeHandler = Exec command\<rparr>"

definition mount :: "string \<Rightarrow> string \<Rightarrow> VolumeMount" where
  "mount name path = \<lparr>vm_Name = name, vm_MountPath = path, vm_SubPath = ''''\<rparr>"

text \<open>
  The end of every builder: resources, pull policy and security context of the container, replicas,
  the pod with its volumes and account, node selector and tolerations, and the owner.
\<close>

definition finishDeployment ::
  "'w SearchReconciler \<Rightarrow> string \<Rightarrow> Search \<Rightarrow> string \<Rightarrow> Volume list \<Rightarrow> Container \<Rightarrow> Deployment" where
  "finishDeployment r deploymentName inst account volumes container =
     (let deployment = getDeployment deploymentName inst;
          container = container\<lparr>c_Resources := getResourceRequirements (Lib r) deploymentName inst,
            c_ImagePullPolicy := getImagePullPolicy deploymentName inst,
            c_SecurityContext := Some getContainerSecurityContext\<rparr>;
          pod = (ds_PodSpec (dep_Spec deployment))\<lparr>
            ps_SecurityContext := Some getPodSecurityContext, ps_Containers := [container],
            ps_Volumes := volumes, ps_ServiceAccountName := account,
            ps_NodeSelector := getNodeSelector deploymentName inst,
            ps_Tolerations := getTolerations deploymentName inst\<rparr>
      in deployment\<lparr>dep_meta := withOwner (Lib r) inst (dep_meta deployment),
           dep_Spec := (dep_Spec deployment)\<lparr>ds_Replicas := Some (getReplicaCount deploymentName inst),
             ds_PodSpec := pod\<rparr>\<rparr>)"

definition noResources :: ResourceRequirements where
  "noResources = \<lparr>Requests = None, Limits = None\<rparr>"

section \<open>The builders\<close>

definition APIDeployment :: "'w SearchReconciler \<Rightarrow> Search \<Rightarrow> EnvVar list \<Rightarrow> Deployment" where
  "APIDeployment r inst tlsEnvVars =
     (let deploymentName = apiDeploymentName;
          apiContainer = \<lparr>c_Name = deploymentName,
            c_Image = getImageSha (Getenv r) deploymentName inst,
            c_Args = getContainerArgs deploymentName inst,
            c_Env = [newSecretEnvVar ''DB_USER'' ''database-user'' apiReadonlySecretName,
                newSecretEnvVar ''DB_PASS'' ''database-password'' apiReadonlySecretName,
                newSecretEnvVar ''DB_NAME'' ''database-name'' apiReadonlySecretName,
                newEnvVar ''DB_HOST'' (''search-postgres.'' @ Namespace (s_meta inst) @ ''.svc''),
                newEnvVar ''POD_NAMESPACE'' (Namespace (s_meta inst))]
              @ tlsEnvVars @ getContainerEnvVar deploymentName inst,
            c_Ports = [], c_VolumeMounts = [mount ''search-api-certs'' ''/sslcert''],
            c_ReadinessProbe = Some (httpProbe 5 1 4010 ''/readiness'' ''HTTPS''),
            c_LivenessProbe = Some (httpProbe 30 1 4010 ''/liveness'' ''HTTPS''),
            c_PreStop = [], c_Resources = noResources, c_ImagePullPolicy = '''', c_SecurityContext = None\<rparr>;
          volumes = [\<lparr>vol_Name = ''search-api-certs'', vol_Source = SecretSource apiSecretName None\<rparr>]
      in finishDeployment r deploymentName inst getAPIServiceAccountName volumes apiContainer)"

definition IndexerDeployment :: "'w SearchReconciler \<Rightarrow> Search \<Rightarrow> EnvVar list \<Rightarrow> Deployment" where
  "IndexerDeployment r inst tlsEnvVars =
     (let deploymentName = indexerDeploymentName;
          indexerContainer = \<lparr>c_Name = deploymentName,
            c_Image = getImageSha (Getenv r) deploymentName inst,
            c_Args = getContainerArgs deploymentName inst,
            c_Env = [newSecretEnvVar ''DB_USER'' ''database-user'' ''search-postgres'',
                newSecretEnvVar ''DB_PASS'' ''database-password'' ''search-postgres'',
                newSecretEnvVar ''DB_NAME'' ''database-name'' ''search-postgres'',
                newEnvVar ''DB_HOST'' (''search-postgres.'' @ Namespace (s_meta inst) @ ''.svc''),
                newEnvVar ''POD_NAMESPACE'' (Namespace (s_meta inst)),
                newMetadataEnvVar ''POD_NAME'' ''metadata.name'']
              @ tlsEnvVars @ getContainerEnvVar deploymentName inst,
            c_Ports = [], c_VolumeMounts = [mount ''search-indexer-certs'' ''/sslcert''],
            c_ReadinessProbe = Some (httpProbe 15 30 3010 ''/readiness'' ''HTTPS''),
            c_LivenessProbe = Some (httpProbe 20 30 3010 ''/liveness'' ''HTTPS''),
            c_PreStop = [], c_Resources = noResources, c_ImagePullPolicy = '''', c_SecurityContext = None\<rparr>;
          volumes = [\<lparr>vol_Name = ''search-indexer-certs'', vol_Source = SecretSource indexerSecretName None\<rparr>]
      in finishDeployment r deploymentName inst getIndexerServiceAccountName volumes indexerContainer)"

definition localClusterName :: "json \<Rightarrow> string" where
  "localClusterName mch = (case jget (jfields mch) ''spec'' of
     JObject spec \<Rightarrow> (case jget spec ''localClusterName'' of
         JString name \<Rightarrow> if name \<noteq> '''' then name else ''local-cluster''
       | _ \<Rightarrow> ''local-cluster'')
   | _ \<Rightarrow> ''local-cluster'')"

text \<open>The list is only looked at when there is no error; the client then returns one.\<close>

definition getClusterNameFromMCH :: "'w dynamic \<Rightarrow> ('w, string) state" where
  "getClusterNameFromMCH dyn = do {
     (mchs, err) \<leftarrow> dyn_List dyn (''operator.open-cluster-management.io'', ''v1'', ''multiclusterhubs'');
     ret (case (err, mchs) of
         (None, Some (item # _)) \<Rightarrow> localClusterName item
       | _ \<Rightarrow> ''local-cluster'')
   }"

definition collectorDeployment ::
  "'w SearchReconciler \<Rightarrow> Search \<Rightarrow> EnvVar list \<Rightarrow> string \<Rightarrow> Deployment" where
  "collectorDeployment r inst tlsEnvVars clusterName =
     (let deploymentName = collectorDeploymentName;
          collectorContainer = \<lparr>c_Name = deploymentName,
            c_Image = getImageSha (Getenv r) deploymentName inst,
            c_Args = getContainerArgs deploymentName inst,
            c_Env = [newEnvVar ''DEPLOYED_IN_HUB'' ''true'', newEnvVar ''CLUSTER_NAME'' clusterName,
                newEnvVar ''AGGREGATOR_URL'' (''https://search-indexer.'' @ Namespace (s_meta inst) @ ''.svc:3010''),
                newEnvVar ''POD_NAMESPACE'' (Namespace (s_meta inst))]
              @ getContainerEnvVar deploymentName inst @ tlsEnvVars,
            c_Ports = [], c_VolumeMounts = [mount ''search-indexer-certs'' ''/sslcert''],
            c_ReadinessProbe = Some (httpProbe 15 1 5010 ''/readiness'' ''HTTP''),
            c_LivenessProbe = Some (httpProbe 20 1 5010 ''/liveness'' ''HTTP''),
            c_PreStop = [], c_Resources = noResources, c_ImagePullPolicy = '''', c_SecurityContext = None\<rparr>;
          volumes = [\<lparr>vol_Name = ''search-indexer-certs'', vol_Source = SecretSource indexerSecretName None\<rparr>]
      in finishDeployment r deploymentName inst getCollectorServiceAccountName volumes collectorContainer)"

definition CollectorDeployment ::
  "'w SearchReconciler \<Rightarrow> 'w dynamic \<Rightarrow> Search \<Rightarrow> EnvVar list \<Rightarrow> ('w, Deployment) state" where
  "CollectorDeployment r dyn inst tlsEnvVars = do {
     clusterName \<leftarrow> getClusterNameFromMCH dyn;
     ret (collectorDeployment r inst tlsEnvVars clusterName)
   }"

text \<open>The user's variables, then the defaults the user did not set.\<close>

definition addDefaultEnv :: "EnvVar list \<Rightarrow> EnvVar list \<Rightarrow> EnvVar list" where
  "addDefaultEnv env defaults = env @ filter (\<lambda>e. ev_Name e \<notin> ev_Name ` set env) defaults"

definition memoryVolume :: "string \<Rightarrow> Volume" where
  "memoryVolume name = \<lparr>vol_Name = name, vol_Source = EmptyDirSource ''Memory''\<rparr>"

definition configHashAnnotation :: string where
  "configHashAnnotation = ''search.open-cluster-management.io/postgres-config-hash''"

definition postgresDeployment :: "'w SearchReconciler \<Rightarrow> Search \<Rightarrow> string \<Rightarrow> string \<Rightarrow> Deployment" where
  "postgresDeployment r inst configHash postgresqlWorkMem =
     (let deploymentName = postgresDeploymentName;
          postgresContainer = \<lparr>c_Name = deploymentName,
            c_Image = getImageSha (Getenv r) deploymentName inst,
            c_Args = getContainerArgs deploymentName inst,
            c_Env = [newSecretEnvVar ''POSTGRESQL_USER'' ''database-user'' ''search-postgres'',
                newSecretEnvVar ''POSTGRESQL_PASSWORD'' ''database-password'' ''search-postgres'',
                newSecretEnvVar ''POSTGRESQL_DATABASE'' ''database-name'' ''search-postgres'',
                newSecretEnvVar ''READONLY_API_PASSWORD'' ''database-password'' apiReadonlySecretName,
                newSecretEnvVar ''READONLY_MCP_PASSWORD'' ''database-password'' mcpReadonlySecretName]
              @ addDefaultEnv (getContainerEnvVar deploymentName inst) [newEnvVar ''WORK_MEM'' postgresqlWorkMem],
            c_Ports = [\<lparr>cp_Name = ''search-postgres'', cp_ContainerPort = 5432, cp_Protocol = ''TCP''\<rparr>],
            c_VolumeMounts = [mount ''postgresdb'' ''/var/lib/pgsql/data'',
              mount ''postgresql-cfg'' ''/opt/app-root/src/postgresql-cfg'',
              (mount ''postgresql-pre-start'' ''/opt/app-root/src/postgresql-pre-start/postgresql-pre-start.sh'')
                \<lparr>vm_SubPath := ''postgresql-pre-start.sh''\<rparr>,
              mount ''postgresql-start'' ''/opt/app-root/src/postgresql-start'',
              mount ''search-postgres-certs'' ''/sslcert'',
              mount ''postgres-run'' ''/var/run/postgresql'', mount ''postgres-tmp'' ''/tmp'',
              mount ''postgres-log'' ''/var/log'', mount ''postgres-home'' ''/var/lib/pgsql''],
            c_ReadinessProbe = Some (execProbe 5 1 [''/usr/libexec/check-container'']),
            c_LivenessProbe = Some (execProbe 120 10 [''/usr/libexec/check-container'', ''--live'']),
            c_PreStop = [''/bin/sh'', ''-c'', ''pg_ctl stop -D /var/lib/pgsql/data/userdata -m fast -w -t 55''],
            c_Resources = noResources, c_ImagePullPolicy = '''', c_SecurityContext = None\<rparr>;
          volumes = [\<lparr>vol_Name = ''postgresql-cfg'', vol_Source = ConfigMapSource postgresConfigmapName\<rparr>,
            \<lparr>vol_Name = ''postgresql-pre-start'', vol_Source = ConfigMapSource postgresConfigmapName\<rparr>,
            \<lparr>vol_Name = ''postgresql-start'', vol_Source = ConfigMapSource postgresConfigmapName\<rparr>,
            \<lparr>vol_Name = ''search-postgres-certs'', vol_Source = SecretSource postgresSecretName (Some certDefaultMode)\<rparr>,
            getPostgresVolume inst, memoryVolume ''postgres-run'', memoryVolume ''postgres-tmp'',
            memoryVolume ''postgres-log'', memoryVolume ''postgres-home''];
          deployment = finishDeployment r deploymentName inst getPostgresServiceAccountName volumes postgresContainer;
          spec = dep_Spec deployment
      in deployment\<lparr>dep_Spec := spec\<lparr>
           ds_TemplateAnnotations := put configHashAnnotation configHash (ds_TemplateAnnotations spec),
           ds_Strategy := ''Recreate'',
           ds_PodSpec := (ds_PodSpec spec)\<lparr>ps_TerminationGracePeriodSeconds := Some 60\<rparr>\<rparr>\<rparr>)"

definition PGDeployment ::
  "'w SearchReconciler \<Rightarrow> Search \<Rightarrow> string \<Rightarrow> ('w, Deployment) state" where
  "PGDeployment r inst configHash = do {
     postgresqlWorkMem \<leftarrow> GetDBConfigFromSearchCR r inst ''WORK_MEM'';
     ret (postgresDeployment r inst configHash postgresqlWorkMem)
   }"

section \<open>What the builders promise\<close>

text \<open>
  A deployment is safe against the editor of the Search resource: every container runs a trusted
  image or the operator's own, takes no argument but the verbosity, reads no secret that the
  operator does not manage, and runs unprivileged on a read-only root file system.
\<close>

definition safe_container :: "(string \<Rightarrow> string) \<Rightarrow> Container \<Rightarrow> bool" where
  "safe_container getenv c \<longleftrightarrow>
     (IsTrustedImage (c_Image c) \<or> c_Image c \<in> envImages getenv)
     \<and> list_all (\<lambda>arg. HasPrefix arg ''-v='' \<or> HasPrefix arg ''--v='') (c_Args c)
     \<and> list_all managed_env (c_Env c)
     \<and> c_SecurityContext c = Some \<lparr>sc_Privileged = Some False, sc_AllowPrivilegeEscalation = Some False,
         sc_ReadOnlyRootFilesystem = Some True, sc_RunAsNonRoot = Some True, sc_DropCapabilities = [''ALL'']\<rparr>"

definition safe_deployment :: "(string \<Rightarrow> string) \<Rightarrow> Deployment \<Rightarrow> bool" where
  "safe_deployment getenv d \<longleftrightarrow>
     list_all (safe_container getenv) (ps_Containers (ds_PodSpec (dep_Spec d)))
     \<and> ps_SecurityContext (ds_PodSpec (dep_Spec d))
         = Some \<lparr>psc_RunAsNonRoot = Some True, psc_SeccompProfile = ''RuntimeDefault''\<rparr>"

text \<open>
  The interface of a builder: one container with the component's image, arguments and an environment
  of managed variables, the security contexts, the component's account and replicas, and a pod
  template that its selector selects. The second argument is what the reconciliation passes on;
  \<open>good\<close> is what the builder needs of it.
\<close>

lemma metaKey_withOwner: "setref_contract lib \<Longrightarrow> metaKey k (withOwner lib inst m) = metaKey k m"
  by (cases "lib_SetControllerReference lib inst m") (simp_all add: withOwner_def setref_meta)

lemma metaKey_withOwner_new:
  "setref_contract lib \<Longrightarrow> metaKey k (withOwner lib inst (newMeta n ns)) = mkKey k ns n"
  by (simp add: metaKey_withOwner)

locale search_deployment =
  fixes name account :: string
    and build :: "'w SearchReconciler \<Rightarrow> 'x \<Rightarrow> Search \<Rightarrow> Deployment"
    and good :: "'x \<Rightarrow> bool"
  assumes known: "name \<in> {apiDeploymentName, collectorDeploymentName, indexerDeploymentName, postgresDeploymentName}"
    and container: "good x \<Longrightarrow> \<exists>c. ps_Containers (ds_PodSpec (dep_Spec (build r x inst))) = [c]
      \<and> c_Image c = getImageSha (Getenv r) name inst \<and> c_Args c = getContainerArgs name inst
      \<and> list_all managed_env (c_Env c) \<and> c_SecurityContext c = Some getContainerSecurityContext"
    and pod: "ps_SecurityContext (ds_PodSpec (dep_Spec (build r x inst))) = Some getPodSecurityContext"
      "ps_ServiceAccountName (ds_PodSpec (dep_Spec (build r x inst))) = account"
    and replicas: "ds_Replicas (dep_Spec (build r x inst)) = Some (getReplicaCount name inst)"
    and selector: "ds_SelectorLabels (dep_Spec (build r x inst)) = ds_TemplateLabels (dep_Spec (build r x inst))"
      "lookup (ds_TemplateLabels (dep_Spec (build r x inst))) ''name'' = Some name"
    and meta: "dep_meta (build r x inst) = withOwner (Lib r) inst (newMeta name (Namespace (s_meta inst)))"
begin

lemma safe: "good x \<Longrightarrow> safe_deployment (Getenv r) (build r x inst)"
  using container [of x r inst] pod(1) [of r x inst] getImageSha_trusted [OF known, of "Getenv r" inst]
  by (auto simp: safe_deployment_def safe_container_def list_all_iff getContainerSecurityContext_def
      getPodSecurityContext_def dest: getContainerArgs_verbosity)

lemma replicas_pos: "\<exists>n \<ge> 1. ds_Replicas (dep_Spec (build r x inst)) = Some n"
  using replicas getReplicaCount_pos by blast

lemma key: "setref_contract (Lib r) \<Longrightarrow>
  metaKey KDeployment (dep_meta (build r x inst)) = mkKey KDeployment (Namespace (s_meta inst)) name"
  unfolding meta by (rule metaKey_withOwner_new)

end

lemma managed_newEnvVar [simp]: "managed_env (newEnvVar n v)"
  by (simp add: managed_env_def newEnvVar_def)

lemma managed_newMetadataEnvVar [simp]: "managed_env (newMetadataEnvVar n k)"
  by (simp add: managed_env_def newMetadataEnvVar_def)

lemma managed_newSecretEnvVar [simp]: "managed_env (newSecretEnvVar n k s) \<longleftrightarrow> s \<in> set operatorManagedSecrets"
  by (simp add: managed_env_def newSecretEnvVar_def)

lemma managed_secrets [simp]:
  "''search-postgres'' \<in> set operatorManagedSecrets" "apiReadonlySecretName \<in> set operatorManagedSecrets"
  "mcpReadonlySecretName \<in> set operatorManagedSecrets"
  by (simp_all add: operatorManagedSecrets_def)

lemma managed_addDefaultEnv [simp]:
  "list_all managed_env env \<Longrightarrow> list_all managed_env ds \<Longrightarrow> list_all managed_env (addDefaultEnv env ds)"
  by (auto simp: addDefaultEnv_def list_all_iff)

lemmas builder_defs = finishDeployment_def getDeployment_def Let_def generateLabels_def

interpretation api_deployment: search_deployment apiDeploymentName getAPIServiceAccountName
  "\<lambda>r tls inst. APIDeployment r inst tls" "list_all managed_env"
  by unfold_locales (simp_all add: APIDeployment_def builder_defs getContainerEnvVar_managed)

interpretation indexer_deployment: search_deployment indexerDeploymentName getIndexerServiceAccountName
  "\<lambda>r tls inst. IndexerDeployment r inst tls" "list_all managed_env"
  by unfold_locales (simp_all add: IndexerDeployment_def builder_defs getContainerEnvVar_managed)

interpretation collector_deployment: search_deployment collectorDeploymentName getCollectorServiceAccountName
  "\<lambda>r x inst. collectorDeployment r inst (fst x) (snd x)" "\<lambda>x. list_all managed_env (fst x)"
  by unfold_locales (simp_all add: collectorDeployment_def builder_defs getContainerEnvVar_managed)

interpretation postgres_deployment: search_deployment postgresDeploymentName getPostgresServiceAccountName
  "\<lambda>r x inst. postgresDeployment r inst (fst x) (snd x)" "\<lambda>x. True"
  by unfold_locales (simp_all add: postgresDeployment_def builder_defs getContainerEnvVar_managed)

lemma getTLSEnvVars_managed: "list_all managed_env (fst (run_state (getTLSEnvVars dyn tls) w))"
  by (auto simp: getTLSEnvVars_def split: prod.splits sum.splits)

lemma CollectorDeployment_run:
  "fst (run_state (CollectorDeployment r dyn inst tls) w)
     = collectorDeployment r inst tls (fst (run_state (getClusterNameFromMCH dyn) w))"
  by (auto simp: CollectorDeployment_def split: prod.splits)

lemma PGDeployment_run:
  "fst (run_state (PGDeployment r inst configHash) w)
     = postgresDeployment r inst configHash (fst (run_state (GetDBConfigFromSearchCR r inst ''WORK_MEM'') w))"
  by (auto simp: PGDeployment_def split: prod.splits)

section \<open>The properties of the deployments\<close>

text \<open>
  C31. All four deployments are safe against whoever edits the Search resource: with the TLS variables
  the operator computes, every container runs an image of a trusted registry or of the operator's
  environment, takes only verbosity arguments, refers to no secret but the three the operator
  manages, and is unprivileged with a read-only root file system.
\<close>

theorem deployments_safe:
  "safe_deployment (Getenv r) (APIDeployment r inst (fst (run_state (getTLSEnvVars dyn tls) w)))
   \<and> safe_deployment (Getenv r) (IndexerDeployment r inst (fst (run_state (getTLSEnvVars dyn tls) w)))
   \<and> safe_deployment (Getenv r)
       (fst (run_state (CollectorDeployment r dyn inst (fst (run_state (getTLSEnvVars dyn tls) w))) w'))
   \<and> safe_deployment (Getenv r) (fst (run_state (PGDeployment r inst configHash) w'))"
proof -
  note vars = getTLSEnvVars_managed [of dyn tls w]
  have "safe_deployment (Getenv r) (collectorDeployment r inst (fst (run_state (getTLSEnvVars dyn tls) w)) name)" for name
    using collector_deployment.safe [where x = "(fst (run_state (getTLSEnvVars dyn tls) w), name)"
        and r = r and inst = inst] vars by simp
  moreover have "safe_deployment (Getenv r) (postgresDeployment r inst configHash m)" for m
    using postgres_deployment.safe [where x = "(configHash, m)" and r = r and inst = inst] by simp
  ultimately show ?thesis
    unfolding PGDeployment_run CollectorDeployment_run
    by (intro conjI api_deployment.safe [OF vars] indexer_deployment.safe [OF vars])
qed

text \<open>
  Replica counts and accounts: the collector and the database always have exactly one replica
  whatever the Search resource asks for, the API and the indexer at least one and as many as asked
  for, and each of the four pods runs under an account of its own.
\<close>

theorem replicas_and_accounts:
  "ds_Replicas (dep_Spec (fst (run_state (CollectorDeployment r dyn inst tls) w))) = Some 1
   \<and> ds_Replicas (dep_Spec (fst (run_state (PGDeployment r inst configHash) w))) = Some 1
   \<and> ds_Replicas (dep_Spec (APIDeployment r inst tls))
       = Some (if ReplicaCount (QueryAPI (Deployments (s_Spec inst))) > 0
               then ReplicaCount (QueryAPI (Deployments (s_Spec inst))) else 1)
   \<and> ds_Replicas (dep_Spec (IndexerDeployment r inst tls))
       = Some (if ReplicaCount (Indexer (Deployments (s_Spec inst))) > 0
               then ReplicaCount (Indexer (Deployments (s_Spec inst))) else 1)
   \<and> distinct (map (\<lambda>d. ps_ServiceAccountName (ds_PodSpec (dep_Spec d)))
       [APIDeployment r inst tls, IndexerDeployment r inst tls,
        fst (run_state (CollectorDeployment r dyn inst tls) w), fst (run_state (PGDeployment r inst configHash) w)])"
proof -
  have count: "getReplicaCount apiDeploymentName inst = (if ReplicaCount (QueryAPI (Deployments (s_Spec inst))) > 0
        then ReplicaCount (QueryAPI (Deployments (s_Spec inst))) else 1)"
    "getReplicaCount indexerDeploymentName inst = (if ReplicaCount (Indexer (Deployments (s_Spec inst))) > 0
        then ReplicaCount (Indexer (Deployments (s_Spec inst))) else 1)"
    by (simp_all add: getReplicaCount_def getDeploymentConfig_def defaultReplicaMap_def Let_def)
  note reps = api_deployment.replicas indexer_deployment.replicas
    collector_deployment.replicas [where x = "(tls, name)" for name, simplified]
    postgres_deployment.replicas [where x = "(configHash, m)" for m, simplified]
  note accs = api_deployment.pod(2) indexer_deployment.pod(2)
    collector_deployment.pod(2) [where x = "(tls, name)" for name, simplified]
    postgres_deployment.pod(2) [where x = "(configHash, m)" for m, simplified]
  show ?thesis
    unfolding CollectorDeployment_run PGDeployment_run
    by (simp add: reps accs count getReplicaCount_single getAPIServiceAccountName_def
        getIndexerServiceAccountName_def getCollectorServiceAccountName_def getPostgresServiceAccountName_def)
qed

end
