(* ===== verification/Resources.thy ===== *)
theory Resources
  imports Write_Operations Deployments
begin

text \<open>
  The services, secrets, config maps, volume claims, monitors and alerts of the operator
  (\<open>controllers/create_apiservice.go\<close> and the other services, \<open>create_pgsecret.go\<close>,
  \<open>create_cacert.go\<close>, \<open>create_indexerconfigmap.go\<close>, \<open>create_pvc.go\<close>,
  \<open>create_metrics_monitor.go\<close>, \<open>create_prometheus_alerts.go\<close>, and the alert settings of
  \<open>common.go\<close>), with the volume claim's own write operation.
\<close>

section \<open>Services\<close>

definition SearchApi :: string where "SearchApi = ''search-api''"
definition SearchCollector :: string where "SearchCollector = ''search-collector''"

definition tcpPort :: "string \<Rightarrow> int \<Rightarrow> ServicePort" where
  "tcpPort name port = \<lparr>sp_Name = name, sp_Port = port, sp_TargetPort = port, sp_Protocol = ''TCP''\<rparr>"

definition servingCertAnnotation :: string where
  "servingCertAnnotation = ''service.beta.openshift.io/serving-cert-secret-name''"

definition APIService :: "'w SearchReconciler \<Rightarrow> Search \<Rightarrow> Service" where
  "APIService r inst = \<lparr>svc_meta = withOwner (Lib r) inst
       ((newMeta ''search-search-api'' (Namespace (s_meta inst)))\<lparr>
          Annotations := mapOf [(servingCertAnnotation, ''search-api-certs'')],
          Labels := mapOf [(''search-monitor'', SearchApi)]\<rparr>),
     svc_Ports = [tcpPort SearchApi 4010], svc_Selector = mapOf [(''name'', SearchApi)]\<rparr>"

definition CollectorService :: "'w SearchReconciler \<Rightarrow> Search \<Rightarrow> Service" where
  "CollectorService r inst = \<lparr>svc_meta = withOwner (Lib r) inst
       ((newMeta ''search-collector'' (Namespace (s_meta inst)))\<lparr>
          Labels := mapOf [(''search-monitor'', SearchCollector)]\<rparr>),
     svc_Ports = [tcpPort SearchCollector 5010], svc_Selector = mapOf [(''name'', SearchCollector)]\<rparr>"

definition IndexerService :: "'w SearchReconciler \<Rightarrow> Search \<Rightarrow> Service" where
  "IndexerService r inst = \<lparr>svc_meta = withOwner (Lib r) inst
       ((newMeta ''search-indexer'' (Namespace (s_meta inst)))\<lparr>
          Annotations := mapOf [(servingCertAnnotation, ''search-indexer-certs'')],
          Labels := mapOf [(''search-monitor'', ''search-indexer'')]\<rparr>),
     svc_Ports = [tcpPort ''search-indexer'' 3010], svc_Selector = mapOf [(''name'', ''search-indexer'')]\<rparr>"

definition PGService :: "'w SearchReconciler \<Rightarrow> Search \<Rightarrow> Service" where
  "PGService r inst = \<lparr>svc_meta = withOwner (Lib r) inst
       ((newMeta ''search-postgres'' (Namespace (s_meta inst)))\<lparr>
          Annotations := mapOf [(servingCertAnnotation, postgresSecretName)]\<rparr>),
     svc_Ports = [tcpPort ''search-postgres'' 5432], svc_Selector = mapOf [(''name'', ''search-postgres'')]\<rparr>"

section \<open>Secrets\<close>

text \<open>
  \<open>rand.Int(rand.Reader, max)\<close> is a number below \<open>max\<close>; \<open>source\<close> is the random source.
\<close>

definition rand_Int :: "('w, nat) state \<Rightarrow> nat \<Rightarrow> ('w, nat) state" where
  "rand_Int source bound = do { n \<leftarrow> source; ret (n mod bound) }"

definition passwordChars :: string where
  "passwordChars = ''ABCDEFGHIJKLMNOPQRSTUVWXYZ'' @ ''abcdefghijklmnopqrstuvwxyz'' @ ''0123456789''"

fun generatePass :: "('w, nat) state \<Rightarrow> nat \<Rightarrow> ('w, string) state" where
  "generatePass source 0 = ret []"
| "generatePass source (Suc n) = do {
     i \<leftarrow> rand_Int source (length passwordChars);
     buf \<leftarrow> generatePass source n;
     ret (passwordChars ! i # buf)
   }"

definition DBNAME :: string where "DBNAME = ''search''"

definition databaseSecret ::
  "'w SearchReconciler \<Rightarrow> ('w, nat) state \<Rightarrow> string \<Rightarrow> string \<Rightarrow> Search \<Rightarrow> ('w, Secret) state" where
  "databaseSecret r source name user inst = do {
     password \<leftarrow> generatePass source 16;
     ret \<lparr>sec_meta = withOwner (Lib r) inst (newMeta name (Namespace (s_meta inst))), sec_Type = ''Opaque'',
          sec_StringData = mapOf [(''database-user'', user), (''database-password'', password),
            (''database-name'', DBNAME)]\<rparr>
   }"

definition PGSecret :: "'w SearchReconciler \<Rightarrow> ('w, nat) state \<Rightarrow> Search \<Rightarrow> ('w, Secret) state" where
  "PGSecret r source = databaseSecret r source ''search-postgres'' ''searchuser''"

definition APIReadonlySecret :: "'w SearchReconciler \<Rightarrow> ('w, nat) state \<Rightarrow> Search \<Rightarrow> ('w, Secret) state" where
  "APIReadonlySecret r source = databaseSecret r source apiReadonlySecretName ''search_api_ro''"

definition MCPReadonlySecret :: "'w SearchReconciler \<Rightarrow> ('w, nat) state \<Rightarrow> Search \<Rightarrow> ('w, Secret) state" where
  "MCPReadonlySecret r source = databaseSecret r source mcpReadonlySecretName ''search_mcp_ro''"

section \<open>Config maps\<close>

definition SearchCACert :: "'w SearchReconciler \<Rightarrow> Search \<Rightarrow> ConfigMap" where
  "SearchCACert r inst = \<lparr>cm_meta = withOwner (Lib r) inst
       ((newMeta caCertConfigmapName (Namespace (s_meta inst)))\<lparr>
          Annotations := mapOf [(''service.beta.openshift.io/inject-cabundle'', ''true'')]\<rparr>),
     cm_Data = None\<rparr>"

definition IndexerConfigmap :: "'w SearchReconciler \<Rightarrow> Search \<Rightarrow> ConfigMap" where
  "IndexerConfigmap r inst =
     (let ns = Namespace (s_meta inst)
      in \<lparr>cm_meta = withOwner (Lib r) inst
            ((newMeta indexerConfigmapName ns)\<lparr>Labels := generateLabels ''config'' ''acm-proxyserver''\<rparr>),
          cm_Data = mapOf [(''service'', ns @ ''/search-indexer''), (''port'', ''3010''),
            (''path'', ''/aggregator/clusters/''), (''sub-resource'', ''/sync''), (''use-id'', ''true''),
            (''secret'', ns @ ''/search-indexer-certs''), (''caConfigMap'', caCertConfigmapName)]\<rparr>)"

section \<open>The volume claim of the database\<close>

definition NewPVC :: "string \<Rightarrow> string \<Rightarrow> string \<Rightarrow> quantity \<Rightarrow> PersistentVolumeClaim" where
  "NewPVC pvcName namespace storageClass storageSize = \<lparr>pvc_meta = newMeta pvcName namespace,
     pvc_AccessModes = [''ReadWriteOnce''], pvc_Storage = storageSize, pvc_StorageClassName = storageClass\<rparr>"

definition createPVC :: "'w SearchReconciler \<Rightarrow> Search \<Rightarrow> ('w, go_error option) state" where
  "createPVC r inst =
     (let storageClass = StorageClassName (DBStorage (s_Spec inst));
          pvcName = getPVCName storageClass;
          namespace = Namespace (s_meta inst);
          storageSize = (case Size (DBStorage (s_Spec inst)) of None \<Rightarrow> lib_MustParse (Lib r) ''10Gi'' | Some requested \<Rightarrow> requested)
      in do {
        res \<leftarrow> Get (Client r) asPersistentVolumeClaim (mkKey KPersistentVolumeClaim namespace pvcName);
        case res of
          Inl err \<Rightarrow>
            if IsNotFound err then do {
              res \<leftarrow> cl_Create (Client r) (OPersistentVolumeClaim (NewPVC pvcName namespace storageClass storageSize));
              ret (errOf res)
            } else ret (Some err)
        | Inr pvc \<Rightarrow> ret None
      })"

definition configurePVC :: "'w SearchReconciler \<Rightarrow> Search \<Rightarrow> ('w, bool) state" where
  "configurePVC r inst = do { err \<leftarrow> createPVC r inst; ret (err = None) }"

definition isPVCPresent :: "'w SearchReconciler \<Rightarrow> Search \<Rightarrow> ('w, bool) state" where
  "isPVCPresent r inst = do {
     res \<leftarrow> Get (Client r) asPersistentVolumeClaim (mkKey KPersistentVolumeClaim (Namespace (s_meta inst))
       (getPVCName (StorageClassName (DBStorage (s_Spec inst)))));
     ret (case res of Inl err \<Rightarrow> \<not> IsNotFound err | Inr pvc \<Rightarrow> True)
   }"

section \<open>Monitors\<close>

definition ServiceMonitor :: "Search \<Rightarrow> string \<Rightarrow> string \<Rightarrow> ServiceMonitor" where
  "ServiceMonitor inst deployment namespace = \<lparr>sm_meta = newMeta (deployment @ ''-monitor'') namespace,
     sm_JobLabel = deployment, sm_MatchNames = [Namespace (s_meta inst)],
     sm_Endpoints = [\<lparr>ep_Port = deployment, ep_Scheme = ''https'', ep_ScrapeTimeout = ''10s'', ep_Interval = ''60s'',
       ep_BearerTokenFile = ''/var/run/secrets/kubernetes.io/serviceaccount/token'',
       ep_InsecureSkipVerify = Some True\<rparr>],
     sm_MatchLabels = mapOf [(''search-monitor'', deployment)]\<rparr>"

definition CollectorServiceMonitor :: "Search \<Rightarrow> string \<Rightarrow> string \<Rightarrow> ServiceMonitor" where
  "CollectorServiceMonitor inst deployment namespace =
     (let cr = ServiceMonitor inst deployment namespace
      in cr\<lparr>sm_Endpoints := (sm_Endpoints cr)[0 := (hd (sm_Endpoints cr))\<lparr>ep_Scheme := ''http'',
           ep_InsecureSkipVerify := None\<rparr>]\<rparr>)"

section \<open>Alerts\<close>

definition tabs :: "nat \<Rightarrow> string" where
  "tabs n = replicate n (CHR 0x09)"

definition AnnotationPrometheusAlertMaxAppsCount :: string where
  "AnnotationPrometheusAlertMaxAppsCount = ''search.open-cluster-management.io/max-apps-count''"

definition AnnotationPrometheusAlertMaxManagedClustersCount :: string where
  "AnnotationPrometheusAlertMaxManagedClustersCount = ''search.open-cluster-management.io/max-managed-clusters-count''"

definition AnnotationPrometheusAlertMaxIndexerCountOver30m :: string where
  "AnnotationPrometheusAlertMaxIndexerCountOver30m = ''search.open-cluster-management.io/max-indexer-count-over-30m''"

definition AnnotationPrometheusAlertSearchPVCCriticalDisable :: string where
  "AnnotationPrometheusAlertSearchPVCCriticalDisable = ''search.open-cluster-management.io/disable-pvc-critical-alert''"

definition isPrometheusAlertSearchPVCCriticalDisabled :: "Search \<Rightarrow> bool" where
  "isPrometheusAlertSearchPVCCriticalDisabled inst \<longleftrightarrow>
     lookup (Annotations (s_meta inst)) AnnotationPrometheusAlertSearchPVCCriticalDisable \<noteq> None"

text \<open>A limit: the annotation when it is there, else the environment, else the default for an empty one.\<close>

definition alertLimit :: "string \<Rightarrow> string \<Rightarrow> string \<Rightarrow> Search \<Rightarrow> string" where
  "alertLimit env annotation fallback inst =
     (let count = (case lookup (Annotations (s_meta inst)) annotation of Some v \<Rightarrow> v | None \<Rightarrow> env)
      in if count = '''' then fallback else count)"

definition getPrometheusAlertMaxAppsCount :: "(string \<Rightarrow> string) \<Rightarrow> Search \<Rightarrow> string" where
  "getPrometheusAlertMaxAppsCount getenv =
     alertLimit (getenv ''PROMETHEUS_ALERT_MAX_APPS_COUNT'') AnnotationPrometheusAlertMaxAppsCount ''100''"

definition getPrometheusAlertMaxManagedClustersCount :: "(string \<Rightarrow> string) \<Rightarrow> Search \<Rightarrow> string" where
  "getPrometheusAlertMaxManagedClustersCount getenv =
     alertLimit (getenv ''PROMETHEUS_ALERT_MAX_MANAGED_CLUSTERS_COUNT'')
       AnnotationPrometheusAlertMaxManagedClustersCount ''10''"

definition getPrometheusAlertMaxIndexerCountOver30m :: "(string \<Rightarrow> string) \<Rightarrow> Search \<Rightarrow> string" where
  "getPrometheusAlertMaxIndexerCountOver30m getenv =
     alertLimit (getenv ''PROMETHEUS_ALERT_MAX_INDEXER_COUNT_OVER_30M'')
       AnnotationPrometheusAlertMaxIndexerCountOver30m ''100''"

definition pvcAbsentExpr :: "string \<Rightarrow> string" where
  "pvcAbsentExpr namespace =
     ''absent(kube_persistentvolumeclaim_info{namespace='' @ dquote @ namespace @ dquote
     @ '', persistentvolumeclaim=~'' @ dquote @ ''.*-search'' @ dquote @ ''}) == 1''"

definition manyManagedClustersExpr :: "string \<Rightarrow> string" where
  "manyManagedClustersExpr count =
     ''acm_managed_cluster_count > '' @ count"

definition manyAppsExpr :: "string \<Rightarrow> string" where
  "manyAppsExpr count =
     ''( max(apiserver_storage_objects{resource='' @ dquote
     @ ''subscriptions.apps.open-cluster-management.io'' @ dquote @ ''}) +'' @ newline @ tabs 2
     @ ''max(apiserver_storage_objects{resource='' @ dquote @ ''applicationsets.argoproj.io'' @ dquote
     @ ''}) ) > '' @ count"

definition searchPostgresOOMExpr :: "string \<Rightarrow> string" where
  "searchPostgresOOMExpr namespace =
     newline @ tabs 2 @ ''kube_pod_container_status_last_terminated_reason{'' @ newline @ tabs 3
     @ ''namespace='' @ dquote @ namespace @ dquote @ '','' @ newline @ tabs 3 @ ''pod=~'' @ dquote
     @ ''search-postgres.*'' @ dquote @ '','' @ newline @ tabs 3 @ ''reason='' @ dquote @ ''OOMKilled''
     @ dquote @ newline @ tabs 2 @ ''} == 1'' @ newline @ tabs 1"

definition searchIndexerOOMExpr :: "string \<Rightarrow> string" where
  "searchIndexerOOMExpr namespace =
     newline @ tabs 2 @ ''kube_pod_container_status_last_terminated_reason{'' @ newline @ tabs 3
     @ ''namespace='' @ dquote @ namespace @ dquote @ '','' @ newline @ tabs 3 @ ''pod=~'' @ dquote
     @ ''search-indexer.*'' @ dquote @ '','' @ newline @ tabs 3 @ ''reason='' @ dquote @ ''OOMKilled''
     @ dquote @ newline @ tabs 2 @ ''} == 1'' @ newline @ tabs 1"

definition searchIndexerRequestSizeExpr :: "string \<Rightarrow> string" where
  "searchIndexerRequestSizeExpr count =
     ''increase(search_indexer_request_size_count[30m]) > '' @ count"

definition searchPVCCriticalExpr :: "string \<Rightarrow> string \<Rightarrow> string \<Rightarrow> string \<Rightarrow> string \<Rightarrow> string \<Rightarrow> string" where
  "searchPVCCriticalExpr absent e1 e2 e3 e4 e5 =
     newline @ tabs 2 @ ''( '' @ absent @ '' )'' @ newline @ tabs 2 @ ''and on()'' @ newline @ tabs 2
     @ ''('' @ newline @ tabs 3 @ ''('' @ e1 @ '') or ('' @ e2 @ '') or ('' @ e3 @ '') or ('' @ e4
     @ '') or ('' @ e5 @ '')'' @ newline @ tabs 2 @ '')'' @ newline @ tabs 1"

definition infoAnnotations :: "string \<Rightarrow> smap" where
  "infoAnnotations namespace = mapOf [
     (''summary'', ''Search Persistent Volume Claim is not present''),
     (''description'', ''Search PVC is not present in namespace '' @ namespace
     @ ''. You should configure persistent storage for RHACM Search in production environments. See docs.redhat.com for more information about RHACM Search with persistent storage.''),
     (''message'', ''Search is currently running without persistent storage. Consider configuring a PVC by setting spec.dbStorage.storageClassName in the RHACM Search CR for better performance.'')]"

definition criticalAnnotations :: "string \<Rightarrow> string \<Rightarrow> string \<Rightarrow> string \<Rightarrow> smap" where
  "criticalAnnotations namespace clusters apps requests = mapOf [
     (''summary'', ''Search Persistent Volume Claim is not present and critical conditions are met''),
     (''description'', ''The alert fires when [The Search PVC is missing in namespace '' @ namespace
     @ ''] AND [Your environment is under heavy load OR a core search pod has crashed due to memory limits].''
     @ newline @ newline @ ''The underlying '' @ dquote @ ''Load'' @ dquote @ '' or '' @ dquote @ ''Crash''
     @ dquote @ '' condition:'' @ newline @ ''- Scale: You are managing more than '' @ clusters
     @ '' clusters.'' @ newline @ ''- App Load: You have a combined total of more than '' @ apps
     @ '' Subscriptions and Argo ApplicationSets in your API server.'' @ newline
     @ ''- Database Failure: The search-postgres pod was recently killed because it ran out of memory (OOMKilled).''
     @ newline
     @ ''- Indexer Failure: The search-indexer pod was recently killed because it ran out of memory (OOMKilled).''
     @ newline @ ''- Traffic Spike: The search indexer has seen a surge in requests (more than ''
     @ requests @ '' new requests in the last 30 minutes).'' @ newline @ newline
     @ ''When is the Alert Reset?'' @ newline
     @ ''The alert will stop firing (reset) when either of these two things happens:'' @ newline
     @ ''- The PVC is created/restored: As soon as kube_persistentvolumeclaim_info appears in Prometheus for the ''
     @ namespace @ '' namespace'' @ newline @ ''OR'' @ newline @ ''- The underlying '' @ dquote @ ''Load''
     @ dquote @ '' or '' @ dquote @ ''Crash'' @ dquote @ '' clears''),
     (''message'', ''Search is currently running without persistent storage. System usage is high enough that persistent storage is needed to avoid performance issues. Consider configuring a PVC by setting spec.dbStorage.storageClassName in the RHACM Search CR for better performance.'')]"

definition SearchPVCAlertRuleName :: string where
  "SearchPVCAlertRuleName = ''search-pvc-info-alert''"

definition SearchPVCPrometheusRule :: "'w SearchReconciler \<Rightarrow> Search \<Rightarrow> PrometheusRule" where
  "SearchPVCPrometheusRule r inst =
     (let namespace = Namespace (s_meta inst);
          clusters = getPrometheusAlertMaxManagedClustersCount (Getenv r) inst;
          apps = getPrometheusAlertMaxAppsCount (Getenv r) inst;
          requests = getPrometheusAlertMaxIndexerCountOver30m (Getenv r) inst;
          info = \<lparr>ar_Alert = ''SearchPVCNotPresent'', ar_Expr = pvcAbsentExpr namespace, ar_For = ''5m'',
            ar_Labels = mapOf [(''severity'', ''info''), (''component'', ''search'')],
            ar_Annotations = infoAnnotations namespace\<rparr>;
          critical = \<lparr>ar_Alert = ''SearchPVCNotPresentCritical'',
            ar_Expr = searchPVCCriticalExpr (pvcAbsentExpr namespace) (manyManagedClustersExpr clusters)
              (manyAppsExpr apps) (searchPostgresOOMExpr namespace) (searchIndexerOOMExpr namespace)
              (searchIndexerRequestSizeExpr requests),
            ar_For = ''5m'', ar_Labels = mapOf [(''severity'', ''critical''), (''component'', ''search'')],
            ar_Annotations = criticalAnnotations namespace clusters apps requests\<rparr>
      in \<lparr>prom_meta = withOwner (Lib r) inst (newMeta SearchPVCAlertRuleName namespace),
          prom_Groups = [(''search-pvc-alerts'',
            info # (if \<not> isPrometheusAlertSearchPVCCriticalDisabled inst then [critical] else []))]\<rparr>)"

section \<open>Passwords\<close>

definition rand_contract :: "('w, nat) state \<Rightarrow> 'w view \<Rightarrow> bool" where
  "rand_contract source objs \<longleftrightarrow> (\<forall>w. objs (snd (run_state source w)) = objs w)"

text \<open>A password of the operator: sixteen letters and digits.\<close>

definition is_password :: "string \<Rightarrow> bool" where
  "is_password s \<longleftrightarrow> length s = 16 \<and> list_all (\<lambda>c. c \<in> set passwordChars) s"

lemma generatePass_run:
  "rand_contract source objs \<Longrightarrow> run_state (generatePass source n) w = (s, w') \<Longrightarrow>
     length s = n \<and> list_all (\<lambda>c. c \<in> set passwordChars) s \<and> objs w' = objs w"
proof (induction n arbitrary: w s w')
  case (Suc n)
  obtain i w1 where i: "run_state source w = (i, w1)" by fastforce
  obtain buf w2 where buf: "run_state (generatePass source n) w1 = (buf, w2)" by fastforce
  have "length passwordChars > 0" by (simp add: passwordChars_def)
  then have "passwordChars ! (i mod length passwordChars) \<in> set passwordChars" by simp
  moreover have "objs w1 = objs w" using Suc.prems(1) i unfolding rand_contract_def by (metis snd_conv)
  moreover have "s = passwordChars ! (i mod length passwordChars) # buf" "w' = w2"
    using Suc.prems(2) i buf by (simp_all add: rand_Int_def)
  ultimately show ?case using Suc.IH [OF Suc.prems(1) buf] by simp
qed simp

lemma databaseSecret_run:
  assumes "rand_contract source objs" "setref_contract (Lib r)"
    "run_state (databaseSecret r source name user inst) w = (secret, w')"
  shows "objs w' = objs w \<and> metaKey KSecret (sec_meta secret) = mkKey KSecret (Namespace (s_meta inst)) name
    \<and> (\<exists>p. is_password p \<and> sec_StringData secret = mapOf [(''database-user'', user), (''database-password'', p),
            (''database-name'', DBNAME)])"
proof -
  obtain p w1 where p: "run_state (generatePass source 16) w = (p, w1)" by fastforce
  have "w1 = w'" "secret = \<lparr>sec_meta = withOwner (Lib r) inst (newMeta name (Namespace (s_meta inst))), sec_Type = ''Opaque'',
      sec_StringData = mapOf [(''database-user'', user), (''database-password'', p), (''database-name'', DBNAME)]\<rparr>"
    using assms(3) p by (simp_all add: databaseSecret_def)
  then show ?thesis
    using generatePass_run [OF assms(1) p] metaKey_withOwner_new [OF assms(2)] by (auto simp: is_password_def)
qed

lemma databaseSecret_made_once:
  assumes "kube_api (Client r) objs" "rand_contract source objs" "setref_contract (Lib r)"
    "run_state (databaseSecret r source name user inst \<bind> createSecret r) w = (res, w')"
  shows "(objs w (mkKey KSecret (Namespace (s_meta inst)) name) \<noteq> None \<longrightarrow> objs w' = objs w)
    \<and> (objs w (mkKey KSecret (Namespace (s_meta inst)) name) = None \<and> res = done_ok \<longrightarrow>
        (\<exists>secret p. objs w' (mkKey KSecret (Namespace (s_meta inst)) name) = Some (OSecret secret) \<and> is_password p
          \<and> sec_StringData secret = mapOf [(''database-user'', user), (''database-password'', p),
              (''database-name'', ''search'')]))"
proof -
  obtain secret w1 where s: "run_state (databaseSecret r source name user inst) w = (secret, w1)" by fastforce
  note run = databaseSecret_run [OF assms(2,3) s]
  have c: "run_state (createSecret r secret) w1 = (res, w')" using assms(4) s by simp
  have key: "key_of (OSecret secret) = mkKey KSecret (Namespace (s_meta inst)) name" using run by simp
  have "objs w' = objs w1" if "objs w (mkKey KSecret (Namespace (s_meta inst)) name) \<noteq> None"
    using secret_creator.present_unchanged [OF assms(1) c] that run unfolding key by auto
  moreover have "\<exists>u. objs w' (mkKey KSecret (Namespace (s_meta inst)) name)
      = Some (OSecret (secret\<lparr>sec_meta := (sec_meta secret)\<lparr>UID := u\<rparr>\<rparr>))"
    if "objs w (mkKey KSecret (Namespace (s_meta inst)) name) = None" "res = done_ok"
    using secret_creator.creates [OF assms(1) c [unfolded that(2)]] that(1) run unfolding key by simp
  ultimately show ?thesis using run unfolding DBNAME_def by fastforce
qed

text \<open>
  C33. The database passwords are made once. The step for each of the three database
  secrets leaves every stored object
  as it is when the secret is there already, whatever password it drew; when the secret is missing and
  the step succeeds, the stored secret has the user's name, the database's name and a password of
  sixteen letters and digits.
\<close>

theorem database_secrets_made_once:
  assumes "kube_api (Client r) objs" "rand_contract source objs" "setref_contract (Lib r)"
    "(build, name, user) \<in> {(PGSecret, ''search-postgres'', ''searchuser''),
       (APIReadonlySecret, ''search-postgres-api-readonly'', ''search_api_ro''),
       (MCPReadonlySecret, ''search-postgres-mcp-readonly'', ''search_mcp_ro'')}"
    "run_state (build r source inst \<bind> createSecret r) w = (res, w')"
  shows "(objs w (mkKey KSecret (Namespace (s_meta inst)) name) \<noteq> None \<longrightarrow> objs w' = objs w)
    \<and> (objs w (mkKey KSecret (Namespace (s_meta inst)) name) = None \<and> res = done_ok \<longrightarrow>
        (\<exists>secret p. objs w' (mkKey KSecret (Namespace (s_meta inst)) name) = Some (OSecret secret) \<and> is_password p
          \<and> sec_StringData secret = mapOf [(''database-user'', user), (''database-password'', p),
              (''database-name'', ''search'')]))"
proof -
  have "build r source inst = databaseSecret r source name user inst"
    using assms(4) by (auto simp: PGSecret_def APIReadonlySecret_def MCPReadonlySecret_def
        apiReadonlySecretName_def mcpReadonlySecretName_def)
  then show ?thesis using databaseSecret_made_once [OF assms(1-3)] assms(5) by simp
qed

text \<open>A source that always answers 7, on an empty server.\<close>

definition sevens :: "(mem, nat) state" where
  "sevens = ret 7"

lemma sevens_contract: "rand_contract sevens mem_view"
  by (simp add: rand_contract_def sevens_def)

lemma mem_create_on_empty:
  "run_state (createSecret mem_reconciler s) (mem_world []) = (done_ok, mem_world [OSecret s])"
  by (simp add: createSecret_def mem_run_simps)

theorem database_secrets_made_once_witness:
  "\<exists>secret p. mem_view (snd (run_state (PGSecret mem_reconciler sevens sampleSearch \<bind> createSecret mem_reconciler) (mem_world [])))
       (mkKey KSecret (Namespace (s_meta sampleSearch)) ''search-postgres'') = Some (OSecret secret) \<and> is_password p
     \<and> sec_StringData secret = mapOf [(''database-user'', ''searchuser''), (''database-password'', p), (''database-name'', ''search'')]"
proof -
  obtain s w1 where s: "run_state (PGSecret mem_reconciler sevens sampleSearch) (mem_world []) = (s, w1)" by fastforce
  have "run_state (generatePass sevens n) w = (replicate n (CHR ''H''), w)" for n w
    by (induction n) (simp_all add: sevens_def rand_Int_def passwordChars_def)
  then have "w1 = mem_world []" using s by (simp add: PGSecret_def databaseSecret_def)
  then have run: "run_state (PGSecret mem_reconciler sevens sampleSearch \<bind> createSecret mem_reconciler) (mem_world [])
      = (done_ok, mem_world [OSecret s])"
    using s mem_create_on_empty [of s] by simp
  have "mem_view (mem_world []) k = None" for k by (simp add: mem_view_def mem_world_def)
  then show ?thesis
    using database_secrets_made_once [where r = mem_reconciler and build = PGSecret, unfolded mem_reconciler_simps,
        OF mem_kube_api sevens_contract mem_lib_setref _ run] run by simp
qed

section \<open>The parts fit together\<close>

definition selects :: "smap \<Rightarrow> smap \<Rightarrow> bool" where
  "selects sel labels \<longleftrightarrow> (\<forall>k v. lookup sel k = Some v \<longrightarrow> lookup labels k = Some v)"

definition mountsSecret :: "Deployment \<Rightarrow> string option \<Rightarrow> bool" where
  "mountsSecret d name \<longleftrightarrow> (\<exists>v \<in> set (ps_Volumes (ds_PodSpec (dep_Spec d))). \<exists>mode s.
     name = Some s \<and> vol_Source v = SecretSource s mode)"

lemma withOwner_meta:
  "setref_contract lib \<Longrightarrow> Labels (withOwner lib inst m) = Labels m \<and> Annotations (withOwner lib inst m) = Annotations m"
  by (cases "lib_SetControllerReference lib inst m") (simp_all add: withOwner_def setref_meta)

text \<open>A service and the deployment behind it.\<close>

definition serves :: "Service \<Rightarrow> Deployment \<Rightarrow> bool" where
  "serves svc d \<longleftrightarrow> selects (svc_Selector svc) (ds_TemplateLabels (dep_Spec d))
     \<and> mountsSecret d (lookup (Annotations (svc_meta svc)) servingCertAnnotation)"

lemma selects_name: "lookup labels ''name'' = Some n \<Longrightarrow> selects (mapOf [(''name'', n)]) labels"
  by (simp add: selects_def split: if_splits)

lemmas volume_defs = mountsSecret_def builder_defs SearchApi_def SearchCollector_def

text \<open>
  The services, the monitors and the deployments fit together: each of the API, indexer and
  database services selects the pods of its deployment and has its serving certificate issued into a
  secret that these pods mount, the collector service selects the collector's pods, and the three
  monitors select the three services they are for.
\<close>

theorem services_reach_their_pods:
  assumes "setref_contract (Lib r)"
  shows "serves (APIService r inst) (APIDeployment r inst tls)
    \<and> serves (IndexerService r inst) (IndexerDeployment r inst tls)
    \<and> serves (PGService r inst) (postgresDeployment r inst configHash workMem)
    \<and> selects (svc_Selector (CollectorService r inst)) (ds_TemplateLabels (dep_Spec (collectorDeployment r inst tls clusterName)))
    \<and> selects (sm_MatchLabels (ServiceMonitor inst ''search-api'' ns)) (Labels (svc_meta (APIService r inst)))
    \<and> selects (sm_MatchLabels (ServiceMonitor inst ''search-indexer'' ns)) (Labels (svc_meta (IndexerService r inst)))
    \<and> selects (sm_MatchLabels (CollectorServiceMonitor inst ''search-collector'' ns)) (Labels (svc_meta (CollectorService r inst)))"
proof (intro conjI)
  note sel = selects_name [OF api_deployment.selector(2) [where r = r and inst = inst and x = tls]]
    selects_name [OF indexer_deployment.selector(2) [where r = r and inst = inst and x = tls]]
    selects_name [OF postgres_deployment.selector(2) [where r = r and inst = inst and x = "(configHash, workMem)"], simplified]
    selects_name [OF collector_deployment.selector(2) [where r = r and inst = inst and x = "(tls, clusterName)"], simplified]
  note meta = withOwner_meta [OF assms]
  show "serves (APIService r inst) (APIDeployment r inst tls)"
    using sel(1) meta
    by (simp add: serves_def APIService_def APIDeployment_def volume_defs apiDeploymentName_def apiSecretName_def)
  show "serves (IndexerService r inst) (IndexerDeployment r inst tls)"
    using sel(2) meta
    by (simp add: serves_def IndexerService_def IndexerDeployment_def volume_defs indexerDeploymentName_def indexerSecretName_def)
  show "serves (PGService r inst) (postgresDeployment r inst configHash workMem)"
    using sel(3) meta
    by (simp add: serves_def PGService_def postgresDeployment_def volume_defs postgresDeploymentName_def)
  show "selects (svc_Selector (CollectorService r inst)) (ds_TemplateLabels (dep_Spec (collectorDeployment r inst tls clusterName)))"
    using sel(4) by (simp add: CollectorService_def SearchCollector_def collectorDeploymentName_def)
qed (simp_all add: selects_def ServiceMonitor_def CollectorServiceMonitor_def APIService_def IndexerService_def
      CollectorService_def SearchApi_def SearchCollector_def withOwner_meta [OF assms])

theorem services_reach_their_pods_witness:
  "serves (APIService mem_reconciler sampleSearch) (APIDeployment mem_reconciler sampleSearch [])"
  using services_reach_their_pods [where r = mem_reconciler, unfolded mem_reconciler_simps, OF mem_lib_setref] by blast

text \<open>
  The volume claim: the step leaves a claim that is stored untouched, and when it reports success
  the claim that the database pod mounts is stored; a claim it made has the class and the size of the
  Search resource (10Gi without one).
\<close>

theorem volume_claim_ready:
  assumes api: "kube_api (Client r) objs" and cls: "StorageClassName (DBStorage (s_Spec inst)) \<noteq> ''''"
    and run: "run_state (configurePVC r inst) w = (True, w')"
  shows "\<exists>claim pvc. getPostgresVolume inst = \<lparr>vol_Name = ''postgresdb'', vol_Source = PersistentVolumeClaimSource claim\<rparr>
    \<and> objs w' (mkKey KPersistentVolumeClaim (Namespace (s_meta inst)) claim) = Some (OPersistentVolumeClaim pvc)
    \<and> (objs w' = objs w \<or> pvc_StorageClassName pvc = StorageClassName (DBStorage (s_Spec inst))
        \<and> pvc_Storage pvc = (case Size (DBStorage (s_Spec inst)) of None \<Rightarrow> lib_MustParse (Lib r) ''10Gi'' | Some n \<Rightarrow> n))"
proof -
  let ?claim = "getPVCName (StorageClassName (DBStorage (s_Spec inst)))"
  let ?k = "mkKey KPersistentVolumeClaim (Namespace (s_meta inst)) ?claim"
  let ?pvc = "NewPVC ?claim (Namespace (s_meta inst)) (StorageClassName (DBStorage (s_Spec inst)))
    (case Size (DBStorage (s_Spec inst)) of None \<Rightarrow> lib_MustParse (Lib r) ''10Gi'' | Some n \<Rightarrow> n)"
  have vol: "getPostgresVolume inst = \<lparr>vol_Name = ''postgresdb'', vol_Source = PersistentVolumeClaimSource ?claim\<rparr>"
    using cls by (simp add: getPostgresVolume_def Let_def)
  obtain g w1 where g: "run_state (Get (Client r) asPersistentVolumeClaim ?k) w = (g, w1)" by fastforce
  note view = Get_view [OF api g]
  show ?thesis
  proof (cases g)
    case (Inr pvc)
    then have "w' = w1" using run g by (simp add: configurePVC_def createPVC_def Let_def)
    moreover have "objs w ?k = Some (OPersistentVolumeClaim pvc)"
      using Get_found [OF api decodes_kinds(13) g [unfolded Inr]] by simp
    ultimately show ?thesis using vol view by auto
  next
    case (Inl err)
    obtain c w2 where c: "run_state (cl_Create (Client r) (OPersistentVolumeClaim ?pvc)) w1 = (c, w2)" by fastforce
    have "IsNotFound err" "errOf c = None" "w' = w2"
      using run g Inl c by (auto simp: configurePVC_def createPVC_def Let_def split: if_splits)
    then obtain ob where "c = Inr ob" by (auto simp: errOf_None)
    from create_stores [OF api c [unfolded this]] \<open>w' = w2\<close> vol show ?thesis by (auto simp: NewPVC_def)
  qed
qed

definition claimSearch :: Search where
  "claimSearch = sampleSearch\<lparr>s_Spec := (s_Spec sampleSearch)\<lparr>DBStorage := \<lparr>StorageClassName = ''gp3'', Size = Some 20\<rparr>\<rparr>\<rparr>"

theorem volume_claim_ready_witness:
  "\<exists>claim pvc. getPostgresVolume claimSearch = \<lparr>vol_Name = ''postgresdb'', vol_Source = PersistentVolumeClaimSource claim\<rparr>
    \<and> mem_view (snd (run_state (configurePVC mem_reconciler claimSearch) (mem_world [])))
        (mkKey KPersistentVolumeClaim (Namespace (s_meta claimSearch)) claim) = Some (OPersistentVolumeClaim pvc)"
proof -
  have cls: "StorageClassName (DBStorage (s_Spec claimSearch)) \<noteq> ''''" by (simp add: claimSearch_def)
  have run: "run_state (configurePVC mem_reconciler claimSearch) (mem_world [])
    = (True, mem_world [OPersistentVolumeClaim (NewPVC (getPVCName ''gp3'') ''ocm'' ''gp3'' 20)])"
    by (simp add: configurePVC_def createPVC_def Let_def claimSearch_def sampleSearch_def mem_run_simps)
  show ?thesis
    using volume_claim_ready [where r = mem_reconciler, unfolded mem_reconciler_simps, OF mem_kube_api cls run] run by auto
qed

end
