(* ===== verification/Dynamic_Client.thy ===== *)
theory Dynamic_Client
  imports Kube_Client
begin

text \<open>
  The contract of the dynamic client, over a view of the unstructured objects by resource, namespace
  and name, and how it relates to the typed client: reading changes nothing, and of the typed objects
  only a config map can be changed through it. The in-memory server of \<open>Kube_Client\<close> meets it.
  Calls that can panic (a failed type assertion, a nil pointer) return an option, \<open>None\<close> for the
  panic, which stops everything after it.
\<close>

section \<open>Panics\<close>

definition andThen :: "('w, 'a option) state \<Rightarrow> ('a \<Rightarrow> ('w, 'b option) state) \<Rightarrow> ('w, 'b option) state" where
  "andThen m f = do { x \<leftarrow> m; case x of None \<Rightarrow> ret None | Some y \<Rightarrow> f y }"

definition total :: "('w, 'a) state \<Rightarrow> ('w, 'a option) state" where
  "total m = do { x \<leftarrow> m; ret (Some x) }"

abbreviation panic :: "('w, 'a option) state" where
  "panic \<equiv> ret None"

lemma run_andThen:
  "run_state (andThen m f) w = (case run_state m w of (None, w1) \<Rightarrow> (None, w1) | (Some x, w1) \<Rightarrow> run_state (f x) w1)"
  by (auto simp: andThen_def split: prod.splits option.splits)

lemma run_total: "run_state (total m) w = (case run_state m w of (x, w1) \<Rightarrow> (Some x, w1))"
  by (auto simp: total_def split: prod.splits)

lemma andThen_ok:
  assumes "run_state (andThen m f) w = (Some y, w')"
  obtains x w1 where "run_state m w = (Some x, w1)" "run_state (f x) w1 = (Some y, w')"
  using assms by (auto simp: run_andThen split: prod.splits option.splits)

lemma touches_andThen [world_frame]:
  "touches objs K m \<Longrightarrow> (\<And>x. touches objs K (f x)) \<Longrightarrow> touches objs K (andThen m f)"
  unfolding andThen_def by (intro touches_bind touches_case_option touches_ret)

lemma touches_total [world_frame]: "touches objs K m \<Longrightarrow> touches objs K (total m)"
  unfolding total_def by (intro touches_bind touches_ret)

section \<open>The contract\<close>

definition configMapsGvr :: gvr where "configMapsGvr = ('''', ''v1'', ''configmaps'')"

type_synonym 'w dview = "'w \<Rightarrow> gvr \<times> string \<times> string \<Rightarrow> json option"

text \<open>An object without finalizers.\<close>

definition unprotected :: "json \<Rightarrow> bool" where
  "unprotected u \<longleftrightarrow> jget (jfields (jget (jfields u) ''metadata'')) ''finalizers'' \<in> {JNull, JArray []}"

definition dsame_except :: "'w dview \<Rightarrow> 'w \<Rightarrow> 'w \<Rightarrow> (gvr \<times> string \<times> string) set \<Rightarrow> bool" where
  "dsame_except dobjs w w' K \<longleftrightarrow> (\<forall>k. k \<notin> K \<longrightarrow> dobjs w' k = dobjs w k)"

lemma dsame_exceptD: "dsame_except dobjs w w' K \<Longrightarrow> k \<notin> K \<Longrightarrow> dobjs w' k = dobjs w k"
  unfolding dsame_except_def by (rule allE, assumption, erule mp)

definition dyn_reads :: "'w dynamic \<Rightarrow> 'w dview \<Rightarrow> bool" where
  "dyn_reads dyn dobjs \<longleftrightarrow>
     (\<forall>g ns n w r w'. run_state (dyn_Get dyn g ns n) w = (r, w') \<longrightarrow> dobjs w' = dobjs w
        \<and> (\<forall>ob. r = Inr ob \<longrightarrow> dobjs w (g, ns, n) = Some ob \<and> GetName ob = n))
     \<and> (\<forall>g w l w'. run_state (dyn_List dyn g) w = (l, w') \<longrightarrow> dobjs w' = dobjs w
        \<and> (snd l = None \<longrightarrow> (\<exists>items. fst l = Some items \<and> (\<forall>ob. ob \<in> set items \<longleftrightarrow> (\<exists>ns n. dobjs w (g, ns, n) = Some ob)))))"

text \<open>What a write stores: the metadata that the server maintains and the status may differ.\<close>

definition stored_as :: "json \<Rightarrow> json \<Rightarrow> bool" where
  "stored_as ob ob' \<longleftrightarrow> GetName ob' = GetName ob
     \<and> (\<forall>k. k \<noteq> ''metadata'' \<longrightarrow> k \<noteq> ''status'' \<longrightarrow> jget (jfields ob') k = jget (jfields ob) k)"

lemma stored_as_refl [simp]: "stored_as ob ob"
  by (simp add: stored_as_def)

definition dyn_creates :: "'w dynamic \<Rightarrow> 'w dview \<Rightarrow> bool" where
  "dyn_creates dyn dobjs \<longleftrightarrow> (\<forall>g ns ob w err w'. run_state (dyn_Create dyn g ns ob) w = (err, w') \<longrightarrow>
     dsame_except dobjs w w' {(g, ns, GetName ob)}
     \<and> (err = None \<longrightarrow> dobjs w (g, ns, GetName ob) = None \<and> (\<exists>ob'. dobjs w' (g, ns, GetName ob) = Some ob' \<and> stored_as ob ob'))
     \<and> (dobjs w (g, ns, GetName ob) \<noteq> None \<longrightarrow> dobjs w' = dobjs w)
     \<and> (\<forall>e. err = Some e \<longrightarrow> IsAlreadyExists e \<longrightarrow> dobjs w (g, ns, GetName ob) \<noteq> None))"

definition dyn_updates :: "'w dynamic \<Rightarrow> 'w dview \<Rightarrow> bool" where
  "dyn_updates dyn dobjs \<longleftrightarrow> (\<forall>g ns ob w err w'. run_state (dyn_Update dyn g ns ob) w = (err, w') \<longrightarrow>
     dsame_except dobjs w w' {(g, ns, GetName ob)}
     \<and> (err = None \<longrightarrow> (\<exists>ob'. dobjs w' (g, ns, GetName ob) = Some ob' \<and> stored_as ob ob')))"

text \<open>
  A deleted object is gone, or waits for its finalizers; that is not undone by deleting again.
\<close>

definition removed :: "json option \<Rightarrow> bool" where
  "removed v \<longleftrightarrow> (\<forall>ob. v = Some ob \<longrightarrow> \<not> unprotected ob)"

definition dyn_deletes :: "'w dynamic \<Rightarrow> 'w dview \<Rightarrow> bool" where
  "dyn_deletes dyn dobjs \<longleftrightarrow> (\<forall>g ns n w err w'. run_state (dyn_Delete dyn g ns n) w = (err, w') \<longrightarrow>
     dsame_except dobjs w w' {(g, ns, n)}
     \<and> (err = None \<longrightarrow> dobjs w (g, ns, n) \<noteq> None \<and> removed (dobjs w' (g, ns, n)))
     \<and> (removed (dobjs w (g, ns, n)) \<longrightarrow> removed (dobjs w' (g, ns, n)))
     \<and> (\<forall>e. err = Some e \<longrightarrow> IsNotFound e \<longrightarrow> dobjs w (g, ns, n) = None \<and> dobjs w' = dobjs w))"

definition dyn_api :: "'w dynamic \<Rightarrow> 'w dview \<Rightarrow> bool" where
  "dyn_api dyn dobjs \<longleftrightarrow> dyn_reads dyn dobjs \<and> dyn_creates dyn dobjs \<and> dyn_updates dyn dobjs \<and> dyn_deletes dyn dobjs"

text \<open>
  Of the objects the typed client sees, the dynamic client changes a config map that it updates; the
  resources it creates and deletes are of kinds the typed client does not handle.
\<close>

definition dyn_typed :: "'w dynamic \<Rightarrow> 'w view \<Rightarrow> gvr set \<Rightarrow> bool" where
  "dyn_typed dyn objs foreign \<longleftrightarrow>
     (\<forall>g ns n. touches objs {} (dyn_Get dyn g ns n)) \<and> (\<forall>g. touches objs {} (dyn_List dyn g))
     \<and> (\<forall>ns ob. touches objs {mkKey KConfigMap ns (GetName ob)} (dyn_Update dyn configMapsGvr ns ob))
     \<and> (\<forall>g \<in> foreign. \<forall>ns ob. touches objs {} (dyn_Create dyn g ns ob))
     \<and> (\<forall>g \<in> foreign. \<forall>ns n. touches objs {} (dyn_Delete dyn g ns n))"

lemma touches_dyn [world_frame]:
  "dyn_typed dyn objs foreign \<Longrightarrow> touches objs K (dyn_Get dyn g ns n)"
  "dyn_typed dyn objs foreign \<Longrightarrow> touches objs K (dyn_List dyn g)"
  "dyn_typed dyn objs foreign \<Longrightarrow> mkKey KConfigMap ns (GetName ob) \<in> K \<Longrightarrow> touches objs K (dyn_Update dyn configMapsGvr ns ob)"
  "dyn_typed dyn objs foreign \<Longrightarrow> g \<in> foreign \<Longrightarrow> touches objs K (dyn_Create dyn g ns ob)"
  "dyn_typed dyn objs foreign \<Longrightarrow> g \<in> foreign \<Longrightarrow> touches objs K (dyn_Delete dyn g ns n)"
proof -
  assume d: "dyn_typed dyn objs foreign"
  show "touches objs K (dyn_Get dyn g ns n)" "touches objs K (dyn_List dyn g)"
    using d unfolding dyn_typed_def by (blast intro: touches_mono [OF _ empty_subsetI])+
  show "touches objs K (dyn_Update dyn configMapsGvr ns ob)" if "mkKey KConfigMap ns (GetName ob) \<in> K"
    using d that unfolding dyn_typed_def by (meson empty_subsetI insert_subset touches_mono)
  show "touches objs K (dyn_Create dyn g ns ob)" "touches objs K (dyn_Delete dyn g ns n)" if "g \<in> foreign"
    using d that unfolding dyn_typed_def by (blast intro: touches_mono [OF _ empty_subsetI])+
qed

section \<open>The in-memory server\<close>

definition mem_dview :: "mem dview" where
  "mem_dview w = map_of (mem_dyn w)"

fun put_dyn :: "'k \<Rightarrow> 'v \<Rightarrow> ('k \<times> 'v) list \<Rightarrow> ('k \<times> 'v) list" where
  "put_dyn k v [] = [(k, v)]"
| "put_dyn k v ((k', v') # m) = (if k' = k then (k, v) # m else (k', v') # put_dyn k v m)"

definition drop_dyn :: "'k \<Rightarrow> ('k \<times> 'v) list \<Rightarrow> ('k \<times> 'v) list" where
  "drop_dyn k m = filter (\<lambda>(k', _). k' \<noteq> k) m"

definition mem_dynamic :: "mem dynamic" where
  "mem_dynamic = \<lparr>
     dyn_Get = (\<lambda>g ns n. scripted Inl (\<lambda>w. (case map_of (mem_dyn w) (g, ns, n) of
         Some ob \<Rightarrow> if GetName ob = n then Inr ob else Inl (Errorf ''corrupt object'')
       | None \<Rightarrow> Inl (APIError NotFound ''not found''), w))),
     dyn_List = (\<lambda>g. scripted (\<lambda>e. (None, Some e))
       (\<lambda>w. ((Some (map snd (filter (\<lambda>(k, ob). fst k = g \<and> map_of (mem_dyn w) k = Some ob) (mem_dyn w))), None), w))),
     dyn_Create = (\<lambda>g ns ob. scripted Some (\<lambda>w. case map_of (mem_dyn w) (g, ns, GetName ob) of
         Some _ \<Rightarrow> (Some (APIError AlreadyExists ''already exists''), w)
       | None \<Rightarrow> (None, w\<lparr>mem_dyn := put_dyn (g, ns, GetName ob) ob (mem_dyn w)\<rparr>))),
     dyn_Update = (\<lambda>g ns ob. scripted Some (\<lambda>w. case map_of (mem_dyn w) (g, ns, GetName ob) of
         Some _ \<Rightarrow> (None, w\<lparr>mem_dyn := put_dyn (g, ns, GetName ob) ob (mem_dyn w)\<rparr>)
       | None \<Rightarrow> (Some (APIError NotFound ''not found''), w))),
     dyn_Delete = (\<lambda>g ns n. scripted Some (\<lambda>w. case map_of (mem_dyn w) (g, ns, n) of
         Some ob \<Rightarrow> (None, if unprotected ob then w\<lparr>mem_dyn := drop_dyn (g, ns, n) (mem_dyn w)\<rparr> else w)
       | None \<Rightarrow> (Some (APIError NotFound ''not found''), w)))\<rparr>"

lemma map_of_put_dyn [simp]: "map_of (put_dyn k v m) k' = (if k' = k then Some v else map_of m k')"
  by (induction m) auto

lemma map_of_drop_dyn [simp]: "map_of (drop_dyn k m) k' = (if k' = k then None else map_of m k')"
  by (induction m) (auto simp: drop_dyn_def)

text \<open>The scripted failures leave both kinds of objects alone.\<close>

lemma scripted_dyn_elim:
  assumes "run_state (scripted failed f) w = (r, w')"
  obtains w0 where "mem_dyn w0 = mem_dyn w" "mem_objs w0 = mem_objs w" "f w0 = (r, w')"
    | msg where "mem_dyn w' = mem_dyn w" "mem_objs w' = mem_objs w" "r = failed (APIError OtherReason msg)"
proof (cases "mem_faults w")
  case Nil
  then show ?thesis using assms that(1) by (auto simp: run_scripted)
next
  case (Cons m fs)
  then show ?thesis
    using assms that(1) [of "w\<lparr>mem_faults := fs\<rparr>"] that(2) by (cases m) (auto simp: run_scripted)
qed

lemma mem_listing:
  "ob \<in> set (map snd (filter (\<lambda>(k, ob). fst k = g \<and> map_of m k = Some ob) m)) \<longleftrightarrow> (\<exists>ns n. map_of m (g, ns, n) = Some ob)"
  by (force simp: image_iff dest: map_of_SomeD)

lemma mem_dyn_reads: "dyn_reads mem_dynamic mem_dview"
  unfolding dyn_reads_def mem_dynamic_def dynamic.select_convs
  by (intro conjI allI impI; erule scripted_dyn_elim)
    (auto simp: mem_dview_def mem_listing simp del: set_map split: option.splits if_splits)

lemma mem_dyn_creates: "dyn_creates mem_dynamic mem_dview"
  unfolding dyn_creates_def mem_dynamic_def dynamic.select_convs
  by (intro conjI allI impI; erule scripted_dyn_elim)
    (auto simp: mem_dview_def dsame_except_def split: option.splits)

lemma mem_dyn_updates: "dyn_updates mem_dynamic mem_dview"
  unfolding dyn_updates_def mem_dynamic_def dynamic.select_convs
  by (intro conjI allI impI; erule scripted_dyn_elim)
    (auto simp: mem_dview_def dsame_except_def split: option.splits)

lemma mem_dyn_deletes: "dyn_deletes mem_dynamic mem_dview"
  unfolding dyn_deletes_def mem_dynamic_def dynamic.select_convs
  by (intro conjI allI impI; erule scripted_dyn_elim)
    (auto simp: mem_dview_def dsame_except_def removed_def split: option.splits if_splits)

lemma mem_dyn_api: "dyn_api mem_dynamic mem_dview"
  by (simp add: dyn_api_def mem_dyn_reads mem_dyn_creates mem_dyn_updates mem_dyn_deletes)

lemma touches_scripted:
  "(\<And>w. mem_objs (snd (f w)) = mem_objs w) \<Longrightarrow> touches mem_view K (scripted failed f)"
proof -
  assume f: "\<And>w. mem_objs (snd (f w)) = mem_objs w"
  have "mem_objs (snd (run_state (scripted failed f) w)) = mem_objs w" for w
    by (simp add: run_scripted f split: list.splits option.splits)
  then show ?thesis by (simp add: touches_def same_except_def mem_view_def)
qed

lemma mem_dyn_typed: "dyn_typed mem_dynamic mem_view UNIV"
  unfolding dyn_typed_def mem_dynamic_def dynamic.select_convs
  by (intro conjI allI ballI touches_scripted) (auto split: option.splits)

lemma dyn_Get_ok:
  "dyn_api dyn dobjs \<Longrightarrow> run_state (dyn_Get dyn g ns n) w = (Inr ob, w') \<Longrightarrow>
     dobjs w (g, ns, n) = Some ob \<and> GetName ob = n \<and> dobjs w' = dobjs w"
  unfolding dyn_api_def dyn_reads_def by blast

lemma dyn_Get_view:
  "dyn_api dyn dobjs \<Longrightarrow> run_state (dyn_Get dyn g ns n) w = (r, w') \<Longrightarrow> dobjs w' = dobjs w"
  unfolding dyn_api_def dyn_reads_def by blast

lemma dyn_List_reads:
  assumes "dyn_api dyn dobjs" "run_state (dyn_List dyn g) w = (l, w')"
  shows "dobjs w' = dobjs w \<and> (snd l = None \<longrightarrow>
    (\<exists>items. fst l = Some items \<and> (\<forall>ob. ob \<in> set items \<longleftrightarrow> (\<exists>ns n. dobjs w (g, ns, n) = Some ob))))"
proof -
  note reads = conjunct2 [OF conjunct1 [OF assms(1) [unfolded dyn_api_def dyn_reads_def]]]
  from reads [rule_format (no_asm), OF assms(2)] show ?thesis .
qed

lemma dyn_List_view: "dyn_api dyn dobjs \<Longrightarrow> run_state (dyn_List dyn g) w = (l, w') \<Longrightarrow> dobjs w' = dobjs w"
  by (erule (1) dyn_List_reads [THEN conjunct1])

lemma dyn_List_ok:
  "dyn_api dyn dobjs \<Longrightarrow> run_state (dyn_List dyn g) w = ((l, None), w') \<Longrightarrow>
     \<exists>items. l = Some items \<and> (\<forall>ob. ob \<in> set items \<longleftrightarrow> (\<exists>ns n. dobjs w (g, ns, n) = Some ob))"
  by (drule (1) dyn_List_reads) simp

lemma dyn_Create_frame:
  "dyn_api dyn dobjs \<Longrightarrow> run_state (dyn_Create dyn g ns ob) w = (err, w') \<Longrightarrow> dsame_except dobjs w w' {(g, ns, GetName ob)}"
  unfolding dyn_api_def dyn_creates_def by blast

lemma dyn_Create_ok:
  "dyn_api dyn dobjs \<Longrightarrow> run_state (dyn_Create dyn g ns ob) w = (None, w') \<Longrightarrow>
     dobjs w (g, ns, GetName ob) = None \<and> (\<exists>ob'. dobjs w' (g, ns, GetName ob) = Some ob' \<and> stored_as ob ob')"
  unfolding dyn_api_def dyn_creates_def by blast

lemma dyn_Create_exists:
  "dyn_api dyn dobjs \<Longrightarrow> run_state (dyn_Create dyn g ns ob) w = (Some e, w') \<Longrightarrow> IsAlreadyExists e \<Longrightarrow>
     dobjs w (g, ns, GetName ob) \<noteq> None \<and> dobjs w' = dobjs w"
  unfolding dyn_api_def dyn_creates_def by blast

lemma dyn_Create_keeps:
  assumes "dyn_api dyn dobjs" "run_state (dyn_Create dyn g ns ob) w = (err, w')" "dobjs w k \<noteq> None"
  shows "dobjs w' k \<noteq> None"
proof (cases "k = (g, ns, GetName ob)")
  case True
  then have "dobjs w' = dobjs w" using assms unfolding dyn_api_def dyn_creates_def by blast
  then show ?thesis using assms(3) by simp
next
  case False
  then show ?thesis using dsame_exceptD [OF dyn_Create_frame [OF assms(1,2)]] assms(3) by simp
qed

lemma dyn_Update_frame:
  "dyn_api dyn dobjs \<Longrightarrow> run_state (dyn_Update dyn g ns ob) w = (err, w') \<Longrightarrow> dsame_except dobjs w w' {(g, ns, GetName ob)}"
  unfolding dyn_api_def dyn_updates_def by blast

lemma dyn_Update_ok:
  "dyn_api dyn dobjs \<Longrightarrow> run_state (dyn_Update dyn g ns ob) w = (None, w') \<Longrightarrow>
     \<exists>ob'. dobjs w' (g, ns, GetName ob) = Some ob' \<and> stored_as ob ob'"
  unfolding dyn_api_def dyn_updates_def by blast

lemma dyn_Delete_frame:
  "dyn_api dyn dobjs \<Longrightarrow> run_state (dyn_Delete dyn g ns n) w = (err, w') \<Longrightarrow> dsame_except dobjs w w' {(g, ns, n)}"
  unfolding dyn_api_def dyn_deletes_def by blast

lemma dyn_Delete_ok:
  "dyn_api dyn dobjs \<Longrightarrow> run_state (dyn_Delete dyn g ns n) w = (None, w') \<Longrightarrow>
     dobjs w (g, ns, n) \<noteq> None \<and> removed (dobjs w' (g, ns, n))"
  unfolding dyn_api_def dyn_deletes_def by blast

lemma dyn_Delete_missing:
  "dyn_api dyn dobjs \<Longrightarrow> run_state (dyn_Delete dyn g ns n) w = (Some e, w') \<Longrightarrow> IsNotFound e \<Longrightarrow>
     dobjs w (g, ns, n) = None \<and> dobjs w' = dobjs w"
  unfolding dyn_api_def dyn_deletes_def by blast

lemma dyn_Delete_keeps:
  assumes "dyn_api dyn dobjs" "run_state (dyn_Delete dyn g ns n) w = (err, w')" "removed (dobjs w k)"
  shows "removed (dobjs w' k)"
proof (cases "k = (g, ns, n)")
  case True
  then show ?thesis using assms unfolding dyn_api_def dyn_deletes_def by blast
next
  case False
  then show ?thesis using dsame_exceptD [OF dyn_Delete_frame [OF assms(1,2)]] assms(3) by simp
qed

text \<open>What the server does when no failure is scripted.\<close>

lemma mem_dyn_runs:
  assumes "mem_faults w = []"
  shows "run_state (dyn_Get mem_dynamic g ns n) w = (case map_of (mem_dyn w) (g, ns, n) of
      Some ob \<Rightarrow> if GetName ob = n then Inr ob else Inl (Errorf ''corrupt object'')
    | None \<Rightarrow> Inl (APIError NotFound ''not found''), w)"
    "run_state (dyn_List mem_dynamic g) w =
      ((Some (map snd (filter (\<lambda>(k, ob). fst k = g \<and> map_of (mem_dyn w) k = Some ob) (mem_dyn w))), None), w)"
    "run_state (dyn_Create mem_dynamic g ns ob) w = (case map_of (mem_dyn w) (g, ns, GetName ob) of
      Some _ \<Rightarrow> (Some (APIError AlreadyExists ''already exists''), w)
    | None \<Rightarrow> (None, w\<lparr>mem_dyn := put_dyn (g, ns, GetName ob) ob (mem_dyn w)\<rparr>))"
    "run_state (dyn_Update mem_dynamic g ns ob) w = (case map_of (mem_dyn w) (g, ns, GetName ob) of
      Some _ \<Rightarrow> (None, w\<lparr>mem_dyn := put_dyn (g, ns, GetName ob) ob (mem_dyn w)\<rparr>)
    | None \<Rightarrow> (Some (APIError NotFound ''not found''), w))"
    "run_state (dyn_Delete mem_dynamic g ns n) w = (case map_of (mem_dyn w) (g, ns, n) of
      Some ob \<Rightarrow> (None, if unprotected ob then w\<lparr>mem_dyn := drop_dyn (g, ns, n) (mem_dyn w)\<rparr> else w)
    | None \<Rightarrow> (Some (APIError NotFound ''not found''), w))"
  using assms by (simp_all add: mem_dynamic_def run_scripted)

end
