(* ===== verification/Hub_Config.thy ===== *)
theory Hub_Config
  imports Dynamic_Client Common
begin

text \<open>
  What the optional features share (\<open>controllers/global_search_setup.go\<close>,
  \<open>virtual_machines_setup.go\<close>, \<open>fine_grained_rbac.go\<close>): the namespace of the multicluster
  engine, its enabled components, flags in the console's config maps, the environment of the search
  API in the Search resource, and the resource's status conditions. The resource is a pointer in the
  source: an operation that changes it returns it, and after a successful write it is what the server
  answered.
\<close>

section \<open>Resources\<close>

definition multiclusterGlobalHubGvr :: gvr where
  "multiclusterGlobalHubGvr = (''operator.open-cluster-management.io'', ''v1alpha4'', ''multiclusterglobalhubs'')"
definition multiclusterengineResourceGvr :: gvr where
  "multiclusterengineResourceGvr = (''multicluster.openshift.io'', ''v1'', ''multiclusterengines'')"
definition managedClusterResourceGvr :: gvr where
  "managedClusterResourceGvr = (''cluster.open-cluster-management.io'', ''v1'', ''managedclusters'')"
definition managedServiceAccountGvr :: gvr where
  "managedServiceAccountGvr = (''authentication.open-cluster-management.io'', ''v1beta1'', ''managedserviceaccounts'')"
definition manifestWorkGvr :: gvr where
  "manifestWorkGvr = (''work.open-cluster-management.io'', ''v1'', ''manifestworks'')"
definition managedClustrAddonGvr :: gvr where
  "managedClustrAddonGvr = (''addon.open-cluster-management.io'', ''v1alpha1'', ''managedclusteraddons'')"
definition clusterPermissionGvr :: gvr where
  "clusterPermissionGvr = (''rbac.open-cluster-management.io'', ''v1alpha1'', ''clusterpermissions'')"

text \<open>The kinds the features create and delete.\<close>

definition featureGvrs :: "gvr set" where
  "featureGvrs = {managedServiceAccountGvr, manifestWorkGvr, clusterPermissionGvr}"

lemma featureGvrs_simps [simp]:
  "managedServiceAccountGvr \<in> featureGvrs" "manifestWorkGvr \<in> featureGvrs" "clusterPermissionGvr \<in> featureGvrs"
  by (simp_all add: featureGvrs_def)

text \<open>\<open>err.Error()\<close>; the aggregates of the webhook do not get here.\<close>

fun Error :: "go_error \<Rightarrow> string" where
  "Error (APIError _ m) = m"
| "Error (Errorf m) = m"
| "Error (Aggregate _) = ''''"

definition logAndTrackError :: "go_error list \<Rightarrow> go_error option \<Rightarrow> go_error list" where
  "logAndTrackError errorList err = (case err of None \<Rightarrow> errorList | Some e \<Rightarrow> errorList @ [e])"

section \<open>The multicluster engine\<close>

definition listed :: "json list option \<Rightarrow> json list" where
  "listed l = (case l of None \<Rightarrow> [] | Some xs \<Rightarrow> xs)"

definition getMCETargetNamespace :: "'w dynamic \<Rightarrow> ('w, go_error + string) state" where
  "getMCETargetNamespace dyn = do {
     (mces, err) \<leftarrow> dyn_List dyn multiclusterengineResourceGvr;
     ret (case err of
         Some _ \<Rightarrow> Inl (Errorf ''failed to get the mce resources'')
       | None \<Rightarrow> (case listed mces of
           [] \<Rightarrow> Inl (Errorf ''failed to get the mce resources'')
         | mce # _ \<Rightarrow> (case NestedString mce [''spec'', ''targetNamespace''] of
             Inl e \<Rightarrow> Inl e
           | Inr None \<Rightarrow> Inl (Errorf ''failed to get the mce target namespace in spec'')
           | Inr (Some targetNS) \<Rightarrow> Inr targetNS)))
   }"

text \<open>
  The components of the first engine: \<open>spec.overrides.components\<close> with three unchecked assertions,
  then one for each component.
\<close>

definition mceComponents :: "json \<Rightarrow> json list option" where
  "mceComponents mce = (case assertMap (jget (jfields mce) ''spec'') of
     None \<Rightarrow> None
   | Some spec \<Rightarrow> (case assertMap (jget spec ''overrides'') of
       None \<Rightarrow> None | Some overrides \<Rightarrow> assertArray (jget overrides ''components'')))"

fun componentEnabled :: "string \<Rightarrow> json list \<Rightarrow> bool option" where
  "componentEnabled name [] = Some False"
| "componentEnabled name (c # cs) = (case assertMap c of
     None \<Rightarrow> None
   | Some m \<Rightarrow> (case componentEnabled name cs of
       None \<Rightarrow> None
     | Some b \<Rightarrow> Some ((jget m ''name'' = JString name \<and> jget m ''enabled'' = JBool True) \<or> b)))"

definition validateAddOns :: "'w dynamic \<Rightarrow> string \<Rightarrow> string \<Rightarrow> ('w, go_error option option) state" where
  "validateAddOns dyn noAccounts noProxy = do {
     (mces, err) \<leftarrow> dyn_List dyn multiclusterengineResourceGvr;
     if err \<noteq> None \<or> listed mces = []
     then ret (Some (Some (Errorf ''failed to validate dependency MulticlusterEngine operator'')))
     else ret (case mceComponents (hd (listed mces)) of
         None \<Rightarrow> None
       | Some components \<Rightarrow>
           (case (componentEnabled ''managedserviceaccount'' components, componentEnabled ''cluster-proxy-addon'' components) of
              (Some accounts, Some proxy) \<Rightarrow> Some (
                if \<not> accounts then Some (Errorf noAccounts)
                else if \<not> proxy then Some (Errorf noProxy) else None)
            | _ \<Rightarrow> None))
   }"

section \<open>Flags of the console\<close>

definition flagged :: "bool \<Rightarrow> string \<Rightarrow> (string \<times> json) list \<Rightarrow> (string \<times> json) list option" where
  "flagged enabled key data =
     (let existingValue = jget data key
      in if enabled \<and> existingValue \<noteq> JString ''enabled'' then Some (jput key (JString ''enabled'') data)
         else if \<not> enabled \<and> existingValue = JString ''enabled'' then Some (jdelete key data)
         else None)"

definition setConsoleFlag ::
  "'w dynamic \<Rightarrow> bool \<Rightarrow> string \<Rightarrow> string \<Rightarrow> string \<Rightarrow> ('w, go_error option option) state" where
  "setConsoleFlag dyn enabled namespace name key = do {
     res \<leftarrow> dyn_Get dyn configMapsGvr namespace name;
     case res of
       Inl err \<Rightarrow> ret (Some (Some (Errorf (''error getting configmap '' @ name @ '' in namespace '' @ namespace))))
     | Inr consoleConfig \<Rightarrow> (case assertMap (jget (jfields consoleConfig) ''data'') of
         None \<Rightarrow> panic
       | Some data \<Rightarrow> (case flagged enabled key data of
           None \<Rightarrow> ret (Some None)
         | Some data' \<Rightarrow> total (dyn_Update dyn configMapsGvr namespace
             (JObject (jput ''data'' (JObject data') (jfields consoleConfig))))))
   }"

definition updateConsoleConfig :: "'w dynamic \<Rightarrow> bool \<Rightarrow> string \<Rightarrow> string \<Rightarrow> ('w, go_error option option) state" where
  "updateConsoleConfig dyn enabled namespace name = setConsoleFlag dyn enabled namespace name ''globalSearchFeatureFlag''"

definition updateConsoleConfigVM :: "'w dynamic \<Rightarrow> bool \<Rightarrow> ('w, go_error option option) state" where
  "updateConsoleConfigVM dyn enabled = do {
     ns \<leftarrow> getMCETargetNamespace dyn;
     setConsoleFlag dyn enabled (case ns of Inl _ \<Rightarrow> ''multicluster-engine'' | Inr n \<Rightarrow> n)
       ''console-mce-config'' ''VIRTUAL_MACHINE_ACTIONS''
   }"

section \<open>The Search resource\<close>

definition answered :: "Search \<Rightarrow> go_error + kobj \<Rightarrow> go_error option \<times> Search" where
  "answered inst res = (case res of
     Inl err \<Rightarrow> (Some err, inst)
   | Inr ob \<Rightarrow> (None, case asSearch ob of Some s \<Rightarrow> s | None \<Rightarrow> inst))"

definition updateInstance :: "'w SearchReconciler \<Rightarrow> Search \<Rightarrow> ('w, go_error option \<times> Search) state" where
  "updateInstance r inst = do { res \<leftarrow> cl_Update (Client r) (OSearch inst); ret (answered inst res) }"

definition commitSearchCRInstanceState :: "'w SearchReconciler \<Rightarrow> Search \<Rightarrow> ('w, go_error option \<times> Search) state" where
  "commitSearchCRInstanceState r inst = do { res \<leftarrow> cl_StatusUpdate (Client r) (OSearch inst); ret (answered inst res) }"

text \<open>The first variable of the name: absent, replaced, or removed when the value is empty.\<close>

fun placeEnv :: "EnvVar \<Rightarrow> EnvVar list \<Rightarrow> EnvVar list option" where
  "placeEnv inputEnv [] = (if ev_Value inputEnv \<noteq> '''' then Some [inputEnv] else None)"
| "placeEnv inputEnv (env # envs) =
     (if ev_Name env = ev_Name inputEnv
      then (if ev_Value inputEnv = '''' then Some envs
            else if ev_Value env \<noteq> ev_Value inputEnv then Some (env\<lparr>ev_Value := ev_Value inputEnv\<rparr> # envs)
            else None)
      else map_option (\<lambda>es. env # es) (placeEnv inputEnv envs))"

definition apiEnv :: "Search \<Rightarrow> EnvVar list" where
  "apiEnv inst = Env (QueryAPI (Deployments (s_Spec inst)))"

definition withApiEnv :: "EnvVar list \<Rightarrow> Search \<Rightarrow> Search" where
  "withApiEnv envs inst = inst\<lparr>s_Spec := (s_Spec inst)\<lparr>Deployments := (Deployments (s_Spec inst))\<lparr>
     QueryAPI := (QueryAPI (Deployments (s_Spec inst)))\<lparr>Env := envs\<rparr>\<rparr>\<rparr>\<rparr>"

definition searchAPIEnvVar :: "Search \<Rightarrow> EnvVar \<Rightarrow> bool \<times> Search" where
  "searchAPIEnvVar inst inputEnv = (case placeEnv inputEnv (apiEnv inst) of
     None \<Rightarrow> (True, inst) | Some envs \<Rightarrow> (False, withApiEnv envs inst))"

definition updateSearchApiDeployment :: "'w SearchReconciler \<Rightarrow> Search \<Rightarrow> EnvVar \<Rightarrow> ('w, go_error option \<times> Search) state" where
  "updateSearchApiDeployment r inst env =
     (case searchAPIEnvVar inst env of
        (True, inst) \<Rightarrow> ret (None, inst)
      | (False, inst) \<Rightarrow> updateInstance r inst)"

text \<open>A status condition: appended, replaced when status, reason or message differ, or kept.\<close>

fun placeCondition :: "string \<Rightarrow> Condition \<Rightarrow> Condition list \<Rightarrow> Condition list option" where
  "placeCondition t status [] = Some [status]"
| "placeCondition t status (c # cs) =
     (if cond_Type c = t
      then (if cond_Status c \<noteq> cond_Status status \<or> cond_Reason c \<noteq> cond_Reason status \<or> cond_Message c \<noteq> cond_Message status
            then Some (status # cs) else None)
      else map_option (\<lambda>ds. c # ds) (placeCondition t status cs))"

definition withConditions :: "Condition list \<Rightarrow> Search \<Rightarrow> Search" where
  "withConditions cs inst = inst\<lparr>s_Status := (s_Status inst)\<lparr>Conditions := cs\<rparr>\<rparr>"

definition setSearchCondition ::
  "'w SearchReconciler \<Rightarrow> string \<Rightarrow> Search \<Rightarrow> Condition \<Rightarrow> ('w, go_error option \<times> Search) state" where
  "setSearchCondition r t inst status =
     (case placeCondition t status (Conditions (s_Status inst)) of
        None \<Rightarrow> ret (None, inst)
      | Some cs \<Rightarrow> commitSearchCRInstanceState r (withConditions cs inst))"

definition CONDITION_GLOBAL_SEARCH :: string where "CONDITION_GLOBAL_SEARCH = ''GlobalSearchReady''"

definition updateGlobalSearchStatus :: "'w SearchReconciler \<Rightarrow> Search \<Rightarrow> Condition \<Rightarrow> ('w, go_error option \<times> Search) state" where
  "updateGlobalSearchStatus r inst status = setSearchCondition r ''GlobalSearchReady'' inst status"

definition updateStatusConditionOf :: "'w SearchReconciler \<Rightarrow> Search \<Rightarrow> Condition \<Rightarrow> ('w, Search) state" where
  "updateStatusConditionOf r inst status = do { (err, inst) \<leftarrow> setSearchCondition r (cond_Type status) inst status; ret inst }"

fun dropCondition :: "string \<Rightarrow> Condition list \<Rightarrow> Condition list option" where
  "dropCondition t [] = None"
| "dropCondition t (c # cs) = (if cond_Type c = t then Some cs else map_option (\<lambda>ds. c # ds) (dropCondition t cs))"

definition removeStatusCondition :: "'w SearchReconciler \<Rightarrow> Search \<Rightarrow> string \<Rightarrow> ('w, go_error option \<times> Search) state" where
  "removeStatusCondition r inst conditionType =
     (case dropCondition conditionType (Conditions (s_Status inst)) of
        None \<Rightarrow> ret (None, inst)
      | Some cs \<Rightarrow> commitSearchCRInstanceState r (withConditions cs inst))"

definition newCondition :: "string \<Rightarrow> string \<Rightarrow> string \<Rightarrow> string \<Rightarrow> time \<Rightarrow> Condition" where
  "newCondition t status reason msg now = \<lparr>cond_Type = t, cond_Status = status, cond_LastTransitionTime = now,
     cond_Reason = reason, cond_Message = msg\<rparr>"

section \<open>Fine-grained access control\<close>

definition CONDITION_FINE_GRAINED_RBAC :: string where "CONDITION_FINE_GRAINED_RBAC = ''FineGrainedRBACReady''"

definition plainEnv :: "string \<Rightarrow> string \<Rightarrow> EnvVar" where
  "plainEnv name v = \<lparr>ev_Name = name, ev_Value = v, ev_ValueFrom = None\<rparr>"

definition reconcileFineGrainedRBACConfiguration ::
  "'w SearchReconciler \<Rightarrow> Search \<Rightarrow> ('w, step_ret \<times> Search) state" where
  "reconcileFineGrainedRBACConfiguration r inst =
     (if index (Annotations (s_meta inst)) ''fine-grained-rbac'' = ''true'' then do {
        (err, inst) \<leftarrow> updateSearchApiDeployment r inst (plainEnv ''FEATURE_FINE_GRAINED_RBAC'' ''true'');
        now \<leftarrow> Now r;
        case err of
          Some e \<Rightarrow> do {
            inst \<leftarrow> updateStatusConditionOf r inst (newCondition CONDITION_FINE_GRAINED_RBAC ''False''
              ''ConfigurationError'' ''Failed to enable fine-grained RBAC.'' now);
            ret (failWith e, inst)
          }
        | None \<Rightarrow> do {
            inst \<leftarrow> updateStatusConditionOf r inst (newCondition CONDITION_FINE_GRAINED_RBAC ''True''
              ''None'' ''Fine-grained RBAC enabled.'' now);
            ret ((Some emptyResult, None), inst)
          }
      } else do {
        (err, inst) \<leftarrow> updateSearchApiDeployment r inst (plainEnv ''FEATURE_FINE_GRAINED_RBAC'' '''');
        case err of
          Some e \<Rightarrow> ret (failWith e, inst)
        | None \<Rightarrow> do {
            (err, inst) \<leftarrow> removeStatusCondition r inst CONDITION_FINE_GRAINED_RBAC;
            case err of Some e \<Rightarrow> ret (failWith e, inst) | None \<Rightarrow> ret ((Some emptyResult, None), inst)
          }
      })"

section \<open>Lemmas: the environment of the search API\<close>

definition envOf :: "string \<Rightarrow> EnvVar list \<Rightarrow> string option" where
  "envOf name envs = map_option ev_Value (List.find (\<lambda>e. ev_Name e = name) envs)"

lemma envOf_simps [simp]:
  "envOf n [] = None" "envOf n (e # es) = (if ev_Name e = n then Some (ev_Value e) else envOf n es)"
  by (simp_all add: envOf_def)

lemma envOf_absent: "n \<notin> ev_Name ` set es \<Longrightarrow> envOf n es = None"
  by (induction es) auto

definition wanted :: "string \<Rightarrow> string option" where
  "wanted v = (if v = '''' then None else Some v)"

lemma placeEnv_None: "placeEnv env es = None \<Longrightarrow> envOf (ev_Name env) es = wanted (ev_Value env)"
  by (induction env es rule: placeEnv.induct) (auto simp: wanted_def split: if_splits)

lemma placeEnv_Some:
  "placeEnv env es = Some es' \<Longrightarrow> distinct (map ev_Name es) \<Longrightarrow>
     envOf (ev_Name env) es' = wanted (ev_Value env) \<and> (\<forall>n. n \<noteq> ev_Name env \<longrightarrow> envOf n es' = envOf n es)"
proof (induction env es arbitrary: es' rule: placeEnv.induct)
  case (2 env e es)
  then show ?case by (auto simp: wanted_def envOf_absent split: if_splits)
qed (auto simp: wanted_def split: if_splits)

lemma apiEnv_withApiEnv [simp]: "apiEnv (withApiEnv es inst) = es" "s_meta (withApiEnv es inst) = s_meta inst"
  by (simp_all add: apiEnv_def withApiEnv_def)

lemma withApiEnv_twice: "withApiEnv es (withApiEnv es' inst) = withApiEnv es inst" "withApiEnv (apiEnv inst) inst = inst"
  by (simp_all add: apiEnv_def withApiEnv_def)

lemma withConditions_simps [simp]:
  "s_meta (withConditions cs inst) = s_meta inst" "apiEnv (withConditions cs inst) = apiEnv inst"
  by (simp_all add: withConditions_def apiEnv_def)

lemma placeEnv_remove_added:
  "n \<notin> ev_Name ` set es \<Longrightarrow> v \<noteq> '''' \<Longrightarrow>
     placeEnv (plainEnv n v) es = Some (es @ [plainEnv n v]) \<and> placeEnv (plainEnv n '''') (es @ [plainEnv n v]) = Some es"
  by (induction es) (auto simp: plainEnv_def)

lemma jdelete_jput: "k \<notin> fst ` set m \<Longrightarrow> jdelete k (jput k v m) = m"
  by (induction m) (auto simp: jdelete_def filter_id_conv image_iff)

lemma dropCondition_placed:
  "t \<notin> cond_Type ` set cs \<Longrightarrow> cond_Type c = t \<Longrightarrow>
     placeCondition t c cs = Some (cs @ [c]) \<and> dropCondition t (cs @ [c]) = Some cs"
  by (induction cs) auto



section \<open>Lemmas: writing the Search resource\<close>

abbreviation searchKey :: "Search \<Rightarrow> okey" where
  "searchKey inst \<equiv> metaKey KSearch (s_meta inst)"

lemma instance_frames [world_frame]:
  "kube_api (Client r) objs \<Longrightarrow> searchKey inst \<in> K \<Longrightarrow> touches objs K (updateInstance r inst)"
  "kube_api (Client r) objs \<Longrightarrow> searchKey inst \<in> K \<Longrightarrow> touches objs K (commitSearchCRInstanceState r inst)"
  unfolding updateInstance_def commitSearchCRInstanceState_def
  by (intro touches_bind touches_ret touches_Update touches_Status; simp)+

lemma searchAPIEnvVar_meta: "s_meta (snd (searchAPIEnvVar inst env)) = s_meta inst"
  by (simp add: searchAPIEnvVar_def split: option.splits)

lemma updateSearchApiDeployment_frame [world_frame]:
  "kube_api (Client r) objs \<Longrightarrow> searchKey inst \<in> K \<Longrightarrow> touches objs K (updateSearchApiDeployment r inst env)"
  using searchAPIEnvVar_meta [of inst env]
  by (cases "searchAPIEnvVar inst env"; cases "fst (searchAPIEnvVar inst env)")
    (auto simp: updateSearchApiDeployment_def intro!: touches_ret instance_frames)

lemma condition_frames [world_frame]:
  "kube_api (Client r) objs \<Longrightarrow> searchKey inst \<in> K \<Longrightarrow> touches objs K (setSearchCondition r t inst status)"
  "kube_api (Client r) objs \<Longrightarrow> searchKey inst \<in> K \<Longrightarrow> touches objs K (updateStatusConditionOf r inst status)"
  "kube_api (Client r) objs \<Longrightarrow> searchKey inst \<in> K \<Longrightarrow> touches objs K (removeStatusCondition r inst t)"
  unfolding updateStatusConditionOf_def setSearchCondition_def removeStatusCondition_def
  by (intro touches_bind touches_ret touches_case_option touches_case_prod instance_frames; simp)+

text \<open>
  The resource in hand is the stored one (\<open>holds\<close>), or differs from it after a failed write. What a
  successful write leaves in hand is what is stored.
\<close>

definition holds :: "'w view \<Rightarrow> 'w \<Rightarrow> Search \<Rightarrow> bool" where
  "holds objs w inst \<longleftrightarrow> objs w (searchKey inst) = Some (OSearch inst) \<and> \<not> terminated (OSearch inst)"

lemma updateInstance_ok:
  assumes api: "kube_api (Client r) objs" and nt: "\<not> terminated (OSearch inst)"
    and old: "objs w (searchKey inst) = Some (OSearch old)"
    and run: "run_state (updateInstance r inst) w = ((None, inst'), w')"
  shows "\<exists>u. inst' = inst\<lparr>s_Status := s_Status old, s_meta := (s_meta inst)\<lparr>UID := u\<rparr>\<rparr> \<and> holds objs w' inst'"
proof -
  obtain ob where up: "run_state (cl_Update (Client r) (OSearch inst)) w = (Inr ob, w')"
    and inst': "inst' = (case asSearch ob of Some s \<Rightarrow> s | None \<Rightarrow> inst)"
    using run by (auto simp: updateInstance_def answered_def split: prod.splits sum.splits)
  from api_update_ok [OF api up] old have c: "content ob = content (keep_status (OSearch old) (OSearch inst))"
    and st: "objs w' (searchKey inst) = (if terminated ob then None else Some ob)" by auto
  from content_eqD [OF c] obtain u where
    ob: "ob = OSearch (inst\<lparr>s_Status := s_Status old, s_meta := (s_meta inst)\<lparr>UID := u\<rparr>\<rparr>)" by auto
  then have "\<not> terminated ob" using nt by (simp add: terminated_def)
  then show ?thesis using st ob inst' by (auto simp: holds_def)
qed

lemma commit_ok:
  assumes api: "kube_api (Client r) objs" and old: "objs w (searchKey inst) = Some (OSearch old)" "\<not> terminated (OSearch old)"
    and run: "run_state (commitSearchCRInstanceState r inst) w = ((None, inst'), w')"
  shows "\<exists>u. inst' = old\<lparr>s_Status := s_Status inst, s_meta := (s_meta old)\<lparr>UID := u\<rparr>\<rparr>
    \<and> objs w' (searchKey inst) = Some (OSearch inst')"
proof -
  obtain ob where up: "run_state (cl_StatusUpdate (Client r) (OSearch inst)) w = (Inr ob, w')"
    and inst': "inst' = (case asSearch ob of Some s \<Rightarrow> s | None \<Rightarrow> inst)"
    using run by (auto simp: commitSearchCRInstanceState_def answered_def split: prod.splits sum.splits)
  from api_status_ok [OF api up] old(1) have c: "content ob = content (keep_spec (OSearch old) (OSearch inst))"
    and st: "objs w' (searchKey inst) = Some ob" by auto
  from content_eqD [OF c] obtain u where
    "ob = OSearch (old\<lparr>s_Status := s_Status inst, s_meta := (s_meta old)\<lparr>UID := u\<rparr>\<rparr>)" by auto
  then show ?thesis using st inst' by auto
qed

lemma commit_keeps_spec:
  assumes api: "kube_api (Client r) objs" and old: "objs w (searchKey inst) = Some (OSearch old)"
    and run: "run_state (commitSearchCRInstanceState r inst) w = (res, w')"
  shows "\<exists>s. objs w' (searchKey inst) = Some (OSearch s) \<and> s_Spec s = s_Spec old"
proof -
  obtain g where up: "run_state (cl_StatusUpdate (Client r) (OSearch inst)) w = (g, w')"
    using run by (auto simp: commitSearchCRInstanceState_def split: prod.splits)
  from api_status_spec [OF api up] old obtain new where
    new: "objs w' (searchKey inst) = Some new" "content new = content (keep_spec (OSearch old) new)" by auto
  from content_eqD [OF new(2)] obtain s where "new = OSearch s" "s_Spec s = s_Spec old"
    by (cases new) (auto dest: arg_cong [of _ _ s_Spec])
  then show ?thesis using new(1) by simp
qed

lemma condition_keeps_spec:
  assumes api: "kube_api (Client r) objs" and hold: "objs w (searchKey inst) = Some (OSearch inst)"
  shows "run_state (setSearchCondition r t inst status) w = (res, w') \<Longrightarrow>
      \<exists>s. objs w' (searchKey inst) = Some (OSearch s) \<and> s_Spec s = s_Spec inst"
    and "run_state (updateStatusConditionOf r inst status) w = (inst', w') \<Longrightarrow>
      \<exists>s. objs w' (searchKey inst) = Some (OSearch s) \<and> s_Spec s = s_Spec inst"
    and "run_state (removeStatusCondition r inst t) w = (res, w') \<Longrightarrow>
      \<exists>s. objs w' (searchKey inst) = Some (OSearch s) \<and> s_Spec s = s_Spec inst"
proof -
  have commit: "\<exists>s. objs w' (searchKey inst) = Some (OSearch s) \<and> s_Spec s = s_Spec inst"
    if "run_state (commitSearchCRInstanceState r (withConditions cs inst)) w = (res, w')" for cs res w'
    using commit_keeps_spec [OF api, of w "withConditions cs inst" inst res w'] that hold by simp
  have set: "\<exists>s. objs w' (searchKey inst) = Some (OSearch s) \<and> s_Spec s = s_Spec inst"
    if "run_state (setSearchCondition r t inst status) w = (res, w')" for t res w'
    using that commit hold by (cases "placeCondition t status (Conditions (s_Status inst))")
      (auto simp: setSearchCondition_def)
  show "run_state (setSearchCondition r t inst status) w = (res, w') \<Longrightarrow>
      \<exists>s. objs w' (searchKey inst) = Some (OSearch s) \<and> s_Spec s = s_Spec inst" by (rule set)
  show "run_state (updateStatusConditionOf r inst status) w = (inst', w') \<Longrightarrow>
      \<exists>s. objs w' (searchKey inst) = Some (OSearch s) \<and> s_Spec s = s_Spec inst"
    using set by (auto simp: updateStatusConditionOf_def split: prod.splits)
  show "run_state (removeStatusCondition r inst t) w = (res, w') \<Longrightarrow>
      \<exists>s. objs w' (searchKey inst) = Some (OSearch s) \<and> s_Spec s = s_Spec inst"
    using commit hold by (cases "dropCondition t (Conditions (s_Status inst))") (auto simp: removeStatusCondition_def)
qed

lemma updateSearchApiDeployment_ok:
  assumes api: "kube_api (Client r) objs" and hold: "holds objs w inst" and dist: "distinct (map ev_Name (apiEnv inst))"
    and run: "run_state (updateSearchApiDeployment r inst env) w = ((None, inst'), w')"
  shows "holds objs w' inst' \<and> searchKey inst' = searchKey inst \<and> envOf (ev_Name env) (apiEnv inst') = wanted (ev_Value env)
    \<and> (\<forall>n. n \<noteq> ev_Name env \<longrightarrow> envOf n (apiEnv inst') = envOf n (apiEnv inst)) \<and> s_Status inst' = s_Status inst"
proof (cases "placeEnv env (apiEnv inst)")
  case None
  then have "inst' = inst" "w' = w" using run by (simp_all add: updateSearchApiDeployment_def searchAPIEnvVar_def)
  then show ?thesis using hold placeEnv_None [OF None] by simp
next
  case (Some es)
  then have up: "run_state (updateInstance r (withApiEnv es inst)) w = ((None, inst'), w')"
    using run by (simp add: updateSearchApiDeployment_def searchAPIEnvVar_def)
  have "\<not> terminated (OSearch (withApiEnv es inst))" "objs w (searchKey (withApiEnv es inst)) = Some (OSearch inst)"
    using hold by (simp_all add: holds_def terminated_def)
  from updateInstance_ok [OF api this up] obtain u where
    "inst' = (withApiEnv es inst)\<lparr>s_Status := s_Status inst, s_meta := (s_meta (withApiEnv es inst))\<lparr>UID := u\<rparr>\<rparr>"
    "holds objs w' inst'" by auto
  moreover from this(1) have "apiEnv inst' = es" "searchKey inst' = searchKey inst"
    by (simp_all add: apiEnv_def withApiEnv_def)
  ultimately show ?thesis using placeEnv_Some [OF Some dist] by simp
qed

text \<open>What the status says of a type of condition.\<close>

definition condOf :: "string \<Rightarrow> Condition list \<Rightarrow> (string \<times> string \<times> string) option" where
  "condOf t cs = map_option (\<lambda>c. (cond_Status c, cond_Reason c, cond_Message c)) (List.find (\<lambda>c. cond_Type c = t) cs)"

lemma condOf_simps [simp]:
  "condOf t [] = None"
  "condOf t (c # cs) = (if cond_Type c = t then Some (cond_Status c, cond_Reason c, cond_Message c) else condOf t cs)"
  by (simp_all add: condOf_def)

lemma condOf_absent: "t \<notin> cond_Type ` set cs \<Longrightarrow> condOf t cs = None"
  by (induction cs) auto

lemma placeCondition_None:
  "placeCondition t c cs = None \<Longrightarrow> condOf t cs = Some (cond_Status c, cond_Reason c, cond_Message c)"
  by (induction t c cs rule: placeCondition.induct) (auto split: if_splits)

lemma placeCondition_Some:
  "placeCondition t c cs = Some ds \<Longrightarrow> cond_Type c = t \<Longrightarrow>
     condOf t ds = Some (cond_Status c, cond_Reason c, cond_Message c) \<and> (\<forall>u. u \<noteq> t \<longrightarrow> condOf u ds = condOf u cs)"
  by (induction t c cs arbitrary: ds rule: placeCondition.induct) (auto split: if_splits)

lemma dropCondition_None: "dropCondition t cs = None \<Longrightarrow> condOf t cs = None"
  by (induction cs) (auto split: if_splits)

lemma dropCondition_Some:
  "dropCondition t cs = Some ds \<Longrightarrow> distinct (map cond_Type cs) \<Longrightarrow> condOf t ds = None \<and> (\<forall>u. u \<noteq> t \<longrightarrow> condOf u ds = condOf u cs)"
  by (induction cs arbitrary: ds) (auto simp: condOf_absent split: if_splits)

lemma commit_conditions:
  assumes api: "kube_api (Client r) objs" and hold: "objs w (searchKey inst) = Some (OSearch inst)" "\<not> terminated (OSearch inst)"
    and run: "run_state (commitSearchCRInstanceState r (withConditions cs inst)) w = ((None, inst'), w')"
  shows "\<exists>s. objs w' (searchKey inst) = Some (OSearch s) \<and> s_Spec s = s_Spec inst \<and> Conditions (s_Status s) = cs"
proof -
  have "objs w (searchKey (withConditions cs inst)) = Some (OSearch inst)" using hold(1) by simp
  from commit_ok [OF api this hold(2) run] show ?thesis by (auto simp: withConditions_def)
qed

text \<open>No status update fails: then the condition is written.\<close>

definition statuses_written :: "'w client \<Rightarrow> bool" where
  "statuses_written c \<longleftrightarrow> (\<forall>ob w. \<not> isl (fst (run_state (cl_StatusUpdate c ob) w)))"

lemma set_condition_ok:
  assumes api: "kube_api (Client r) objs" and hold: "objs w (searchKey inst) = Some (OSearch inst)" "\<not> terminated (OSearch inst)"
    and t: "cond_Type c = t" and written: "statuses_written (Client r)"
    and run: "run_state (setSearchCondition r t inst c) w = (res, w')"
  shows "\<exists>s. objs w' (searchKey inst) = Some (OSearch s) \<and> s_Spec s = s_Spec inst
    \<and> condOf t (Conditions (s_Status s)) = Some (cond_Status c, cond_Reason c, cond_Message c)
    \<and> (\<forall>u. u \<noteq> t \<longrightarrow> condOf u (Conditions (s_Status s)) = condOf u (Conditions (s_Status inst)))"
proof (cases "placeCondition t c (Conditions (s_Status inst))")
  case None
  then have "w' = w" using run by (simp add: setSearchCondition_def)
  then show ?thesis using hold(1) placeCondition_None [OF None] by auto
next
  case (Some cs)
  then have commit: "run_state (commitSearchCRInstanceState r (withConditions cs inst)) w = (res, w')"
    using run by (simp add: setSearchCondition_def)
  have "fst res = None"
    using commit written [unfolded statuses_written_def, rule_format, of "OSearch (withConditions cs inst)" w]
    by (auto simp: commitSearchCRInstanceState_def answered_def split: prod.splits sum.splits)
  then obtain inst' where "run_state (commitSearchCRInstanceState r (withConditions cs inst)) w = ((None, inst'), w')"
    using commit by (cases res) auto
  from commit_conditions [OF api hold this] placeCondition_Some [OF Some t] show ?thesis by auto
qed

lemma remove_condition_ok:
  assumes api: "kube_api (Client r) objs" and hold: "objs w (searchKey inst) = Some (OSearch inst)" "\<not> terminated (OSearch inst)"
    and dist: "distinct (map cond_Type (Conditions (s_Status inst)))"
    and run: "run_state (removeStatusCondition r inst t) w = ((None, inst'), w')"
  shows "\<exists>s. objs w' (searchKey inst) = Some (OSearch s) \<and> s_Spec s = s_Spec inst \<and> condOf t (Conditions (s_Status s)) = None
    \<and> (\<forall>u. u \<noteq> t \<longrightarrow> condOf u (Conditions (s_Status s)) = condOf u (Conditions (s_Status inst)))"
proof (cases "dropCondition t (Conditions (s_Status inst))")
  case None
  then have "w' = w" using run by (simp add: removeStatusCondition_def)
  then show ?thesis using hold(1) dropCondition_None [OF None] by auto
next
  case (Some cs)
  then have "run_state (commitSearchCRInstanceState r (withConditions cs inst)) w = ((None, inst'), w')"
    using run by (simp add: removeStatusCondition_def)
  from commit_conditions [OF api hold this] dropCondition_Some [OF Some dist] show ?thesis by auto
qed


definition rbacSearch :: Search where
  "rbacSearch = sampleSearch\<lparr>s_meta := (s_meta sampleSearch)\<lparr>Annotations := mapOf [(''fine-grained-rbac'', ''true'')]\<rparr>\<rparr>"

lemma rbacSearch_run:
  "\<exists>inst' w'. run_state (reconcileFineGrainedRBACConfiguration mem_reconciler rbacSearch) (mem_world [OSearch rbacSearch])
     = (((Some emptyResult, None), inst'), w')"
  by (simp add: reconcileFineGrainedRBACConfiguration_def updateSearchApiDeployment_def searchAPIEnvVar_def
      rbacSearch_def sampleSearch_def sampleDeploymentConfig_def apiEnv_def withApiEnv_def plainEnv_def updateInstance_def
      mem_client_def run_scripted mem_update_def mem_world_def metaKey_def mkKey_def cluster_scoped_def newMeta_def
      mem_reconciler_def answered_def updateStatusConditionOf_def setSearchCondition_def commitSearchCRInstanceState_def
      mem_status_def split: prod.splits)


end
