(* ===== verification/Network_Policies.thy ===== *)
theory Network_Policies
  imports Hub_Config Resources
begin

text \<open>
  The network policies (\<open>controllers/create_networkpolicies.go\<close>, \<open>reconcileNetworkPolicies\<close> of
  \<open>common.go\<close>). The theorems read them as Kubernetes does: a pod that no policy selects accepts
  everything, a selected one only what a rule of a selecting policy admits.
\<close>

section \<open>Building blocks\<close>

definition nsLabelKey :: string where "nsLabelKey = ''kubernetes.io/metadata.name''"
definition openshiftMonitoring :: string where "openshiftMonitoring = ''openshift-monitoring''"
definition multiclusterEngine :: string where "multiclusterEngine = ''multicluster-engine''"

definition postgresPort :: int where "postgresPort = 5432"
definition indexerPort :: int where "indexerPort = 3010"
definition apiPort :: int where "apiPort = 4010"
definition collectorPort :: int where "collectorPort = 5010"
definition operatorWebhookPort :: int where "operatorWebhookPort = 9443"
definition operatorMetricsPort :: int where "operatorMetricsPort = 8080"

definition networkPolicyName :: "string \<Rightarrow> string" where
  "networkPolicyName component = component @ ''-network-policy''"

definition namespaceSelectorPeer :: "string \<Rightarrow> NetworkPolicyPeer" where
  "namespaceSelectorPeer namespaceName =
     \<lparr>peer_NamespaceSelector = Some (mapOf [(nsLabelKey, namespaceName)]), peer_PodSelector = None\<rparr>"

definition podSelectorPeer :: "smap \<Rightarrow> NetworkPolicyPeer" where
  "podSelectorPeer labels = \<lparr>peer_NamespaceSelector = None, peer_PodSelector = Some labels\<rparr>"

definition tcpPorts :: "int \<Rightarrow> NetworkPolicyPort list" where
  "tcpPorts port = [\<lparr>npp_Protocol = ''TCP'', npp_Port = port\<rparr>]"

definition monitoringIngressRule :: "int \<Rightarrow> NetworkPolicyIngressRule" where
  "monitoringIngressRule port = \<lparr>ing_From = [namespaceSelectorPeer openshiftMonitoring], ing_Ports = tcpPorts port\<rparr>"

definition newNetworkPolicy :: "Search \<Rightarrow> string \<Rightarrow> smap \<Rightarrow> NetworkPolicy" where
  "newNetworkPolicy inst component podLabels = \<lparr>
     np_meta = (newMeta (networkPolicyName component) (Namespace (s_meta inst)))\<lparr>
       Labels := generateLabels ''network-policy'' component\<rparr>,
     np_Spec = \<lparr>nps_PodSelector = podLabels, nps_PolicyTypes = [''Ingress''], nps_Ingress = [], nps_Egress = []\<rparr>\<rparr>"

definition withEgress :: "NetworkPolicy \<Rightarrow> NetworkPolicy" where
  "withEgress np = np\<lparr>np_Spec := (np_Spec np)\<lparr>nps_PolicyTypes := nps_PolicyTypes (np_Spec np) @ [''Egress'']\<rparr>\<rparr>"

definition withIngress :: "NetworkPolicyIngressRule list \<Rightarrow> NetworkPolicy \<Rightarrow> NetworkPolicy" where
  "withIngress rules np = np\<lparr>np_Spec := (np_Spec np)\<lparr>nps_Ingress := rules\<rparr>\<rparr>"

definition setNPControllerRef :: "'w SearchReconciler \<Rightarrow> Search \<Rightarrow> NetworkPolicy \<Rightarrow> NetworkPolicy" where
  "setNPControllerRef r inst np = np\<lparr>np_meta := withOwner (Lib r) inst (np_meta np)\<rparr>"

section \<open>The policies\<close>

definition PostgresNetworkPolicy :: "'w SearchReconciler \<Rightarrow> Search \<Rightarrow> NetworkPolicy" where
  "PostgresNetworkPolicy r inst =
     (let np = newNetworkPolicy inst postgresDeploymentName (generateLabels ''name'' postgresDeploymentName);
          np = withIngress [\<lparr>ing_From = [podSelectorPeer (generateLabels ''name'' indexerDeploymentName),
              podSelectorPeer (generateLabels ''name'' apiDeploymentName),
              podSelectorPeer (mapOf [(''app.kubernetes.io/name'', ''acm-mcp-server'')])],
            ing_Ports = tcpPorts postgresPort\<rparr>] np
      in setNPControllerRef r inst (withEgress np))"

definition namedPeer :: "string \<Rightarrow> string \<Rightarrow> string \<Rightarrow> NetworkPolicyPeer" where
  "namedPeer namespaceName key v = \<lparr>peer_NamespaceSelector = Some (mapOf [(nsLabelKey, namespaceName)]),
     peer_PodSelector = Some (mapOf [(key, v)])\<rparr>"

definition IndexerNetworkPolicy :: "'w SearchReconciler \<Rightarrow> Search \<Rightarrow> string \<Rightarrow> NetworkPolicy" where
  "IndexerNetworkPolicy r inst mceNamespace =
     (let np = newNetworkPolicy inst indexerDeploymentName (generateLabels ''name'' indexerDeploymentName);
          np = withIngress [
            \<lparr>ing_From = [namedPeer mceNamespace ''control-plane'' ''ocm-proxyserver''], ing_Ports = tcpPorts indexerPort\<rparr>,
            \<lparr>ing_From = [podSelectorPeer (generateLabels ''name'' collectorDeploymentName)], ing_Ports = tcpPorts indexerPort\<rparr>,
            monitoringIngressRule indexerPort] np
      in setNPControllerRef r inst np)"

definition APINetworkPolicy :: "'w SearchReconciler \<Rightarrow> Search \<Rightarrow> string \<Rightarrow> NetworkPolicy" where
  "APINetworkPolicy r inst mceNamespace =
     (let np = newNetworkPolicy inst apiDeploymentName (generateLabels ''name'' apiDeploymentName);
          np = withIngress [
            \<lparr>ing_From = [podSelectorPeer (mapOf [])], ing_Ports = tcpPorts apiPort\<rparr>,
            \<lparr>ing_From = [namedPeer mceNamespace ''app'' ''console-mce''], ing_Ports = tcpPorts apiPort\<rparr>,
            monitoringIngressRule apiPort] np
      in setNPControllerRef r inst np)"

definition CollectorNetworkPolicy :: "'w SearchReconciler \<Rightarrow> Search \<Rightarrow> NetworkPolicy" where
  "CollectorNetworkPolicy r inst =
     (let np = newNetworkPolicy inst collectorDeploymentName (generateLabels ''name'' collectorDeploymentName)
      in setNPControllerRef r inst (withIngress [monitoringIngressRule collectorPort] np))"

definition OperatorNetworkPolicy :: "'w SearchReconciler \<Rightarrow> Search \<Rightarrow> NetworkPolicy" where
  "OperatorNetworkPolicy r inst =
     (let np = newNetworkPolicy inst ''search-operator'' (mapOf [(''app'', ''search''), (''control-plane'', ''controller-manager'')])
      in setNPControllerRef r inst (withIngress [
           \<lparr>ing_From = [], ing_Ports = tcpPorts operatorWebhookPort\<rparr>, monitoringIngressRule operatorMetricsPort] np))"

definition policiesFor :: "'w SearchReconciler \<Rightarrow> Search \<Rightarrow> string \<Rightarrow> NetworkPolicy list" where
  "policiesFor r inst mceNamespace = [PostgresNetworkPolicy r inst, IndexerNetworkPolicy r inst mceNamespace,
     APINetworkPolicy r inst mceNamespace, CollectorNetworkPolicy r inst, OperatorNetworkPolicy r inst]"

definition NetworkPolicies :: "'w SearchReconciler \<Rightarrow> Search \<Rightarrow> ('w, NetworkPolicy list) state" where
  "NetworkPolicies r inst = (case DynamicClient r of
     None \<Rightarrow> ret (policiesFor r inst multiclusterEngine)
   | Some dyn \<Rightarrow> do {
       ns \<leftarrow> getMCETargetNamespace dyn;
       ret (policiesFor r inst (case ns of Inl _ \<Rightarrow> multiclusterEngine | Inr n \<Rightarrow> n))
     })"

fun writePolicies :: "'w SearchReconciler \<Rightarrow> NetworkPolicy list \<Rightarrow> ('w, step_ret) state" where
  "writePolicies r [] = ret done_ok"
| "writePolicies r (np # nps) = do {
     (res, err) \<leftarrow> createOrUpdateNetworkPolicy r np;
     if res \<noteq> None then ret (res, err) else writePolicies r nps
   }"

definition reconcileNetworkPolicies :: "'w SearchReconciler \<Rightarrow> Search \<Rightarrow> ('w, step_ret) state" where
  "reconcileNetworkPolicies r inst = do { nps \<leftarrow> NetworkPolicies r inst; writePolicies r nps }"

section \<open>What the policies admit\<close>

record endpoint =
  ep_Namespace :: string
  ep_NamespaceLabels :: smap
  ep_Labels :: smap

definition peerMatches :: "string \<Rightarrow> NetworkPolicyPeer \<Rightarrow> endpoint \<Rightarrow> bool" where
  "peerMatches ns p src = (case (peer_NamespaceSelector p, peer_PodSelector p) of
     (None, None) \<Rightarrow> False
   | (Some nsel, None) \<Rightarrow> selects nsel (ep_NamespaceLabels src)
   | (None, Some psel) \<Rightarrow> ep_Namespace src = ns \<and> selects psel (ep_Labels src)
   | (Some nsel, Some psel) \<Rightarrow> selects nsel (ep_NamespaceLabels src) \<and> selects psel (ep_Labels src))"

definition portMatches :: "NetworkPolicyPort list \<Rightarrow> string \<Rightarrow> int \<Rightarrow> bool" where
  "portMatches ps proto port \<longleftrightarrow> ps = [] \<or> list_ex (\<lambda>p. npp_Protocol p = proto \<and> npp_Port p = port) ps"

definition ruleAdmits :: "string \<Rightarrow> NetworkPolicyIngressRule \<Rightarrow> endpoint \<Rightarrow> string \<Rightarrow> int \<Rightarrow> bool" where
  "ruleAdmits ns rule src proto port \<longleftrightarrow>
     (ing_From rule = [] \<or> list_ex (\<lambda>p. peerMatches ns p src) (ing_From rule)) \<and> portMatches (ing_Ports rule) proto port"

definition governing :: "string \<Rightarrow> NetworkPolicy list \<Rightarrow> endpoint \<Rightarrow> NetworkPolicy list" where
  "governing kind nps dst = filter (\<lambda>np. Namespace (np_meta np) = ep_Namespace dst
     \<and> selects (nps_PodSelector (np_Spec np)) (ep_Labels dst) \<and> kind \<in> set (nps_PolicyTypes (np_Spec np))) nps"

definition ingressAllowed :: "NetworkPolicy list \<Rightarrow> endpoint \<Rightarrow> endpoint \<Rightarrow> string \<Rightarrow> int \<Rightarrow> bool" where
  "ingressAllowed nps src dst proto port \<longleftrightarrow>
     (let g = governing ''Ingress'' nps dst
      in g = [] \<or> list_ex (\<lambda>np. list_ex (\<lambda>rule. ruleAdmits (Namespace (np_meta np)) rule src proto port) (nps_Ingress (np_Spec np))) g)"

definition egressDenied :: "NetworkPolicy list \<Rightarrow> endpoint \<Rightarrow> bool" where
  "egressDenied nps src \<longleftrightarrow>
     (let g = governing ''Egress'' nps src in g \<noteq> [] \<and> list_all (\<lambda>np. nps_Egress (np_Spec np) = []) g)"

section \<open>Isolation of the components\<close>

lemma selects_all [simp]: "selects (mapOf []) labels"
  by (simp add: selects_def)

lemma selects_Cons [simp]:
  assumes "map_of kvs k = None"
  shows "selects (mapOf ((k, v) # kvs)) labels \<longleftrightarrow> lookup labels k = Some v \<and> selects (mapOf kvs) labels"
proof
  assume sel: "selects (mapOf ((k, v) # kvs)) labels"
  have "lookup labels k' = Some v'" if "map_of kvs k' = Some v'" for k' v'
  proof -
    have "lookup (mapOf ((k, v) # kvs)) k' = Some v'" using that assms by auto
    then show ?thesis using sel unfolding selects_def by blast
  qed
  moreover have "lookup labels k = Some v" using sel by (simp add: selects_def)
  ultimately show "lookup labels k = Some v \<and> selects (mapOf kvs) labels" by (simp add: selects_def)
next
  assume "lookup labels k = Some v \<and> selects (mapOf kvs) labels"
  then show "selects (mapOf ((k, v) # kvs)) labels" by (simp add: selects_def)
qed

lemma generateLabels_mapOf:
  "generateLabels key val = mapOf ((key, val) # [(''component'', ''search-v2-operator''), (''app'', ''search'')])"
  by (simp add: generateLabels_def put_def mapOf_def entries_def)

lemma selects_generateLabels:
  "selects (generateLabels ''name'' component) labels \<longleftrightarrow>
     lookup labels ''name'' = Some component \<and> lookup labels ''component'' = Some ''search-v2-operator''
     \<and> lookup labels ''app'' = Some ''search''"
  by (simp add: generateLabels_mapOf)

lemma lookup_generateLabels:
  "lookup (generateLabels ''name'' component) ''name'' = Some component"
  "lookup (generateLabels ''name'' component) ''component'' = Some ''search-v2-operator''"
  "lookup (generateLabels ''name'' component) ''app'' = Some ''search''"
  "lookup (generateLabels ''name'' component) ''control-plane'' = None"
  by (simp_all add: generateLabels_def)

lemma Namespace_withOwner: "setref_contract lib \<Longrightarrow> Namespace (withOwner lib inst m) = Namespace m"
  using metaKey_withOwner [of lib KNetworkPolicy inst m] by (simp add: metaKey_def mkKey_def cluster_scoped_def)

lemmas policy_defs = PostgresNetworkPolicy_def IndexerNetworkPolicy_def APINetworkPolicy_def CollectorNetworkPolicy_def
  OperatorNetworkPolicy_def newNetworkPolicy_def withEgress_def withIngress_def setNPControllerRef_def Let_def

lemma policy_namespace:
  assumes "setref_contract (Lib r)" "np \<in> set (policiesFor r inst mce)"
  shows "Namespace (np_meta np) = Namespace (s_meta inst)"
  using assms(2) by (auto simp: policiesFor_def policy_defs Namespace_withOwner [OF assms(1)])

lemma template_labels:
  "ds_TemplateLabels (dep_Spec (APIDeployment r inst tls)) = generateLabels ''name'' apiDeploymentName"
  "ds_TemplateLabels (dep_Spec (IndexerDeployment r inst tls)) = generateLabels ''name'' indexerDeploymentName"
  "ds_TemplateLabels (dep_Spec (collectorDeployment r inst tls cn)) = generateLabels ''name'' collectorDeploymentName"
  "ds_TemplateLabels (dep_Spec (postgresDeployment r inst h m)) = generateLabels ''name'' postgresDeploymentName"
  by (simp_all add: APIDeployment_def IndexerDeployment_def collectorDeployment_def postgresDeployment_def
      finishDeployment_def getDeployment_def Let_def)

text \<open>A pod of a component is governed by the policy of that component and by no other.\<close>

definition podOf :: "Search \<Rightarrow> smap \<Rightarrow> string \<Rightarrow> endpoint" where
  "podOf inst nsLabels component = \<lparr>ep_Namespace = Namespace (s_meta inst), ep_NamespaceLabels = nsLabels,
     ep_Labels = generateLabels ''name'' component\<rparr>"

lemma podOf_simps [simp]:
  "ep_Namespace (podOf inst l c) = Namespace (s_meta inst)" "ep_NamespaceLabels (podOf inst l c) = l"
  "ep_Labels (podOf inst l c) = generateLabels ''name'' c"
  by (simp_all add: podOf_def)

lemma governed_by_own_policy:
  assumes "setref_contract (Lib r)"
  shows "governing ''Ingress'' (policiesFor r inst mce) (podOf inst l postgresDeploymentName) = [PostgresNetworkPolicy r inst]"
    "governing ''Egress'' (policiesFor r inst mce) (podOf inst l postgresDeploymentName) = [PostgresNetworkPolicy r inst]"
    "governing ''Ingress'' (policiesFor r inst mce) (podOf inst l indexerDeploymentName) = [IndexerNetworkPolicy r inst mce]"
    "governing ''Ingress'' (policiesFor r inst mce) (podOf inst l apiDeploymentName) = [APINetworkPolicy r inst mce]"
    "governing ''Ingress'' (policiesFor r inst mce) (podOf inst l collectorDeploymentName) = [CollectorNetworkPolicy r inst]"
  by (simp_all add: governing_def policiesFor_def policy_defs Namespace_withOwner [OF assms]
      selects_generateLabels lookup_generateLabels postgresDeploymentName_def
      indexerDeploymentName_def apiDeploymentName_def collectorDeploymentName_def)

lemmas admission_defs = ingressAllowed_def ruleAdmits_def peerMatches_def portMatches_def monitoringIngressRule_def
  podSelectorPeer_def namespaceSelectorPeer_def namedPeer_def tcpPorts_def

text \<open>
  C8. Isolation: in the labels that the deployments give their pods, the database is reachable on TCP
  port 5432 and on nothing else, and only from the indexer, the API and the MCP server of the
  namespace, and may open no connection itself; the collector accepts only the scrapes of the
  monitoring namespace; the connections that the components need (indexer and API to the database,
  collector to the indexer) are admitted; and a pod that does not carry the labels of the operator's
  own pods is governed by none of the policies.
\<close>

theorem network_isolation:
  assumes "setref_contract (Lib r)"
  shows "(ingressAllowed (policiesFor r inst mce) src (podOf inst l postgresDeploymentName) proto port \<longleftrightarrow>
      proto = ''TCP'' \<and> port = 5432 \<and> ep_Namespace src = Namespace (s_meta inst)
      \<and> (selects (generateLabels ''name'' indexerDeploymentName) (ep_Labels src)
         \<or> selects (generateLabels ''name'' apiDeploymentName) (ep_Labels src)
         \<or> lookup (ep_Labels src) ''app.kubernetes.io/name'' = Some ''acm-mcp-server''))
    \<and> egressDenied (policiesFor r inst mce) (podOf inst l postgresDeploymentName)
    \<and> (ingressAllowed (policiesFor r inst mce) src (podOf inst l collectorDeploymentName) proto port \<longleftrightarrow>
      proto = ''TCP'' \<and> port = 5010 \<and> lookup (ep_NamespaceLabels src) nsLabelKey = Some ''openshift-monitoring'')
    \<and> ingressAllowed (policiesFor r inst mce) (podOf inst l indexerDeploymentName) (podOf inst l postgresDeploymentName) ''TCP'' 5432
    \<and> ingressAllowed (policiesFor r inst mce) (podOf inst l apiDeploymentName) (podOf inst l postgresDeploymentName) ''TCP'' 5432
    \<and> ingressAllowed (policiesFor r inst mce) (podOf inst l collectorDeploymentName) (podOf inst l indexerDeploymentName) ''TCP'' 3010
    \<and> (lookup (ep_Labels dst) ''app'' \<noteq> Some ''search'' \<longrightarrow> governing kind (policiesFor r inst mce) dst = [])"
proof -
  note own = governed_by_own_policy [OF assms, of inst mce l]
  have postgres: "ingressAllowed (policiesFor r inst mce) src (podOf inst l postgresDeploymentName) proto port \<longleftrightarrow>
      proto = ''TCP'' \<and> port = 5432 \<and> ep_Namespace src = Namespace (s_meta inst)
      \<and> (selects (generateLabels ''name'' indexerDeploymentName) (ep_Labels src)
         \<or> selects (generateLabels ''name'' apiDeploymentName) (ep_Labels src)
         \<or> lookup (ep_Labels src) ''app.kubernetes.io/name'' = Some ''acm-mcp-server'')" for src proto port
    by (auto simp: own admission_defs policy_defs Namespace_withOwner [OF assms] postgresPort_def)
  have "governing kind (policiesFor r inst mce) dst = []" if "lookup (ep_Labels dst) ''app'' \<noteq> Some ''search''"
    using that by (simp add: governing_def policiesFor_def policy_defs selects_generateLabels)
  then show ?thesis
    unfolding postgres
    by (simp add: own admission_defs policy_defs Namespace_withOwner [OF assms] egressDenied_def
        selects_generateLabels lookup_generateLabels indexerPort_def collectorPort_def openshiftMonitoring_def)
       blast
qed

theorem network_isolation_witness:
  "\<not> ingressAllowed (policiesFor mem_reconciler sampleSearch ''multicluster-engine'')
      \<lparr>ep_Namespace = ''default'', ep_NamespaceLabels = None, ep_Labels = generateLabels ''name'' indexerDeploymentName\<rparr>
      (podOf sampleSearch None postgresDeploymentName) ''TCP'' 5432
   \<and> governing ''Ingress'' (policiesFor mem_reconciler sampleSearch ''multicluster-engine'')
      \<lparr>ep_Namespace = Namespace (s_meta sampleSearch), ep_NamespaceLabels = None, ep_Labels = None\<rparr> = []"
  using network_isolation [where r = mem_reconciler and inst = sampleSearch and mce = "''multicluster-engine''" and l = None
      and src = "\<lparr>ep_Namespace = ''default'', ep_NamespaceLabels = None, ep_Labels = generateLabels ''name'' indexerDeploymentName\<rparr>"
      and dst = "\<lparr>ep_Namespace = Namespace (s_meta sampleSearch), ep_NamespaceLabels = None, ep_Labels = None\<rparr>"
      and kind = "''Ingress''" and proto = "''TCP''" and port = 5432] mem_lib_setref
  by (simp add: sampleSearch_def)

section \<open>The policies are in place\<close>

lemma createOrUpdateNetworkPolicy_ret:
  "run_state (createOrUpdateNetworkPolicy r np) w = ((None, err), w') \<Longrightarrow> err = None"
  by (auto simp: createOrUpdateNetworkPolicy_def ret_defs split: sum.splits prod.splits if_splits)

abbreviation policyKey :: "NetworkPolicy \<Rightarrow> okey" where
  "policyKey np \<equiv> key_of (ONetworkPolicy np)"

lemma touches_writePolicies:
  assumes "kube_api (Client r) objs"
  shows "policyKey ` set nps \<subseteq> K \<Longrightarrow> touches objs K (writePolicies r nps)"
proof (induction nps)
  case Nil
  then show ?case by (simp add: touches_ret)
next
  case (Cons np nps)
  have "touches objs K (createOrUpdateNetworkPolicy r np)"
    using Cons.prems by (intro touches_mono [OF network_policy_writer.frame [OF assms]]) simp
  then show ?case
    using Cons by (auto intro!: touches_bind touches_if touches_ret split: prod.split)
qed

lemma writePolicies_stores:
  assumes api: "kube_api (Client r) objs"
  shows "distinct (map policyKey nps) \<Longrightarrow> (\<And>np. np \<in> set nps \<Longrightarrow> \<not> terminated (ONetworkPolicy np) \<and> alive objs w (policyKey np)) \<Longrightarrow>
    run_state (writePolicies r nps) w = (done_ok, w') \<Longrightarrow> np \<in> set nps \<Longrightarrow>
    \<exists>y. objs w' (policyKey np) = Some (ONetworkPolicy y) \<and> samePolicy y np"
proof (induction nps arbitrary: w)
  case (Cons p nps)
  obtain res err w1 where first: "run_state (createOrUpdateNetworkPolicy r p) w = ((res, err), w1)"
    by (metis surj_pair)
  have "res = None" and rest: "run_state (writePolicies r nps) w1 = (done_ok, w')"
    using Cons.prems(3) first by (auto simp: ret_defs split: if_splits)
  then have ok: "run_state (createOrUpdateNetworkPolicy r p) w = (done_ok, w1)"
    using first createOrUpdateNetworkPolicy_ret [of r p w] by (simp add: ret_defs)
  have later: "same_except objs w1 w' (policyKey ` set nps)"
    using touches_writePolicies [OF api subset_refl, of nps] rest unfolding touches_def by (metis snd_conv)
  show ?case
  proof (cases "np = p")
    case True
    have "objs w' (policyKey p) = objs w1 (policyKey p)"
      using later Cons.prems(1) unfolding same_except_def by auto
    then show ?thesis
      using network_policy_writer.reaches [OF api _ _ ok] Cons.prems(2) [of p] True by simp
  next
    case False
    have frame: "same_except objs w w1 {policyKey p}"
      using network_policy_writer.frame [OF api, of p] ok unfolding touches_def by (metis snd_conv)
    have "\<not> terminated (ONetworkPolicy q) \<and> alive objs w1 (policyKey q)" if "q \<in> set nps" for q
    proof -
      have "policyKey q \<noteq> policyKey p" using Cons.prems(1) that by (auto simp: image_iff)
      then have "objs w1 (policyKey q) = objs w (policyKey q)" using frame unfolding same_except_def by auto
      then show ?thesis using Cons.prems(2) [of q] that by (simp add: alive_def)
    qed
    then show ?thesis using Cons.IH [of w1] Cons.prems(1,4) rest False by simp
  qed
qed simp

definition mceNamespaceOf :: "'w SearchReconciler \<Rightarrow> 'w \<Rightarrow> string" where
  "mceNamespaceOf r w = (case DynamicClient r of None \<Rightarrow> multiclusterEngine
   | Some dyn \<Rightarrow> (case fst (run_state (getMCETargetNamespace dyn) w) of Inl _ \<Rightarrow> multiclusterEngine | Inr n \<Rightarrow> n))"

lemma NetworkPolicies_run:
  "fst (run_state (NetworkPolicies r inst) w) = policiesFor r inst (mceNamespaceOf r w)"
  by (auto simp: NetworkPolicies_def mceNamespaceOf_def split: option.splits prod.splits)

lemma policiesFor_keys:
  assumes "setref_contract (Lib r)"
  shows "map policyKey (policiesFor r inst mce) = map (\<lambda>c. mkKey KNetworkPolicy (Namespace (s_meta inst)) (networkPolicyName c))
    [postgresDeploymentName, indexerDeploymentName, apiDeploymentName, collectorDeploymentName, ''search-operator'']"
  by (simp add: policiesFor_def policy_defs metaKey_withOwner [OF assms])

lemma DeletionTimestamp_withOwner:
  assumes "setref_contract lib"
  shows "DeletionTimestamp (withOwner lib inst m) = DeletionTimestamp m"
proof (cases "lib_SetControllerReference lib inst m")
  case (Inr m')
  then obtain refs where "m' = m\<lparr>OwnerReferences := refs\<rparr>" using assms unfolding setref_contract_def by blast
  then show ?thesis using Inr by (simp add: withOwner_def)
qed (simp add: withOwner_def)

lemma policy_not_terminated:
  assumes "setref_contract (Lib r)" "np \<in> set (policiesFor r inst mce)"
  shows "\<not> terminated (ONetworkPolicy np)"
  using assms(2) by (auto simp: policiesFor_def policy_defs terminated_def DeletionTimestamp_withOwner [OF assms(1)])

text \<open>
  When the step for the network policies succeeds, all five policies are stored in the namespace
  of the Search resource as wanted (in spec, labels and owners), with the namespace of the
  multicluster engine as its own resource names it, and nothing else has changed.
\<close>

theorem network_policies_in_place:
  assumes "kube_api (Client r) objs" "setref_contract (Lib r)" "live objs w"
    "\<forall>dyn. DynamicClient r = Some dyn \<longrightarrow> dyn_typed dyn objs featureGvrs"
    "run_state (reconcileNetworkPolicies r inst) w = (done_ok, w')"
  shows "list_all (\<lambda>np. \<exists>y. objs w' (metaKey KNetworkPolicy (np_meta np)) = Some (ONetworkPolicy y) \<and> samePolicy y np)
      (policiesFor r inst (mceNamespaceOf r w))
    \<and> same_except objs w w' (policyKey ` set (policiesFor r inst (mceNamespaceOf r w)))"
proof -
  let ?nps = "policiesFor r inst (mceNamespaceOf r w)"
  obtain w1 where nps: "run_state (NetworkPolicies r inst) w = (?nps, w1)"
    using NetworkPolicies_run [of r inst w] by (metis prod.collapse)
  have "touches objs {} (NetworkPolicies r inst)"
    unfolding NetworkPolicies_def getMCETargetNamespace_def using assms(4)
    by (auto intro!: touches_bind touches_ret touches_dyn(2) split: option.split prod.split)
  then have idle: "objs w1 = objs w" using touchesD [OF _ nps] by (intro ext) simp
  have wr: "run_state (writePolicies r ?nps) w1 = (done_ok, w')"
    using assms(5) nps by (simp add: reconcileNetworkPolicies_def)
  have "distinct (map policyKey ?nps)"
    unfolding policiesFor_keys [OF assms(2)]
    by (simp add: networkPolicyName_def mkKey_def postgresDeploymentName_def indexerDeploymentName_def
        apiDeploymentName_def collectorDeploymentName_def)
  moreover have "\<not> terminated (ONetworkPolicy np) \<and> alive objs w1 (policyKey np)" if "np \<in> set ?nps" for np
    using that assms(3) idle policy_not_terminated [OF assms(2)] by (simp add: live_def alive_def)
  ultimately have "\<exists>y. objs w' (policyKey np) = Some (ONetworkPolicy y) \<and> samePolicy y np" if "np \<in> set ?nps" for np
    using writePolicies_stores [OF assms(1) _ _ wr that] by blast
  moreover have "same_except objs w w' (policyKey ` set ?nps)"
    using touchesD [OF touches_writePolicies [OF assms(1) subset_refl] wr] idle by (simp add: same_except_def)
  ultimately show ?thesis by (simp add: list_all_iff)
qed

lemma policies_installed:
  "fst (run_state (reconcileNetworkPolicies mem_reconciler sampleSearch) (mem_world [])) = done_ok"
  by (simp add: reconcileNetworkPolicies_def NetworkPolicies_def policiesFor_def createOrUpdateNetworkPolicy_def policy_defs
      networkPolicyName_def postgresDeploymentName_def indexerDeploymentName_def apiDeploymentName_def
      collectorDeploymentName_def mem_run_simps mem_lib_def withOwner_def mem_reconciler_def ret_defs)

theorem network_policies_in_place_witness:
  "\<exists>y. mem_view (snd (run_state (reconcileNetworkPolicies mem_reconciler sampleSearch) (mem_world [])))
      (metaKey KNetworkPolicy (np_meta (PostgresNetworkPolicy mem_reconciler sampleSearch))) = Some (ONetworkPolicy y)
    \<and> samePolicy y (PostgresNetworkPolicy mem_reconciler sampleSearch)"
proof -
  have run: "run_state (reconcileNetworkPolicies mem_reconciler sampleSearch) (mem_world [])
      = (done_ok, snd (run_state (reconcileNetworkPolicies mem_reconciler sampleSearch) (mem_world [])))"
    using policies_installed by (metis prod.collapse)
  have "live mem_view (mem_world [])" by (rule mem_world_live) simp
  then have "list_all (\<lambda>np. \<exists>y. mem_view (snd (run_state (reconcileNetworkPolicies mem_reconciler sampleSearch) (mem_world [])))
      (metaKey KNetworkPolicy (np_meta np)) = Some (ONetworkPolicy y) \<and> samePolicy y np)
      (policiesFor mem_reconciler sampleSearch (mceNamespaceOf mem_reconciler (mem_world [])))"
    using network_policies_in_place [where r = mem_reconciler, unfolded mem_reconciler_simps,
        OF mem_kube_api mem_lib_setref _ _ run] by (simp add: mem_reconciler_def)
  then show ?thesis by (simp add: policiesFor_def)
qed

end
