(* ===== verification/Global_Search.thy ===== *)
theory Global_Search
  imports Hub_Config
begin

text \<open>
  Global search (\<open>controllers/global_search_setup.go\<close>): with the annotation
  \<open>global-search-preview\<close> the operator checks the add-ons, sets the flags of the console, the
  environment of the search API, and a service account and a manifest work in the namespace of every
  managed hub; without it, it takes back what it set up. The first sections hold what the set-up of the
  virtual machine actions does in the same way: steps for each managed cluster that collect their
  errors.
\<close>

section \<open>Steps for each cluster\<close>

text \<open>\<open>fmt.Errorf("...: %v", errList)\<close> prints the list in brackets, separated by spaces.\<close>

fun joinErrors :: "go_error list \<Rightarrow> string" where
  "joinErrors [] = ''''"
| "joinErrors [e] = Error e"
| "joinErrors (e # es) = Error e @ '' '' @ joinErrors es"

definition combineErrors :: "string \<Rightarrow> go_error list \<Rightarrow> go_error option" where
  "combineErrors msg errList =
     (if errList \<noteq> [] then Some (Errorf (msg @ '' Errors: ['' @ joinErrors errList @ '']'')) else None)"

fun forClusters :: "(json \<Rightarrow> go_error list \<Rightarrow> ('w, go_error list option) state) \<Rightarrow> json list \<Rightarrow> go_error list
    \<Rightarrow> ('w, go_error list option) state" where
  "forClusters act [] errList = ret (Some errList)"
| "forClusters act (cluster # clusters) errList =
     andThen (act cluster errList) (\<lambda>errList. forClusters act clusters errList)"

definition createIfMissing :: "'w dynamic \<Rightarrow> gvr \<Rightarrow> string \<Rightarrow> json \<Rightarrow> ('w, go_error option) state" where
  "createIfMissing dyn g ns ob = do {
     err \<leftarrow> dyn_Create dyn g ns ob;
     ret (case err of Some e \<Rightarrow> if IsAlreadyExists e then None else Some e | None \<Rightarrow> None)
   }"

definition deleteIfThere :: "'w dynamic \<Rightarrow> gvr \<Rightarrow> string \<Rightarrow> string \<Rightarrow> go_error list \<Rightarrow> ('w, go_error list) state" where
  "deleteIfThere dyn g ns name errList = do {
     err \<leftarrow> dyn_Delete dyn g ns name;
     ret (case err of Some e \<Rightarrow> if \<not> IsNotFound e then errList @ [e] else errList | None \<Rightarrow> errList)
   }"

definition deletePair ::
  "gvr \<Rightarrow> string \<Rightarrow> gvr \<Rightarrow> string \<Rightarrow> 'w dynamic \<Rightarrow> json \<Rightarrow> go_error list \<Rightarrow> ('w, go_error list option) state" where
  "deletePair g1 n1 g2 n2 dyn cluster errList = total (do {
     errList \<leftarrow> deleteIfThere dyn g1 (GetName cluster) n1 errList;
     deleteIfThere dyn g2 (GetName cluster) n2 errList
   })"

text \<open>Position and removal of a status condition; a position past the end is a panic.\<close>

fun conditionIndex :: "string \<Rightarrow> Condition list \<Rightarrow> nat option" where
  "conditionIndex t [] = None"
| "conditionIndex t (c # cs) = (if cond_Type c = t then Some 0 else map_option Suc (conditionIndex t cs))"

definition removeAt :: "nat \<Rightarrow> 'a list \<Rightarrow> 'a list option" where
  "removeAt i xs = (if i < length xs then Some (take i xs @ drop (i + 1) xs) else None)"

section \<open>Dependencies\<close>

definition validateGlobalSearchDependencies :: "'w dynamic \<Rightarrow> ('w, go_error option option) state" where
  "validateGlobalSearchDependencies dyn = do {
     (multiclusterGlobalHub, err) \<leftarrow> dyn_List dyn multiclusterGlobalHubGvr;
     if err \<noteq> None then ret (Some (Some (Errorf ''failed to validate dependency MulticlusterGlobalHub operator'')))
     else validateAddOns dyn ''the managedserviceaccount add-on is not enabled in MulticlusterEngine''
       ''the cluster-proxy-addon is not enabled in MulticlusterEngine''
   }"

section \<open>The resources of a managed hub\<close>

definition SEARCH_GLOBAL :: string where "SEARCH_GLOBAL = ''search-global''"
definition SEARCH_GLOBAL_CONFIG :: string where "SEARCH_GLOBAL_CONFIG = ''search-global-config''"
definition MANAGED_SERVICE_ACCOUNT_ADDON_NAME :: string where
  "MANAGED_SERVICE_ACCOUNT_ADDON_NAME = ''managed-serviceaccount''"

definition appSearchLabels :: json where
  "appSearchLabels = JObject [(''app'', JString ''search''), (''feature'', JString ''global-search'')]"

definition managedServiceAccount :: "string \<Rightarrow> json \<Rightarrow> json" where
  "managedServiceAccount name labels = JObject [
     (''apiVersion'', JString ''authentication.open-cluster-management.io/v1beta1''),
     (''kind'', JString ''ManagedServiceAccount''),
     (''metadata'', JObject [(''name'', JString name), (''labels'', labels)]),
     (''spec'', JObject [(''rotation'', JObject [])])]"

definition createManagedServiceAccount :: "'w dynamic \<Rightarrow> string \<Rightarrow> ('w, go_error option) state" where
  "createManagedServiceAccount dyn cluster =
     createIfMissing dyn managedServiceAccountGvr cluster (managedServiceAccount SEARCH_GLOBAL appSearchLabels)"

definition globalSearchWork :: "string \<Rightarrow> string \<Rightarrow> json \<Rightarrow> json" where
  "globalSearchWork cluster namespace msaInstallNamespace = JObject [
     (''apiVersion'', JString ''work.open-cluster-management.io/v1''),
     (''kind'', JString ''ManifestWork''),
     (''metadata'', JObject [(''name'', JString SEARCH_GLOBAL_CONFIG), (''labels'', appSearchLabels)]),
     (''spec'', JObject [(''workload'', JObject [(''manifests'', JArray [
        JObject [
          (''apiVersion'', JString ''rbac.authorization.k8s.io/v1''),
          (''kind'', JString ''ClusterRoleBinding''),
          (''metadata'', JObject [(''name'', JString ''search-global-binding''), (''labels'', appSearchLabels)]),
          (''roleRef'', JObject [(''apiGroup'', JString ''rbac.authorization.k8s.io''), (''kind'', JString ''ClusterRole''),
             (''name'', JString ''global-search-user'')]),
          (''subjects'', JArray [JObject [(''kind'', JString ''ServiceAccount''), (''name'', JString SEARCH_GLOBAL),
             (''namespace'', msaInstallNamespace)]])],
        JObject [
          (''apiVersion'', JString ''v1''),
          (''kind'', JString ''ConfigMap''),
          (''metadata'', JObject [(''name'', JString SEARCH_GLOBAL_CONFIG), (''labels'', appSearchLabels),
             (''namespace'', JString namespace)]),
          (''data'', JObject [(''hubName'', JString cluster)])]])])])]"

definition addOnName :: "string \<Rightarrow> string" where
  "addOnName cluster = cluster @ ''/'' @ MANAGED_SERVICE_ACCOUNT_ADDON_NAME"

definition createManifestWork :: "'w dynamic \<Rightarrow> string \<Rightarrow> string \<Rightarrow> ('w, go_error option option) state" where
  "createManifestWork dyn cluster namespace = do {
     res \<leftarrow> dyn_Get dyn managedClustrAddonGvr cluster MANAGED_SERVICE_ACCOUNT_ADDON_NAME;
     case res of
       Inl err \<Rightarrow> ret (Some (Some (Errorf (''failed to get the managedserviceaccount '' @ addOnName cluster @ '': '' @ Error err))))
     | Inr msa \<Rightarrow>
         (let notSet = ret (Some (Some (Errorf (''the status.namespace of managedserviceaccount '' @ addOnName cluster @ '' is not set''))));
              status = jget (jfields msa) ''status''
          in if status = JNull then notSet
             else case assertMap status of
               None \<Rightarrow> panic
             | Some m \<Rightarrow> if jget m ''namespace'' = JNull then notSet
                 else total (createIfMissing dyn manifestWorkGvr cluster
                   (globalSearchWork cluster namespace (jget m ''namespace''))))
   }"

text \<open>Whether a cluster is a managed hub, from its claims; a value of another type is a panic.\<close>

fun hubClaim :: "json list \<Rightarrow> bool option" where
  "hubClaim [] = Some False"
| "hubClaim (claim # claims) = (case assertMap claim of
     None \<Rightarrow> None
   | Some claimMap \<Rightarrow>
       if jget claimMap ''name'' = JString ''hub.open-cluster-management.io'' \<and> jget claimMap ''value'' \<noteq> JString ''NotInstalled''
       then Some True else hubClaim claims)"

definition managedHub :: "json \<Rightarrow> bool option" where
  "managedHub cluster =
     (if GetLabel cluster ''local-cluster'' = ''true'' then Some False
      else let status = jget (jfields cluster) ''status''
           in if status = JNull then Some False
              else case assertMap status of
                None \<Rightarrow> None
              | Some m \<Rightarrow> if jget m ''clusterClaims'' = JNull then Some False
                  else case assertArray (jget m ''clusterClaims'') of
                    None \<Rightarrow> None | Some clusterClaims \<Rightarrow> hubClaim clusterClaims)"

definition setUpHub :: "string \<Rightarrow> 'w dynamic \<Rightarrow> json \<Rightarrow> go_error list \<Rightarrow> ('w, go_error list option) state" where
  "setUpHub namespace dyn cluster errList = (case managedHub cluster of
     None \<Rightarrow> panic
   | Some False \<Rightarrow> ret (Some errList)
   | Some True \<Rightarrow> do {
       err \<leftarrow> createManagedServiceAccount dyn (GetName cluster);
       andThen (createManifestWork dyn (GetName cluster) namespace)
         (\<lambda>err2. ret (Some (logAndTrackError (logAndTrackError errList err) err2)))
     })"

definition tearDownHub :: "'w dynamic \<Rightarrow> json \<Rightarrow> go_error list \<Rightarrow> ('w, go_error list option) state" where
  "tearDownHub dyn cluster errList =
     deletePair managedServiceAccountGvr SEARCH_GLOBAL manifestWorkGvr SEARCH_GLOBAL_CONFIG dyn cluster errList"

section \<open>Enabling and disabling\<close>

text \<open>The part that both have: the flags of the console and the environment of the search API.\<close>

definition switchGlobalSearch ::
  "'w SearchReconciler \<Rightarrow> 'w dynamic \<Rightarrow> Search \<Rightarrow> bool \<Rightarrow> ('w, (go_error list \<times> Search) option) state" where
  "switchGlobalSearch r dyn inst enabled = do {
     ns \<leftarrow> getMCETargetNamespace dyn;
     let errList = (case ns of Inl e \<Rightarrow> [e] | Inr _ \<Rightarrow> []);
     let mceInstallNS = (case ns of Inl _ \<Rightarrow> ''multicluster-engine'' | Inr n \<Rightarrow> n);
     andThen (updateConsoleConfig dyn enabled mceInstallNS ''console-mce-config'') (\<lambda>err1.
     andThen (updateConsoleConfig dyn enabled (Namespace (s_meta inst)) ''console-config'') (\<lambda>err2.
     total (do {
       (err3, inst) \<leftarrow> updateSearchApiDeployment r inst
         (plainEnv ''FEATURE_FEDERATED_SEARCH'' (if enabled then ''true'' else ''''));
       ret (logAndTrackError (logAndTrackError (logAndTrackError errList err1) err2) err3, inst)
     })))
   }"

definition enableGlobalSearch ::
  "'w SearchReconciler \<Rightarrow> 'w dynamic \<Rightarrow> Search \<Rightarrow> ('w, (go_error option \<times> Search) option) state" where
  "enableGlobalSearch r dyn inst =
     andThen (switchGlobalSearch r dyn inst True) (\<lambda>(errList, inst). do {
       (clusterList, err) \<leftarrow> dyn_List dyn managedClusterResourceGvr;
       andThen (forClusters (setUpHub (Namespace (s_meta inst)) dyn)
           (if err = None then listed clusterList else []) (logAndTrackError errList err))
         (\<lambda>errList. ret (Some (combineErrors ''failed to enable global search.'' errList, inst)))
     })"

definition disableGlobalSearch ::
  "'w SearchReconciler \<Rightarrow> 'w dynamic \<Rightarrow> Search \<Rightarrow> ('w, (go_error option \<times> Search) option) state" where
  "disableGlobalSearch r dyn inst =
     andThen (switchGlobalSearch r dyn inst False) (\<lambda>(errList, inst). do {
       (clusterList, err) \<leftarrow> dyn_List dyn managedClusterResourceGvr;
       case clusterList of
         None \<Rightarrow> panic
       | Some clusters \<Rightarrow> andThen (forClusters (tearDownHub dyn) clusters (logAndTrackError errList err))
           (\<lambda>errList. ret (Some (combineErrors ''failed to disable global search.'' errList, inst)))
     })"

definition withDynamic :: "'w SearchReconciler \<Rightarrow> ('w dynamic \<Rightarrow> ('w, 'a option) state) \<Rightarrow> ('w, 'a option) state" where
  "withDynamic r f = (case DynamicClient r of None \<Rightarrow> panic | Some dyn \<Rightarrow> f dyn)"

definition clearCondition ::
  "'w SearchReconciler \<Rightarrow> nat \<Rightarrow> Search \<Rightarrow> ('w, (step_ret \<times> Search) option) state" where
  "clearCondition r i inst = (case removeAt i (Conditions (s_Status inst)) of
     None \<Rightarrow> panic
   | Some cs \<Rightarrow> total (do {
       (err, inst) \<leftarrow> commitSearchCRInstanceState r (withConditions cs inst);
       ret (case err of Some e \<Rightarrow> failWith e | None \<Rightarrow> (Some emptyResult, None), inst)
     }))"

definition reconcileGlobalSearch :: "'w SearchReconciler \<Rightarrow> Search \<Rightarrow> ('w, (step_ret \<times> Search) option) state" where
  "reconcileGlobalSearch r inst =
     (if index (Annotations (s_meta inst)) ''global-search-preview'' = ''true'' then withDynamic r (\<lambda>dyn.
        andThen (validateGlobalSearchDependencies dyn) (\<lambda>err. case err of
          Some e \<Rightarrow> ret (Some (failWith e, inst))
        | None \<Rightarrow> andThen (enableGlobalSearch r dyn inst) (\<lambda>(err, inst). total (do {
            now \<leftarrow> Now r;
            (_, inst) \<leftarrow> updateGlobalSearchStatus r inst (case err of
                Some e \<Rightarrow> newCondition CONDITION_GLOBAL_SEARCH ''False'' ''GlobalSearchSetupFailed''
                  (''Failed to enable global search. '' @ Error e) now
              | None \<Rightarrow> newCondition CONDITION_GLOBAL_SEARCH ''True'' ''None'' ''None'' now);
            ret ((Some emptyResult, None), inst)
          }))))
      else case conditionIndex CONDITION_GLOBAL_SEARCH (Conditions (s_Status inst)) of
        None \<Rightarrow> ret (Some ((Some emptyResult, None), inst))
      | Some i \<Rightarrow> withDynamic r (\<lambda>dyn. andThen (disableGlobalSearch r dyn inst) (\<lambda>(err, inst). case err of
          Some e \<Rightarrow> total (do {
            now \<leftarrow> Now r;
            (_, inst) \<leftarrow> updateGlobalSearchStatus r inst (newCondition CONDITION_GLOBAL_SEARCH ''False''
              ''GlobalSearchCleanupFailed'' (''Failed to disable global search. '' @ Error e) now);
            ret (failWith e, inst)
          })
        | None \<Rightarrow> clearCondition r i inst)))"

section \<open>Steps that reach every cluster\<close>

text \<open>
  The interface of a step for one cluster: it changes only its own keys, keeps the errors collected
  so far, and when it adds none, what it is for holds of its keys; a step for another cluster does not
  undo that.
\<close>

locale cluster_step =
  fixes act :: "'w dynamic \<Rightarrow> json \<Rightarrow> go_error list \<Rightarrow> ('w, go_error list option) state"
    and concerns :: "json \<Rightarrow> bool"
    and keys :: "json \<Rightarrow> (gvr \<times> string \<times> string) set"
    and good :: "json option \<Rightarrow> bool"
  assumes frame: "dyn_api dyn dobjs \<Longrightarrow> run_state (act dyn c errs) w = (x, w') \<Longrightarrow> dsame_except dobjs w w' (keys c)"
    and errors: "run_state (act dyn c errs) w = (Some errs', w') \<Longrightarrow> \<exists>es. errs' = errs @ es"
    and reaches: "dyn_api dyn dobjs \<Longrightarrow> run_state (act dyn c []) w = (Some [], w') \<Longrightarrow> concerns c \<Longrightarrow> k \<in> keys c \<Longrightarrow> good (dobjs w' k)"
    and keeps: "dyn_api dyn dobjs \<Longrightarrow> run_state (act dyn c errs) w = (Some errs', w') \<Longrightarrow> good (dobjs w k) \<Longrightarrow> good (dobjs w' k)"
    and typed: "dyn_typed dyn objs featureGvrs \<Longrightarrow> touches objs K (act dyn c errs)"
begin

lemma loop_keeps:
  assumes api: "dyn_api dyn dobjs"
  shows "run_state (forClusters (act dyn) cs errs) w = (Some errs', w') \<Longrightarrow> good (dobjs w k) \<Longrightarrow> good (dobjs w' k)"
proof (induction cs arbitrary: errs w)
  case (Cons c cs)
  from Cons.prems(1) obtain es w1 where first: "run_state (act dyn c errs) w = (Some es, w1)"
    and rest: "run_state (forClusters (act dyn) cs es) w1 = (Some errs', w')"
    by (auto elim: andThen_ok)
  show ?case by (rule Cons.IH [OF rest keeps [OF api first Cons.prems(2)]])
qed simp

lemma loop_errors: "run_state (forClusters (act dyn) cs errs) w = (Some errs', w') \<Longrightarrow> \<exists>es. errs' = errs @ es"
proof (induction cs arbitrary: errs w)
  case (Cons c cs)
  from Cons.prems obtain es w1 where "run_state (act dyn c errs) w = (Some es, w1)"
    "run_state (forClusters (act dyn) cs es) w1 = (Some errs', w')"
    by (auto elim: andThen_ok)
  then show ?case using errors [of dyn c errs w es w1] Cons.IH [of es w1] by auto
qed simp

lemma loop_reaches:
  assumes api: "dyn_api dyn dobjs"
  shows "run_state (forClusters (act dyn) cs []) w = (Some [], w') \<Longrightarrow> c \<in> set cs \<Longrightarrow> concerns c \<Longrightarrow> k \<in> keys c \<Longrightarrow>
    good (dobjs w' k)"
proof (induction cs arbitrary: w)
  case (Cons d cs)
  from Cons.prems(1) obtain es w1 where first: "run_state (act dyn d []) w = (Some es, w1)"
    and rest: "run_state (forClusters (act dyn) cs es) w1 = (Some [], w')"
    by (auto elim: andThen_ok)
  have "es = []" using loop_errors [OF rest] by simp
  show ?case
  proof (cases "c = d")
    case True
    then have "good (dobjs w1 k)" using reaches [OF api] first Cons.prems(3,4) \<open>es = []\<close> by simp
    then show ?thesis by (rule loop_keeps [OF api rest])
  next
    case False
    then show ?thesis using Cons.IH [of w1] rest Cons.prems(2-4) \<open>es = []\<close> by simp
  qed
qed simp

lemma loop_frame:
  assumes api: "dyn_api dyn dobjs"
  shows "run_state (forClusters (act dyn) cs errs) w = (x, w') \<Longrightarrow> k \<notin> (\<Union>c \<in> set cs. keys c) \<Longrightarrow> dobjs w' k = dobjs w k"
proof (induction cs arbitrary: errs w)
  case (Cons c cs)
  obtain y w1 where first: "run_state (act dyn c errs) w = (y, w1)" by fastforce
  have "dobjs w1 k = dobjs w k"
    using dsame_exceptD [OF frame [OF api first]] Cons.prems(2) by simp
  then show ?case
    using Cons first by (cases y) (auto simp: run_andThen)
qed simp

lemma loop_typed: "dyn_typed dyn objs featureGvrs \<Longrightarrow> touches objs K (forClusters (act dyn) cs errs)"
  by (induction cs arbitrary: errs) (auto intro!: touches_ret touches_andThen typed)

end

text \<open>The two kinds of steps: creating what is missing and deleting what is there.\<close>

lemma createIfMissing_frame:
  "dyn_api dyn dobjs \<Longrightarrow> run_state (createIfMissing dyn g ns ob) w = (x, w') \<Longrightarrow> dsame_except dobjs w w' {(g, ns, GetName ob)}"
  by (auto simp: createIfMissing_def split: prod.splits dest: dyn_Create_frame)

lemma createIfMissing_ok:
  assumes "dyn_api dyn dobjs" "run_state (createIfMissing dyn g ns ob) w = (None, w')"
  shows "dobjs w' (g, ns, GetName ob) \<noteq> None"
proof -
  obtain err where c: "run_state (dyn_Create dyn g ns ob) w = (err, w')"
    using assms(2) by (auto simp: createIfMissing_def split: prod.splits)
  show ?thesis
  proof (cases err)
    case None
    then show ?thesis using dyn_Create_ok [OF assms(1) c [unfolded None]] by auto
  next
    case (Some e)
    then have "IsAlreadyExists e" using assms(2) c by (auto simp: createIfMissing_def split: if_splits)
    then show ?thesis using dyn_Create_exists [OF assms(1) c [unfolded Some]] by simp
  qed
qed

lemma createIfMissing_keeps:
  "dyn_api dyn dobjs \<Longrightarrow> run_state (createIfMissing dyn g ns ob) w = (x, w') \<Longrightarrow> dobjs w k \<noteq> None \<Longrightarrow> dobjs w' k \<noteq> None"
  by (auto simp: createIfMissing_def split: prod.splits dest: dyn_Create_keeps)

lemma deleteIfThere_frame:
  "dyn_api dyn dobjs \<Longrightarrow> run_state (deleteIfThere dyn g ns n errs) w = (x, w') \<Longrightarrow> dsame_except dobjs w w' {(g, ns, n)}"
  by (auto simp: deleteIfThere_def split: prod.splits dest: dyn_Delete_frame)

lemma deleteIfThere_errors:
  "run_state (deleteIfThere dyn g ns n errs) w = (errs', w') \<Longrightarrow> \<exists>es. errs' = errs @ es"
  by (auto simp: deleteIfThere_def split: prod.splits option.splits if_splits)

lemma deleteIfThere_ok:
  assumes "dyn_api dyn dobjs" "run_state (deleteIfThere dyn g ns n errs) w = ([], w')"
  shows "removed (dobjs w' (g, ns, n))"
proof -
  obtain err where d: "run_state (dyn_Delete dyn g ns n) w = (err, w')"
    using assms(2) by (auto simp: deleteIfThere_def split: prod.splits)
  show ?thesis
  proof (cases err)
    case None
    then show ?thesis using dyn_Delete_ok [OF assms(1) d [unfolded None]] by simp
  next
    case (Some e)
    then have "IsNotFound e" using assms(2) d by (auto simp: deleteIfThere_def split: if_splits)
    then show ?thesis using dyn_Delete_missing [OF assms(1) d [unfolded Some]] by (simp add: removed_def)
  qed
qed

lemma deleteIfThere_keeps:
  "dyn_api dyn dobjs \<Longrightarrow> run_state (deleteIfThere dyn g ns n errs) w = (x, w') \<Longrightarrow> removed (dobjs w k) \<Longrightarrow> removed (dobjs w' k)"
  by (auto simp: deleteIfThere_def split: prod.splits dest: dyn_Delete_keeps)

definition pairKeys :: "gvr \<Rightarrow> string \<Rightarrow> gvr \<Rightarrow> string \<Rightarrow> json \<Rightarrow> (gvr \<times> string \<times> string) set" where
  "pairKeys g1 n1 g2 n2 cluster = {(g1, GetName cluster, n1), (g2, GetName cluster, n2)}"

lemma dsame_except_cong: "dobjs w1 = dobjs w \<Longrightarrow> dsame_except dobjs w1 w' K = dsame_except dobjs w w' K"
  by (simp add: dsame_except_def)

lemma dsame_except_trans:
  "dsame_except dobjs w w1 K1 \<Longrightarrow> dsame_except dobjs w1 w2 K2 \<Longrightarrow> K1 \<union> K2 \<subseteq> K \<Longrightarrow> dsame_except dobjs w w2 K"
  unfolding dsame_except_def by (metis Un_iff subsetD)

lemma run_deletePair:
  "run_state (deletePair g1 n1 g2 n2 dyn c errs) w = (x, w') \<Longrightarrow>
     (\<And>errs1 w1 errs2. run_state (deleteIfThere dyn g1 (GetName c) n1 errs) w = (errs1, w1) \<Longrightarrow>
        run_state (deleteIfThere dyn g2 (GetName c) n2 errs1) w1 = (errs2, w') \<Longrightarrow> x = Some errs2 \<Longrightarrow> P) \<Longrightarrow> P"
  by (auto simp: deletePair_def run_total split: prod.splits)

lemma deletePair_frame:
  "dyn_api dyn dobjs \<Longrightarrow> run_state (deletePair g1 n1 g2 n2 dyn c errs) w = (x, w') \<Longrightarrow>
     dsame_except dobjs w w' (pairKeys g1 n1 g2 n2 c)"
  by (erule run_deletePair) (auto simp: pairKeys_def intro: dsame_except_trans deleteIfThere_frame)

lemma deletePair_errors:
  "run_state (deletePair g1 n1 g2 n2 dyn c errs) w = (Some errs', w') \<Longrightarrow> \<exists>es. errs' = errs @ es"
  by (erule run_deletePair) (auto dest!: deleteIfThere_errors)

lemma deletePair_keeps:
  "dyn_api dyn dobjs \<Longrightarrow> run_state (deletePair g1 n1 g2 n2 dyn c errs) w = (Some errs', w') \<Longrightarrow>
     removed (dobjs w k) \<Longrightarrow> removed (dobjs w' k)"
  by (erule run_deletePair) (blast intro: deleteIfThere_keeps)

lemma deletePair_reaches:
  assumes api: "dyn_api dyn dobjs" and run: "run_state (deletePair g1 n1 g2 n2 dyn c []) w = (Some [], w')"
    and k: "k \<in> pairKeys g1 n1 g2 n2 c"
  shows "removed (dobjs w' k)"
  using run
proof (rule run_deletePair)
  fix errs1 w1 errs2
  assume d: "run_state (deleteIfThere dyn g1 (GetName c) n1 []) w = (errs1, w1)"
    "run_state (deleteIfThere dyn g2 (GetName c) n2 errs1) w1 = (errs2, w')" "Some [] = Some errs2"
  then have "errs2 = []" "errs1 = []" using deleteIfThere_errors [OF d(2)] by simp_all
  then have "removed (dobjs w1 (g1, GetName c, n1))" "removed (dobjs w' (g2, GetName c, n2))"
    using d deleteIfThere_ok [OF api] by simp_all
  then show ?thesis using k deleteIfThere_keeps [OF api d(2), where k = "(g1, GetName c, n1)"] by (auto simp: pairKeys_def)
qed

lemma deletePair_typed:
  "dyn_typed dyn objs featureGvrs \<Longrightarrow> g1 \<in> featureGvrs \<Longrightarrow> g2 \<in> featureGvrs \<Longrightarrow> touches objs K (deletePair g1 n1 g2 n2 dyn c errs)"
  unfolding deletePair_def deleteIfThere_def by (intro touches_total touches_bind touches_ret touches_dyn)

lemmas deletePair_laws = deletePair_frame deletePair_errors deletePair_reaches deletePair_keeps deletePair_typed featureGvrs_simps

interpretation hub_teardown: cluster_step tearDownHub "\<lambda>cluster. True"
  "pairKeys managedServiceAccountGvr SEARCH_GLOBAL manifestWorkGvr SEARCH_GLOBAL_CONFIG" removed
  by (unfold_locales, unfold tearDownHub_def) (assumption | rule deletePair_laws)+

lemma logAndTrackError_append: "\<exists>es. logAndTrackError errs err = errs @ es"
  by (simp add: logAndTrackError_def split: option.splits)

lemma logAndTrackError_none: "logAndTrackError errs err = [] \<longleftrightarrow> errs = [] \<and> err = None"
  by (simp add: logAndTrackError_def split: option.splits)

lemma GetName_resources [simp]:
  "GetName (managedServiceAccount name labels) = name"
  "GetName (globalSearchWork cluster namespace msa) = SEARCH_GLOBAL_CONFIG"
  by (simp_all add: GetName_def managedServiceAccount_def globalSearchWork_def jget_def)

lemma createManifestWork_cases:
  assumes api: "dyn_api dyn dobjs" and run: "run_state (createManifestWork dyn c ns) w = (x, w')"
  obtains "dobjs w' = dobjs w" "x \<noteq> Some None"
    | msa w1 y where "dobjs w1 = dobjs w" "x = Some y"
      "run_state (createIfMissing dyn manifestWorkGvr c (globalSearchWork c ns msa)) w1 = (y, w')"
proof -
  obtain g w1 where g: "run_state (dyn_Get dyn managedClustrAddonGvr c MANAGED_SERVICE_ACCOUNT_ADDON_NAME) w = (g, w1)"
    by fastforce
  note view = dyn_Get_view [OF api g]
  show ?thesis
  proof (cases g)
    case (Inl e)
    then have "x \<noteq> Some None" "w' = w1" using run g by (auto simp: createManifestWork_def)
    then show ?thesis using view that(1) by simp
  next
    case (Inr msa)
    let ?st = "jget (jfields msa) ''status''"
    show ?thesis
    proof (cases "assertMap ?st")
      case None
      then show ?thesis using run g view Inr that(1)
        by (auto simp: createManifestWork_def Let_def split: if_splits)
    next
      case (Some m)
      then show ?thesis using run g view Inr that
        by (auto simp: createManifestWork_def Let_def run_total split: if_splits prod.splits)
    qed
  qed
qed

lemma createManifestWork_frame:
  assumes "dyn_api dyn dobjs" "run_state (createManifestWork dyn c ns) w = (x, w')"
  shows "dsame_except dobjs w w' {(manifestWorkGvr, c, SEARCH_GLOBAL_CONFIG)}"
  using assms
proof (rule createManifestWork_cases)
  fix msa w1 y
  assume "dobjs w1 = dobjs w" "run_state (createIfMissing dyn manifestWorkGvr c (globalSearchWork c ns msa)) w1 = (y, w')"
  then show ?thesis using createIfMissing_frame [OF assms(1)] dsame_except_cong by (metis GetName_resources(2))
qed (simp add: dsame_except_def)

lemma createManifestWork_ok:
  assumes "dyn_api dyn dobjs" "run_state (createManifestWork dyn c ns) w = (Some None, w')"
  shows "dobjs w' (manifestWorkGvr, c, SEARCH_GLOBAL_CONFIG) \<noteq> None"
  using assms
proof (rule createManifestWork_cases)
  fix msa w1 y
  assume y: "Some None = Some y" and c: "run_state (createIfMissing dyn manifestWorkGvr c (globalSearchWork c ns msa)) w1 = (y, w')"
  then show ?thesis using createIfMissing_ok [OF assms(1)] by (metis GetName_resources(2) option.inject)
qed simp

lemma createManifestWork_keeps:
  assumes "dyn_api dyn dobjs" "run_state (createManifestWork dyn c ns) w = (x, w')" "dobjs w k \<noteq> None"
  shows "dobjs w' k \<noteq> None"
  using assms(1,2)
proof (rule createManifestWork_cases)
  fix msa w1 y
  assume "dobjs w1 = dobjs w" and c: "run_state (createIfMissing dyn manifestWorkGvr c (globalSearchWork c ns msa)) w1 = (y, w')"
  then show ?thesis using createIfMissing_keeps [OF assms(1) c, where k = k] assms(3) by simp
qed (use assms(3) in simp)

lemma createManifestWork_typed:
  assumes "dyn_typed dyn objs featureGvrs"
  shows "touches objs K (createManifestWork dyn c ns)"
  unfolding createManifestWork_def createIfMissing_def Let_def
  by (intro touches_bind touches_ret touches_case_sum touches_if touches_case_option touches_total touches_dyn [OF assms]
      featureGvrs_simps)

abbreviation hubKeys :: "json \<Rightarrow> (gvr \<times> string \<times> string) set" where
  "hubKeys \<equiv> pairKeys managedServiceAccountGvr SEARCH_GLOBAL manifestWorkGvr SEARCH_GLOBAL_CONFIG"

lemma setUpHub_cases:
  assumes "run_state (setUpHub ns dyn c errs) w = (x, w')"
  obtains "managedHub c \<noteq> Some True" "w' = w" "x = None \<or> x = Some errs"
    | err w1 y where "run_state (createManagedServiceAccount dyn (GetName c)) w = (err, w1)"
        "run_state (createManifestWork dyn (GetName c) ns) w1 = (y, w')"
        "x = map_option (logAndTrackError (logAndTrackError errs err)) y"
proof (cases "managedHub c = Some True")
  case True
  obtain err w1 where a: "run_state (createManagedServiceAccount dyn (GetName c)) w = (err, w1)" by fastforce
  obtain y w2 where b: "run_state (createManifestWork dyn (GetName c) ns) w1 = (y, w2)" by fastforce
  have "x = map_option (logAndTrackError (logAndTrackError errs err)) y" "w2 = w'"
    using assms True a b by (cases y; simp add: setUpHub_def run_andThen)+
  then show ?thesis using that(2) a b by simp
next
  case False
  then show ?thesis using assms that(1)
    by (cases "managedHub c") (auto simp: setUpHub_def)
qed

lemma setUpHub_frame:
  assumes api: "dyn_api dyn dobjs" and run: "run_state (setUpHub ns dyn c errs) w = (x, w')"
  shows "dsame_except dobjs w w' (hubKeys c)"
  using run
proof (rule setUpHub_cases)
  fix err w1 y
  assume "run_state (createManagedServiceAccount dyn (GetName c)) w = (err, w1)"
    and m: "run_state (createManifestWork dyn (GetName c) ns) w1 = (y, w')"
  then have "dsame_except dobjs w w1 {(managedServiceAccountGvr, GetName c, SEARCH_GLOBAL)}"
    using createIfMissing_frame [OF api, of managedServiceAccountGvr "GetName c" "managedServiceAccount SEARCH_GLOBAL appSearchLabels"]
    by (simp add: createManagedServiceAccount_def)
  then show ?thesis by (rule dsame_except_trans [OF _ createManifestWork_frame [OF api m]]) (simp add: pairKeys_def)
qed (simp add: dsame_except_def)

lemma setUpHub_keeps:
  assumes api: "dyn_api dyn dobjs" and run: "run_state (setUpHub ns dyn c errs) w = (x, w')" and k: "dobjs w k \<noteq> None"
  shows "dobjs w' k \<noteq> None"
  using run
proof (rule setUpHub_cases)
  fix err w1 y
  assume "run_state (createManagedServiceAccount dyn (GetName c)) w = (err, w1)"
    and m: "run_state (createManifestWork dyn (GetName c) ns) w1 = (y, w')"
  then have "dobjs w1 k \<noteq> None"
    using createIfMissing_keeps [OF api _ k] by (simp add: createManagedServiceAccount_def)
  then show ?thesis by (rule createManifestWork_keeps [OF api m])
qed (use k in simp)

lemma setUpHub_errors:
  "run_state (setUpHub ns dyn c errs) w = (Some errs', w') \<Longrightarrow> \<exists>es. errs' = errs @ es"
proof (erule setUpHub_cases)
  fix err w1 y
  assume "Some errs' = map_option (logAndTrackError (logAndTrackError errs err)) y"
  then show ?thesis
    using logAndTrackError_append [of errs err] logAndTrackError_append [of "logAndTrackError errs err"]
    by (cases y) (auto, metis)
qed simp

lemma setUpHub_reaches:
  assumes api: "dyn_api dyn dobjs" and run: "run_state (setUpHub ns dyn c []) w = (Some [], w')"
    and hub: "managedHub c = Some True" and k: "k \<in> hubKeys c"
  shows "dobjs w' k \<noteq> None"
  using run
proof (rule setUpHub_cases)
  fix err w1 y
  assume a: "run_state (createManagedServiceAccount dyn (GetName c)) w = (err, w1)"
    and m: "run_state (createManifestWork dyn (GetName c) ns) w1 = (y, w')"
    and x: "Some [] = map_option (logAndTrackError (logAndTrackError [] err)) y"
  then obtain e where e: "y = Some e" "logAndTrackError (logAndTrackError [] err) e = []" by (cases y) auto
  then have y: "y = Some None" "err = None" by (simp_all add: logAndTrackError_none)
  have "dobjs w1 (managedServiceAccountGvr, GetName c, SEARCH_GLOBAL) \<noteq> None"
    using createIfMissing_ok [OF api a [unfolded createManagedServiceAccount_def y]] by simp
  from createManifestWork_keeps [OF api m this] createManifestWork_ok [OF api m [unfolded y]] k
  show ?thesis by (auto simp: pairKeys_def)
qed (use hub in simp)

interpretation hub_setup: cluster_step "setUpHub ns" "\<lambda>cluster. managedHub cluster = Some True" hubKeys "\<lambda>v. v \<noteq> None"
proof (unfold_locales)
  fix dyn :: "'w dynamic" and objs K c errs
  assume typed: "dyn_typed dyn objs featureGvrs"
  show "touches objs K (setUpHub ns dyn c errs)"
    unfolding setUpHub_def createManagedServiceAccount_def createIfMissing_def
    by (intro touches_bind touches_ret touches_andThen touches_dyn [OF typed] createManifestWork_typed [OF typed]
        featureGvrs_simps | split option.split bool.split | intro conjI allI impI)+
qed (assumption | rule setUpHub_frame setUpHub_errors setUpHub_reaches setUpHub_keeps)+

section \<open>The switches\<close>

definition consoleFlag :: "json option \<Rightarrow> string \<Rightarrow> bool option" where
  "consoleFlag v key = (case v of
     None \<Rightarrow> None
   | Some cm \<Rightarrow> map_option (\<lambda>data. jget data key = JString ''enabled'') (assertMap (jget (jfields cm) ''data'')))"

lemma flagged_result:
  "flagged enabled key data = None \<Longrightarrow> (jget data key = JString ''enabled'') = enabled"
  "flagged enabled key data = Some data' \<Longrightarrow> (jget data' key = JString ''enabled'') = enabled"
  by (auto simp: flagged_def Let_def jget_jput jget_jdelete split: if_splits)

lemma GetName_withData: "GetName (JObject (jput ''data'' v (jfields cm))) = GetName cm"
  by (simp add: GetName_def jget_jput)

lemma setConsoleFlag_cases:
  assumes api: "dyn_api dyn dobjs" and run: "run_state (setConsoleFlag dyn enabled ns n key) w = (x, w')"
  obtains "dobjs w' = dobjs w" "x = Some None \<Longrightarrow> consoleFlag (dobjs w (configMapsGvr, ns, n)) key = Some enabled"
    | cm data y w1 where "dobjs w1 = dobjs w" "GetName cm = n" "x = Some y" "(jget data key = JString ''enabled'') = enabled"
        "run_state (dyn_Update dyn configMapsGvr ns (JObject (jput ''data'' (JObject data) (jfields cm)))) w1 = (y, w')"
proof -
  obtain g w1 where g: "run_state (dyn_Get dyn configMapsGvr ns n) w = (g, w1)" by fastforce
  note view = dyn_Get_view [OF api g]
  show ?thesis
  proof (cases g)
    case (Inl e)
    then show ?thesis using run g view that(1) by (auto simp: setConsoleFlag_def)
  next
    case (Inr cm)
    note got = dyn_Get_ok [OF api g [unfolded Inr]]
    show ?thesis
    proof (cases "assertMap (jget (jfields cm) ''data'')")
      case None
      then show ?thesis using run g view Inr that(1) by (auto simp: setConsoleFlag_def)
    next
      case (Some data)
      show ?thesis
      proof (cases "flagged enabled key data")
        case None
        then have "x = Some None" "w' = w1" using run g Inr Some by (simp_all add: setConsoleFlag_def)
        moreover have "consoleFlag (dobjs w (configMapsGvr, ns, n)) key = Some enabled"
          using got Some flagged_result(1) [OF None] by (simp add: consoleFlag_def)
        ultimately show ?thesis using that(1) view by simp
      next
        fix data'
        assume f: "flagged enabled key data = Some data'"
        have "run_state (total (dyn_Update dyn configMapsGvr ns (JObject (jput ''data'' (JObject data') (jfields cm))))) w1 = (x, w')"
          using run g Inr Some f by (simp add: setConsoleFlag_def)
        then obtain y where "run_state (dyn_Update dyn configMapsGvr ns (JObject (jput ''data'' (JObject data') (jfields cm)))) w1 = (y, w')"
          "x = Some y" by (auto simp: run_total split: prod.splits)
        then show ?thesis using that(2) view got flagged_result(2) [OF f] by blast
      qed
    qed
  qed
qed

lemma setConsoleFlag_frame:
  assumes "dyn_api dyn dobjs" "run_state (setConsoleFlag dyn enabled ns n key) w = (x, w')"
  shows "dsame_except dobjs w w' {(configMapsGvr, ns, n)}"
  using assms
proof (rule setConsoleFlag_cases)
  fix cm data y w1
  assume idle: "dobjs w1 = dobjs w" and name: "GetName cm = n"
    and up: "run_state (dyn_Update dyn configMapsGvr ns (JObject (jput ''data'' (JObject data) (jfields cm)))) w1 = (y, w')"
  show ?thesis
    using dyn_Update_frame [OF assms(1) up] unfolding dsame_except_cong [of dobjs, OF idle] GetName_withData name .
qed (simp add: dsame_except_def)

lemma setConsoleFlag_ok:
  assumes "dyn_api dyn dobjs" "run_state (setConsoleFlag dyn enabled ns n key) w = (Some None, w')"
  shows "consoleFlag (dobjs w' (configMapsGvr, ns, n)) key = Some enabled"
  using assms
proof (rule setConsoleFlag_cases)
  fix cm data y w1
  assume name: "GetName cm = n" and flag: "(jget data key = JString ''enabled'') = enabled" and y: "Some None = Some y"
    and "run_state (dyn_Update dyn configMapsGvr ns (JObject (jput ''data'' (JObject data) (jfields cm)))) w1 = (y, w')"
  then have "run_state (dyn_Update dyn configMapsGvr ns (JObject (jput ''data'' (JObject data) (jfields cm)))) w1 = (None, w')"
    by simp
  from dyn_Update_ok [OF assms(1) this] obtain ob' where
    ob: "dobjs w' (configMapsGvr, ns, n) = Some ob'" "stored_as (JObject (jput ''data'' (JObject data) (jfields cm))) ob'"
    unfolding GetName_withData name by blast
  have "jget (jfields ob') ''data'' = JObject data" using ob(2) by (simp add: stored_as_def jget_jput)
  then show ?thesis using ob(1) flag by (simp add: consoleFlag_def)
qed simp

lemma setConsoleFlag_typed:
  assumes typed: "dyn_typed dyn objs foreign" and api: "dyn_api dyn dobjs" and K: "mkKey KConfigMap ns n \<in> K"
  shows "touches objs K (setConsoleFlag dyn enabled ns n key)"
  unfolding touches_def
proof
  fix w
  obtain g w1 where g: "run_state (dyn_Get dyn configMapsGvr ns n) w = (g, w1)" by fastforce
  have idle: "objs w1 = objs w" using touchesD [OF touches_dyn(1) [OF typed, of "{}"] g] by (intro ext) simp
  let ?f = "\<lambda>consoleConfig. case assertMap (jget (jfields consoleConfig) ''data'') of
         None \<Rightarrow> panic
       | Some data \<Rightarrow> (case flagged enabled key data of
           None \<Rightarrow> ret (Some None)
         | Some data' \<Rightarrow> total (dyn_Update dyn configMapsGvr ns (JObject (jput ''data'' (JObject data') (jfields consoleConfig)))))"
  have "same_except objs w1 (snd (run_state (?f cm) w1)) K" if "g = Inr cm" for cm
  proof -
    have "GetName cm = n" using dyn_Get_ok [OF api g [unfolded that]] by simp
    then have "touches objs K (?f cm)"
      using K by (intro touches_case_option touches_ret touches_total touches_dyn(3) [OF typed]) (simp add: GetName_withData)
    then show ?thesis by (simp add: touches_def)
  qed
  then show "same_except objs w (snd (run_state (setConsoleFlag dyn enabled ns n key) w)) K"
    using g idle by (cases g) (auto simp: setConsoleFlag_def same_except_def)
qed

text \<open>Writing the Search resource leaves the objects of other kinds alone, also as the dynamic client sees them.\<close>

definition searchesGvr :: gvr where "searchesGvr = (''search.open-cluster-management.io'', ''v1alpha1'', ''searches'')"

definition search_apart :: "'w SearchReconciler \<Rightarrow> 'w dview \<Rightarrow> bool" where
  "search_apart r dobjs \<longleftrightarrow> (\<forall>inst w. dsame_except dobjs w (snd (run_state (cl_Update (Client r) (OSearch inst)) w)) {k. fst k = searchesGvr})"

lemma updateSearchApiDeployment_apart:
  assumes "search_apart r dobjs" "run_state (updateSearchApiDeployment r inst env) w = (x, w')"
  shows "dsame_except dobjs w w' {k. fst k = searchesGvr}"
proof (cases "fst (searchAPIEnvVar inst env)")
  case True
  then show ?thesis using assms(2)
    by (cases "searchAPIEnvVar inst env") (simp add: updateSearchApiDeployment_def dsame_except_def)
next
  case False
  then obtain inst1 where "searchAPIEnvVar inst env = (False, inst1)" by (cases "searchAPIEnvVar inst env") auto
  then have "w' = snd (run_state (cl_Update (Client r) (OSearch inst1)) w)"
    using assms(2) by (auto simp: updateSearchApiDeployment_def updateInstance_def split: prod.splits)
  then show ?thesis using assms(1) unfolding search_apart_def by blast
qed

lemma getMCETargetNamespace_view:
  "dyn_api dyn dobjs \<Longrightarrow> run_state (getMCETargetNamespace dyn) w = (x, w') \<Longrightarrow> dobjs w' = dobjs w"
  by (auto simp: getMCETargetNamespace_def split: prod.splits dest: dyn_List_view)

lemma getMCETargetNamespace_typed [world_frame]:
  "dyn_typed dyn objs foreign \<Longrightarrow> touches objs K (getMCETargetNamespace dyn)"
  unfolding getMCETargetNamespace_def by (intro touches_bind touches_case_prod touches_ret touches_dyn(2))

abbreviation mceConsole :: "string \<Rightarrow> gvr \<times> string \<times> string" where
  "mceConsole ns \<equiv> (configMapsGvr, ns, ''console-mce-config'')"

abbreviation console :: "Search \<Rightarrow> gvr \<times> string \<times> string" where
  "console inst \<equiv> (configMapsGvr, Namespace (s_meta inst), ''console-config'')"

definition federatedEnv :: "bool \<Rightarrow> EnvVar" where
  "federatedEnv enabled = plainEnv ''FEATURE_FEDERATED_SEARCH'' (if enabled then ''true'' else '''')"

lemma switchGlobalSearch_elim:
  assumes run: "run_state (switchGlobalSearch r dyn inst enabled) w = (Some (errs, inst'), w')"
  obtains ns w1 err1 w2 err2 w3 err3 where
    "run_state (getMCETargetNamespace dyn) w = (ns, w1)"
    "run_state (updateConsoleConfig dyn enabled (case ns of Inl _ \<Rightarrow> ''multicluster-engine'' | Inr n \<Rightarrow> n) ''console-mce-config'') w1
       = (Some err1, w2)"
    "run_state (updateConsoleConfig dyn enabled (Namespace (s_meta inst)) ''console-config'') w2 = (Some err2, w3)"
    "run_state (updateSearchApiDeployment r inst (federatedEnv enabled)) w3 = ((err3, inst'), w')"
    "errs = logAndTrackError (logAndTrackError (logAndTrackError (case ns of Inl e \<Rightarrow> [e] | Inr _ \<Rightarrow> []) err1) err2) err3"
proof -
  obtain ns w1 where ns: "run_state (getMCETargetNamespace dyn) w = (ns, w1)" by fastforce
  note rest = run [unfolded switchGlobalSearch_def federatedEnv_def [symmetric] Let_def, simplified, unfolded ns, simplified]
  from rest obtain err1 w2 where c1: "run_state (updateConsoleConfig dyn enabled
      (case ns of Inl _ \<Rightarrow> ''multicluster-engine'' | Inr n \<Rightarrow> n) ''console-mce-config'') w1 = (Some err1, w2)"
    by (rule andThen_ok)
  note rest1 = rest [unfolded run_andThen c1, simplified]
  obtain e2 w3 where c2: "run_state (updateConsoleConfig dyn enabled (Namespace (s_meta inst)) ''console-config'') w2 = (e2, w3)"
    by fastforce
  with rest1 obtain err2 where e2: "e2 = Some err2" by (cases e2) auto
  obtain err3 inst3 w4 where c3: "run_state (updateSearchApiDeployment r inst (federatedEnv enabled)) w3 = ((err3, inst3), w4)"
    by (metis surj_pair)
  have "inst3 = inst'" "w4 = w'"
    "errs = logAndTrackError (logAndTrackError (logAndTrackError (case ns of Inl e \<Rightarrow> [e] | Inr _ \<Rightarrow> []) err1) err2) err3"
    using rest1 c2 e2 c3 by (auto simp: run_total)
  then show ?thesis using that ns c1 c2 e2 c3 by blast
qed

lemmas gvr_defs = configMapsGvr_def searchesGvr_def managedClusterResourceGvr_def managedServiceAccountGvr_def
  manifestWorkGvr_def clusterPermissionGvr_def

lemma gvr_distinct [simp]:
  "configMapsGvr \<noteq> searchesGvr" "managedClusterResourceGvr \<noteq> configMapsGvr" "managedClusterResourceGvr \<noteq> searchesGvr"
  "managedServiceAccountGvr \<noteq> configMapsGvr" "manifestWorkGvr \<noteq> configMapsGvr" "clusterPermissionGvr \<noteq> configMapsGvr"
  by (simp_all add: gvr_defs)

abbreviation globalFlag :: string where "globalFlag \<equiv> ''globalSearchFeatureFlag''"

lemma switchGlobalSearch_ok:
  assumes api: "dyn_api dyn dobjs" and apart: "search_apart r dobjs"
    and run: "run_state (switchGlobalSearch r dyn inst enabled) w = (Some ([], inst'), w')"
  shows "(\<exists>mce. fst (run_state (getMCETargetNamespace dyn) w) = Inr mce
        \<and> consoleFlag (dobjs w' (mceConsole mce)) globalFlag = Some enabled)
    \<and> consoleFlag (dobjs w' (console inst)) globalFlag = Some enabled
    \<and> (\<forall>k. fst k \<noteq> configMapsGvr \<longrightarrow> fst k \<noteq> searchesGvr \<longrightarrow> dobjs w' k = dobjs w k)"
  using run
proof (rule switchGlobalSearch_elim)
  fix ns w1 err1 w2 err2 w3 err3
  assume ns: "run_state (getMCETargetNamespace dyn) w = (ns, w1)"
    and c1: "run_state (updateConsoleConfig dyn enabled (case ns of Inl _ \<Rightarrow> ''multicluster-engine'' | Inr n \<Rightarrow> n)
      ''console-mce-config'') w1 = (Some err1, w2)"
    and c2: "run_state (updateConsoleConfig dyn enabled (Namespace (s_meta inst)) ''console-config'') w2 = (Some err2, w3)"
    and c3: "run_state (updateSearchApiDeployment r inst (federatedEnv enabled)) w3 = ((err3, inst'), w')"
    and "[] = logAndTrackError (logAndTrackError (logAndTrackError (case ns of Inl e \<Rightarrow> [e] | Inr _ \<Rightarrow> []) err1) err2) err3"
  then have "err1 = None" "err2 = None" "(case ns of Inl e \<Rightarrow> [e] | Inr _ \<Rightarrow> []) = []"
    using logAndTrackError_none by metis+
  then obtain mce where mce: "ns = Inr mce" by (cases ns) auto
  note c1 = c1 [unfolded updateConsoleConfig_def mce sum.case \<open>err1 = None\<close>]
  note c2 = c2 [unfolded updateConsoleConfig_def \<open>err2 = None\<close>]
  note f1 = dsame_exceptD [OF setConsoleFlag_frame [OF api c1]]
  note f2 = dsame_exceptD [OF setConsoleFlag_frame [OF api c2]]
  note f3 = dsame_exceptD [OF updateSearchApiDeployment_apart [OF apart c3]]
  have "dobjs w' (mceConsole mce) = dobjs w2 (mceConsole mce)" "dobjs w' (console inst) = dobjs w3 (console inst)"
    using f2 [of "mceConsole mce"] f3 [of "mceConsole mce"] f3 [of "console inst"] by simp_all
  moreover have "dobjs w' k = dobjs w k" if "fst k \<noteq> configMapsGvr" "fst k \<noteq> searchesGvr" for k
    using f1 [of k] f2 [of k] f3 [of k] that getMCETargetNamespace_view [OF api ns] by (cases k) auto
  ultimately show ?thesis
    using setConsoleFlag_ok [OF api c1] setConsoleFlag_ok [OF api c2] ns mce by auto
qed

lemma switchGlobalSearch_env:
  assumes kapi: "kube_api (Client r) objs" and typed: "dyn_typed dyn objs featureGvrs" and api: "dyn_api dyn dobjs"
    and hold: "holds objs w inst" and dist: "distinct (map ev_Name (apiEnv inst))"
    and run: "run_state (switchGlobalSearch r dyn inst enabled) w = (Some ([], inst'), w')"
  shows "holds objs w' inst' \<and> searchKey inst' = searchKey inst
    \<and> envOf ''FEATURE_FEDERATED_SEARCH'' (apiEnv inst') = (if enabled then Some ''true'' else None)"
  using run
proof (rule switchGlobalSearch_elim)
  fix ns :: "go_error + string" and w1 err1 w2 err2 w3 err3
  let ?mce = "case ns of Inl _ \<Rightarrow> ''multicluster-engine'' | Inr n \<Rightarrow> n"
  assume ns: "run_state (getMCETargetNamespace dyn) w = (ns, w1)"
    and c1: "run_state (updateConsoleConfig dyn enabled ?mce ''console-mce-config'') w1 = (Some err1, w2)"
    and c2: "run_state (updateConsoleConfig dyn enabled (Namespace (s_meta inst)) ''console-config'') w2 = (Some err2, w3)"
    and c3: "run_state (updateSearchApiDeployment r inst (federatedEnv enabled)) w3 = ((err3, inst'), w')"
    and "[] = logAndTrackError (logAndTrackError (logAndTrackError (case ns of Inl e \<Rightarrow> [e] | Inr _ \<Rightarrow> []) err1) err2) err3"
  then have "err3 = None" using logAndTrackError_none by metis
  let ?K = "{mkKey KConfigMap ?mce ''console-mce-config'', mkKey KConfigMap (Namespace (s_meta inst)) ''console-config''}"
  have out: "searchKey inst \<notin> ?K" by (simp add: metaKey_def mkKey_def)
  have t: "touches objs ?K (updateConsoleConfig dyn enabled ?mce ''console-mce-config'')"
    "touches objs ?K (updateConsoleConfig dyn enabled (Namespace (s_meta inst)) ''console-config'')"
    unfolding updateConsoleConfig_def by (intro setConsoleFlag_typed [OF typed api]; simp)+
  have "objs w3 (searchKey inst) = objs w (searchKey inst)"
    using touchesD [OF t(1) c1 out] touchesD [OF t(2) c2 out] touchesD [OF getMCETargetNamespace_typed [OF typed] ns out]
    by (simp only:)
  then have "holds objs w3 inst" using hold by (simp add: holds_def)
  from updateSearchApiDeployment_ok [OF kapi this dist c3 [unfolded \<open>err3 = None\<close>]] show ?thesis
    by (simp add: federatedEnv_def plainEnv_def wanted_def)
qed

section \<open>Global search is set up and taken down\<close>

text \<open>What a success of either direction went through: the switches, the list, and the steps for each cluster.\<close>

lemma combineErrors_none: "combineErrors msg errs = None \<longleftrightarrow> errs = []"
  by (simp add: combineErrors_def)

lemma enableGlobalSearch_elim:
  assumes api: "dyn_api dyn dobjs" and run: "run_state (enableGlobalSearch r dyn inst) w = (Some (None, inst'), w')"
  obtains w1 w2 items where "run_state (switchGlobalSearch r dyn inst True) w = (Some ([], inst'), w1)"
    "run_state (dyn_List dyn managedClusterResourceGvr) w1 = ((Some items, None), w2)"
    "\<forall>ob. ob \<in> set items \<longleftrightarrow> (\<exists>ns n. dobjs w1 (managedClusterResourceGvr, ns, n) = Some ob)"
    "run_state (forClusters (setUpHub (Namespace (s_meta inst')) dyn) items []) w2 = (Some [], w')"
proof -
  from run [unfolded enableGlobalSearch_def] obtain p w1
    where "run_state (switchGlobalSearch r dyn inst True) w = (Some p, w1)" by (rule andThen_ok)
  then obtain errs inst1 where sw: "run_state (switchGlobalSearch r dyn inst True) w = (Some (errs, inst1), w1)"
    by (cases p) simp
  obtain l err w2 where li: "run_state (dyn_List dyn managedClusterResourceGvr) w1 = ((l, err), w2)" by (metis surj_pair)
  let ?loop = "forClusters (setUpHub (Namespace (s_meta inst1)) dyn) (if err = None then listed l else []) (logAndTrackError errs err)"
  have "run_state (andThen ?loop (\<lambda>errList. ret (Some (combineErrors ''failed to enable global search.'' errList, inst1)))) w2
      = (Some (None, inst'), w')"
    using run sw li by (simp add: enableGlobalSearch_def run_andThen)
  then obtain es where loop: "run_state ?loop w2 = (Some es, w')" and fin: "combineErrors ''failed to enable global search.'' es = None" "inst1 = inst'"
    by (elim andThen_ok) auto
  have "es = []" using fin(1) by (simp add: combineErrors_none)
  then have "logAndTrackError errs err = []" using hub_setup.loop_errors [OF loop] by simp
  then have e: "errs = []" "err = None" by (simp_all add: logAndTrackError_none)
  from dyn_List_ok [OF api li [unfolded e]] obtain items where
    items: "l = Some items" "\<forall>ob. ob \<in> set items \<longleftrightarrow> (\<exists>ns n. dobjs w1 (managedClusterResourceGvr, ns, n) = Some ob)" by blast
  show ?thesis
    using that [OF sw [unfolded e fin(2)] li [unfolded e items(1)] items(2)] loop
    by (simp add: e items(1) fin(2) \<open>es = []\<close> listed_def logAndTrackError_def)
qed

lemma disableGlobalSearch_elim:
  assumes api: "dyn_api dyn dobjs" and run: "run_state (disableGlobalSearch r dyn inst) w = (Some (None, inst'), w')"
  obtains w1 w2 items where "run_state (switchGlobalSearch r dyn inst False) w = (Some ([], inst'), w1)"
    "run_state (dyn_List dyn managedClusterResourceGvr) w1 = ((Some items, None), w2)"
    "\<forall>ob. ob \<in> set items \<longleftrightarrow> (\<exists>ns n. dobjs w1 (managedClusterResourceGvr, ns, n) = Some ob)"
    "run_state (forClusters (tearDownHub dyn) items []) w2 = (Some [], w')"
proof -
  from run [unfolded disableGlobalSearch_def] obtain p w1
    where "run_state (switchGlobalSearch r dyn inst False) w = (Some p, w1)" by (rule andThen_ok)
  then obtain errs inst1 where sw: "run_state (switchGlobalSearch r dyn inst False) w = (Some (errs, inst1), w1)"
    by (cases p) simp
  obtain l err w2 where li: "run_state (dyn_List dyn managedClusterResourceGvr) w1 = ((l, err), w2)" by (metis surj_pair)
  obtain clusters where l: "l = Some clusters"
    using run sw li by (cases l) (auto simp: disableGlobalSearch_def run_andThen)
  let ?loop = "forClusters (tearDownHub dyn) clusters (logAndTrackError errs err)"
  have "run_state (andThen ?loop (\<lambda>errList. ret (Some (combineErrors ''failed to disable global search.'' errList, inst1)))) w2
      = (Some (None, inst'), w')"
    using run sw li l by (simp add: disableGlobalSearch_def run_andThen)
  then obtain es where loop: "run_state ?loop w2 = (Some es, w')" and fin: "combineErrors ''failed to disable global search.'' es = None" "inst1 = inst'"
    by (elim andThen_ok) auto
  have "es = []" using fin(1) by (simp add: combineErrors_none)
  then have "logAndTrackError errs err = []" using hub_teardown.loop_errors [OF loop] by simp
  then have e: "errs = []" "err = None" by (simp_all add: logAndTrackError_none)
  from dyn_List_ok [OF api li [unfolded e]] obtain items where
    items: "l = Some items" "\<forall>ob. ob \<in> set items \<longleftrightarrow> (\<exists>ns n. dobjs w1 (managedClusterResourceGvr, ns, n) = Some ob)" by blast
  show ?thesis
    using that [OF sw [unfolded e fin(2)] li [unfolded e items(1)] items(2)] loop l
    by (simp add: e items(1) \<open>es = []\<close> logAndTrackError_def)
qed

lemma console_not_hub: "fst k = configMapsGvr \<Longrightarrow> k \<notin> (\<Union>c \<in> S. hubKeys c)"
  using gvr_distinct(4,5) by (auto simp: pairKeys_def)

text \<open>
  C7. Global search is set up and taken down completely. When enabling reports no error, the console
  flag is on in both config maps, the stored Search resource has the variable of the federated search,
  and every registered cluster that claims to be a managed hub has the service account and the manifest
  work in its namespace. When disabling reports no error, the flag is off, the variable is gone, and in
  the namespace of no registered cluster do these two resources remain, except for one that waits for
  its finalizers.
\<close>

theorem global_search_set_up_and_taken_down:
  assumes kapi: "kube_api (Client r) objs" and typed: "dyn_typed dyn objs featureGvrs" and api: "dyn_api dyn dobjs"
    and apart: "search_apart r dobjs" and hold: "holds objs w inst" and dist: "distinct (map ev_Name (apiEnv inst))"
    and on: "run_state (enableGlobalSearch r dyn inst) w = (Some (None, inst1), w1)"
    and off: "run_state (disableGlobalSearch r dyn inst) w = (Some (None, inst2), w2)"
  shows "(\<exists>mce. fst (run_state (getMCETargetNamespace dyn) w) = Inr mce
        \<and> consoleFlag (dobjs w1 (mceConsole mce)) globalFlag = Some True
        \<and> consoleFlag (dobjs w2 (mceConsole mce)) globalFlag = Some False)
    \<and> consoleFlag (dobjs w1 (console inst)) globalFlag = Some True
    \<and> consoleFlag (dobjs w2 (console inst)) globalFlag = Some False
    \<and> objs w1 (searchKey inst) = Some (OSearch inst1) \<and> envOf ''FEATURE_FEDERATED_SEARCH'' (apiEnv inst1) = Some ''true''
    \<and> objs w2 (searchKey inst) = Some (OSearch inst2) \<and> envOf ''FEATURE_FEDERATED_SEARCH'' (apiEnv inst2) = None
    \<and> (\<forall>ns n cluster. dobjs w (managedClusterResourceGvr, ns, n) = Some cluster \<longrightarrow>
        (managedHub cluster = Some True \<longrightarrow> (\<forall>k \<in> hubKeys cluster. dobjs w1 k \<noteq> None))
        \<and> (\<forall>k \<in> hubKeys cluster. removed (dobjs w2 k)))"
proof -
  obtain v1 v2 items where s1: "run_state (switchGlobalSearch r dyn inst True) w = (Some ([], inst1), v1)"
    and li1: "run_state (dyn_List dyn managedClusterResourceGvr) v1 = ((Some items, None), v2)"
    and it1: "\<forall>ob. ob \<in> set items \<longleftrightarrow> (\<exists>ns n. dobjs v1 (managedClusterResourceGvr, ns, n) = Some ob)"
    and lp1: "run_state (forClusters (setUpHub (Namespace (s_meta inst1)) dyn) items []) v2 = (Some [], w1)"
    by (rule enableGlobalSearch_elim [OF api on])
  obtain u1 u2 things where s2: "run_state (switchGlobalSearch r dyn inst False) w = (Some ([], inst2), u1)"
    and li2: "run_state (dyn_List dyn managedClusterResourceGvr) u1 = ((Some things, None), u2)"
    and it2: "\<forall>ob. ob \<in> set things \<longleftrightarrow> (\<exists>ns n. dobjs u1 (managedClusterResourceGvr, ns, n) = Some ob)"
    and lp2: "run_state (forClusters (tearDownHub dyn) things []) u2 = (Some [], w2)"
    by (rule disableGlobalSearch_elim [OF api off])
  have "objs w1 = objs v1" "objs w2 = objs u1"
    using touchesD [OF hub_setup.loop_typed [OF typed, of "{}"] lp1] touchesD [OF hub_teardown.loop_typed [OF typed, of "{}"] lp2]
      touchesD [OF touches_dyn(2) [OF typed, of "{}"] li1] touchesD [OF touches_dyn(2) [OF typed, of "{}"] li2]
    by (auto intro!: ext)
  then have env: "objs w1 (searchKey inst) = Some (OSearch inst1) \<and> envOf ''FEATURE_FEDERATED_SEARCH'' (apiEnv inst1) = Some ''true''"
    "objs w2 (searchKey inst) = Some (OSearch inst2) \<and> envOf ''FEATURE_FEDERATED_SEARCH'' (apiEnv inst2) = None"
    using switchGlobalSearch_env [OF kapi typed api hold dist s1] switchGlobalSearch_env [OF kapi typed api hold dist s2]
    by (auto simp: holds_def)
  have conf: "dobjs w1 k = dobjs v1 k" "dobjs w2 k = dobjs u1 k" if "fst k = configMapsGvr" for k
    using hub_setup.loop_frame [OF api lp1 console_not_hub [OF that]] hub_teardown.loop_frame [OF api lp2 console_not_hub [OF that]]
      dyn_List_view [OF api li1] dyn_List_view [OF api li2] by simp_all
  note sw1 = switchGlobalSearch_ok [OF api apart s1]
  note sw2 = switchGlobalSearch_ok [OF api apart s2]
  have hubs: "(managedHub cluster = Some True \<longrightarrow> (\<forall>k \<in> hubKeys cluster. dobjs w1 k \<noteq> None)) \<and> (\<forall>k \<in> hubKeys cluster. removed (dobjs w2 k))"
    if "dobjs w (managedClusterResourceGvr, ns, n) = Some cluster" for ns n cluster
  proof -
    have "cluster \<in> set items" "cluster \<in> set things"
      using that it1 it2 sw1 sw2 gvr_distinct(2,3) by (metis fst_conv)+
    then show ?thesis
      using hub_setup.loop_reaches [OF api lp1] hub_teardown.loop_reaches [OF api lp2] by blast
  qed
  show ?thesis using sw1 sw2 env hubs conf by auto
qed

lemma mem_search_apart: "search_apart mem_reconciler mem_dview"
proof -
  have "mem_dyn (snd (run_state (cl_Update mem_client (OSearch inst)) w)) = mem_dyn w" for inst w
    by (simp add: mem_client_def run_scripted mem_update_def save_def split: list.splits option.splits)
  then show ?thesis by (simp add: search_apart_def mem_dview_def dsame_except_def)
qed

definition hubCluster :: json where
  "hubCluster = JObject [(''metadata'', JObject [(''name'', JString ''hub1'')]),
     (''status'', JObject [(''clusterClaims'', JArray [JObject
        [(''name'', JString ''hub.open-cluster-management.io''), (''value'', JString ''Installed'')]])])]"

definition hubWorld :: mem where
  "hubWorld = (mem_world [OSearch sampleSearch])\<lparr>mem_dyn := [
     ((multiclusterengineResourceGvr, '''', ''mce''),
        JObject [(''metadata'', JObject [(''name'', JString ''mce'')]), (''spec'', JObject [(''targetNamespace'', JString ''mce'')])]),
     ((configMapsGvr, ''mce'', ''console-mce-config''),
        JObject [(''metadata'', JObject [(''name'', JString ''console-mce-config'')]), (''data'', JObject [])]),
     ((configMapsGvr, Namespace (s_meta sampleSearch), ''console-config''),
        JObject [(''metadata'', JObject [(''name'', JString ''console-config'')]), (''data'', JObject [])]),
     ((managedClusterResourceGvr, '''', ''hub1''), hubCluster),
     ((managedClustrAddonGvr, ''hub1'', MANAGED_SERVICE_ACCOUNT_ADDON_NAME),
        JObject [(''metadata'', JObject [(''name'', JString MANAGED_SERVICE_ACCOUNT_ADDON_NAME)]),
          (''status'', JObject [(''namespace'', JString ''agent'')])])]\<rparr>"

lemmas hub_run_simps = hubWorld_def hubCluster_def switchGlobalSearch_def getMCETargetNamespace_def updateConsoleConfig_def
  setConsoleFlag_def flagged_def updateSearchApiDeployment_def searchAPIEnvVar_def apiEnv_def withApiEnv_def plainEnv_def
  updateInstance_def answered_def mem_client_def mem_dyn_runs run_scripted mem_update_def mem_world_def metaKey_def mkKey_def
  cluster_scoped_def newMeta_def mem_reconciler_def sampleSearch_def sampleDeploymentConfig_def logAndTrackError_def
  combineErrors_def run_andThen run_total listed_def jget_def GetName_def GetLabel_def gvr_defs multiclusterengineResourceGvr_def
  managedClustrAddonGvr_def managedHub_def setUpHub_def tearDownHub_def deletePair_def deleteIfThere_def
  createManagedServiceAccount_def createManifestWork_def createIfMissing_def managedServiceAccount_def globalSearchWork_def
  SEARCH_GLOBAL_def SEARCH_GLOBAL_CONFIG_def MANAGED_SERVICE_ACCOUNT_ADDON_NAME_def Let_def save_def terminated_def

lemma hubWorld_runs:
  "\<exists>inst1 w1. run_state (enableGlobalSearch mem_reconciler mem_dynamic sampleSearch) hubWorld = (Some (None, inst1), w1)"
  "\<exists>inst2 w2. run_state (disableGlobalSearch mem_reconciler mem_dynamic sampleSearch) hubWorld = (Some (None, inst2), w2)"
  by (simp_all add: enableGlobalSearch_def disableGlobalSearch_def hub_run_simps)

theorem global_search_set_up_and_taken_down_witness:
  "(case run_state (enableGlobalSearch mem_reconciler mem_dynamic sampleSearch) hubWorld of (_, w1) \<Rightarrow>
      mem_dview w1 (managedServiceAccountGvr, ''hub1'', ''search-global'') \<noteq> None
      \<and> mem_dview w1 (manifestWorkGvr, ''hub1'', ''search-global-config'') \<noteq> None)"
proof -
  obtain inst1 w1 inst2 w2 where
    on: "run_state (enableGlobalSearch mem_reconciler mem_dynamic sampleSearch) hubWorld = (Some (None, inst1), w1)"
    and off: "run_state (disableGlobalSearch mem_reconciler mem_dynamic sampleSearch) hubWorld = (Some (None, inst2), w2)"
    using hubWorld_runs by blast
  have typed: "dyn_typed mem_dynamic mem_view featureGvrs"
    using mem_dyn_typed unfolding dyn_typed_def by blast
  have hold: "holds mem_view hubWorld sampleSearch"
    by (simp add: holds_def mem_view_def hubWorld_def mem_world_def terminated_def sampleSearch_def)
  have dist: "distinct (map ev_Name (apiEnv sampleSearch))"
    by (simp add: sampleSearch_def sampleDeploymentConfig_def apiEnv_def)
  have kapi: "kube_api (Client mem_reconciler) mem_view" using mem_kube_api by simp
  have "mem_dview hubWorld (managedClusterResourceGvr, '''', ''hub1'') = Some hubCluster"
    by (simp add: mem_dview_def hubWorld_def gvr_defs multiclusterengineResourceGvr_def)
  moreover have "managedHub hubCluster = Some True" "hubKeys hubCluster
      = {(managedServiceAccountGvr, ''hub1'', ''search-global''), (manifestWorkGvr, ''hub1'', ''search-global-config'')}"
    by (simp_all add: hubCluster_def managedHub_def GetLabel_def jget_def pairKeys_def GetName_def SEARCH_GLOBAL_def SEARCH_GLOBAL_CONFIG_def)
  ultimately show ?thesis
    using global_search_set_up_and_taken_down [where dobjs = mem_dview, OF kapi typed mem_dyn_api mem_search_apart hold dist on off] on by simp
qed

end
