(* ===== verification/VM_Setup.thy ===== *)
theory VM_Setup
  imports Global_Search
begin

text \<open>
  The virtual machine actions (\<open>controllers/virtual_machines_setup.go\<close>): with the annotation
  \<open>virtual-machine-preview\<close> a flag of the console, and a service account with a cluster permission in
  the namespace of every managed cluster; without it, all of it is taken back.
\<close>

section \<open>Definitions\<close>

definition CONDITION_VM_ACTIONS :: string where "CONDITION_VM_ACTIONS = ''VirtualMachineActionsReady''"
definition clusterPermissionName :: string where "clusterPermissionName = ''virtual-machine-actions''"
definition managedSAName :: string where "managedSAName = ''vm-actor''"

definition appSearchVMLabels :: json where
  "appSearchVMLabels = JObject [(''app'', JString ''search''), (''feature'', JString ''virtual-machine'')]"

definition validateVirtualMachineDependencies :: "'w dynamic \<Rightarrow> ('w, go_error option option) state" where
  "validateVirtualMachineDependencies dyn =
     validateAddOns dyn ''the Managed Service Account add-on is not enabled in MulticlusterEngine''
       ''the Cluster Proxy add-on is not enabled in MulticlusterEngine''"

definition createVMManagedServiceAccount :: "'w dynamic \<Rightarrow> string \<Rightarrow> ('w, go_error option) state" where
  "createVMManagedServiceAccount dyn cluster =
     createIfMissing dyn managedServiceAccountGvr cluster (managedServiceAccount managedSAName appSearchVMLabels)"

definition permissionRule :: "string \<Rightarrow> string list \<Rightarrow> string list \<Rightarrow> json" where
  "permissionRule apiGroup resources verbs = JObject [(''apiGroups'', JArray [JString apiGroup]),
     (''resources'', JArray (map JString resources)), (''verbs'', JArray (map JString verbs))]"

definition vmClusterPermission :: json where
  "vmClusterPermission = JObject [
     (''apiVersion'', JString ''rbac.open-cluster-management.io/v1alpha1''),
     (''kind'', JString ''ClusterPermission''),
     (''metadata'', JObject [(''name'', JString clusterPermissionName), (''labels'', appSearchVMLabels)]),
     (''spec'', JObject [
        (''clusterRole'', JObject [(''rules'', JArray [
           permissionRule ''subresources.kubevirt.io'' [''virtualmachines/start'', ''virtualmachines/stop'',
             ''virtualmachines/restart'', ''virtualmachineinstances/pause'', ''virtualmachineinstances/unpause''] [''update''],
           permissionRule ''snapshot.kubevirt.io'' [''virtualmachinesnapshots''] [''create'', ''delete''],
           permissionRule ''snapshot.kubevirt.io'' [''virtualmachinerestores''] [''create'', ''delete'']])]),
        (''clusterRoleBinding'', JObject [(''subject'', JObject [(''kind'', JString ''ServiceAccount''),
           (''name'', JString managedSAName), (''namespace'', JString ''open-cluster-management-agent-addon'')])])])]"

definition createVMClusterPermission :: "'w dynamic \<Rightarrow> string \<Rightarrow> ('w, go_error option) state" where
  "createVMClusterPermission dyn cluster = createIfMissing dyn clusterPermissionGvr cluster vmClusterPermission"

definition setUpVM :: "'w dynamic \<Rightarrow> json \<Rightarrow> go_error list \<Rightarrow> ('w, go_error list option) state" where
  "setUpVM dyn cluster errList = total (do {
     err \<leftarrow> createVMManagedServiceAccount dyn (GetName cluster);
     err2 \<leftarrow> createVMClusterPermission dyn (GetName cluster);
     ret (logAndTrackError (logAndTrackError errList err) err2)
   })"

definition tearDownVM :: "'w dynamic \<Rightarrow> json \<Rightarrow> go_error list \<Rightarrow> ('w, go_error list option) state" where
  "tearDownVM dyn cluster errList =
     deletePair managedServiceAccountGvr managedSAName clusterPermissionGvr clusterPermissionName dyn cluster errList"

definition configureVirtualMachineActions :: "'w dynamic \<Rightarrow> ('w, go_error option option) state" where
  "configureVirtualMachineActions dyn =
     andThen (updateConsoleConfigVM dyn True) (\<lambda>err1. do {
       (clusterList, err) \<leftarrow> dyn_List dyn managedClusterResourceGvr;
       andThen (forClusters (setUpVM dyn) (if err = None then listed clusterList else [])
           (logAndTrackError (logAndTrackError [] err1) err))
         (\<lambda>errList. ret (Some (combineErrors ''failed to configure virtual machine actions.'' errList)))
     })"

definition disableVirtualMachineActions :: "'w dynamic \<Rightarrow> ('w, go_error option option) state" where
  "disableVirtualMachineActions dyn =
     andThen (updateConsoleConfigVM dyn False) (\<lambda>err1. do {
       (clusterList, err) \<leftarrow> dyn_List dyn managedClusterResourceGvr;
       case clusterList of
         None \<Rightarrow> panic
       | Some clusters \<Rightarrow> andThen (forClusters (tearDownVM dyn) clusters (logAndTrackError (logAndTrackError [] err1) err))
           (\<lambda>errList. ret (Some (combineErrors ''failed to disable virtual machine actions.'' errList)))
     })"

definition vmCondition :: "string \<Rightarrow> string \<Rightarrow> string \<Rightarrow> time \<Rightarrow> Condition" where
  "vmCondition status reason msg now = newCondition CONDITION_VM_ACTIONS status reason msg now"

definition reconcileVirtualMachineConfiguration ::
  "'w SearchReconciler \<Rightarrow> Search \<Rightarrow> ('w, (step_ret \<times> Search) option) state" where
  "reconcileVirtualMachineConfiguration r inst =
     (if index (Annotations (s_meta inst)) ''virtual-machine-preview'' = ''true'' then withDynamic r (\<lambda>dyn.
        andThen (validateVirtualMachineDependencies dyn) (\<lambda>err. case err of
          Some e \<Rightarrow> ret (Some (failWith e, inst))
        | None \<Rightarrow> andThen (configureVirtualMachineActions dyn) (\<lambda>err. total (do {
            now \<leftarrow> Now r;
            case err of
              Some e \<Rightarrow> do {
                inst \<leftarrow> updateStatusConditionOf r inst (vmCondition ''False'' ''ConfigurationError''
                  ''Failed to configure virtual machine actions.'' now);
                ret (failWith e, inst)
              }
            | None \<Rightarrow> do {
                inst \<leftarrow> updateStatusConditionOf r inst (vmCondition ''True'' ''None''
                  ''Virtual machine actions are enabled.'' now);
                ret ((Some emptyResult, None), inst)
              }
          }))))
      else case conditionIndex CONDITION_VM_ACTIONS (Conditions (s_Status inst)) of
        None \<Rightarrow> ret (Some ((Some emptyResult, None), inst))
      | Some i \<Rightarrow> withDynamic r (\<lambda>dyn. andThen (disableVirtualMachineActions dyn) (\<lambda>err. case err of
          Some e \<Rightarrow> total (do {
            now \<leftarrow> Now r;
            inst \<leftarrow> updateStatusConditionOf r inst (vmCondition ''False'' ''ConfigurationError''
              ''Failed to remove configuration for virtual machine actions.'' now);
            ret (failWith e, inst)
          })
        | None \<Rightarrow> clearCondition r i inst)))"

section \<open>Steps for each cluster\<close>

abbreviation vmKeys :: "json \<Rightarrow> (gvr \<times> string \<times> string) set" where
  "vmKeys \<equiv> pairKeys managedServiceAccountGvr managedSAName clusterPermissionGvr clusterPermissionName"

lemma GetName_permission [simp]: "GetName vmClusterPermission = clusterPermissionName"
  by (simp add: GetName_def vmClusterPermission_def jget_def)

lemma setUpVM_elim:
  assumes "run_state (setUpVM dyn c errs) w = (x, w')"
  obtains err w1 err2 where
    "run_state (createIfMissing dyn managedServiceAccountGvr (GetName c) (managedServiceAccount managedSAName appSearchVMLabels)) w = (err, w1)"
    "run_state (createIfMissing dyn clusterPermissionGvr (GetName c) vmClusterPermission) w1 = (err2, w')"
    "x = Some (logAndTrackError (logAndTrackError errs err) err2)"
  using assms that
  by (auto simp: setUpVM_def createVMManagedServiceAccount_def createVMClusterPermission_def run_total split: prod.splits)

interpretation vm_setup: cluster_step setUpVM "\<lambda>cluster. True" vmKeys "\<lambda>v. v \<noteq> None"
proof (unfold_locales)
  fix dyn :: "'w dynamic" and dobjs c errs w x w'
  assume api: "dyn_api dyn dobjs" and run: "run_state (setUpVM dyn c errs) w = (x, w')"
  from run show "dsame_except dobjs w w' (vmKeys c)"
  proof (rule setUpVM_elim)
    fix err w1 err2
    assume a: "run_state (createIfMissing dyn managedServiceAccountGvr (GetName c)
        (managedServiceAccount managedSAName appSearchVMLabels)) w = (err, w1)"
      and b: "run_state (createIfMissing dyn clusterPermissionGvr (GetName c) vmClusterPermission) w1 = (err2, w')"
    show ?thesis by (rule dsame_except_trans [OF createIfMissing_frame [OF api a] createIfMissing_frame [OF api b]]) (simp add: pairKeys_def)
  qed
next
  fix dyn :: "'w dynamic" and c errs w errs' w'
  assume "run_state (setUpVM dyn c errs) w = (Some errs', w')"
  then show "\<exists>es. errs' = errs @ es"
  proof (rule setUpVM_elim)
    fix err err2
    assume "Some errs' = Some (logAndTrackError (logAndTrackError errs err) err2)"
    then show ?thesis
      using logAndTrackError_append [of errs err] logAndTrackError_append [of "logAndTrackError errs err" err2] by auto
  qed
next
  fix dyn :: "'w dynamic" and dobjs c w w' k
  assume api: "dyn_api dyn dobjs" and run: "run_state (setUpVM dyn c []) w = (Some [], w')" and k: "k \<in> vmKeys c"
  from run show "dobjs w' k \<noteq> None"
  proof (rule setUpVM_elim)
    fix err w1 err2
    assume a: "run_state (createIfMissing dyn managedServiceAccountGvr (GetName c)
        (managedServiceAccount managedSAName appSearchVMLabels)) w = (err, w1)"
      and b: "run_state (createIfMissing dyn clusterPermissionGvr (GetName c) vmClusterPermission) w1 = (err2, w')"
      and x: "Some [] = Some (logAndTrackError (logAndTrackError [] err) err2)"
    from x have e: "logAndTrackError (logAndTrackError [] err) err2 = []" by simp
    then have e: "err = None" "err2 = None" by (simp_all add: logAndTrackError_none)
    have "dobjs w1 (managedServiceAccountGvr, GetName c, managedSAName) \<noteq> None"
      using createIfMissing_ok [OF api a [unfolded e]] by simp
    from createIfMissing_keeps [OF api b this] createIfMissing_ok [OF api b [unfolded e]] k
    show ?thesis by (auto simp: pairKeys_def)
  qed
next
  fix dyn :: "'w dynamic" and dobjs c errs w errs' w' k
  assume api: "dyn_api dyn dobjs" and run: "run_state (setUpVM dyn c errs) w = (Some errs', w')" and k: "dobjs w k \<noteq> None"
  from run show "dobjs w' k \<noteq> None"
    by (rule setUpVM_elim) (rule createIfMissing_keeps [OF api _ createIfMissing_keeps [OF api _ k]])
next
  fix dyn :: "'w dynamic" and objs K c errs
  assume typed: "dyn_typed dyn objs featureGvrs"
  show "touches objs K (setUpVM dyn c errs)"
    unfolding setUpVM_def createVMManagedServiceAccount_def createVMClusterPermission_def createIfMissing_def
    by (intro touches_total touches_bind touches_ret touches_dyn [OF typed] featureGvrs_simps)
qed

interpretation vm_teardown: cluster_step tearDownVM "\<lambda>cluster. True" vmKeys removed
  by (unfold_locales, unfold tearDownVM_def) (assumption | rule deletePair_laws)+

section \<open>The actions are set up and taken down\<close>

definition engineNamespace :: "'w dynamic \<Rightarrow> 'w \<Rightarrow> string" where
  "engineNamespace dyn w =
     (case fst (run_state (getMCETargetNamespace dyn) w) of Inl _ \<Rightarrow> ''multicluster-engine'' | Inr n \<Rightarrow> n)"

lemma updateConsoleConfigVM_elim:
  assumes "run_state (updateConsoleConfigVM dyn enabled) w = (x, w')"
  obtains w1 where "run_state (setConsoleFlag dyn enabled (engineNamespace dyn w) ''console-mce-config'' ''VIRTUAL_MACHINE_ACTIONS'') w1 = (x, w')"
    "w1 = snd (run_state (getMCETargetNamespace dyn) w)"
  using assms that by (auto simp: updateConsoleConfigVM_def engineNamespace_def split: prod.splits)

lemma updateConsoleConfigVM_frame:
  assumes api: "dyn_api dyn dobjs" and run: "run_state (updateConsoleConfigVM dyn enabled) w = (x, w')"
  shows "dsame_except dobjs w w' {mceConsole (engineNamespace dyn w)}"
  using run
proof (rule updateConsoleConfigVM_elim)
  fix w1
  assume s: "run_state (setConsoleFlag dyn enabled (engineNamespace dyn w) ''console-mce-config'' ''VIRTUAL_MACHINE_ACTIONS'') w1 = (x, w')"
    and w1: "w1 = snd (run_state (getMCETargetNamespace dyn) w)"
  have idle: "dobjs w1 = dobjs w" unfolding w1 by (rule getMCETargetNamespace_view [OF api prod.collapse [symmetric]])
  from setConsoleFlag_frame [OF api s] show ?thesis unfolding dsame_except_cong [of dobjs, OF idle] .
qed

lemma updateConsoleConfigVM_ok:
  assumes api: "dyn_api dyn dobjs" and run: "run_state (updateConsoleConfigVM dyn enabled) w = (Some None, w')"
  shows "consoleFlag (dobjs w' (mceConsole (engineNamespace dyn w))) ''VIRTUAL_MACHINE_ACTIONS'' = Some enabled"
  using run by (rule updateConsoleConfigVM_elim) (rule setConsoleFlag_ok [OF api])

lemma configureVM_elim:
  assumes api: "dyn_api dyn dobjs" and run: "run_state (configureVirtualMachineActions dyn) w = (Some None, w')"
  obtains w1 w2 items where "run_state (updateConsoleConfigVM dyn True) w = (Some None, w1)"
    "run_state (dyn_List dyn managedClusterResourceGvr) w1 = ((Some items, None), w2)"
    "\<forall>ob. ob \<in> set items \<longleftrightarrow> (\<exists>ns n. dobjs w1 (managedClusterResourceGvr, ns, n) = Some ob)"
    "run_state (forClusters (setUpVM dyn) items []) w2 = (Some [], w')"
proof -
  from run [unfolded configureVirtualMachineActions_def] obtain err1 w1
    where up: "run_state (updateConsoleConfigVM dyn True) w = (Some err1, w1)" by (rule andThen_ok)
  obtain l err w2 where li: "run_state (dyn_List dyn managedClusterResourceGvr) w1 = ((l, err), w2)" by (metis surj_pair)
  let ?errs = "logAndTrackError (logAndTrackError [] err1) err"
  let ?loop = "forClusters (setUpVM dyn) (if err = None then listed l else []) ?errs"
  have "run_state (andThen ?loop (\<lambda>errList. ret (Some (combineErrors ''failed to configure virtual machine actions.'' errList)))) w2
      = (Some None, w')"
    using run up li by (simp add: configureVirtualMachineActions_def run_andThen)
  then obtain es where loop: "run_state ?loop w2 = (Some es, w')" and fin: "combineErrors ''failed to configure virtual machine actions.'' es = None"
    by (elim andThen_ok) auto
  have "es = []" using fin by (simp add: combineErrors_none)
  then have "?errs = []" using vm_setup.loop_errors [OF loop] by simp
  then have e: "err1 = None" "err = None" by (simp_all add: logAndTrackError_none)
  from dyn_List_ok [OF api li [unfolded e]] obtain items where
    items: "l = Some items" "\<forall>ob. ob \<in> set items \<longleftrightarrow> (\<exists>ns n. dobjs w1 (managedClusterResourceGvr, ns, n) = Some ob)" by blast
  show ?thesis
    using that [OF up [unfolded e] li [unfolded e items(1)] items(2)] loop
    by (simp add: e items(1) \<open>es = []\<close> listed_def logAndTrackError_def)
qed

lemma disableVM_elim:
  assumes api: "dyn_api dyn dobjs" and run: "run_state (disableVirtualMachineActions dyn) w = (Some None, w')"
  obtains w1 w2 items where "run_state (updateConsoleConfigVM dyn False) w = (Some None, w1)"
    "run_state (dyn_List dyn managedClusterResourceGvr) w1 = ((Some items, None), w2)"
    "\<forall>ob. ob \<in> set items \<longleftrightarrow> (\<exists>ns n. dobjs w1 (managedClusterResourceGvr, ns, n) = Some ob)"
    "run_state (forClusters (tearDownVM dyn) items []) w2 = (Some [], w')"
proof -
  from run [unfolded disableVirtualMachineActions_def] obtain err1 w1
    where up: "run_state (updateConsoleConfigVM dyn False) w = (Some err1, w1)" by (rule andThen_ok)
  obtain l err w2 where li: "run_state (dyn_List dyn managedClusterResourceGvr) w1 = ((l, err), w2)" by (metis surj_pair)
  obtain clusters where l: "l = Some clusters"
    using run up li by (cases l) (auto simp: disableVirtualMachineActions_def run_andThen)
  let ?errs = "logAndTrackError (logAndTrackError [] err1) err"
  let ?loop = "forClusters (tearDownVM dyn) clusters ?errs"
  have "run_state (andThen ?loop (\<lambda>errList. ret (Some (combineErrors ''failed to disable virtual machine actions.'' errList)))) w2
      = (Some None, w')"
    using run up li l by (simp add: disableVirtualMachineActions_def run_andThen)
  then obtain es where loop: "run_state ?loop w2 = (Some es, w')" and fin: "combineErrors ''failed to disable virtual machine actions.'' es = None"
    by (elim andThen_ok) auto
  have "es = []" using fin by (simp add: combineErrors_none)
  then have "?errs = []" using vm_teardown.loop_errors [OF loop] by simp
  then have e: "err1 = None" "err = None" by (simp_all add: logAndTrackError_none)
  from dyn_List_ok [OF api li [unfolded e]] obtain items where
    items: "l = Some items" "\<forall>ob. ob \<in> set items \<longleftrightarrow> (\<exists>ns n. dobjs w1 (managedClusterResourceGvr, ns, n) = Some ob)" by blast
  show ?thesis
    using that [OF up [unfolded e] li [unfolded e items(1)] items(2)] loop l
    by (simp add: e items(1) \<open>es = []\<close> logAndTrackError_def)
qed

lemma console_not_vm: "fst k = configMapsGvr \<Longrightarrow> k \<notin> (\<Union>c \<in> S. vmKeys c)"
  using gvr_distinct(4,6) by (auto simp: pairKeys_def)

text \<open>
  C37. The virtual machine actions are set up and taken down completely: when configuring reports no
  error, the console flag is on and every registered cluster has the service account and the permission
  in its namespace; when disabling reports none, the flag is off and neither remains for any registered
  cluster, except for one that waits for its finalizers.
\<close>

theorem vm_actions_set_up_and_taken_down:
  assumes api: "dyn_api dyn dobjs"
    and on: "run_state (configureVirtualMachineActions dyn) w = (Some None, w1)"
    and off: "run_state (disableVirtualMachineActions dyn) w = (Some None, w2)"
  shows "consoleFlag (dobjs w1 (mceConsole (engineNamespace dyn w))) ''VIRTUAL_MACHINE_ACTIONS'' = Some True
    \<and> consoleFlag (dobjs w2 (mceConsole (engineNamespace dyn w))) ''VIRTUAL_MACHINE_ACTIONS'' = Some False
    \<and> (\<forall>ns n cluster. dobjs w (managedClusterResourceGvr, ns, n) = Some cluster \<longrightarrow>
        (\<forall>k \<in> vmKeys cluster. dobjs w1 k \<noteq> None \<and> removed (dobjs w2 k)))"
proof -
  obtain v1 v2 items where c1: "run_state (updateConsoleConfigVM dyn True) w = (Some None, v1)"
    and li1: "run_state (dyn_List dyn managedClusterResourceGvr) v1 = ((Some items, None), v2)"
    and it1: "\<forall>ob. ob \<in> set items \<longleftrightarrow> (\<exists>ns n. dobjs v1 (managedClusterResourceGvr, ns, n) = Some ob)"
    and lp1: "run_state (forClusters (setUpVM dyn) items []) v2 = (Some [], w1)"
    by (rule configureVM_elim [OF api on])
  obtain u1 u2 things where c2: "run_state (updateConsoleConfigVM dyn False) w = (Some None, u1)"
    and li2: "run_state (dyn_List dyn managedClusterResourceGvr) u1 = ((Some things, None), u2)"
    and it2: "\<forall>ob. ob \<in> set things \<longleftrightarrow> (\<exists>ns n. dobjs u1 (managedClusterResourceGvr, ns, n) = Some ob)"
    and lp2: "run_state (forClusters (tearDownVM dyn) things []) u2 = (Some [], w2)"
    by (rule disableVM_elim [OF api off])
  have "dobjs w1 k = dobjs v1 k" "dobjs w2 k = dobjs u1 k" if "fst k = configMapsGvr" for k
    using vm_setup.loop_frame [OF api lp1 console_not_vm [OF that]] vm_teardown.loop_frame [OF api lp2 console_not_vm [OF that]]
      dyn_List_view [OF api li1] dyn_List_view [OF api li2] by simp_all
  then have flags: "consoleFlag (dobjs w1 (mceConsole (engineNamespace dyn w))) ''VIRTUAL_MACHINE_ACTIONS'' = Some True"
    "consoleFlag (dobjs w2 (mceConsole (engineNamespace dyn w))) ''VIRTUAL_MACHINE_ACTIONS'' = Some False"
    using updateConsoleConfigVM_ok [OF api c1] updateConsoleConfigVM_ok [OF api c2] by simp_all
  have "\<forall>k \<in> vmKeys cluster. dobjs w1 k \<noteq> None \<and> removed (dobjs w2 k)"
    if "dobjs w (managedClusterResourceGvr, ns, n) = Some cluster" for ns n cluster
  proof -
    have "dobjs v1 (managedClusterResourceGvr, ns, n) = Some cluster" "dobjs u1 (managedClusterResourceGvr, ns, n) = Some cluster"
      using that dsame_exceptD [OF updateConsoleConfigVM_frame [OF api c1]] dsame_exceptD [OF updateConsoleConfigVM_frame [OF api c2]]
      by simp_all
    then have "cluster \<in> set items" "cluster \<in> set things" using it1 it2 by blast+
    then show ?thesis using vm_setup.loop_reaches [OF api lp1] vm_teardown.loop_reaches [OF api lp2] by blast
  qed
  then show ?thesis using flags by blast
qed

lemmas vm_run_simps = hub_run_simps updateConsoleConfigVM_def setUpVM_def tearDownVM_def createVMManagedServiceAccount_def
  createVMClusterPermission_def vmClusterPermission_def clusterPermissionName_def managedSAName_def

lemma vmWorld_runs:
  "\<exists>w1. run_state (configureVirtualMachineActions mem_dynamic) hubWorld = (Some None, w1)"
  "\<exists>w2. run_state (disableVirtualMachineActions mem_dynamic) hubWorld = (Some None, w2)"
  by (simp_all add: configureVirtualMachineActions_def disableVirtualMachineActions_def vm_run_simps)

theorem vm_actions_set_up_and_taken_down_witness:
  "(case run_state (configureVirtualMachineActions mem_dynamic) hubWorld of (_, w1) \<Rightarrow>
      mem_dview w1 (managedServiceAccountGvr, ''hub1'', ''vm-actor'') \<noteq> None
      \<and> mem_dview w1 (clusterPermissionGvr, ''hub1'', ''virtual-machine-actions'') \<noteq> None)"
proof -
  obtain w1 w2 where on: "run_state (configureVirtualMachineActions mem_dynamic) hubWorld = (Some None, w1)"
    and off: "run_state (disableVirtualMachineActions mem_dynamic) hubWorld = (Some None, w2)"
    using vmWorld_runs by blast
  have "mem_dview hubWorld (managedClusterResourceGvr, '''', ''hub1'') = Some hubCluster"
    by (simp add: mem_dview_def hubWorld_def gvr_defs multiclusterengineResourceGvr_def)
  moreover have "vmKeys hubCluster
      = {(managedServiceAccountGvr, ''hub1'', ''vm-actor''), (clusterPermissionGvr, ''hub1'', ''virtual-machine-actions'')}"
    by (simp add: hubCluster_def jget_def pairKeys_def GetName_def managedSAName_def clusterPermissionName_def)
  ultimately show ?thesis
    using vm_actions_set_up_and_taken_down [OF mem_dyn_api on off] on by simp
qed

section \<open>When the clusters cannot be listed\<close>

text \<open>What only writes config maps and the Search resource, and how that composes.\<close>

abbreviation switchKeys :: "(gvr \<times> string \<times> string) set" where
  "switchKeys \<equiv> {k. fst k = configMapsGvr \<or> fst k = searchesGvr}"

definition only_switches :: "'w dview \<Rightarrow> ('w, 'a) state \<Rightarrow> bool" where
  "only_switches dobjs m \<longleftrightarrow> (\<forall>w. dsame_except dobjs w (snd (run_state m w)) switchKeys)"

lemma only_switchesI: "(\<And>w x w'. run_state m w = (x, w') \<Longrightarrow> dsame_except dobjs w w' switchKeys) \<Longrightarrow> only_switches dobjs m"
  unfolding only_switches_def using prod.collapse [symmetric] by blast

lemma only_switchesD: "only_switches dobjs m \<Longrightarrow> run_state m w = (x, w') \<Longrightarrow> dsame_except dobjs w w' switchKeys"
proof -
  assume "only_switches dobjs m" and run: "run_state m w = (x, w')"
  then have "dsame_except dobjs w (snd (run_state m w)) switchKeys" unfolding only_switches_def by (rule_tac spec)
  then show ?thesis unfolding run snd_conv .
qed

lemma only_switches_ret: "only_switches dobjs (ret x)"
  by (simp add: only_switches_def dsame_except_def)

lemma only_switches_bind:
  assumes "only_switches dobjs m" "\<And>x. only_switches dobjs (f x)"
  shows "only_switches dobjs (State_Monad.bind m f)"
proof (rule only_switchesI)
  fix w y w' assume "run_state (State_Monad.bind m f) w = (y, w')"
  then obtain x w1 where runs: "run_state m w = (x, w1)" "run_state (f x) w1 = (y, w')"
    by (cases "run_state m w") (simp add: State_Monad.bind_def)
  show "dsame_except dobjs w w' switchKeys"
    by (rule dsame_except_trans [OF only_switchesD [OF assms(1) runs(1)] only_switchesD [OF assms(2) runs(2)]]) simp
qed

lemma only_switches_option: "only_switches dobjs a \<Longrightarrow> (\<And>x. only_switches dobjs (b x)) \<Longrightarrow> only_switches dobjs (case v of None \<Rightarrow> a | Some x \<Rightarrow> b x)"
  by (cases v) simp_all

lemma only_switches_prod: "(\<And>a b. only_switches dobjs (f a b)) \<Longrightarrow> only_switches dobjs (case p of (a, b) \<Rightarrow> f a b)"
  by (cases p) simp

lemma only_switches_andThen:
  "only_switches dobjs m \<Longrightarrow> (\<And>x. only_switches dobjs (f x)) \<Longrightarrow> only_switches dobjs (andThen m f)"
  unfolding andThen_def by (intro only_switches_bind only_switches_option only_switches_ret)

lemma only_switches_parts:
  assumes api: "dyn_api dyn dobjs"
  shows "only_switches dobjs (getMCETargetNamespace dyn)" "only_switches dobjs (updateConsoleConfig dyn enabled ns n)"
    "only_switches dobjs (updateConsoleConfigVM dyn enabled)"
    "search_apart r dobjs \<Longrightarrow> only_switches dobjs (updateSearchApiDeployment r inst env)"
proof -
  show "only_switches dobjs (getMCETargetNamespace dyn)"
    using getMCETargetNamespace_view [OF api] by (intro only_switchesI) (simp add: dsame_except_def)
  show "only_switches dobjs (updateConsoleConfig dyn enabled ns n)"
    unfolding updateConsoleConfig_def using setConsoleFlag_frame [OF api] by (intro only_switchesI) (force simp: dsame_except_def)
  show "only_switches dobjs (updateConsoleConfigVM dyn enabled)"
    using updateConsoleConfigVM_frame [OF api] by (intro only_switchesI) (force simp: dsame_except_def)
  show "search_apart r dobjs \<Longrightarrow> only_switches dobjs (updateSearchApiDeployment r inst env)"
    using updateSearchApiDeployment_apart by (intro only_switchesI) (force simp: dsame_except_def)
qed

lemma switchGlobalSearch_only:
  "dyn_api dyn dobjs \<Longrightarrow> search_apart r dobjs \<Longrightarrow> only_switches dobjs (switchGlobalSearch r dyn inst enabled)"
  unfolding switchGlobalSearch_def Let_def total_def
  by (intro only_switches_bind only_switches_andThen only_switches_prod only_switches_ret only_switches_parts)

text \<open>A continuation of the failing list sees no clusters.\<close>

lemma only_switches_unlisted:
  assumes api: "dyn_api dyn dobjs" and unlisted: "\<forall>w. fst (run_state (dyn_List dyn g) w) = (None, Some e)" and f: "only_switches dobjs (f (None, Some e))"
  shows "only_switches dobjs (State_Monad.bind (dyn_List dyn g) f)"
proof (rule only_switchesI)
  fix w y w' assume "run_state (State_Monad.bind (dyn_List dyn g) f) w = (y, w')"
  note run = this
  obtain l w1 where l': "run_state (dyn_List dyn g) w = (l, w1)" by fastforce
  then have l: "run_state (dyn_List dyn g) w = ((None, Some e), w1)" using spec [OF unlisted, of w] by simp
  from run l have "run_state (f (None, Some e)) w1 = (y, w')" by (simp add: State_Monad.bind_def)
  from only_switchesD [OF f this] show "dsame_except dobjs w w' switchKeys" unfolding dsame_except_cong [of dobjs, OF dyn_List_view [OF api l(1)]] .
qed

lemma unlisted_only:
  assumes api: "dyn_api dyn dobjs" and apart: "search_apart r dobjs"
    and unlisted: "\<forall>w. fst (run_state (dyn_List dyn managedClusterResourceGvr) w) = (None, Some e)"
  shows "only_switches dobjs (enableGlobalSearch r dyn inst)" "only_switches dobjs (disableGlobalSearch r dyn inst)"
    "only_switches dobjs (configureVirtualMachineActions dyn)" "only_switches dobjs (disableVirtualMachineActions dyn)"
proof -
  note silent = only_switches_unlisted [OF api unlisted]
  show "only_switches dobjs (enableGlobalSearch r dyn inst)" unfolding enableGlobalSearch_def
    by (rule only_switches_andThen [OF switchGlobalSearch_only [OF api apart]], rule only_switches_prod, rule silent)
      (simp add: only_switches_andThen only_switches_ret)
  show "only_switches dobjs (disableGlobalSearch r dyn inst)" unfolding disableGlobalSearch_def
    by (rule only_switches_andThen [OF switchGlobalSearch_only [OF api apart]], rule only_switches_prod, rule silent)
      (simp add: only_switches_ret)
  show "only_switches dobjs (configureVirtualMachineActions dyn)" unfolding configureVirtualMachineActions_def
    by (rule only_switches_andThen [OF only_switches_parts(3) [OF api]], rule silent) (simp add: only_switches_andThen only_switches_ret)
  show "only_switches dobjs (disableVirtualMachineActions dyn)" unfolding disableVirtualMachineActions_def
    by (rule only_switches_andThen [OF only_switches_parts(3) [OF api]], rule silent) (simp add: only_switches_ret)
qed


definition blindDynamic :: "mem dynamic" where
  "blindDynamic = mem_dynamic\<lparr>dyn_List := (\<lambda>g. ret (None, Some (APIError OtherReason ''timeout'')))\<rparr>"

lemma blindDynamic_api: "dyn_api blindDynamic mem_dview"
  using mem_dyn_api by (simp add: dyn_api_def dyn_reads_def dyn_creates_def dyn_updates_def dyn_deletes_def blindDynamic_def)


end
