(* ===== verification/RBAC.thy ===== *)
theory RBAC
  imports Resources
begin

text \<open>
  Accounts, roles and bindings (\<open>controllers/create_serviceaccount.go\<close>,
  \<open>create_rolesbindings.go\<close>) and their removal (\<open>cleanup.go\<close>, \<open>finalizeSearch\<close> of
  \<open>search_controller.go\<close>). The theorems state what the roles permit, that each binding gives its
  role to one account only, that roles and bindings converge although the role of a binding cannot
  be updated in place, and what a successful finalization has removed.
\<close>

section \<open>Service accounts\<close>

definition createSearchServiceAccount :: "'w SearchReconciler \<Rightarrow> ServiceAccount \<Rightarrow> ('w, step_ret) state" where
  "createSearchServiceAccount r sa = do {
     res \<leftarrow> Get (Client r) asServiceAccount (metaKey KServiceAccount (sa_meta sa));
     case res of
       Inl err \<Rightarrow>
         if IsNotFound err then do {
           res \<leftarrow> cl_Create (Client r) (OServiceAccount sa);
           case res of Inl err \<Rightarrow> ret (failWith err) | Inr _ \<Rightarrow> ret done_ok
         } else ret done_ok
     | Inr found \<Rightarrow>
         if length (sa_ImagePullSecrets found) > 1 then do {
           res \<leftarrow> cl_Update (Client r) (OServiceAccount sa);
           case res of Inl err \<Rightarrow> ret (failWith err) | Inr _ \<Rightarrow> ret done_ok
         } else ret done_ok
   }"

definition newServiceAccount :: "ObjectMeta \<Rightarrow> ServiceAccount" where
  "newServiceAccount m = \<lparr>sa_meta = m, sa_ImagePullSecrets = []\<rparr>"

text \<open>Without an owner reference the first two are not made at all; the other two are made without one.\<close>

definition SearchPostgresServiceAccount :: "'w SearchReconciler \<Rightarrow> Search \<Rightarrow> go_error + ServiceAccount" where
  "SearchPostgresServiceAccount r inst =
     (case lib_SetControllerReference (Lib r) inst (newMeta getPostgresServiceAccountName (Namespace (s_meta inst))) of
        Inl err \<Rightarrow> Inl err | Inr m \<Rightarrow> Inr (newServiceAccount m))"

definition SearchIndexerServiceAccount :: "'w SearchReconciler \<Rightarrow> Search \<Rightarrow> go_error + ServiceAccount" where
  "SearchIndexerServiceAccount r inst =
     (case lib_SetControllerReference (Lib r) inst (newMeta getIndexerServiceAccountName (Namespace (s_meta inst))) of
        Inl err \<Rightarrow> Inl err | Inr m \<Rightarrow> Inr (newServiceAccount m))"

definition SearchCollectorServiceAccount :: "'w SearchReconciler \<Rightarrow> Search \<Rightarrow> ServiceAccount" where
  "SearchCollectorServiceAccount r inst = newServiceAccount
     (withOwner (Lib r) inst (newMeta getCollectorServiceAccountName (Namespace (s_meta inst))))"

definition SearchAPIServiceAccount :: "'w SearchReconciler \<Rightarrow> Search \<Rightarrow> ServiceAccount" where
  "SearchAPIServiceAccount r inst = newServiceAccount
     (withOwner (Lib r) inst (newMeta getAPIServiceAccountName (Namespace (s_meta inst))))"

section \<open>Roles and bindings\<close>

definition createUpdateRoles :: "'w SearchReconciler \<Rightarrow> ClusterRole \<Rightarrow> ('w, step_ret) state" where
  "createUpdateRoles r crole = do {
     res \<leftarrow> Get (Client r) asClusterRole (metaKey KClusterRole (cr_meta crole));
     case res of
       Inl err \<Rightarrow>
         if IsNotFound err then do {
           res \<leftarrow> cl_Create (Client r) (OClusterRole crole);
           case res of Inl err \<Rightarrow> ret (failWith err) | Inr _ \<Rightarrow> ret done_ok
         } else ret (failWith err)
     | Inr existing \<Rightarrow>
         if cr_Rules existing \<noteq> cr_Rules crole then do {
           res \<leftarrow> cl_Update (Client r) (OClusterRole (existing\<lparr>cr_Rules := cr_Rules crole\<rparr>));
           case res of Inl err \<Rightarrow> ret (failWith err) | Inr _ \<Rightarrow> ret done_ok
         } else ret done_ok
   }"

definition replaceBinding ::
  "'w SearchReconciler \<Rightarrow> ClusterRoleBinding \<Rightarrow> ClusterRoleBinding \<Rightarrow> ('w, step_ret) state" where
  "replaceBinding r found rolebinding =
     (if crb_RoleRef found \<noteq> crb_RoleRef rolebinding then do {
        err \<leftarrow> cl_Delete (Client r) (metaKey KClusterRoleBinding (crb_meta found));
        case err of
          Some err \<Rightarrow> ret (failWith err)
        | None \<Rightarrow> do {
            res \<leftarrow> cl_Create (Client r) (OClusterRoleBinding rolebinding);
            case res of Inl err \<Rightarrow> ret (failWith err) | Inr _ \<Rightarrow> ret done_ok
          }
      } else if crb_Subjects found \<noteq> crb_Subjects rolebinding then do {
        res \<leftarrow> cl_Update (Client r) (OClusterRoleBinding (found\<lparr>crb_Subjects := crb_Subjects rolebinding\<rparr>));
        case res of Inl err \<Rightarrow> ret (failWith err) | Inr _ \<Rightarrow> ret done_ok
      } else ret done_ok)"

definition createRoleBinding :: "'w SearchReconciler \<Rightarrow> ClusterRoleBinding \<Rightarrow> ('w, step_ret) state" where
  "createRoleBinding r rolebinding = do {
     res \<leftarrow> Get (Client r) asClusterRoleBinding (metaKey KClusterRoleBinding (crb_meta rolebinding));
     case res of
       Inl err \<Rightarrow>
         if IsNotFound err then do {
           res \<leftarrow> cl_Create (Client r) (OClusterRoleBinding rolebinding);
           case res of Inl err \<Rightarrow> ret (failWith err) | Inr _ \<Rightarrow> ret done_ok
         } else ret (failWith err)
     | Inr found \<Rightarrow> replaceBinding r found rolebinding
   }"

definition rbacGroup :: string where "rbacGroup = ''rbac.authorization.k8s.io''"

definition bindRole :: "string \<Rightarrow> string \<Rightarrow> string \<Rightarrow> Search \<Rightarrow> ClusterRoleBinding" where
  "bindRole name role account inst = \<lparr>crb_meta = newMeta name '''',
     crb_RoleRef = \<lparr>rr_APIGroup = rbacGroup, rr_Kind = ''ClusterRole'', rr_Name = role\<rparr>,
     crb_Subjects = [\<lparr>sub_Kind = ''ServiceAccount'', sub_APIGroup = '''', sub_Name = account,
       sub_Namespace = Namespace (s_meta inst)\<rparr>]\<rparr>"

definition APIClusterRoleBinding :: "(string \<Rightarrow> string) \<Rightarrow> Search \<Rightarrow> ClusterRoleBinding" where
  "APIClusterRoleBinding getenv inst =
     bindRole (getRoleBindingName @ ''-api'') (getAPIClusterRoleName getenv) getAPIServiceAccountName inst"

definition IndexerClusterRoleBinding :: "Search \<Rightarrow> ClusterRoleBinding" where
  "IndexerClusterRoleBinding inst =
     bindRole (getRoleBindingName @ ''-indexer'') (getRoleName @ ''-indexer'') getIndexerServiceAccountName inst"

definition CollectorClusterRoleBinding :: "(string \<Rightarrow> string) \<Rightarrow> Search \<Rightarrow> ClusterRoleBinding" where
  "CollectorClusterRoleBinding getenv inst =
     bindRole (getRoleBindingName @ ''-collector'') (getCollectorClusterRoleName getenv) getCollectorServiceAccountName inst"

definition getAddonRules :: "PolicyRule list" where
  "getAddonRules =
     [\<lparr>pr_APIGroups = [''proxy.open-cluster-management.io''], pr_Resources = [''clusterstatuses/aggregator''],
       pr_Verbs = [''create'']\<rparr>,
      \<lparr>pr_APIGroups = [''coordination.k8s.io''], pr_Resources = [''leases''],
       pr_Verbs = [''create'', ''get'', ''list'', ''watch'', ''patch'', ''update'']\<rparr>]"

definition getGlobalSearchUserRules :: "PolicyRule list" where
  "getGlobalSearchUserRules =
     [\<lparr>pr_APIGroups = [''search.open-cluster-management.io''],
       pr_Resources = [''searches'', ''searches/allManagedData''], pr_Verbs = [''get'']\<rparr>]"

definition getIndexerRules :: "PolicyRule list" where
  "getIndexerRules =
     [\<lparr>pr_APIGroups = [''authentication.k8s.io''], pr_Resources = [''tokenreviews''], pr_Verbs = [''create'']\<rparr>,
      \<lparr>pr_APIGroups = [''coordination.k8s.io''], pr_Resources = [''leases''],
       pr_Verbs = [''get'', ''create'', ''update'']\<rparr>,
      \<lparr>pr_APIGroups = [''cluster.open-cluster-management.io''], pr_Resources = [''managedclusters''],
       pr_Verbs = [''get'', ''list'', ''watch'']\<rparr>,
      \<lparr>pr_APIGroups = [''internal.open-cluster-management.io''], pr_Resources = [''managedclusterinfos''],
       pr_Verbs = [''get'', ''list'', ''watch'']\<rparr>,
      \<lparr>pr_APIGroups = [''addon.open-cluster-management.io''], pr_Resources = [''managedclusteraddons''],
       pr_Verbs = [''get'', ''list'', ''watch'']\<rparr>]"

definition IndexerClusterRole :: "Search \<Rightarrow> ClusterRole" where
  "IndexerClusterRole inst = \<lparr>cr_meta = newMeta (getRoleName @ ''-indexer'') '''', cr_Rules = getIndexerRules\<rparr>"

definition AddonClusterRole :: "Search \<Rightarrow> ClusterRole" where
  "AddonClusterRole inst = \<lparr>cr_meta = newMeta getAddonRoleName (Namespace (s_meta inst)), cr_Rules = getAddonRules\<rparr>"

definition GlobalSearchUserClusterRole :: "Search \<Rightarrow> ClusterRole" where
  "GlobalSearchUserClusterRole inst =
     \<lparr>cr_meta = newMeta getSearchUserRoleName (Namespace (s_meta inst)), cr_Rules = getGlobalSearchUserRules\<rparr>"

section \<open>Cleanup\<close>

fun removeOwner :: "OwnerReference list \<Rightarrow> OwnerReference list option" where
  "removeOwner [] = None"
| "removeOwner (ref # refs) = (if ref_Kind ref = ''Search'' then Some refs
     else map_option (\<lambda>rs. ref # rs) (removeOwner refs))"

definition removeOwnerRefClusterManagementAddon :: "'w SearchReconciler \<Rightarrow> Search \<Rightarrow> ('w, go_error option) state" where
  "removeOwnerRefClusterManagementAddon r inst = do {
     res \<leftarrow> Get (Client r) asClusterManagementAddOn
       (mkKey KClusterManagementAddOn (Namespace (s_meta inst)) ''search-collector'');
     case res of
       Inl err \<Rightarrow> if IsNotFound err then ret None else ret (Some err)
     | Inr cma \<Rightarrow> (case removeOwner (OwnerReferences cma) of
         None \<Rightarrow> ret None
       | Some refs \<Rightarrow> do {
           res \<leftarrow> cl_Update (Client r) (OClusterManagementAddOn (cma\<lparr>OwnerReferences := refs\<rparr>));
           ret (errOf res)
         })
   }"

definition ignoreNotFound :: "go_error option \<Rightarrow> go_error option" where
  "ignoreNotFound err = (case err of Some e \<Rightarrow> if IsNotFound e then None else Some e | None \<Rightarrow> None)"

definition deleteClusterRole :: "'w SearchReconciler \<Rightarrow> Search \<Rightarrow> string \<Rightarrow> ('w, go_error option) state" where
  "deleteClusterRole r inst resourceName = do {
     err \<leftarrow> cl_Delete (Client r) (mkKey KClusterRole (Namespace (s_meta inst)) resourceName);
     ret (ignoreNotFound err)
   }"

definition deleteClusterRoleBinding :: "'w SearchReconciler \<Rightarrow> Search \<Rightarrow> string \<Rightarrow> ('w, go_error option) state" where
  "deleteClusterRoleBinding r inst resourceName = do {
     err \<leftarrow> cl_Delete (Client r) (mkKey KClusterRoleBinding '''' resourceName);
     ret (ignoreNotFound err)
   }"

definition SearchMetricsMonitor :: string where "SearchMetricsMonitor = ''search-metrics-monitor''"

text \<open>The errors are logged only.\<close>

definition deleteLegacyServiceMonitorSetup :: "'w SearchReconciler \<Rightarrow> Search \<Rightarrow> ('w, unit) state" where
  "deleteLegacyServiceMonitorSetup r inst = do {
     err \<leftarrow> cl_Delete (Client r) (key_of (OServiceMonitor (ServiceMonitor inst ''search-api'' ''openshift-monitoring'')));
     err \<leftarrow> cl_Delete (Client r) (key_of (OServiceMonitor (ServiceMonitor inst ''search-indexer'' ''openshift-monitoring'')));
     err \<leftarrow> cl_Delete (Client r) (mkKey KRole (Namespace (s_meta inst)) SearchMetricsMonitor);
     err \<leftarrow> cl_Delete (Client r) (mkKey KRoleBinding (Namespace (s_meta inst)) SearchMetricsMonitor);
     ret ()
   }"

text \<open>\<open>err = f(); if err != nil { return err }\<close>, and then the rest.\<close>

definition orElse :: "('w, go_error option) state \<Rightarrow> ('w, go_error option) state \<Rightarrow> ('w, go_error option) state" where
  "orElse m rest = do { err \<leftarrow> m; case err of Some e \<Rightarrow> ret (Some e) | None \<Rightarrow> rest }"

definition finalizeSearch :: "'w SearchReconciler \<Rightarrow> Search \<Rightarrow> ('w, go_error option) state" where
  "finalizeSearch r inst =
     orElse (removeOwnerRefClusterManagementAddon r inst)
     (orElse (deleteClusterRole r inst getAddonRoleName)
     (orElse (deleteClusterRoleBinding r inst getAddonRoleName)
     (orElse (deleteClusterRoleBinding r inst (getRoleBindingName @ ''-api''))
     (orElse (deleteClusterRoleBinding r inst (getRoleBindingName @ ''-collector''))
     (orElse (deleteClusterRole r inst (getRoleName @ ''-indexer''))
     (deleteClusterRoleBinding r inst (getRoleBindingName @ ''-indexer'')))))))"

section \<open>Roles and bindings converge\<close>

lemma role_update:
  "createUpdateRoles r crole = ensureUpdated (Client r) asClusterRole OClusterRole
     (\<lambda>a b. cr_Rules a = cr_Rules b) (\<lambda>found crole. found\<lparr>cr_Rules := cr_Rules crole\<rparr>) crole"
  by (simp add: ensureUpdated_def ensure_def createUpdateRoles_def)

lemma role_reconcilable:
  "reconcilable OClusterRole (\<lambda>a b. cr_Rules a = cr_Rules b) (\<lambda>found crole. found\<lparr>cr_Rules := cr_Rules crole\<rparr>)"
  by (simp add: reconcilable_def terminated_def)

interpretation role_writer: desired_writer OClusterRole createUpdateRoles "\<lambda>a b. cr_Rules a = cr_Rules b"
  by (unfold_locales, unfold role_update) (assumption | rule ensureUpdated_laws decodes_kinds role_reconcilable)+

definition sameBinding :: "ClusterRoleBinding \<Rightarrow> ClusterRoleBinding \<Rightarrow> bool" where
  "sameBinding a b \<longleftrightarrow> crb_RoleRef a = crb_RoleRef b \<and> crb_Subjects a = crb_Subjects b"

lemma binding_ensure:
  "createRoleBinding r x = ensure (Client r) asClusterRoleBinding OClusterRoleBinding x
     (\<lambda>e. ret (failWith e)) (\<lambda>y. replaceBinding r y x)"
  by (simp add: createRoleBinding_def ensure_def)

lemma replaceBinding_frame:
  "kube_api (Client r) objs \<Longrightarrow> key_of (OClusterRoleBinding y) = key_of (OClusterRoleBinding x) \<Longrightarrow>
     touches objs {key_of (OClusterRoleBinding x)} (replaceBinding r y x)"
  unfolding replaceBinding_def
  by (intro touches_if touches_bind touches_case_option touches_case_sum touches_ret touches_Delete
      touches_Create touches_Update) simp_all

lemma created_binding:
  assumes api: "kube_api (Client r) objs" and ok: "run_state (do {
      res \<leftarrow> cl_Create (Client r) (OClusterRoleBinding x);
      case res of Inl err \<Rightarrow> ret (failWith err) | Inr _ \<Rightarrow> ret done_ok}) w = (done_ok, w')"
  shows "\<exists>z. objs w' (key_of (OClusterRoleBinding x)) = Some (OClusterRoleBinding z) \<and> sameBinding z x"
proof -
  obtain res w1 where c: "run_state (cl_Create (Client r) (OClusterRoleBinding x)) w = (res, w1)" by fastforce
  obtain ob where "res = Inr ob" "w1 = w'" using ok c by (cases res) simp_all
  from create_stores [OF api c [unfolded this]] show ?thesis by (auto simp: sameBinding_def)
qed

lemma replaceBinding_reaches:
  assumes api: "kube_api (Client r) objs" and nt: "\<not> terminated (OClusterRoleBinding y)"
    and y: "objs w (key_of (OClusterRoleBinding x)) = Some (OClusterRoleBinding y)"
      "key_of (OClusterRoleBinding y) = key_of (OClusterRoleBinding x)"
    and run: "run_state (replaceBinding r y x) w = (done_ok, w')"
  shows "\<exists>z. objs w' (key_of (OClusterRoleBinding x)) = Some (OClusterRoleBinding z) \<and> sameBinding z x"
proof (cases "crb_RoleRef y = crb_RoleRef x")
  case False
  obtain err w1 where d: "run_state (cl_Delete (Client r) (metaKey KClusterRoleBinding (crb_meta y))) w = (err, w1)"
    by fastforce
  have "err = None" using run d False by (cases err) (simp_all add: replaceBinding_def)
  then have "run_state (do {
      res \<leftarrow> cl_Create (Client r) (OClusterRoleBinding x);
      case res of Inl err \<Rightarrow> ret (failWith err) | Inr _ \<Rightarrow> ret done_ok}) w1 = (done_ok, w')"
    using run d False by (simp add: replaceBinding_def)
  from created_binding [OF api this] show ?thesis .
next
  case role: True
  show ?thesis
  proof (cases "crb_Subjects y = crb_Subjects x")
    case True
    then show ?thesis using run role y by (auto simp: replaceBinding_def sameBinding_def)
  next
    case False
    obtain res w1 where u: "run_state (cl_Update (Client r)
        (OClusterRoleBinding (y\<lparr>crb_Subjects := crb_Subjects x\<rparr>))) w = (res, w1)" by fastforce
    obtain ob where "res = Inr ob" "w1 = w'"
      using run u role False by (cases res) (simp_all add: replaceBinding_def)
    moreover have "\<not> terminated (OClusterRoleBinding (y\<lparr>crb_Subjects := crb_Subjects x\<rparr>))"
      using nt by (simp add: terminated_def)
    ultimately show ?thesis using update_stores [OF api, of _ w ob w'] u y(2) role
      by (fastforce simp: sameBinding_def)
  qed
qed

interpretation binding_writer: desired_writer OClusterRoleBinding createRoleBinding sameBinding
proof (unfold_locales, unfold binding_ensure)
  fix r :: "'w SearchReconciler" and objs x w w' res y
  assume api: "kube_api (Client r) objs"
  show "touches objs {key_of (OClusterRoleBinding x)} (ensure (Client r) asClusterRoleBinding OClusterRoleBinding x
      (\<lambda>e. ret (failWith e)) (\<lambda>y. replaceBinding r y x))"
    using api by (intro touches_ensure [OF api _ _ _ decodes_kinds(9)] touches_ret replaceBinding_frame) simp_all
  { assume alive: "alive objs w (key_of (OClusterRoleBinding x))" and run: "run_state (ensure (Client r) asClusterRoleBinding OClusterRoleBinding x
      (\<lambda>e. ret (failWith e)) (\<lambda>y. replaceBinding r y x)) w = (done_ok, w')"
    show "\<exists>z. objs w' (key_of (OClusterRoleBinding x)) = Some (OClusterRoleBinding z) \<and> sameBinding z x"
      using run
    proof (rule ensure_cases [OF api decodes_kinds(9)])
      fix z w1
      assume "objs w1 = objs w" "objs w (key_of (OClusterRoleBinding x)) = Some (OClusterRoleBinding z)"
        "key_of (OClusterRoleBinding z) = key_of (OClusterRoleBinding x)"
        "run_state (replaceBinding r z x) w1 = (done_ok, w')"
      then show ?thesis using replaceBinding_reaches [OF api] alive unfolding alive_def by metis
    qed (auto simp: sameBinding_def) }
  { assume run: "run_state (ensure (Client r) asClusterRoleBinding OClusterRoleBinding x
      (\<lambda>e. ret (failWith e)) (\<lambda>y. replaceBinding r y x)) w = (res, w')"
      and y: "objs w (key_of (OClusterRoleBinding x)) = Some (OClusterRoleBinding y)" "sameBinding y x"
    show "objs w' = objs w"
      using run
      by (rule ensure_cases [OF api decodes_kinds(9)])
        (use y in \<open>auto simp: replaceBinding_def sameBinding_def\<close>) }
qed

section \<open>Frames\<close>

lemma createSearchServiceAccount_frame [world_frame]:
  "kube_api (Client r) objs \<Longrightarrow> metaKey KServiceAccount (sa_meta sa) \<in> K \<Longrightarrow>
     touches objs K (createSearchServiceAccount r sa)"
  unfolding createSearchServiceAccount_def
  by (intro touches_bind touches_Get touches_case_sum touches_if touches_ret touches_Create touches_Update) simp_all

lemma removeOwnerRef_frame [world_frame]:
  assumes api: "kube_api (Client r) objs" and k: "mkKey KClusterManagementAddOn '''' ''search-collector'' \<in> K"
  shows "touches objs K (removeOwnerRefClusterManagementAddon r inst)"
  unfolding removeOwnerRefClusterManagementAddon_def
proof (rule touches_bind_result [OF touches_Get [OF api]])
  fix x :: "go_error + ObjectMeta" and w w'
  assume g: "run_state (Get (Client r) asClusterManagementAddOn
      (mkKey KClusterManagementAddOn (Namespace (s_meta inst)) ''search-collector'')) w = (x, w')"
  have "metaKey KClusterManagementAddOn cma \<in> K" if "x = Inr cma" for cma
    using Get_found [OF api decodes_kinds(16) g [unfolded that]] k by (simp add: mkKey_def cluster_scoped_def)
  then show "touches objs K (case x of Inl err \<Rightarrow> if IsNotFound err then ret None else ret (Some err)
     | Inr cma \<Rightarrow> (case removeOwner (OwnerReferences cma) of None \<Rightarrow> ret None
       | Some refs \<Rightarrow> do { res \<leftarrow> cl_Update (Client r) (OClusterManagementAddOn (cma\<lparr>OwnerReferences := refs\<rparr>));
           ret (errOf res) }))"
    using api by (intro touches_case_sum touches_if touches_ret touches_case_option touches_bind touches_Update) simp_all
qed

lemma delete_frames [world_frame]:
  "kube_api (Client r) objs \<Longrightarrow> mkKey KClusterRole '''' name \<in> K \<Longrightarrow> touches objs K (deleteClusterRole r inst name)"
  "kube_api (Client r) objs \<Longrightarrow> mkKey KClusterRoleBinding '''' name \<in> K \<Longrightarrow> touches objs K (deleteClusterRoleBinding r inst name)"
  unfolding deleteClusterRole_def deleteClusterRoleBinding_def
  by (intro touches_bind touches_Delete touches_ret; simp add: mkKey_def cluster_scoped_def)+

lemma touches_orElse [world_frame]:
  "touches objs K m \<Longrightarrow> touches objs K n \<Longrightarrow> touches objs K (orElse m n)"
  unfolding orElse_def by (intro touches_bind touches_case_option touches_ret)

lemma deleteLegacy_frame [world_frame]:
  "kube_api (Client r) objs \<Longrightarrow>
     {mkKey KServiceMonitor ''openshift-monitoring'' ''search-api-monitor'',
      mkKey KServiceMonitor ''openshift-monitoring'' ''search-indexer-monitor'',
      mkKey KRole (Namespace (s_meta inst)) SearchMetricsMonitor,
      mkKey KRoleBinding (Namespace (s_meta inst)) SearchMetricsMonitor} \<subseteq> K \<Longrightarrow>
     touches objs K (deleteLegacyServiceMonitorSetup r inst)"
  unfolding deleteLegacyServiceMonitorSetup_def
  by (intro touches_bind touches_Delete touches_ret) (simp_all add: ServiceMonitor_def)

section \<open>The properties of the permissions\<close>

text \<open>What a list of rules permits, as Kubernetes reads it, and the verbs that read only.\<close>

definition matches :: "string list \<Rightarrow> string \<Rightarrow> bool" where
  "matches xs x \<longleftrightarrow> x \<in> set xs \<or> ''*'' \<in> set xs"

definition permits :: "PolicyRule list \<Rightarrow> string \<Rightarrow> string \<Rightarrow> string \<Rightarrow> bool" where
  "permits rules grp rsrc verb \<longleftrightarrow> list_ex (\<lambda>rule. matches (pr_APIGroups rule) grp
     \<and> matches (pr_Resources rule) rsrc \<and> matches (pr_Verbs rule) verb) rules"

definition reads :: "string set" where "reads = {''get'', ''list'', ''watch''}"

definition writes :: "ClusterRole \<Rightarrow> (string \<times> string \<times> string) set" where
  "writes role = {(grp, rsrc, verb). permits (cr_Rules role) grp rsrc verb \<and> verb \<notin> reads}"

text \<open>
  C34. Least privilege. What the operator's roles permit beyond reading is this and no more: the
  indexer may create token reviews and create and update leases; the add-on may create aggregator
  requests and create, patch and update leases; users of global search may change nothing. The three
  bindings give their roles to one account of the instance's namespace each, no account is bound
  twice, and the database's account is bound to nothing.
\<close>

theorem operator_grants_least_privilege:
  "writes (IndexerClusterRole inst) = {(''authentication.k8s.io'', ''tokenreviews'', ''create''),
      (''coordination.k8s.io'', ''leases'', ''create''), (''coordination.k8s.io'', ''leases'', ''update'')}
   \<and> writes (AddonClusterRole inst) = {(''proxy.open-cluster-management.io'', ''clusterstatuses/aggregator'', ''create''),
      (''coordination.k8s.io'', ''leases'', ''create''), (''coordination.k8s.io'', ''leases'', ''patch''),
      (''coordination.k8s.io'', ''leases'', ''update'')}
   \<and> writes (GlobalSearchUserClusterRole inst) = {}
   \<and> (let bindings = [APIClusterRoleBinding getenv inst, IndexerClusterRoleBinding inst, CollectorClusterRoleBinding getenv inst];
          accounts = concat (map (\<lambda>b. map sub_Name (crb_Subjects b)) bindings)
      in length accounts = 3 \<and> distinct accounts \<and> getPostgresServiceAccountName \<notin> set accounts
         \<and> list_all (\<lambda>b. list_all (\<lambda>s. sub_Kind s = ''ServiceAccount'' \<and> sub_Namespace s = Namespace (s_meta inst)) (crb_Subjects b)) bindings)"
proof (intro conjI)
  note defs = writes_def permits_def matches_def reads_def
  show "writes (IndexerClusterRole inst) = {(''authentication.k8s.io'', ''tokenreviews'', ''create''),
      (''coordination.k8s.io'', ''leases'', ''create''), (''coordination.k8s.io'', ''leases'', ''update'')}"
    by (auto simp: defs IndexerClusterRole_def getIndexerRules_def)
  show "writes (AddonClusterRole inst) = {(''proxy.open-cluster-management.io'', ''clusterstatuses/aggregator'', ''create''),
      (''coordination.k8s.io'', ''leases'', ''create''), (''coordination.k8s.io'', ''leases'', ''patch''),
      (''coordination.k8s.io'', ''leases'', ''update'')}"
    by (auto simp: defs AddonClusterRole_def getAddonRules_def)
  show "writes (GlobalSearchUserClusterRole inst) = {}"
    by (auto simp: defs GlobalSearchUserClusterRole_def getGlobalSearchUserRules_def)
qed (simp add: Let_def APIClusterRoleBinding_def IndexerClusterRoleBinding_def CollectorClusterRoleBinding_def bindRole_def
      getAPIServiceAccountName_def getIndexerServiceAccountName_def getCollectorServiceAccountName_def
      getPostgresServiceAccountName_def)

text \<open>
  C4. Roles and bindings converge: after a success the stored role has the wanted rules, the stored
  binding has the wanted role and subjects (also when the role it referred to was another, which
  Kubernetes does not let anyone update), and a second run of either step changes nothing.
\<close>

theorem roles_and_bindings_converge:
  assumes "kube_api (Client r) objs" "live objs w" "\<not> terminated (OClusterRole role)" "\<not> terminated (OClusterRoleBinding binding)"
    "run_state (createUpdateRoles r role) w = (done_ok, w1)" "run_state (createRoleBinding r binding) w = (done_ok, w2)"
  shows "(\<exists>y. objs w1 (metaKey KClusterRole (cr_meta role)) = Some (OClusterRole y) \<and> cr_Rules y = cr_Rules role)
    \<and> (\<exists>y. objs w2 (metaKey KClusterRoleBinding (crb_meta binding)) = Some (OClusterRoleBinding y)
        \<and> crb_RoleRef y = crb_RoleRef binding \<and> crb_Subjects y = crb_Subjects binding)
    \<and> objs (snd (run_state (createUpdateRoles r role) w1)) = objs w1
    \<and> objs (snd (run_state (createRoleBinding r binding) w2)) = objs w2"
proof (intro conjI)
  note alive = live_alive [OF assms(2)]
  show "\<exists>y. objs w1 (metaKey KClusterRole (cr_meta role)) = Some (OClusterRole y) \<and> cr_Rules y = cr_Rules role"
    using role_writer.reaches [OF assms(1) alive assms(3,5)] by simp
  show "\<exists>y. objs w2 (metaKey KClusterRoleBinding (crb_meta binding)) = Some (OClusterRoleBinding y)
        \<and> crb_RoleRef y = crb_RoleRef binding \<and> crb_Subjects y = crb_Subjects binding"
    using binding_writer.reaches [OF assms(1) alive assms(4,6)] by (simp add: sameBinding_def)
  show "objs (snd (run_state (createUpdateRoles r role) w1)) = objs w1"
    by (rule role_writer.second_run_idle [OF assms(1) alive assms(3,5) prod.collapse [symmetric]])
  show "objs (snd (run_state (createRoleBinding r binding) w2)) = objs w2"
    by (rule binding_writer.second_run_idle [OF assms(1) alive assms(4,6) prod.collapse [symmetric]])
qed

definition staleBinding :: ClusterRoleBinding where
  "staleBinding = bindRole ''search-indexer'' ''old-role'' getIndexerServiceAccountName sampleSearch"

lemma stale_binding_runs:
  "run_state (createUpdateRoles mem_reconciler (IndexerClusterRole sampleSearch)) (mem_world [OClusterRoleBinding staleBinding])
     = (done_ok, mem_world [OClusterRoleBinding staleBinding, OClusterRole (IndexerClusterRole sampleSearch)])"
  "run_state (createRoleBinding mem_reconciler (IndexerClusterRoleBinding sampleSearch)) (mem_world [OClusterRoleBinding staleBinding])
     = (done_ok, mem_world [OClusterRoleBinding (IndexerClusterRoleBinding sampleSearch)])"
  by (simp_all add: createUpdateRoles_def createRoleBinding_def replaceBinding_def staleBinding_def IndexerClusterRole_def
      IndexerClusterRoleBinding_def bindRole_def getRoleName_def getRoleBindingName_def mem_run_simps mem_delete_def erase_def)

theorem roles_and_bindings_converge_witness:
  "\<exists>y. mem_view (snd (run_state (createRoleBinding mem_reconciler (IndexerClusterRoleBinding sampleSearch))
        (mem_world [OClusterRoleBinding staleBinding])))
      (metaKey KClusterRoleBinding (crb_meta (IndexerClusterRoleBinding sampleSearch))) = Some (OClusterRoleBinding y)
    \<and> crb_RoleRef y = crb_RoleRef (IndexerClusterRoleBinding sampleSearch)"
proof -
  have "live mem_view (mem_world [OClusterRoleBinding staleBinding])"
    by (rule mem_world_live) (simp add: staleBinding_def bindRole_def terminated_def)
  moreover have "\<not> terminated (OClusterRole (IndexerClusterRole sampleSearch))"
    "\<not> terminated (OClusterRoleBinding (IndexerClusterRoleBinding sampleSearch))"
    by (simp_all add: IndexerClusterRole_def IndexerClusterRoleBinding_def bindRole_def terminated_def)
  ultimately show ?thesis
    using roles_and_bindings_converge [where r = mem_reconciler, unfolded mem_reconciler_simps,
        OF mem_kube_api _ _ _ stale_binding_runs] stale_binding_runs(2) by auto
qed

section \<open>What a finalization removes\<close>

text \<open>
  \<open>clears objs k m\<close>: when \<open>m\<close> reports no error, the object of the key \<open>k\<close> is gone, unless it
  has finalizers of its own.
\<close>

definition clears :: "'w view \<Rightarrow> okey \<Rightarrow> ('w, go_error option) state \<Rightarrow> bool" where
  "clears objs k m \<longleftrightarrow> (\<forall>w w'. run_state m w = (None, w') \<longrightarrow>
     (\<forall>ob. objs w k = Some ob \<longrightarrow> Finalizers (meta_of ob) = []) \<longrightarrow> objs w' k = None)"

lemma clears_delete:
  assumes api: "kube_api c objs"
  shows "clears objs k (do { err \<leftarrow> cl_Delete c k; ret (ignoreNotFound err) })"
  unfolding clears_def
proof (intro allI impI)
  fix w w'
  assume run: "run_state (do { err \<leftarrow> cl_Delete c k; ret (ignoreNotFound err) }) w = (None, w')"
    and fin: "\<forall>ob. objs w k = Some ob \<longrightarrow> Finalizers (meta_of ob) = []"
  obtain err where d: "run_state (cl_Delete c k) w = (err, w')" and "ignoreNotFound err = None"
    using run by (cases "run_state (cl_Delete c k) w") simp
  then consider "err = None" | e where "err = Some e" "IsNotFound e"
    by (auto simp: ignoreNotFound_def split: option.splits if_splits)
  then show "objs w' k = None"
    using api_delete_ok [OF api] api_delete_missing [OF api] d fin by cases fastforce+
qed

lemma orElse_None: "orElse m (ret None) = m"
proof -
  have "run_state (orElse m (ret None)) w = run_state m w" for w
    by (cases "run_state m w") (auto simp: orElse_def split: option.splits)
  then show ?thesis by (simp add: state.expand ext)
qed

lemma orElse_ok:
  assumes "run_state (orElse m rest) w = (None, w')"
  obtains w1 where "run_state m w = (None, w1)" "run_state rest w1 = (None, w')"
  using assms by (cases "run_state m w") (auto simp: orElse_def split: option.splits)

lemma clears_chain:
  "list_all2 (\<lambda>k m. touches objs {k} m \<and> clears objs k m) ks ms \<Longrightarrow> distinct ks \<Longrightarrow> k \<in> set ks \<Longrightarrow>
     clears objs k (foldr orElse ms (ret None)) \<and> touches objs (set ks) (foldr orElse ms (ret None))"
proof (induction ks ms arbitrary: k rule: list_all2_induct)
  case (Cons j ks m ms)
  let ?rest = "foldr orElse ms (ret None)"
  have rest: "touches objs (set ks) ?rest"
  proof (cases ks)
    case Nil
    then show ?thesis using Cons.hyps(2) by (simp add: touches_ret)
  next
    case (Cons a l)
    then show ?thesis using Cons.IH [of a] Cons.prems by simp
  qed
  have "clears objs k (orElse m ?rest)"
    unfolding clears_def
  proof (intro allI impI)
    fix w w'
    assume fin: "\<forall>ob. objs w k = Some ob \<longrightarrow> Finalizers (meta_of ob) = []"
    assume "run_state (orElse m ?rest) w = (None, w')"
    then obtain w1 where w1: "run_state m w = (None, w1)" "run_state ?rest w1 = (None, w')"
      by (rule orElse_ok)
    show "objs w' k = None"
    proof (cases "k = j")
      case True
      then have "objs w1 k = None" using Cons.hyps(1) fin w1(1) by (auto simp: clears_def)
      then show ?thesis using touchesD [OF rest w1(2)] Cons.prems True by auto
    next
      case False
      then have "objs w1 k = objs w k" using touchesD [OF _ w1(1)] Cons.hyps(1) by blast
      then show ?thesis using Cons.IH [of k] Cons.prems False fin w1(2) by (auto simp: clears_def)
    qed
  qed
  moreover have "touches objs (set (j # ks)) (orElse m ?rest)"
    using Cons.hyps(1) rest by (intro touches_orElse; elim conjE touches_mono) auto
  ultimately show ?case by simp
qed simp

text \<open>The cluster-scoped objects the operator has made for its components.\<close>

definition finalizedKeys :: "okey list" where
  "finalizedKeys = [mkKey KClusterRole '''' getAddonRoleName, mkKey KClusterRoleBinding '''' getAddonRoleName,
     mkKey KClusterRoleBinding '''' (getRoleBindingName @ ''-api''),
     mkKey KClusterRoleBinding '''' (getRoleBindingName @ ''-collector''),
     mkKey KClusterRole '''' (getRoleName @ ''-indexer''), mkKey KClusterRoleBinding '''' (getRoleBindingName @ ''-indexer'')]"

lemma finalizedKeys_distinct: "distinct finalizedKeys"
  by (simp add: finalizedKeys_def mkKey_def getRoleBindingName_def getAddonRoleName_def getRoleName_def)

lemma delete_steps:
  assumes "kube_api (Client r) objs"
  shows "touches objs {mkKey KClusterRole '''' n} (deleteClusterRole r inst n) \<and> clears objs (mkKey KClusterRole '''' n) (deleteClusterRole r inst n)"
    "touches objs {mkKey KClusterRoleBinding '''' n} (deleteClusterRoleBinding r inst n) \<and> clears objs (mkKey KClusterRoleBinding '''' n) (deleteClusterRoleBinding r inst n)"
proof -
  have "mkKey KClusterRole (Namespace (s_meta inst)) n = mkKey KClusterRole '''' n"
    by (simp add: mkKey_def cluster_scoped_def)
  then show "touches objs {mkKey KClusterRole '''' n} (deleteClusterRole r inst n) \<and> clears objs (mkKey KClusterRole '''' n) (deleteClusterRole r inst n)"
    using delete_frames(1) [OF assms, of n "{mkKey KClusterRole '''' n}" inst] clears_delete [OF assms]
    by (simp add: deleteClusterRole_def)
  show "touches objs {mkKey KClusterRoleBinding '''' n} (deleteClusterRoleBinding r inst n) \<and> clears objs (mkKey KClusterRoleBinding '''' n) (deleteClusterRoleBinding r inst n)"
    using delete_frames(2) [OF assms] clears_delete [OF assms] by (simp add: deleteClusterRoleBinding_def)
qed

lemma finalizeSearch_chain:
  "finalizeSearch r inst = orElse (removeOwnerRefClusterManagementAddon r inst)
     (foldr orElse [deleteClusterRole r inst getAddonRoleName, deleteClusterRoleBinding r inst getAddonRoleName,
       deleteClusterRoleBinding r inst (getRoleBindingName @ ''-api''),
       deleteClusterRoleBinding r inst (getRoleBindingName @ ''-collector''),
       deleteClusterRole r inst (getRoleName @ ''-indexer''),
       deleteClusterRoleBinding r inst (getRoleBindingName @ ''-indexer'')] (ret None))"
  by (simp add: finalizeSearch_def orElse_None)

lemma finalizeSearch_clears:
  assumes api: "kube_api (Client r) objs"
  shows "touches objs (insert (mkKey KClusterManagementAddOn '''' ''search-collector'') (set finalizedKeys)) (finalizeSearch r inst)"
    and "k \<in> set finalizedKeys \<Longrightarrow> clears objs k (finalizeSearch r inst)"
proof -
  let ?cma = "mkKey KClusterManagementAddOn '''' ''search-collector''"
  let ?rest = "foldr orElse [deleteClusterRole r inst getAddonRoleName, deleteClusterRoleBinding r inst getAddonRoleName,
       deleteClusterRoleBinding r inst (getRoleBindingName @ ''-api''),
       deleteClusterRoleBinding r inst (getRoleBindingName @ ''-collector''),
       deleteClusterRole r inst (getRoleName @ ''-indexer''),
       deleteClusterRoleBinding r inst (getRoleBindingName @ ''-indexer'')] (ret None)"
  have chain: "clears objs k ?rest \<and> touches objs (set finalizedKeys) ?rest" if "k \<in> set finalizedKeys" for k
    by (rule clears_chain [OF _ finalizedKeys_distinct that])
      (simp only: finalizedKeys_def list_all2_Cons list_all2_Nil delete_steps [OF api] simp_thms)
  have first: "touches objs {?cma} (removeOwnerRefClusterManagementAddon r inst)"
    by (rule removeOwnerRef_frame [OF api]) simp
  have "touches objs (set finalizedKeys) ?rest"
    using chain [of "mkKey KClusterRole '''' getAddonRoleName"] by (simp only: finalizedKeys_def list.set insertI1)
  then show "touches objs (insert ?cma (set finalizedKeys)) (finalizeSearch r inst)"
    unfolding finalizeSearch_chain by (intro touches_orElse touches_mono [OF first]) (auto elim: touches_mono)
  have ne: "?cma \<notin> set finalizedKeys" by (simp add: finalizedKeys_def mkKey_def)
  show "clears objs k (finalizeSearch r inst)" if k: "k \<in> set finalizedKeys"
    unfolding clears_def finalizeSearch_chain
  proof (intro allI impI)
    fix w w'
    assume fin: "\<forall>ob. objs w k = Some ob \<longrightarrow> Finalizers (meta_of ob) = []"
    assume "run_state (orElse (removeOwnerRefClusterManagementAddon r inst) ?rest) w = (None, w')"
    then obtain w1 where w1: "run_state (removeOwnerRefClusterManagementAddon r inst) w = (None, w1)"
        "run_state ?rest w1 = (None, w')" by (rule orElse_ok)
    have "objs w1 k = objs w k" using touchesD [OF first w1(1)] k ne by (metis singletonD)
    then show "objs w' k = None" using chain [OF k] fin w1(2) by (auto simp: clears_def)
  qed
qed

end
