(* ===== verification/Reconcile.thy ===== *)
theory Reconcile
  imports Network_Policies VM_Setup RBAC CC_Merge
begin

text \<open>
  The reconciliation of the Search resource (\<open>controllers/search_controller.go\<close>): the status of
  the pods, the finalizer, and \<open>Reconcile\<close> itself, every step in the order of the code. A result
  \<open>None\<close> is a panic. What the process keeps between runs (the two \<open>sync.Once\<close> values and the image
  of the collector add-on) is a record that a run takes and returns.
\<close>

section \<open>Status of the pods\<close>

text \<open>\<open>strings.Join(strings.Split(podName, "-")[:2], "-")\<close>; a name without a dash is a panic.\<close>

definition deploymentOf :: "string \<Rightarrow> string option" where
  "deploymentOf podName = (case Split podName CHR ''-'' of a # b # _ \<Rightarrow> Some (Join [a, b] ''-'') | _ \<Rightarrow> None)"

text \<open>The condition that a \<open>Ready\<close> condition of a pod becomes.\<close>

definition readyCondition :: "string \<Rightarrow> PodCondition \<Rightarrow> Condition" where
  "readyCondition readyType c = \<lparr>cond_Type = readyType, cond_Status = pc_Status c,
     cond_LastTransitionTime = pc_LastTransitionTime c,
     cond_Reason = (if pc_Reason c \<noteq> '''' then pc_Reason c else ''None''),
     cond_Message = (if pc_Message c \<noteq> '''' then pc_Message c else ''None'')\<rparr>"

fun podConditionOf :: "string \<Rightarrow> PodCondition list \<Rightarrow> Condition \<Rightarrow> Condition" where
  "podConditionOf readyType [] podCondition = podCondition"
| "podConditionOf readyType (c # cs) podCondition =
     (if pc_Type c = ''Ready'' \<and> (podCondition = emptyCondition \<or> pc_Status c \<noteq> ''True'')
      then readyCondition readyType c else podConditionOf readyType cs podCondition)"

fun collectPods :: "Pod list \<Rightarrow> string \<Rightarrow> Condition \<Rightarrow> (string \<times> Condition) option" where
  "collectPods [] readyType podCondition = Some (readyType, podCondition)"
| "collectPods (p # ps) readyType podCondition = (case deploymentOf (Name (pod_meta p)) of
     None \<Rightarrow> None
   | Some d \<Rightarrow> collectPods ps (''Ready--'' @ d) (podConditionOf (''Ready--'' @ d) (pod_Conditions p) podCondition))"

fun replaceCondition :: "string \<Rightarrow> Condition \<Rightarrow> Condition list \<Rightarrow> Condition list" where
  "replaceCondition t c [] = [c]"
| "replaceCondition t c (d # ds) = (if cond_Type d = t then c # ds else d # replaceCondition t c ds)"

definition updateStatusCondition :: "Search \<Rightarrow> Pod list \<Rightarrow> Search option" where
  "updateStatusCondition inst podList = (case collectPods podList '''' emptyCondition of
     None \<Rightarrow> None
   | Some (readyType, podCondition) \<Rightarrow> Some (
       if podCondition = emptyCondition then inst
       else withConditions (replaceCondition readyType podCondition (Conditions (s_Status inst))) inst))"

definition missingPod :: "string \<Rightarrow> string \<Rightarrow> time \<Rightarrow> Pod" where
  "missingPod podName deploymentName now = \<lparr>pod_meta = newMeta podName '''',
     pod_Conditions = [\<lparr>pc_Type = ''Ready'', pc_Status = ''False'', pc_LastTransitionTime = now,
       pc_Reason = ''NoPodsFound'', pc_Message = ''Check status of deployment: '' @ deploymentName\<rparr>]\<rparr>"

definition updateStatus :: "'w SearchReconciler \<Rightarrow> Search \<Rightarrow> string \<Rightarrow> ('w, go_error option option) state" where
  "updateStatus r inst podName = (case deploymentOf podName of
     None \<Rightarrow> panic
   | Some deploymentName \<Rightarrow> do {
       res \<leftarrow> ListOf (Client r) asPod KPod None [(''app'', ''search''), (''name'', deploymentName)];
       case res of
         Inl err \<Rightarrow> ret (Some (Some err))
       | Inr items \<Rightarrow> do {
           now \<leftarrow> (if items = [] then Now r else ret 0);
           let podList = (if items = [] then [missingPod podName deploymentName now] else items);
           case updateStatusCondition inst podList of
             None \<Rightarrow> panic
           | Some inst \<Rightarrow> do {
               res \<leftarrow> cl_StatusUpdate (Client r) (OSearch (inst\<lparr>s_Status := (s_Status inst)\<lparr>
                 Storage := StorageClassName (DBStorage (s_Spec inst)), DB := DBNAME\<rparr>\<rparr>));
               ret (Some (errOf res))
             }
         }
     })"

section \<open>The finalizer\<close>

definition withFinalizers :: "string list \<Rightarrow> Search \<Rightarrow> Search" where
  "withFinalizers fs inst = inst\<lparr>s_meta := (s_meta inst)\<lparr>Finalizers := fs\<rparr>\<rparr>"

definition setFinalizer :: "'w SearchReconciler \<Rightarrow> Search \<Rightarrow> ('w, (bool \<times> go_error option) \<times> Search) state" where
  "setFinalizer r inst =
     (let has = lib_ContainsFinalizer (Lib r) (Finalizers (s_meta inst)) searchFinalizer
      in if DeletionTimestamp (s_meta inst) \<noteq> None then
           if has then do {
             err \<leftarrow> finalizeSearch r inst;
             case err of
               Some e \<Rightarrow> ret ((False, Some e), inst)
             | None \<Rightarrow> do {
                 (err, inst) \<leftarrow> updateInstance r
                   (withFinalizers (lib_RemoveFinalizer (Lib r) (Finalizers (s_meta inst)) searchFinalizer) inst);
                 ret ((err = None, err), inst)
               }
           } else ret ((True, None), inst)
         else if \<not> has then do {
           (err, inst) \<leftarrow> updateInstance r
             (withFinalizers (lib_AddFinalizer (Lib r) (Finalizers (s_meta inst)) searchFinalizer) inst);
           ret ((False, err), inst)
         } else ret ((False, None), inst))"

section \<open>The hub's name\<close>

definition addEnvToSearchAPI :: "'w SearchReconciler \<Rightarrow> Search \<Rightarrow> ('w, step_ret \<times> Search) state" where
  "addEnvToSearchAPI r inst = do {
     res \<leftarrow> Get (Client r) asConfigMap (mkKey KConfigMap (Namespace (s_meta inst)) SEARCH_GLOBAL_CONFIG);
     case res of
       Inl err \<Rightarrow> ret (if \<not> IsNotFound err then failWith err else done_ok, inst)
     | Inr found \<Rightarrow> do {
         (err, inst) \<leftarrow> updateSearchApiDeployment r inst (plainEnv ''HUB_NAME'' (index (cm_Data found) ''hubName''));
         ret (case err of Some e \<Rightarrow> failWith e | None \<Rightarrow> done_ok, inst)
       }
   }"

section \<open>The sequence of the steps\<close>

text \<open>
  \<open>result, err = step(); if result != nil { return *result, err }\<close> for each step of a list; then the
  steps of the optional features, which stop on an error only and change the resource in hand.
\<close>

fun runSteps :: "('w, step_ret option) state list \<Rightarrow> ('w, step_ret option) state" where
  "runSteps [] = ret (Some done_ok)"
| "runSteps (m # ms) = andThen m (\<lambda>(res, err). if res \<noteq> None then ret (Some (res, err)) else runSteps ms)"

fun runFeatures :: "(Search \<Rightarrow> ('w, (step_ret \<times> Search) option) state) list \<Rightarrow> Search
    \<Rightarrow> ('w, (step_ret \<times> Search) option) state" where
  "runFeatures [] inst = ret (Some (done_ok, inst))"
| "runFeatures (m # ms) inst = andThen (m inst) (\<lambda>((res, err), inst).
     if err \<noteq> None then ret (if res = None then None else Some ((res, err), inst)) else runFeatures ms inst)"

definition ofBuilder :: "'w SearchReconciler \<Rightarrow> go_error + ServiceAccount \<Rightarrow> ('w, step_ret option) state" where
  "ofBuilder r built = total (case built of Inl err \<Rightarrow> ret (failWith err) | Inr sa \<Rightarrow> createSearchServiceAccount r sa)"

text \<open>Accounts, roles, bindings, the webhook (an error is only logged), and the merged config.\<close>

definition accessSteps :: "'w SearchReconciler \<Rightarrow> Search \<Rightarrow> ('w, step_ret option) state list" where
  "accessSteps r inst = [
     total (createSearchServiceAccount r (SearchAPIServiceAccount r inst)),
     ofBuilder r (SearchPostgresServiceAccount r inst),
     ofBuilder r (SearchIndexerServiceAccount r inst),
     total (createSearchServiceAccount r (SearchCollectorServiceAccount r inst)),
     total (createUpdateRoles r (IndexerClusterRole inst)),
     total (createUpdateRoles r (AddonClusterRole inst)),
     total (createUpdateRoles r (GlobalSearchUserClusterRole inst)),
     total (createRoleBinding r (APIClusterRoleBinding (Getenv r) inst)),
     total (createRoleBinding r (CollectorClusterRoleBinding (Getenv r) inst)),
     total (createRoleBinding r (IndexerClusterRoleBinding inst)),
     total (do { err \<leftarrow> ensureWebhookCAInjection r; ret done_ok }),
     total (createOrUpdateMergedCollectorConfig r inst)]"

text \<open>Secrets and service of the database, its config map, and the deployment with the hash of the config map.\<close>

definition databaseConfigured :: "'w SearchReconciler \<Rightarrow> tlslib \<Rightarrow> Search \<Rightarrow> ('w, step_ret option) state" where
  "databaseConfigured r tls inst = withDynamic r (\<lambda>dyn. total (do {
     pgTLS \<leftarrow> getPostgresTLSConfig dyn tls;
     pgConfigMap \<leftarrow> PostgresConfigmap r inst pgTLS;
     (step, pgConfigMap) \<leftarrow> createOrUpdateConfigMap r pgConfigMap;
     if fst step \<noteq> None then ret step
     else do {
       pg \<leftarrow> PGDeployment r inst (postgresConfigHash (Lib r) (cm_Data pgConfigMap));
       createOrUpdateDeployment r pg
     }
   }))"

definition databaseSteps ::
  "'w SearchReconciler \<Rightarrow> tlslib \<Rightarrow> ('w, nat) state \<Rightarrow> Search \<Rightarrow> ('w, step_ret option) state list" where
  "databaseSteps r tls source inst = [
     total (do { secret \<leftarrow> PGSecret r source inst; createSecret r secret }),
     total (do { secret \<leftarrow> APIReadonlySecret r source inst; createSecret r secret }),
     total (do { secret \<leftarrow> MCPReadonlySecret r source inst; createSecret r secret }),
     total (createService r (PGService r inst)),
     databaseConfigured r tls inst]"

text \<open>Services and monitors; a failure of the collector's service does not stop the run.\<close>

definition serviceSteps :: "'w SearchReconciler \<Rightarrow> Search \<Rightarrow> ('w, step_ret option) state list" where
  "serviceSteps r inst = [
     total (createService r (IndexerService r inst)),
     total (createService r (APIService r inst)),
     total (do { step \<leftarrow> createService r (CollectorService r inst); ret done_ok }),
     total (createServiceMonitor r (ServiceMonitor inst ''search-indexer'' (Namespace (s_meta inst)))),
     total (createServiceMonitor r (ServiceMonitor inst ''search-api'' (Namespace (s_meta inst)))),
     total (createServiceMonitor r (CollectorServiceMonitor inst ''search-collector'' (Namespace (s_meta inst))))]"

definition workloadsDeployed :: "'w SearchReconciler \<Rightarrow> tlslib \<Rightarrow> Search \<Rightarrow> ('w, step_ret option) state" where
  "workloadsDeployed r tls inst = withDynamic r (\<lambda>dyn. do {
     tlsEnvVars \<leftarrow> getTLSEnvVars dyn tls;
     runSteps [
       total (do { d \<leftarrow> CollectorDeployment r dyn inst tlsEnvVars; createOrUpdateDeployment r d }),
       total (createOrUpdateDeployment r (IndexerDeployment r inst tlsEnvVars)),
       total (createOrUpdateDeployment r (APIDeployment r inst tlsEnvVars))]
   })"

definition workloadSteps :: "'w SearchReconciler \<Rightarrow> tlslib \<Rightarrow> Search \<Rightarrow> ('w, step_ret option) state list" where
  "workloadSteps r tls inst = [
     workloadsDeployed r tls inst,
     total (reconcileNetworkPolicies r inst),
     total (createConfigMap r (IndexerConfigmap r inst)),
     total (createConfigMap r (SearchCACert r inst))]"

definition featureSteps :: "'w SearchReconciler \<Rightarrow> (Search \<Rightarrow> ('w, (step_ret \<times> Search) option) state) list" where
  "featureSteps r = [
     reconcileGlobalSearch r,
     \<lambda>inst. total (addEnvToSearchAPI r inst),
     \<lambda>inst. total (reconcileFineGrainedRBACConfiguration r inst),
     reconcileVirtualMachineConfiguration r]"

text \<open>The one-time clean-up, whose errors are logged, and the removal of what older releases made.\<close>

definition cleanUpOnce :: "'w SearchReconciler \<Rightarrow> Search \<Rightarrow> ('w, unit) state" where
  "cleanUpOnce r inst = do {
     _ \<leftarrow> deleteLegacyServiceMonitorSetup r inst;
     err \<leftarrow> removeOwnerRefClusterManagementAddon r inst;
     ret ()
   }"

definition removeLegacyRBAC :: "'w SearchReconciler \<Rightarrow> Search \<Rightarrow> ('w, go_error option) state" where
  "removeLegacyRBAC r inst =
     orElse (deleteClusterRole r inst getRoleName)
     (orElse (deleteClusterRoleBinding r inst getRoleBindingName)
     (do {
        err \<leftarrow> cl_Delete (Client r) (mkKey KServiceAccount (Namespace (s_meta inst)) ''search-serviceaccount'');
        ret (ignoreNotFound err)
      }))"

section \<open>The reconciliation\<close>

record process_state =
  addonStarted :: bool
  cleaned :: bool
  SearchCollectorImage :: string

text \<open>
  \<open>addon.CreateAddonOnce\<close>: a trusted image override of the collector becomes the image of the
  add-on, whose manager then runs on its own.
\<close>

definition CreateAddonOnce :: "Search \<Rightarrow> process_state \<Rightarrow> process_state" where
  "CreateAddonOnce inst p =
     (let override = ImageOverride (Collector (Deployments (s_Spec inst)))
      in if override \<noteq> '''' \<and> ValidateImageRepo override = None then p\<lparr>SearchCollectorImage := override\<rparr> else p)"

definition startOnce :: "Search \<Rightarrow> process_state \<Rightarrow> process_state" where
  "startOnce inst p = (if addonStarted p then p else CreateAddonOnce inst (p\<lparr>addonStarted := True\<rparr>))"

type_synonym outcome = "Result \<times> go_error option"

definition outcomeOf :: "step_ret \<Rightarrow> outcome option" where
  "outcomeOf step = (case fst step of None \<Rightarrow> None | Some res \<Rightarrow> Some (res, snd step))"

abbreviation finished :: "process_state \<Rightarrow> outcome \<Rightarrow> ('w, outcome option \<times> process_state) state" where
  "finished p out \<equiv> ret (Some out, p)"

text \<open>What follows the features: the alerts and the clean-ups.\<close>

definition conclude ::
  "'w SearchReconciler \<Rightarrow> process_state \<Rightarrow> Search \<Rightarrow> ('w, outcome option \<times> process_state) state" where
  "conclude r p inst = do {
     step \<leftarrow> createOrUpdatePrometheusRule r (SearchPVCPrometheusRule r inst);
     if fst step \<noteq> None then ret (outcomeOf step, p)
     else do {
       _ \<leftarrow> (if cleaned p then ret () else cleanUpOnce r inst);
       let p = p\<lparr>cleaned := True\<rparr>;
       err \<leftarrow> removeLegacyRBAC r inst;
       finished p (emptyResult, err)
     }
   }"

definition reconcileResources ::
  "'w SearchReconciler \<Rightarrow> tlslib \<Rightarrow> ('w, nat) state \<Rightarrow> process_state \<Rightarrow> Search
    \<Rightarrow> ('w, outcome option \<times> process_state) state" where
  "reconcileResources r tls source p inst = do {
     step \<leftarrow> runSteps (accessSteps r inst @ databaseSteps r tls source inst @ serviceSteps r inst @ workloadSteps r tls inst);
     case step of
       None \<Rightarrow> ret (None, p)
     | Some step \<Rightarrow>
         if fst step \<noteq> None then ret (outcomeOf step, p)
         else do {
           feature \<leftarrow> runFeatures (featureSteps r) inst;
           case feature of
             None \<Rightarrow> ret (None, p)
           | Some (step, inst) \<Rightarrow> if snd step \<noteq> None then ret (outcomeOf step, p) else conclude r p inst
         }
   }"

definition storageReady :: "'w SearchReconciler \<Rightarrow> Search \<Rightarrow> ('w, bool) state" where
  "storageReady r inst =
     (if StorageClassName (DBStorage (s_Spec inst)) = '''' then ret True
      else do { present \<leftarrow> isPVCPresent r inst; if present then ret True else configurePVC r inst })"

definition reconcileActive ::
  "'w SearchReconciler \<Rightarrow> tlslib \<Rightarrow> ('w, nat) state \<Rightarrow> process_state \<Rightarrow> Search
    \<Rightarrow> ('w, outcome option \<times> process_state) state" where
  "reconcileActive r tls source p inst =
     (if IsPaused (Annotations (s_meta inst)) then finished p (emptyResult, None)
      else do {
        ready \<leftarrow> storageReady r inst;
        if \<not> ready then finished p (\<lparr>RequeueAfter = 10000000000, Requeue = True\<rparr>, None)
        else reconcileResources r tls source p inst
      })"

definition Reconcile ::
  "'w SearchReconciler \<Rightarrow> tlslib \<Rightarrow> ('w, nat) state \<Rightarrow> process_state \<Rightarrow> string \<Rightarrow> string
    \<Rightarrow> ('w, outcome option \<times> process_state) state" where
  "Reconcile r tls source p reqName reqNamespace = do {
     res \<leftarrow> Get (Client r) asSearch (mkKey KSearch reqNamespace OperatorName);
     case res of
       Inl err \<Rightarrow> finished p (emptyResult, if IsNotFound err then None else Some err)
     | Inr inst \<Rightarrow> do {
         let p = startOnce inst p;
         if HasPrefix reqName ''Pod/'' then do {
           err \<leftarrow> updateStatus r inst (Split reqName CHR ''/'' ! 1);
           ret (map_option (\<lambda>err. (emptyResult, err)) err, p)
         } else do {
           ((deleted, err), inst) \<leftarrow> setFinalizer r inst;
           if err \<noteq> None \<or> deleted then finished p (emptyResult, err)
           else reconcileActive r tls source p inst
         }
       }
   }"

end
