(* ===== verification/Reconcile_Steps.thy ===== *)
theory Reconcile_Steps
  imports Reconcile
begin

text \<open>
  What each step of the reconciliation changes and what it leaves in place, and how that adds up over a
  sequence of steps with separate keys.
\<close>

section \<open>Steps that install objects\<close>

text \<open>
  \<open>installs objs K ks m\<close>: the step changes objects of the keys \<open>K\<close> only; it ends the run with an
  error only, and when it lets the run continue it has reported none and the objects of the keys
  \<open>ks\<close> are there. The objects it updates must not be in the last moment of their deletion.
\<close>

definition installs :: "'w view \<Rightarrow> okey set \<Rightarrow> okey set \<Rightarrow> ('w, step_ret option) state \<Rightarrow> bool" where
  "installs objs K ks m \<longleftrightarrow> touches objs K m \<and> ks \<subseteq> K
     \<and> (\<forall>w res err w'. run_state m w = (Some (Some res, err), w') \<longrightarrow> err \<noteq> None)
     \<and> (\<forall>w err w'. run_state m w = (Some (None, err), w') \<longrightarrow> (\<forall>k \<in> K. alive objs w k) \<longrightarrow>
          err = None \<and> (\<forall>k \<in> ks. objs w' k \<noteq> None))"

lemma installsD:
  "installs objs K ks m \<Longrightarrow> touches objs K m" "installs objs K ks m \<Longrightarrow> ks \<subseteq> K"
  "installs objs K ks m \<Longrightarrow> run_state m w = (Some (None, err), w') \<Longrightarrow> (\<And>k. k \<in> K \<Longrightarrow> alive objs w k) \<Longrightarrow>
     err = None \<and> (\<forall>k \<in> ks. objs w' k \<noteq> None)"
  "installs objs K ks m \<Longrightarrow> run_state m w = (Some (Some res, err), w') \<Longrightarrow> err \<noteq> None"
  unfolding installs_def by blast+

lemma alive_cong: "objs w' k = objs w k \<Longrightarrow> alive objs w' k = alive objs w k"
  by (simp add: alive_def)

fun separate :: "(okey set \<times> okey set) list \<Rightarrow> bool" where
  "separate [] = True"
| "separate ((K, ks) # specs) = (list_all (\<lambda>(K', ks'). K \<inter> K' = {}) specs \<and> separate specs)"

abbreviation fields :: "(okey set \<times> okey set) list \<Rightarrow> okey set" where
  "fields specs \<equiv> \<Union>(fst ` set specs)"

abbreviation yields :: "(okey set \<times> okey set) list \<Rightarrow> okey set" where
  "yields specs \<equiv> \<Union>(snd ` set specs)"

lemma installs_runSteps:
  "list_all2 (\<lambda>(K, ks) m. installs objs K ks m) specs ms \<Longrightarrow> separate specs \<Longrightarrow>
     installs objs (fields specs) (yields specs) (runSteps ms)"
proof (induction specs ms rule: list_all2_induct)
  case Nil
  then show ?case by (simp add: installs_def touches_ret done_ok_def)
next
  case (Cons spec specs m ms)
  obtain K ks where spec: "spec = (K, ks)" by fastforce
  have m: "installs objs K ks m" using Cons.hyps(1) spec by simp
  have rest: "installs objs (fields specs) (yields specs) (runSteps ms)" using Cons.IH Cons.prems spec by simp
  have apart: "K \<inter> fields specs = {}" using Cons.prems spec by (fastforce simp: list_all_iff)
  show ?case
    unfolding installs_def
  proof (intro conjI allI impI)
    show "touches objs (fields (spec # specs)) (runSteps (m # ms))"
      unfolding runSteps.simps
      by (intro touches_andThen touches_case_prod touches_if touches_ret touches_mono [OF installsD(1) [OF m]]
          touches_mono [OF installsD(1) [OF rest]]) (auto simp: spec)
    show "yields (spec # specs) \<subseteq> fields (spec # specs)"
      using installsD(2) [OF m] installsD(2) [OF rest] by (auto simp: spec)
    show "err \<noteq> None" if ends: "run_state (runSteps (m # ms)) w = (Some (Some res, err), w')" for w res err w'
    proof -
      from ends obtain step w1 where "run_state m w = (Some step, w1)"
        "run_state (case step of (res, e) \<Rightarrow> if res \<noteq> None then ret (Some (res, e)) else runSteps ms) w1
          = (Some (Some res, err), w')" unfolding runSteps.simps by (rule andThen_ok)
      then show ?thesis
        using installsD(4) [OF m, of w _ _ w1] installsD(4) [OF rest, of w1 res err w']
        by (cases step; cases "fst step") (auto split: if_splits)
    qed
    fix w err w'
    assume run: "run_state (runSteps (m # ms)) w = (Some (None, err), w')"
      and live: "\<forall>k \<in> fields (spec # specs). alive objs w k"
    from run obtain step w1 where first: "run_state m w = (Some step, w1)"
      and next': "run_state (case step of (res, e) \<Rightarrow> if res \<noteq> None then ret (Some (res, e)) else runSteps ms) w1
        = (Some (None, err), w')" unfolding runSteps.simps by (rule andThen_ok)
    obtain res e where step: "step = (res, e)" by fastforce
    have "res = None" using next' step by (auto split: if_splits)
    note first = first [unfolded step this]
    have cont: "run_state (runSteps ms) w1 = (Some (None, err), w')" using next' step \<open>res = None\<close> by simp
    have here: "\<forall>k \<in> ks. objs w1 k \<noteq> None" using installsD(3) [OF m first] live spec by auto
    have "alive objs w1 k" if "k \<in> fields specs" for k
    proof -
      have "k \<notin> K" using apart that by blast
      from alive_cong [of objs w1 k w, OF touchesD [OF installsD(1) [OF m] first this]] show ?thesis using live that spec by auto
    qed
    note later = installsD(3) [OF rest cont this]
    have "objs w' k \<noteq> None" if "k \<in> ks" for k
    proof -
      have "k \<notin> fields specs" using that installsD(2) [OF m] apart by blast
      from touchesD [OF installsD(1) [OF rest] cont this] show ?thesis using here that by simp
    qed
    then show "err = None" "\<forall>k \<in> yields (spec # specs). objs w' k \<noteq> None" using later spec by auto
  qed
qed

text \<open>
  Each step of a sequence that lets the run continue has itself done so, from a state in which its objects
  were still those of the beginning to one in which they are already those of the end.
\<close>

lemma runSteps_step:
  "list_all2 (\<lambda>(K, ks) m. installs objs K ks m) specs ms \<Longrightarrow> separate specs \<Longrightarrow> (\<forall>k \<in> fields specs. alive objs w k) \<Longrightarrow>
     run_state (runSteps ms) w = (Some (None, err), w') \<Longrightarrow> ((K, ks), m) \<in> set (zip specs ms) \<Longrightarrow>
     \<exists>v v'. run_state m v = (Some (None, None), v') \<and> (\<forall>k \<in> K. objs v k = objs w k \<and> objs w' k = objs v' k)"
proof (induction specs ms arbitrary: w rule: list_all2_induct)
  case (Cons spec specs n ms)
  obtain N ns where spec: "spec = (N, ns)" by fastforce
  have n: "installs objs N ns n" using Cons.hyps(1) spec by simp
  have rest: "installs objs (fields specs) (yields specs) (runSteps ms)"
    using installs_runSteps [OF Cons.hyps(2)] Cons.prems(1) spec by simp
  have apart: "N \<inter> fields specs = {}" using Cons.prems(1) spec by (fastforce simp: list_all_iff)
  from Cons.prems(3) obtain step w1 where first: "run_state n w = (Some step, w1)"
    and next': "run_state (case step of (res, e) \<Rightarrow> if res \<noteq> None then ret (Some (res, e)) else runSteps ms) w1
      = (Some (None, err), w')" unfolding runSteps.simps by (rule andThen_ok)
  obtain res e where step: "step = (res, e)" by fastforce
  have "res = None" using next' step by (auto split: if_splits)
  note first = first [unfolded step this]
  have cont: "run_state (runSteps ms) w1 = (Some (None, err), w')" using next' step \<open>res = None\<close> by simp
  have "e = None" using installsD(3) [OF n first] Cons.prems(2) spec by auto
  have before: "objs w1 k = objs w k" if "k \<notin> N" for k by (rule touchesD [OF installsD(1) [OF n] first that])
  have after: "objs w' k = objs w1 k" if "k \<notin> fields specs" for k by (rule touchesD [OF installsD(1) [OF rest] cont that])
  from Cons.prems(4) consider "((K, ks), m) = (spec, n)" | "((K, ks), m) \<in> set (zip specs ms)" by auto
  then show ?case
  proof cases
    case 1
    then have "\<forall>k \<in> K. objs w k = objs w k \<and> objs w' k = objs w1 k" using after apart spec by blast
    then show ?thesis using first 1 \<open>e = None\<close> by blast
  next
    case 2
    have "\<forall>k \<in> fields specs. alive objs w1 k"
      using Cons.prems(2) apart alive_cong [of objs w1 _ w, OF before] by auto
    from Cons.IH [OF _ this cont 2] Cons.prems(1) spec obtain v v' where
      v: "run_state m v = (Some (None, None), v')" "\<forall>k \<in> K. objs v k = objs w1 k \<and> objs w' k = objs v' k" by auto
    have "K \<subseteq> fields specs" using set_zip_leftD [OF 2] by force
    then have "k \<notin> N" if "k \<in> K" for k using apart that by blast
    then have "\<forall>k \<in> K. objs v k = objs w k \<and> objs w' k = objs v' k" using v(2) before by simp
    then show ?thesis using v(1) by blast
  qed
qed simp

lemma total_done: "run_state (total m) w = (Some (None, None), w') \<Longrightarrow> run_state m w = (done_ok, w')"
  by (auto simp: run_total done_ok_def split: prod.splits)

lemma runSteps_append:
  "run_state (runSteps (ms @ ns)) w = run_state (andThen (runSteps ms)
     (\<lambda>(res, err). if res \<noteq> None then ret (Some (res, err)) else runSteps ns)) w"
proof (induction ms arbitrary: w)
  case Nil
  then show ?case by (simp add: run_andThen done_ok_def)
next
  case (Cons m ms)
  then show ?case by (auto simp: run_andThen split: prod.splits option.splits)
qed

text \<open>A step reports success with \<open>nil, nil\<close> or fails with a result and an error.\<close>

definition tidy :: "('w, step_ret) state \<Rightarrow> bool" where
  "tidy m \<longleftrightarrow> (\<forall>w. fst (run_state m w) = done_ok \<or> (\<exists>e. fst (run_state m w) = failWith e))"

lemma tidy_ret [intro]: "tidy (ret done_ok)" "tidy (ret (failWith e))"
  by (auto simp: tidy_def)

lemma tidy_ret_case [intro]: "tidy (ret (case x of Inl e \<Rightarrow> failWith e | Inr y \<Rightarrow> done_ok))"
  by (auto simp: tidy_def split: sum.split)

lemma tidy_bind [intro]: "(\<And>x. tidy (f x)) \<Longrightarrow> tidy (State_Monad.bind m f)"
  by (auto simp: tidy_def split: prod.split)

lemma tidy_if [intro]: "tidy m \<Longrightarrow> tidy n \<Longrightarrow> tidy (if b then m else n)"
  by simp

lemma tidy_case [intro]:
  "(\<And>a. tidy (f a)) \<Longrightarrow> (\<And>b. tidy (g b)) \<Longrightarrow> tidy (case s of Inl a \<Rightarrow> f a | Inr b \<Rightarrow> g b)"
  by (simp split: sum.split)

lemma tidyD: "tidy m \<Longrightarrow> run_state m w = ((None, err), w') \<Longrightarrow> err = None"
  unfolding tidy_def by (metis (no_types, lifting) done_ok_def failWith_def fst_conv option.distinct(1) prod.inject)

lemma tidyF: "tidy m \<Longrightarrow> run_state m w = ((Some res, err), w') \<Longrightarrow> err \<noteq> None"
  unfolding tidy_def by (metis (no_types, lifting) done_ok_def failWith_def fst_conv option.distinct(1) prod.inject)

lemma installs_total:
  assumes "touches objs K m" "tidy m" "ks \<subseteq> K"
    "\<And>w w'. run_state m w = (done_ok, w') \<Longrightarrow> (\<And>k. k \<in> K \<Longrightarrow> alive objs w k) \<Longrightarrow> \<forall>k \<in> ks. objs w' k \<noteq> None"
  shows "installs objs K ks (total m)"
  unfolding installs_def
proof (intro conjI allI impI assms(1,3) touches_total)
  show "err \<noteq> None" if "run_state (total m) w = (Some (Some res, err), w')" for w res err w'
    using that tidyF [OF assms(2)] by (auto simp: run_total split: prod.splits)
  fix w err w'
  assume run: "run_state (total m) w = (Some (None, err), w')" and live: "\<forall>k \<in> K. alive objs w k"
  then have m: "run_state m w = ((None, err), w')" by (auto simp: run_total split: prod.splits)
  from tidyD [OF assms(2) m] show err: "err = None" .
  from assms(4) m live err show "\<forall>k \<in> ks. objs w' k \<noteq> None" by (simp add: done_ok_def)
qed

lemma installs_nothing: "touches objs K m \<Longrightarrow> tidy m \<Longrightarrow> installs objs K {} (total m)"
  by (rule installs_total) auto

section \<open>The writers as steps\<close>

lemma tidy_writers [intro]:
  "tidy (createSearchServiceAccount r sa)" "tidy (createUpdateRoles r role)" "tidy (createRoleBinding r binding)"
  "tidy (createService r svc)" "tidy (createSecret r secret)" "tidy (createServiceMonitor r sm)"
  "tidy (createConfigMap r cm)" "tidy (createOrUpdateDeployment r d)" "tidy (createOrUpdateNetworkPolicy r np)"
  "tidy (createOrUpdatePrometheusRule r rule)"
proof -
  show "tidy (createRoleBinding r binding)"
    unfolding createRoleBinding_def replaceBinding_def
    by (intro tidy_bind tidy_case tidy_if tidy_ret) (auto intro: tidy_bind tidy_case tidy_if split: option.split)
qed (unfold createSearchServiceAccount_def createUpdateRoles_def createService_def createSecret_def createServiceMonitor_def
    createConfigMap_def createOrUpdateDeployment_def createOrUpdateNetworkPolicy_def createOrUpdatePrometheusRule_def,
    (intro tidy_bind tidy_case tidy_if tidy_ret)+)

abbreviation plain :: "okey \<Rightarrow> okey set \<times> okey set" where "plain k \<equiv> ({k}, {})"
abbreviation made :: "okey \<Rightarrow> okey set \<times> okey set" where "made k \<equiv> ({k}, {k})"

text \<open>The writers of the interfaces of \<open>Write_Operations\<close>.\<close>

context create_if_missing
begin

lemma installs_made:
  assumes "kube_api (Client r) objs" "tidy (op r x)" "key_of (con x) = k"
  shows "installs objs {k} {k} (total (op r x))"
  using frame [OF assms(1), of x] assms(2,3) present_after [OF assms(1), of x]
  by (intro installs_total) auto

end

context desired_writer
begin

lemma installs_made:
  assumes "kube_api (Client r) objs" "tidy (op r x)" "key_of (con x) = k" "\<not> terminated (con x)"
  shows "installs objs {k} {k} (total (op r x))"
  using frame [OF assms(1), of x] assms(2,3) reaches [OF assms(1) _ assms(4)]
  by (intro installs_total) fastforce+

end

lemma createOrUpdateDeployment_installs:
  assumes api: "kube_api (Client r) objs" and key: "metaKey KDeployment (dep_meta d) = k" and nt: "DeletionTimestamp (dep_meta d) = None"
  shows "touches objs {k} (createOrUpdateDeployment r d)"
    and "run_state (createOrUpdateDeployment r d) w = (done_ok, w') \<Longrightarrow> objs w' k \<noteq> None"
proof -
  show "touches objs {k} (createOrUpdateDeployment r d)"
    unfolding createOrUpdateDeployment_def using api key
    by (intro touches_bind touches_Get touches_case_sum touches_if touches_ret touches_Create touches_Update) simp_all
  assume run: "run_state (createOrUpdateDeployment r d) w = (done_ok, w')"
  obtain g w1 where g: "run_state (Get (Client r) asDeployment k) w = (g, w1)" by fastforce
  show "objs w' k \<noteq> None"
  proof (cases g)
    case (Inl e)
    obtain c w2 where c: "run_state (cl_Create (Client r) (ODeployment d)) w1 = (c, w2)" by fastforce
    have "IsNotFound e" using run g Inl key by (auto simp: createOrUpdateDeployment_def split: if_splits)
    then obtain ob where "c = Inr ob" "w2 = w'"
      using run g Inl key c by (cases c) (auto simp: createOrUpdateDeployment_def)
    from create_stores [OF api c [unfolded this]] key show ?thesis by auto
  next
    case (Inr found)
    have "objs w1 k \<noteq> None"
      using Get_found [OF api decodes_kinds(6) g [unfolded Inr]] Get_view [OF api g] by simp
    moreover obtain u w2 where u: "run_state (cl_Update (Client r) (ODeployment d)) w1 = (u, w2)" by fastforce
    moreover have "\<not> terminated (ODeployment d)" using nt by (simp add: terminated_def)
    ultimately have "objs w2 k \<noteq> None" using api_update_keeps [OF api u] key by simp
    then show ?thesis
      using run g Inr key u \<open>objs w1 k \<noteq> None\<close>
      by (auto simp: createOrUpdateDeployment_def split: if_splits sum.splits)
  qed
qed

lemma createOrUpdateConfigMap_installs:
  assumes api: "kube_api (Client r) objs" and key: "metaKey KConfigMap (cm_meta cm) = k"
  shows "touches objs {k} (createOrUpdateConfigMap r cm)"
proof -
  have "touches objs {k} (updateConfigMap r found cm)" for found
    unfolding updateConfigMap_def Let_def using api key
    by (intro touches_if touches_bind touches_case_sum touches_ret touches_Update) simp_all
  then show ?thesis
    unfolding createOrUpdateConfigMap_def using api key
    by (intro touches_bind touches_Get touches_case_sum touches_if touches_ret touches_Create) simp_all
qed

lemma createOrUpdateConfigMap_ok:
  assumes api: "kube_api (Client r) objs" and key: "metaKey KConfigMap (cm_meta cm) = k" and nt: "DeletionTimestamp (cm_meta cm) = None"
    and run: "run_state (createOrUpdateConfigMap r cm) w = ((step, cm'), w')"
  shows "step = done_ok \<or> (\<exists>e. step = failWith e)"
  using run by (auto simp: createOrUpdateConfigMap_def updateConfigMap_def Let_def split: prod.splits sum.splits if_splits)

lemma merge_tidy: "tidy (createOrUpdateMergedCollectorConfig r inst)"
  unfolding createOrUpdateMergedCollectorConfig_def writeMerged_def Let_def
  by (intro tidy_bind tidy_case tidy_if tidy_ret tidy_ret_case)

lemma ensureWebhookCAInjection_frame:
  assumes api: "kube_api (Client r) objs"
  shows "touches objs {mkKey KWebhookConfiguration '''' webhookConfigName} (ensureWebhookCAInjection r)"
  unfolding ensureWebhookCAInjection_def
  by (intro touches_bind_result [OF touches_Get [OF api]] touches_case_sum touches_if touches_ret touches_bind touches_Update [OF api])
    (auto dest!: Get_found [OF api decodes_kinds(15)])

lemma writePolicies_tidy: "tidy (writePolicies r nps)"
proof (induction nps)
  case (Cons np nps)
  show ?case
    unfolding tidy_def
  proof
    fix w
    obtain res err w1 where first: "run_state (createOrUpdateNetworkPolicy r np) w = ((res, err), w1)" by (metis surj_pair)
    have "(res, err) = done_ok \<or> (\<exists>e. (res, err) = failWith e)"
      using tidy_writers(9) [of r np] first unfolding tidy_def by (metis fst_conv)
    then show "fst (run_state (writePolicies r (np # nps)) w) = done_ok
        \<or> (\<exists>e. fst (run_state (writePolicies r (np # nps)) w) = failWith e)"
      using Cons first unfolding tidy_def by (auto simp: ret_defs)
  qed
qed (simp add: tidy_ret)

section \<open>Steps that read and build first\<close>

definition dynamic_typed :: "'w SearchReconciler \<Rightarrow> 'w view \<Rightarrow> bool" where
  "dynamic_typed r objs \<longleftrightarrow> (\<forall>dyn. DynamicClient r = Some dyn \<longrightarrow> dyn_typed dyn objs featureGvrs)"

lemma reads_touch_nothing:
  "kube_api (Client r) objs \<Longrightarrow> touches objs K (GetDBConfigFromSearchCR r inst name)"
  "kube_api (Client r) objs \<Longrightarrow> touches objs K (PostgresConfigmap r inst pgTLS)"
  "kube_api (Client r) objs \<Longrightarrow> touches objs K (PGDeployment r inst h)"
  "dyn_typed dyn objs F \<Longrightarrow> touches objs K (getPostgresTLSConfig dyn tls)"
  "dyn_typed dyn objs F \<Longrightarrow> touches objs K (getTLSEnvVars dyn tls)"
  "dyn_typed dyn objs F \<Longrightarrow> touches objs K (CollectorDeployment r dyn inst env)"
proof -
  show db: "touches objs K (GetDBConfigFromSearchCR r inst name)" if "kube_api (Client r) objs" for name
    unfolding GetDBConfigFromSearchCR_def getDBConfigData_def Let_def using that
    by (intro touches_bind touches_if touches_ret touches_Get touches_case_option)
  show "kube_api (Client r) objs \<Longrightarrow> touches objs K (PostgresConfigmap r inst pgTLS)"
    "kube_api (Client r) objs \<Longrightarrow> touches objs K (PGDeployment r inst h)"
    unfolding PostgresConfigmap_def PGDeployment_def Let_def by (intro touches_bind touches_ret db; assumption)+
  show "dyn_typed dyn objs F \<Longrightarrow> touches objs K (getPostgresTLSConfig dyn tls)"
    "dyn_typed dyn objs F \<Longrightarrow> touches objs K (getTLSEnvVars dyn tls)"
    unfolding getPostgresTLSConfig_def getTLSEnvVars_def fetchTLSProfileSpec_def Let_def
    by (intro touches_bind touches_ret touches_dyn(1); assumption)+
  show "dyn_typed dyn objs F \<Longrightarrow> touches objs K (CollectorDeployment r dyn inst env)"
    unfolding CollectorDeployment_def getClusterNameFromMCH_def
    by (intro touches_bind touches_ret touches_case_prod touches_dyn(2); assumption)
qed

lemma PostgresConfigmap_made:
  assumes setref: "setref_contract (Lib r)" and run: "run_state (PostgresConfigmap r inst pgTLS) w = (cm, w')"
  shows "metaKey KConfigMap (cm_meta cm) = mkKey KConfigMap (Namespace (s_meta inst)) postgresConfigmapName
    \<and> DeletionTimestamp (cm_meta cm) = None \<and> conf cm \<noteq> ''''"
proof -
  have "cm_meta cm = withOwner (Lib r) inst
      ((newMeta postgresConfigmapName (Namespace (s_meta inst)))\<lparr>Labels := mapOf [(backupLabel, '''')]\<rparr>)"
    "conf cm = postgresqlConf pgTLS"
    using run by (auto simp: PostgresConfigmap_def Let_def split: prod.splits)
  then show ?thesis
    by (simp add: metaKey_withOwner [OF setref] DeletionTimestamp_withOwner [OF setref] postgresqlConf_def)
qed

lemma deployment_keys:
  assumes "setref_contract (Lib r)"
  shows "metaKey KDeployment (dep_meta (APIDeployment r inst env)) = mkKey KDeployment (Namespace (s_meta inst)) apiDeploymentName"
    "metaKey KDeployment (dep_meta (IndexerDeployment r inst env)) = mkKey KDeployment (Namespace (s_meta inst)) indexerDeploymentName"
    "metaKey KDeployment (dep_meta (collectorDeployment r inst env cn)) = mkKey KDeployment (Namespace (s_meta inst)) collectorDeploymentName"
    "metaKey KDeployment (dep_meta (postgresDeployment r inst h m)) = mkKey KDeployment (Namespace (s_meta inst)) postgresDeploymentName"
    "DeletionTimestamp (dep_meta (APIDeployment r inst env)) = None" "DeletionTimestamp (dep_meta (IndexerDeployment r inst env)) = None"
    "DeletionTimestamp (dep_meta (collectorDeployment r inst env cn)) = None"
    "DeletionTimestamp (dep_meta (postgresDeployment r inst h m)) = None"
  by (simp_all add: api_deployment.meta indexer_deployment.meta collector_deployment.meta [where x = "(env, cn)", simplified]
      postgres_deployment.meta [where x = "(h, m)", simplified] metaKey_withOwner [OF assms] DeletionTimestamp_withOwner [OF assms])

lemma secret_step:
  assumes api: "kube_api (Client r) objs" and rand: "rand_contract source objs" and setref: "setref_contract (Lib r)"
    and k: "mkKey KSecret (Namespace (s_meta inst)) name = k"
  shows "installs objs {k} {k} (total (do { secret \<leftarrow> databaseSecret r source name user inst; createSecret r secret }))"
proof (rule installs_total)
  have key: "metaKey KSecret (sec_meta secret) = k" "objs w1 = objs w"
    if "run_state (databaseSecret r source name user inst) w = (secret, w1)" for secret w w1
    using databaseSecret_run [OF rand setref that] k by simp_all
  have "touches objs {k} (databaseSecret r source name user inst)"
    using key(2) unfolding touches_def by (metis prod.collapse same_except_eq)
  then show "touches objs {k} (do { secret \<leftarrow> databaseSecret r source name user inst; createSecret r secret })"
    using secret_creator.frame [OF api] key(1) by (intro touches_bind_result) auto
  fix w w'
  assume run: "run_state (do { secret \<leftarrow> databaseSecret r source name user inst; createSecret r secret }) w = (done_ok, w')"
  obtain secret w1 where s: "run_state (databaseSecret r source name user inst) w = (secret, w1)" by fastforce
  then have "run_state (createSecret r secret) w1 = (done_ok, w')" using run by simp
  from secret_creator.present_after [OF api this] key(1) [OF s] show "\<forall>k \<in> {k}. objs w' k \<noteq> None" by simp
qed (auto intro: tidy_bind tidy_writers)

lemma databaseConfigured_installs:
  assumes api: "kube_api (Client r) objs" and setref: "setref_contract (Lib r)" and dyn: "dynamic_typed r objs"
    and k: "mkKey KConfigMap (Namespace (s_meta inst)) postgresConfigmapName = kc"
      "mkKey KDeployment (Namespace (s_meta inst)) postgresDeploymentName = kd" "kc \<noteq> kd"
  shows "installs objs {kc, kd} {kc, kd} (databaseConfigured r tls inst)"
proof (cases "DynamicClient r")
  case None
  then show ?thesis by (simp add: databaseConfigured_def withDynamic_def installs_def touches_ret)
next
  case (Some dyn)
  then have typed: "dyn_typed dyn objs featureGvrs" using dyn by (simp add: dynamic_typed_def)
  define deploy where "deploy = (\<lambda>(step, cm :: ConfigMap). if fst step \<noteq> None then ret step
     else do { pg \<leftarrow> PGDeployment r inst (postgresConfigHash (Lib r) (cm_Data cm)); createOrUpdateDeployment r pg })"
  have pgd: "metaKey KDeployment (dep_meta pg) = kd \<and> DeletionTimestamp (dep_meta pg) = None"
    if "run_state (PGDeployment r inst h) w = (pg, w1)" for h w pg w1
    using that k(2) deployment_keys(4,8) [OF setref] by (auto simp: PGDeployment_def split: prod.splits)
  have dep: "touches objs {kd} (deploy x)" for x
    unfolding deploy_def using createOrUpdateDeployment_installs(1) [OF api] pgd
    by (intro touches_case_prod touches_if touches_ret touches_bind_result [OF reads_touch_nothing(3) [OF api]]) blast
  have cmk: "metaKey KConfigMap (cm_meta cm) = kc \<and> DeletionTimestamp (cm_meta cm) = None \<and> conf cm \<noteq> ''''"
    if "run_state (PostgresConfigmap r inst pgTLS) w = (cm, w1)" for pgTLS w cm w1
    using PostgresConfigmap_made [OF setref that] k(1) by simp
  let ?body = "do {
     pgTLS \<leftarrow> getPostgresTLSConfig dyn tls;
     cm \<leftarrow> PostgresConfigmap r inst pgTLS;
     x \<leftarrow> createOrUpdateConfigMap r cm;
     deploy x
   }"
  have eq: "databaseConfigured r tls inst = total ?body"
    by (simp add: databaseConfigured_def withDynamic_def Some deploy_def)
  have cms: "touches objs {kc, kd} (createOrUpdateConfigMap r cm)" if "metaKey KConfigMap (cm_meta cm) = kc" for cm
    by (rule touches_mono [OF createOrUpdateConfigMap_installs [OF api that]]) simp
  have deps: "touches objs {kc, kd} (deploy x)" for x by (rule touches_mono [OF dep]) simp
  have frame: "touches objs {kc, kd} ?body"
    using cmk by (intro touches_bind_result [OF reads_touch_nothing(4) [OF typed]] touches_bind_result [OF reads_touch_nothing(2) [OF api]]
        touches_bind cms deps) blast
  have tidy: "tidy ?body"
  proof (rule tidy_bind, rule tidy_bind)
    fix cm :: ConfigMap
    show "tidy (createOrUpdateConfigMap r cm \<bind> deploy)"
      unfolding tidy_def
    proof
      fix w
      obtain step cm' w1 where c: "run_state (createOrUpdateConfigMap r cm) w = ((step, cm'), w1)" by (metis surj_pair)
      have step: "step = done_ok \<or> (\<exists>e. step = failWith e)"
        using c by (auto simp: createOrUpdateConfigMap_def updateConfigMap_def Let_def split: prod.splits sum.splits if_splits)
      have "tidy (deploy (done_ok, cm'))"
        unfolding deploy_def by (auto simp: done_ok_def intro: tidy_bind tidy_writers)
      then show "fst (run_state (createOrUpdateConfigMap r cm \<bind> deploy) w) = done_ok
          \<or> (\<exists>e. fst (run_state (createOrUpdateConfigMap r cm \<bind> deploy) w) = failWith e)"
        using step c unfolding tidy_def by (auto simp: deploy_def ret_defs)
    qed
  qed
  have present: "\<forall>k \<in> {kc, kd}. objs w' k \<noteq> None" if run: "run_state ?body w = (done_ok, w')" for w w'
  proof -
    obtain pgTLS w1 where a: "run_state (getPostgresTLSConfig dyn tls) w = (pgTLS, w1)" by fastforce
    obtain cm w2 where b: "run_state (PostgresConfigmap r inst pgTLS) w1 = (cm, w2)" by fastforce
    obtain step cm' w3 where c: "run_state (createOrUpdateConfigMap r cm) w2 = ((step, cm'), w3)" by (metis surj_pair)
    have d: "run_state (deploy (step, cm')) w3 = (done_ok, w')" using run a b c by simp
    have "step = done_ok \<or> (\<exists>e. step = failWith e)"
      using c by (auto simp: createOrUpdateConfigMap_def updateConfigMap_def Let_def split: prod.splits sum.splits if_splits)
    then have ok: "step = done_ok" using d by (auto simp: deploy_def ret_defs)
    note made = cmk [OF b]
    have "\<not> terminated (OConfigMap cm)" using made by (simp add: terminated_def)
    from createOrUpdateConfigMap_stores [OF api this _ c [unfolded ok]] made have "objs w3 kc \<noteq> None" by auto
    then have one: "objs w' kc \<noteq> None" using touchesD [OF dep d] k(3) by simp
    obtain pg w4 where pg: "run_state (PGDeployment r inst (postgresConfigHash (Lib r) (cm_Data cm'))) w3 = (pg, w4)" by fastforce
    have "run_state (createOrUpdateDeployment r pg) w4 = (done_ok, w')" using d pg ok by (simp add: deploy_def done_ok_def)
    then have "objs w' kd \<noteq> None" using createOrUpdateDeployment_installs(2) [OF api] pgd [OF pg] by blast
    then show ?thesis using one by simp
  qed
  show ?thesis unfolding eq by (rule installs_total [OF frame tidy subset_refl present])
qed

lemma deployment_step:
  assumes "kube_api (Client r) objs" "metaKey KDeployment (dep_meta d) = k" "DeletionTimestamp (dep_meta d) = None"
  shows "installs objs {k} {k} (total (createOrUpdateDeployment r d))"
  using createOrUpdateDeployment_installs [OF assms] by (intro installs_total) (auto intro: tidy_writers)

lemma installs_after:
  assumes read: "\<And>K. touches objs K m" and f: "\<And>x w w'. run_state m w = (x, w') \<Longrightarrow> installs objs K ks (f x)"
  shows "installs objs K ks (State_Monad.bind m f)"
  unfolding installs_def
proof (intro conjI allI impI)
  show "touches objs K (State_Monad.bind m f)"
    using installsD(1) [OF f] by (intro touches_bind_result [OF read]) blast
  obtain x0 v where "run_state m undefined = (x0, v)" by fastforce
  then show "ks \<subseteq> K" using installsD(2) [OF f] by blast
  show "err \<noteq> None" if ends: "run_state (State_Monad.bind m f) w = (Some (Some res, err), w')" for w res err w'
  proof -
    obtain x w1 where m: "run_state m w = (x, w1)" by fastforce
    with ends have "run_state (f x) w1 = (Some (Some res, err), w')" by simp
    then show ?thesis by (rule installsD(4) [OF f [OF m]])
  qed
  fix w err w'
  assume run: "run_state (State_Monad.bind m f) w = (Some (None, err), w')" and live: "\<forall>k \<in> K. alive objs w k"
  obtain x w1 where m: "run_state m w = (x, w1)" by fastforce
  have "objs w1 = objs w" using touchesD [OF read [of "{}"] m] by (intro ext) simp
  then have "\<forall>k \<in> K. alive objs w1 k" using live by (simp add: alive_def)
  moreover have "run_state (f x) w1 = (Some (None, err), w')" using run m by simp
  ultimately have both: "err = None \<and> (\<forall>k \<in> ks. objs w' k \<noteq> None)" using installsD(3) [OF f [OF m]] by blast
  then show "err = None" by blast
  from both show "\<forall>k \<in> ks. objs w' k \<noteq> None" by blast
qed

lemma workloadsDeployed_installs:
  assumes api: "kube_api (Client r) objs" and setref: "setref_contract (Lib r)" and dyn: "dynamic_typed r objs"
    and k: "mkKey KDeployment (Namespace (s_meta inst)) collectorDeploymentName = k1"
      "mkKey KDeployment (Namespace (s_meta inst)) indexerDeploymentName = k2"
      "mkKey KDeployment (Namespace (s_meta inst)) apiDeploymentName = k3" "distinct [k1, k2, k3]"
  shows "installs objs {k1, k2, k3} {k1, k2, k3} (workloadsDeployed r tls inst)"
proof (cases "DynamicClient r")
  case None
  then show ?thesis by (simp add: workloadsDeployed_def withDynamic_def installs_def touches_ret)
next
  case (Some dyn)
  then have typed: "dyn_typed dyn objs featureGvrs" using dyn by (simp add: dynamic_typed_def)
  have collector: "installs objs {k1} {k1} (total (do { d \<leftarrow> CollectorDeployment r dyn inst env; createOrUpdateDeployment r d }))" for env
  proof -
    have eq: "total (do { d \<leftarrow> CollectorDeployment r dyn inst env; createOrUpdateDeployment r d })
        = do { d \<leftarrow> CollectorDeployment r dyn inst env; total (createOrUpdateDeployment r d) }"
      by (simp add: total_def)
    have "installs objs {k1} {k1} (total (createOrUpdateDeployment r d))"
      if "run_state (CollectorDeployment r dyn inst env) w = (d, w')" for d w w'
      using that deployment_keys(3,7) [OF setref] k(1)
      by (intro deployment_step [OF api]) (auto simp: CollectorDeployment_def split: prod.splits)
    then show ?thesis unfolding eq by (rule installs_after [OF reads_touch_nothing(6) [OF typed]])
  qed
  have steps: "list_all2 (\<lambda>(K, ks) m. installs objs K ks m) [made k1, made k2, made k3]
      [total (do { d \<leftarrow> CollectorDeployment r dyn inst env; createOrUpdateDeployment r d }),
       total (createOrUpdateDeployment r (IndexerDeployment r inst env)),
       total (createOrUpdateDeployment r (APIDeployment r inst env))]" for env
  proof -
    have "installs objs {k2} {k2} (total (createOrUpdateDeployment r (IndexerDeployment r inst env)))"
      by (rule deployment_step [OF api _ deployment_keys(6) [OF setref]]) (simp add: deployment_keys(2) [OF setref] k(2))
    moreover have "installs objs {k3} {k3} (total (createOrUpdateDeployment r (APIDeployment r inst env)))"
      by (rule deployment_step [OF api _ deployment_keys(5) [OF setref]]) (simp add: deployment_keys(1) [OF setref] k(3))
    ultimately show ?thesis using collector by simp
  qed
  have sep: "separate [made k1, made k2, made k3]" using k(4) by simp
  have eq: "workloadsDeployed r tls inst = (getTLSEnvVars dyn tls \<bind> (\<lambda>tlsEnvVars. runSteps [
       total (do { d \<leftarrow> CollectorDeployment r dyn inst tlsEnvVars; createOrUpdateDeployment r d }),
       total (createOrUpdateDeployment r (IndexerDeployment r inst tlsEnvVars)),
       total (createOrUpdateDeployment r (APIDeployment r inst tlsEnvVars))]))"
    by (simp add: workloadsDeployed_def withDynamic_def Some)
  have "fields [made k1, made k2, made k3] = {k1, k2, k3}" "yields [made k1, made k2, made k3] = {k1, k2, k3}" by auto
  then show ?thesis
    unfolding eq using installs_runSteps [OF steps sep]
    by (intro installs_after [OF reads_touch_nothing(5) [OF typed]]) simp
qed

lemma policies_installs:
  assumes api: "kube_api (Client r) objs" and setref: "setref_contract (Lib r)" and dyn: "dynamic_typed r objs"
    and K: "set (map (\<lambda>c. mkKey KNetworkPolicy (Namespace (s_meta inst)) (networkPolicyName c))
      [postgresDeploymentName, indexerDeploymentName, apiDeploymentName, collectorDeploymentName, ''search-operator'']) = K"
  shows "installs objs K K (total (reconcileNetworkPolicies r inst))"
proof -
  have np: "run_state (NetworkPolicies r inst) w = (nps, w1) \<Longrightarrow> \<exists>mce. nps = policiesFor r inst mce" for w nps w1
    using NetworkPolicies_run [of r inst w] by (metis fst_conv)
  have keys: "policyKey ` set (policiesFor r inst mce) = K" for mce
    using policiesFor_keys [OF setref, of inst mce] K by (metis set_map)
  have read: "touches objs K' (NetworkPolicies r inst)" for K'
    unfolding NetworkPolicies_def using dyn
    by (intro touches_case_option touches_bind touches_ret getMCETargetNamespace_typed) (simp add: dynamic_typed_def)
  have eq: "total (reconcileNetworkPolicies r inst) = (NetworkPolicies r inst \<bind> (\<lambda>nps. total (writePolicies r nps)))"
    by (simp add: total_def reconcileNetworkPolicies_def)
  have "installs objs K K (total (writePolicies r (policiesFor r inst mce)))" for mce
  proof (rule installs_total [OF _ writePolicies_tidy subset_refl])
    show "touches objs K (writePolicies r (policiesFor r inst mce))"
      by (rule touches_writePolicies [OF api], rule eq_refl, rule keys)
    fix w w'
    assume run: "run_state (writePolicies r (policiesFor r inst mce)) w = (done_ok, w')" and live: "\<And>k. k \<in> K \<Longrightarrow> alive objs w k"
    have d: "distinct (map policyKey (policiesFor r inst mce))"
      unfolding policiesFor_keys [OF setref]
      by (simp add: networkPolicyName_def mkKey_def postgresDeploymentName_def indexerDeploymentName_def
          apiDeploymentName_def collectorDeploymentName_def)
    have "objs w' (policyKey np) \<noteq> None" if "np \<in> set (policiesFor r inst mce)" for np
    proof -
      have "\<not> terminated (ONetworkPolicy q) \<and> alive objs w (policyKey q)" if "q \<in> set (policiesFor r inst mce)" for q
        using policy_not_terminated [OF setref that] live [of "policyKey q"] keys that by blast
      from writePolicies_stores [OF api d this run that] show ?thesis by auto
    qed
    then show "\<forall>k \<in> K. objs w' k \<noteq> None" unfolding keys [of mce, symmetric] by blast
  qed
  then show ?thesis unfolding eq using np by (intro installs_after [OF read]) blast
qed

end
