(* ===== verification/Reconcile_Run.thy ===== *)
theory Reconcile_Run
  imports Reconcile_Steps
begin

text \<open>
  What a whole run of the reconciliation installs and what it leaves alone: the keys of the steps, the
  features, the finalizer and the clean-ups put together.
\<close>

section \<open>The keys of the steps\<close>

abbreviation inNs :: "Search \<Rightarrow> kind \<Rightarrow> string \<Rightarrow> okey" where
  "inNs inst kd name \<equiv> mkKey kd (Namespace (s_meta inst)) name"

type_synonym specs = "(okey set \<times> okey set) list"

definition accessSpecs :: "string \<Rightarrow> specs" where
  "accessSpecs ns = [
     plain (mkKey KServiceAccount ns getAPIServiceAccountName), plain (mkKey KServiceAccount ns getPostgresServiceAccountName),
     plain (mkKey KServiceAccount ns getIndexerServiceAccountName), plain (mkKey KServiceAccount ns getCollectorServiceAccountName),
     made (mkKey KClusterRole '''' (getRoleName @ ''-indexer'')), made (mkKey KClusterRole '''' getAddonRoleName),
     made (mkKey KClusterRole '''' getSearchUserRoleName),
     made (mkKey KClusterRoleBinding '''' (getRoleBindingName @ ''-api'')),
     made (mkKey KClusterRoleBinding '''' (getRoleBindingName @ ''-collector'')),
     made (mkKey KClusterRoleBinding '''' (getRoleBindingName @ ''-indexer'')),
     plain (mkKey KWebhookConfiguration '''' webhookConfigName),
     (configs_of ns, {})]"

definition databaseSpecs :: "string \<Rightarrow> specs" where
  "databaseSpecs ns = [
     made (mkKey KSecret ns ''search-postgres''), made (mkKey KSecret ns apiReadonlySecretName),
     made (mkKey KSecret ns mcpReadonlySecretName), made (mkKey KService ns ''search-postgres''),
     ({mkKey KConfigMap ns postgresConfigmapName, mkKey KDeployment ns postgresDeploymentName},
      {mkKey KConfigMap ns postgresConfigmapName, mkKey KDeployment ns postgresDeploymentName})]"

definition serviceSpecs :: "string \<Rightarrow> specs" where
  "serviceSpecs ns = [
     made (mkKey KService ns ''search-indexer''), made (mkKey KService ns ''search-search-api''),
     plain (mkKey KService ns ''search-collector''),
     plain (mkKey KServiceMonitor ns ''search-indexer-monitor''), plain (mkKey KServiceMonitor ns ''search-api-monitor''),
     plain (mkKey KServiceMonitor ns ''search-collector-monitor'')]"

definition policyKeys :: "string \<Rightarrow> okey set" where
  "policyKeys ns = set (map (\<lambda>c. mkKey KNetworkPolicy ns (networkPolicyName c))
     [postgresDeploymentName, indexerDeploymentName, apiDeploymentName, collectorDeploymentName, ''search-operator''])"

definition workloadSpecs :: "string \<Rightarrow> specs" where
  "workloadSpecs ns = (let deployments = {mkKey KDeployment ns collectorDeploymentName,
       mkKey KDeployment ns indexerDeploymentName, mkKey KDeployment ns apiDeploymentName} in [
     (deployments, deployments), (policyKeys ns, policyKeys ns),
     plain (mkKey KConfigMap ns indexerConfigmapName), plain (mkKey KConfigMap ns caCertConfigmapName)])"

abbreviation allSpecs :: "string \<Rightarrow> specs" where
  "allSpecs ns \<equiv> accessSpecs ns @ databaseSpecs ns @ serviceSpecs ns @ workloadSpecs ns"

lemmas spec_defs = accessSpecs_def databaseSpecs_def serviceSpecs_def workloadSpecs_def policyKeys_def Let_def
  getAPIServiceAccountName_def getPostgresServiceAccountName_def getIndexerServiceAccountName_def
  getCollectorServiceAccountName_def getRoleName_def getRoleBindingName_def getAddonRoleName_def getSearchUserRoleName_def
  webhookConfigName_def networkPolicyName_def configs_of_def

lemma specs_separate: "separate (allSpecs ns)"
  by (auto simp: spec_defs name_defs mkKey_def cluster_scoped_def)


section \<open>Each group of steps installs its objects\<close>

lemma accounts_install:
  assumes "kube_api (Client r) objs" "metaKey KServiceAccount (sa_meta sa) = k"
  shows "installs objs {k} {} (total (createSearchServiceAccount r sa))"
  using createSearchServiceAccount_frame [OF assms(1), of sa "{k}"] assms(2)
  by (intro installs_nothing) (auto intro: tidy_writers)

lemma built_account_install:
  assumes api: "kube_api (Client r) objs" and setref: "setref_contract (Lib r)"
    and built: "built = (case lib_SetControllerReference (Lib r) inst (newMeta n (Namespace (s_meta inst))) of
      Inl err \<Rightarrow> Inl err | Inr m \<Rightarrow> Inr (newServiceAccount m))"
    and k: "inNs inst KServiceAccount n = k"
  shows "installs objs {k} {} (ofBuilder r built)"
proof (cases "lib_SetControllerReference (Lib r) inst (newMeta n (Namespace (s_meta inst)))")
  case (Inl err)
  then show ?thesis unfolding built ofBuilder_def by (auto intro!: installs_nothing touches_ret)
next
  case (Inr m)
  then have "metaKey KServiceAccount m = k" using setref_meta [OF setref Inr] k by simp
  then show ?thesis
    using accounts_install [OF api, of "newServiceAccount m" k] Inr unfolding built ofBuilder_def by (simp add: newServiceAccount_def)
qed

lemma accessSteps_install:
  assumes api: "kube_api (Client r) objs" and setref: "setref_contract (Lib r)" and clock: "clock_contract r objs"
  shows "list_all2 (\<lambda>(K, ks) m. installs objs K ks m) (accessSpecs (Namespace (s_meta inst))) (accessSteps r inst)"
proof -
  note keys = metaKey_withOwner [OF setref]
  have accounts: "installs objs {inNs inst KServiceAccount getAPIServiceAccountName} {}
      (total (createSearchServiceAccount r (SearchAPIServiceAccount r inst)))"
    "installs objs {inNs inst KServiceAccount getCollectorServiceAccountName} {}
      (total (createSearchServiceAccount r (SearchCollectorServiceAccount r inst)))"
    by (rule accounts_install [OF api]; simp add: SearchAPIServiceAccount_def SearchCollectorServiceAccount_def
        newServiceAccount_def keys)+
  note built = built_account_install [OF api setref SearchPostgresServiceAccount_def refl]
    built_account_install [OF api setref SearchIndexerServiceAccount_def refl]
  have roles: "installs objs {mkKey KClusterRole '''' (getRoleName @ ''-indexer'')} {mkKey KClusterRole '''' (getRoleName @ ''-indexer'')}
      (total (createUpdateRoles r (IndexerClusterRole inst)))"
    "installs objs {mkKey KClusterRole '''' getAddonRoleName} {mkKey KClusterRole '''' getAddonRoleName}
      (total (createUpdateRoles r (AddonClusterRole inst)))"
    "installs objs {mkKey KClusterRole '''' getSearchUserRoleName} {mkKey KClusterRole '''' getSearchUserRoleName}
      (total (createUpdateRoles r (GlobalSearchUserClusterRole inst)))"
    by (rule role_writer.installs_made [OF api]; auto simp: IndexerClusterRole_def AddonClusterRole_def
        GlobalSearchUserClusterRole_def mkKey_def cluster_scoped_def terminated_def intro: tidy_writers)+
  have bindings: "installs objs {mkKey KClusterRoleBinding '''' n} {mkKey KClusterRoleBinding '''' n}
      (total (createRoleBinding r (bindRole n role account inst)))" for n role account
    by (rule binding_writer.installs_made [OF api]; auto simp: bindRole_def terminated_def intro: tidy_writers)
  have webhook: "installs objs {mkKey KWebhookConfiguration '''' webhookConfigName} {}
      (total (do { err \<leftarrow> ensureWebhookCAInjection r; ret done_ok }))"
    using ensureWebhookCAInjection_frame [OF api] by (intro installs_nothing touches_bind touches_ret) (auto intro: tidy_bind tidy_ret)
  have merged: "installs objs (configs_of (Namespace (s_meta inst))) {} (total (createOrUpdateMergedCollectorConfig r inst))"
    by (intro installs_nothing merge_touches [OF api clock setref] merge_tidy)
  show ?thesis
    unfolding accessSpecs_def accessSteps_def
    using accounts built roles bindings webhook merged
    by (simp add: APIClusterRoleBinding_def CollectorClusterRoleBinding_def IndexerClusterRoleBinding_def)
qed

lemma databaseSteps_install:
  assumes api: "kube_api (Client r) objs" and setref: "setref_contract (Lib r)" and rand: "rand_contract source objs"
    and dyn: "dynamic_typed r objs"
  shows "list_all2 (\<lambda>(K, ks) m. installs objs K ks m) (databaseSpecs (Namespace (s_meta inst))) (databaseSteps r tls source inst)"
proof -
  note secret = secret_step [OF api rand setref refl]
  have service: "installs objs {inNs inst KService ''search-postgres''} {inNs inst KService ''search-postgres''}
      (total (createService r (PGService r inst)))"
    by (rule service_creator.installs_made [OF api]) (auto simp: PGService_def metaKey_withOwner [OF setref] intro: tidy_writers)
  have db: "installs objs {inNs inst KConfigMap postgresConfigmapName, inNs inst KDeployment postgresDeploymentName}
      {inNs inst KConfigMap postgresConfigmapName, inNs inst KDeployment postgresDeploymentName} (databaseConfigured r tls inst)"
    by (rule databaseConfigured_installs [OF api setref dyn refl refl]) (simp add: mkKey_def)
  show ?thesis
    unfolding databaseSpecs_def databaseSteps_def PGSecret_def APIReadonlySecret_def MCPReadonlySecret_def
    using secret service db by simp
qed

lemma serviceSteps_install:
  assumes api: "kube_api (Client r) objs" and setref: "setref_contract (Lib r)"
  shows "list_all2 (\<lambda>(K, ks) m. installs objs K ks m) (serviceSpecs (Namespace (s_meta inst))) (serviceSteps r inst)"
proof -
  have services: "installs objs {inNs inst KService ''search-indexer''} {inNs inst KService ''search-indexer''}
      (total (createService r (IndexerService r inst)))"
    "installs objs {inNs inst KService ''search-search-api''} {inNs inst KService ''search-search-api''}
      (total (createService r (APIService r inst)))"
    by (rule service_creator.installs_made [OF api]; auto simp: IndexerService_def APIService_def metaKey_withOwner [OF setref]
        intro: tidy_writers)+
  have collector: "installs objs {inNs inst KService ''search-collector''} {}
      (total (do { step \<leftarrow> createService r (CollectorService r inst); ret done_ok }))"
    using service_creator.frame [OF api, of "CollectorService r inst"]
    by (intro installs_nothing touches_bind touches_ret) (auto simp: CollectorService_def metaKey_withOwner [OF setref] intro: tidy_bind tidy_ret)
  have monitor: "installs objs {inNs inst KServiceMonitor (n @ ''-monitor'')} {}
      (total (createServiceMonitor r sm))" if "sm_meta sm = newMeta (n @ ''-monitor'') (Namespace (s_meta inst))" for n sm
    using service_monitor_creator.frame [OF api, of sm] that by (intro installs_nothing) (auto intro: tidy_writers)
  have monitors: "installs objs {inNs inst KServiceMonitor ''search-indexer-monitor''} {}
      (total (createServiceMonitor r (ServiceMonitor inst ''search-indexer'' (Namespace (s_meta inst)))))"
    "installs objs {inNs inst KServiceMonitor ''search-api-monitor''} {}
      (total (createServiceMonitor r (ServiceMonitor inst ''search-api'' (Namespace (s_meta inst)))))"
    "installs objs {inNs inst KServiceMonitor ''search-collector-monitor''} {}
      (total (createServiceMonitor r (CollectorServiceMonitor inst ''search-collector'' (Namespace (s_meta inst)))))"
    using monitor [of "ServiceMonitor inst ''search-indexer'' (Namespace (s_meta inst))" "''search-indexer''"]
      monitor [of "ServiceMonitor inst ''search-api'' (Namespace (s_meta inst))" "''search-api''"]
      monitor [of "CollectorServiceMonitor inst ''search-collector'' (Namespace (s_meta inst))" "''search-collector''"]
    by (simp_all add: ServiceMonitor_def CollectorServiceMonitor_def)
  show ?thesis
    unfolding serviceSpecs_def serviceSteps_def using services collector monitors by simp
qed

lemma workloadSteps_install:
  assumes api: "kube_api (Client r) objs" and setref: "setref_contract (Lib r)" and dyn: "dynamic_typed r objs"
  shows "list_all2 (\<lambda>(K, ks) m. installs objs K ks m) (workloadSpecs (Namespace (s_meta inst))) (workloadSteps r tls inst)"
proof -
  note deployments = workloadsDeployed_installs [OF api setref dyn refl refl refl, of inst tls]
  have d: "distinct [inNs inst KDeployment collectorDeploymentName, inNs inst KDeployment indexerDeploymentName,
      inNs inst KDeployment apiDeploymentName]" by (simp add: mkKey_def)
  note policies = policies_installs [OF api setref dyn policyKeys_def [symmetric]]
  have maps: "installs objs {inNs inst KConfigMap indexerConfigmapName} {} (total (createConfigMap r (IndexerConfigmap r inst)))"
    "installs objs {inNs inst KConfigMap caCertConfigmapName} {} (total (createConfigMap r (SearchCACert r inst)))"
    using config_map_creator.frame [OF api, of "IndexerConfigmap r inst"] config_map_creator.frame [OF api, of "SearchCACert r inst"]
    by (auto intro!: installs_nothing simp: IndexerConfigmap_def SearchCACert_def metaKey_withOwner [OF setref] Let_def intro: tidy_writers)
  show ?thesis
    unfolding workloadSpecs_def workloadSteps_def Let_def using deployments [OF d] policies maps by simp
qed

lemma resources_install:
  assumes "kube_api (Client r) objs" "setref_contract (Lib r)" "clock_contract r objs" "rand_contract source objs" "dynamic_typed r objs"
  shows "installs objs (fields (allSpecs (Namespace (s_meta inst)))) (yields (allSpecs (Namespace (s_meta inst))))
    (runSteps (accessSteps r inst @ databaseSteps r tls source inst @ serviceSteps r inst @ workloadSteps r tls inst))"
  by (intro installs_runSteps specs_separate list_all2_appendI accessSteps_install databaseSteps_install
      serviceSteps_install workloadSteps_install assms)


section \<open>The features keep the key of the resource in hand\<close>

text \<open>
  \<open>hands objs K P m\<close>: \<open>m\<close> changes objects of the keys \<open>K\<close> only and its result satisfies \<open>P\<close>. The
  rules follow the code, with what the first part hands on assumed of the second.
\<close>

definition hands :: "'w view \<Rightarrow> okey set \<Rightarrow> ('a \<Rightarrow> bool) \<Rightarrow> ('w, 'a) state \<Rightarrow> bool" where
  "hands objs K P m \<longleftrightarrow> touches objs K m \<and> (\<forall>w. P (fst (run_state m w)))"

abbreviation orPanic :: "('a \<Rightarrow> bool) \<Rightarrow> 'a option \<Rightarrow> bool" where "orPanic P x \<equiv> (case x of None \<Rightarrow> True | Some a \<Rightarrow> P a)"

lemma handsD: "hands objs K P m \<Longrightarrow> touches objs K m" "hands objs K P m \<Longrightarrow> run_state m w = (x, w') \<Longrightarrow> P x"
  unfolding hands_def by (auto dest: spec [of _ w])

lemma hands_ret: "P x \<Longrightarrow> hands objs K P (ret x)"
  by (simp add: hands_def touches_ret)

lemma hands_touches: "touches objs K m \<Longrightarrow> (\<And>x. P x) \<Longrightarrow> hands objs K P m"
  by (simp add: hands_def)

lemma hands_bind:
  assumes m: "hands objs K P m" and f: "\<And>x. P x \<Longrightarrow> hands objs K Q (f x)"
  shows "hands objs K Q (State_Monad.bind m f)"
  unfolding hands_def
proof
  show "touches objs K (State_Monad.bind m f)"
    using handsD(1) [OF f] handsD(2) [OF m] by (intro touches_bind_result [OF handsD(1) [OF m]]) auto
  show "\<forall>w. Q (fst (run_state (State_Monad.bind m f) w))"
  proof
    fix w
    obtain x w1 where "run_state m w = (x, w1)" by fastforce
    moreover have "Q (fst (run_state (f x) w1))" using f handsD(2) [OF m calculation] by (simp add: hands_def)
    ultimately show "Q (fst (run_state (State_Monad.bind m f) w))" by simp
  qed
qed

lemma hands_andThen:
  assumes "hands objs K (orPanic P) m" "\<And>a. P a \<Longrightarrow> hands objs K (orPanic Q) (f a)"
  shows "hands objs K (orPanic Q) (andThen m f)"
  unfolding andThen_def
proof (rule hands_bind [OF assms(1)])
  fix x
  assume "orPanic P x"
  then show "hands objs K (orPanic Q) (case x of None \<Rightarrow> panic | Some a \<Rightarrow> f a)"
    using assms(2) by (cases x) (simp_all add: hands_ret)
qed

lemma hands_total: "hands objs K P m \<Longrightarrow> hands objs K (orPanic P) (total m)"
  unfolding total_def by (erule hands_bind) (simp add: hands_ret)

abbreviation keyed :: "okey \<Rightarrow> 'a \<times> Search \<Rightarrow> bool" where "keyed k x \<equiv> searchKey (snd x) = k"

definition featureKeys :: "okey \<Rightarrow> okey set" where
  "featureKeys k = insert k (insert (mkKey KConfigMap (key_namespace k) ''console-config'')
     (range (\<lambda>ns. mkKey KConfigMap ns ''console-mce-config'')))"

lemma featureKeys_in:
  "k \<in> featureKeys k" "mkKey KConfigMap ns ''console-mce-config'' \<in> featureKeys k"
  "searchKey inst = k \<Longrightarrow> mkKey KConfigMap (Namespace (s_meta inst)) ''console-config'' \<in> featureKeys k"
  by (auto simp: featureKeys_def metaKey_def mkKey_def cluster_scoped_def)

lemma key_of_map_UID: "key_of (map_meta (\<lambda>m. m\<lparr>UID := u\<rparr>) ob) = key_of ob"
  by simp

lemma answered_keyed:
  assumes "content ob = content ob0" "key_of ob0 = k" "searchKey inst = k"
  shows "searchKey (snd (answered inst (Inr ob))) = k"
proof (cases "asSearch ob")
  case (Some s)
  then have "ob = OSearch s" by (cases ob) simp_all
  moreover have "key_of ob = key_of ob0" using content_eqD [OF assms(1)] by (metis key_of_map_UID)
  ultimately show ?thesis using assms(2) by (simp add: answered_def)
qed (use assms(3) in \<open>simp add: answered_def\<close>)

lemma instance_hands:
  assumes api: "kube_api (Client r) objs" and k: "searchKey inst = k" "k \<in> K"
  shows "hands objs K (keyed k) (updateInstance r inst)"
    and "hands objs K (keyed k) (commitSearchCRInstanceState r inst)"
proof -
  have "keyed k (fst (run_state (updateInstance r inst) w))" for w
  proof -
    obtain res w' where u: "run_state (cl_Update (Client r) (OSearch inst)) w = (res, w')" by fastforce
    show ?thesis
    proof (cases res)
      case (Inr ob)
      from api_update_ok [OF api u [unfolded Inr]] obtain old where "content ob = content (keep_status old (OSearch inst))" by auto
      from answered_keyed [OF this, of k inst] show ?thesis using u Inr k by (simp add: updateInstance_def)
    qed (use u k in \<open>simp add: updateInstance_def answered_def\<close>)
  qed
  then show "hands objs K (keyed k) (updateInstance r inst)"
    using instance_frames(1) [OF api, of inst K] k by (simp add: hands_def)
  have "keyed k (fst (run_state (commitSearchCRInstanceState r inst) w))" for w
  proof -
    obtain res w' where u: "run_state (cl_StatusUpdate (Client r) (OSearch inst)) w = (res, w')" by fastforce
    show ?thesis
    proof (cases res)
      case (Inr ob)
      from api_status_ok [OF api u [unfolded Inr]] obtain old where
        old: "content ob = content (keep_spec old (OSearch inst))" "objs w (searchKey inst) = Some old" "objs w' (searchKey inst) = Some ob"
        by auto
      have "key_of old = searchKey inst" by (rule api_filed [OF api old(2)])
      then have "key_of (keep_spec old (OSearch inst)) = k" using k by simp
      from answered_keyed [OF old(1) this, of inst] show ?thesis using u Inr k by (simp add: commitSearchCRInstanceState_def)
    qed (use u k in \<open>simp add: commitSearchCRInstanceState_def answered_def\<close>)
  qed
  then show "hands objs K (keyed k) (commitSearchCRInstanceState r inst)"
    using instance_frames(2) [OF api, of inst K] k by (simp add: hands_def)
qed

lemma env_hands:
  assumes api: "kube_api (Client r) objs" and k: "searchKey inst = k" "k \<in> K"
  shows "hands objs K (keyed k) (updateSearchApiDeployment r inst env)"
proof (cases "searchAPIEnvVar inst env")
  case (Pair same inst')
  then have "searchKey inst' = k" using searchAPIEnvVar_meta [of inst env] k by simp
  then show ?thesis
    using instance_hands(1) [OF api _ k(2), of inst'] Pair
    by (cases same) (simp_all add: updateSearchApiDeployment_def hands_ret)
qed

lemma condition_hands:
  assumes api: "kube_api (Client r) objs" and k: "searchKey inst = k" "k \<in> K"
  shows "hands objs K (keyed k) (setSearchCondition r t inst status)"
    and "hands objs K (keyed k) (updateGlobalSearchStatus r inst status)"
    and "hands objs K (\<lambda>inst. searchKey inst = k) (updateStatusConditionOf r inst status)"
    and "hands objs K (keyed k) (removeStatusCondition r inst t)"
    and "hands objs K (orPanic (keyed k)) (clearCondition r i inst)"
proof -
  note commit = instance_hands(2) [OF api _ k(2)]
  show set: "hands objs K (keyed k) (setSearchCondition r t inst status)" for t
    unfolding setSearchCondition_def using k commit by (auto split: option.split intro!: hands_ret)
  then show "hands objs K (keyed k) (updateGlobalSearchStatus r inst status)" by (simp add: updateGlobalSearchStatus_def)
  show "hands objs K (\<lambda>inst. searchKey inst = k) (updateStatusConditionOf r inst status)"
    unfolding updateStatusConditionOf_def by (rule hands_bind [OF set]) (auto intro: hands_ret)
  show "hands objs K (keyed k) (removeStatusCondition r inst t)"
    unfolding removeStatusCondition_def using k commit by (auto split: option.split intro!: hands_ret)
  have "hands objs K (keyed k) (do {
       (err, inst) \<leftarrow> commitSearchCRInstanceState r (withConditions cs inst);
       ret (case err of Some e \<Rightarrow> failWith e | None \<Rightarrow> (Some emptyResult, None), inst)
     })" for cs
    using k by (intro hands_bind [OF commit]) (auto intro: hands_ret)
  then show "hands objs K (orPanic (keyed k)) (clearCondition r i inst)"
    unfolding clearCondition_def by (cases "removeAt i (Conditions (s_Status inst))") (simp_all add: hands_ret hands_total)
qed


lemma hands_after: "touches objs K m \<Longrightarrow> (\<And>x. hands objs K Q (f x)) \<Longrightarrow> hands objs K Q (State_Monad.bind m f)"
  by (rule hands_bind [where P = "\<lambda>_. True"]) (simp_all add: hands_touches)

lemma hands_next:
  "touches objs K m \<Longrightarrow> (\<And>x. hands objs K (orPanic Q) (f x)) \<Longrightarrow> hands objs K (orPanic Q) (andThen m f)"
  by (rule hands_andThen [where P = "\<lambda>_. True"]) (simp_all add: hands_touches split: option.split)

lemma hands_panic: "hands objs K (orPanic Q) panic"
  by (simp add: hands_ret)

lemma hands_option:
  "(x = None \<Longrightarrow> hands objs K Q m) \<Longrightarrow> (\<And>a. x = Some a \<Longrightarrow> hands objs K Q (f a)) \<Longrightarrow>
     hands objs K Q (case x of None \<Rightarrow> m | Some a \<Rightarrow> f a)"
  by (cases x) auto

lemma hands_prod: "(\<And>a b. x = (a, b) \<Longrightarrow> hands objs K Q (f a b)) \<Longrightarrow> hands objs K Q (case x of (a, b) \<Rightarrow> f a b)"
  by (cases x) auto

section \<open>The frame of each feature\<close>

definition dynamic_ok :: "'w SearchReconciler \<Rightarrow> 'w view \<Rightarrow> bool" where
  "dynamic_ok r objs \<longleftrightarrow> dynamic_typed r objs \<and> (\<forall>dyn. DynamicClient r = Some dyn \<longrightarrow> (\<exists>dobjs. dyn_api dyn dobjs))"

text \<open>The clients behave, and \<open>K\<close> holds what the features write when \<open>k\<close> is the key of the resource.\<close>

definition featured :: "'w SearchReconciler \<Rightarrow> 'w view \<Rightarrow> okey set \<Rightarrow> okey \<Rightarrow> bool" where
  "featured r objs K k \<longleftrightarrow> kube_api (Client r) objs \<and> clock_contract r objs \<and> dynamic_ok r objs \<and> featureKeys k \<subseteq> K"

lemma featuredD:
  "featured r objs K k \<Longrightarrow> kube_api (Client r) objs" "featured r objs K k \<Longrightarrow> k \<in> K"
  "featured r objs K k \<Longrightarrow> touches objs K (Now r)"
  "featured r objs K k \<Longrightarrow> DynamicClient r = Some dyn \<Longrightarrow> dyn_typed dyn objs featureGvrs"
  "featured r objs K k \<Longrightarrow> mkKey KConfigMap ns ''console-mce-config'' \<in> K"
  "featured r objs K k \<Longrightarrow> searchKey inst = k \<Longrightarrow> mkKey KConfigMap (Namespace (s_meta inst)) ''console-config'' \<in> K"
  using featureKeys_in touches_Now [of r objs K]
  by (auto simp: featured_def dynamic_ok_def dynamic_typed_def)

lemma console_frame:
  assumes "featured r objs K k" "DynamicClient r = Some dyn" "mkKey KConfigMap ns n \<in> K"
  shows "touches objs K (setConsoleFlag dyn enabled ns n key)"
  using assms setConsoleFlag_typed unfolding featured_def dynamic_ok_def dynamic_typed_def by blast

lemma validate_frame:
  "featured r objs K k \<Longrightarrow> DynamicClient r = Some dyn \<Longrightarrow> touches objs K (validateAddOns dyn a b)"
  unfolding validateAddOns_def by (intro touches_bind touches_case_prod touches_if touches_ret touches_dyn(2) [OF featuredD(4)])

lemma switch_hands:
  assumes f: "featured r objs K k" and d: "DynamicClient r = Some dyn" and inst: "searchKey inst = k"
  shows "hands objs K (orPanic (keyed k)) (switchGlobalSearch r dyn inst enabled)"
  unfolding switchGlobalSearch_def Let_def updateConsoleConfig_def
  by (intro hands_after hands_next hands_total hands_prod hands_bind [OF env_hands [OF featuredD(1) [OF f] inst featuredD(2) [OF f]]]
      getMCETargetNamespace_typed [OF featuredD(4) [OF f d]] console_frame [OF f d] featuredD(5,6) [OF f] inst hands_ret) simp

lemma global_hands:
  assumes f: "featured r objs K k" and d: "DynamicClient r = Some dyn" and inst: "searchKey inst = k"
  shows "hands objs K (orPanic (keyed k)) (enableGlobalSearch r dyn inst)"
    and "hands objs K (orPanic (keyed k)) (disableGlobalSearch r dyn inst)"
  unfolding enableGlobalSearch_def disableGlobalSearch_def
  by (intro hands_andThen [OF switch_hands [OF f d inst]] hands_prod hands_after hands_next hands_option
      touches_dyn(2) [OF featuredD(4) [OF f d]] hub_setup.loop_typed [OF featuredD(4) [OF f d]]
      hub_teardown.loop_typed [OF featuredD(4) [OF f d]] hands_ret; simp add: hands_panic)+


lemma reconcileGlobalSearch_hands:
  assumes f: "featured r objs K (searchKey inst)"
  shows "hands objs K (orPanic (keyed (searchKey inst))) (reconcileGlobalSearch r inst)"
proof -
  note set = condition_hands(2) [OF featuredD(1) [OF f] _ featuredD(2) [OF f]]
  note clear = condition_hands(5) [OF featuredD(1) [OF f] _ featuredD(2) [OF f]]
  have validate: "DynamicClient r = Some dyn \<Longrightarrow> touches objs K (validateGlobalSearchDependencies dyn)" for dyn
    unfolding validateGlobalSearchDependencies_def
    by (intro touches_bind touches_case_prod touches_if touches_ret touches_dyn(2) [OF featuredD(4) [OF f]] validate_frame [OF f])
  show ?thesis
    unfolding reconcileGlobalSearch_def withDynamic_def
    by (auto intro!: hands_option hands_panic hands_ret hands_prod hands_next hands_after hands_total validate
        hands_andThen [OF global_hands(1) [OF f _ refl]] hands_andThen [OF global_hands(2) [OF f _ refl]]
        featuredD(3) [OF f] hands_bind [OF set] clear)
qed

lemma addEnvToSearchAPI_hands:
  assumes f: "featured r objs K (searchKey inst)"
  shows "hands objs K (keyed (searchKey inst)) (addEnvToSearchAPI r inst)"
proof -
  have "hands objs K (keyed (searchKey inst)) (case res of
       Inl err \<Rightarrow> ret (if \<not> IsNotFound err then failWith err else done_ok, inst)
     | Inr found \<Rightarrow> do {
         (err, inst) \<leftarrow> updateSearchApiDeployment r inst (plainEnv ''HUB_NAME'' (index (cm_Data found) ''hubName''));
         ret (case err of Some e \<Rightarrow> failWith e | None \<Rightarrow> done_ok, inst)
       })" for res
    by (cases res) (auto intro!: hands_ret hands_prod hands_bind [OF env_hands [OF featuredD(1) [OF f] refl featuredD(2) [OF f]]])
  then show ?thesis
    unfolding addEnvToSearchAPI_def by (intro hands_after touches_Get [OF featuredD(1) [OF f]])
qed

lemma reconcileFineGrained_hands:
  assumes f: "featured r objs K (searchKey inst)"
  shows "hands objs K (keyed (searchKey inst)) (reconcileFineGrainedRBACConfiguration r inst)"
proof -
  note env = hands_bind [OF env_hands [OF featuredD(1) [OF f] refl featuredD(2) [OF f]]]
  note set = hands_bind [OF condition_hands(3) [OF featuredD(1) [OF f] _ featuredD(2) [OF f]]]
  note drop = hands_bind [OF condition_hands(4) [OF featuredD(1) [OF f] _ featuredD(2) [OF f]]]
  show ?thesis
    unfolding reconcileFineGrainedRBACConfiguration_def
    by (auto intro!: env hands_prod hands_after hands_option hands_ret featuredD(3) [OF f] set drop)
qed

lemma reconcileVM_hands:
  assumes f: "featured r objs K (searchKey inst)"
  shows "hands objs K (orPanic (keyed (searchKey inst))) (reconcileVirtualMachineConfiguration r inst)"
proof -
  note typed = featuredD(4) [OF f]
  note set = hands_bind [OF condition_hands(3) [OF featuredD(1) [OF f] refl featuredD(2) [OF f]]]
  note clear = condition_hands(5) [OF featuredD(1) [OF f] refl featuredD(2) [OF f]]
  have console: "DynamicClient r = Some dyn \<Longrightarrow> touches objs K (updateConsoleConfigVM dyn enabled)" for dyn enabled
    unfolding updateConsoleConfigVM_def
    by (intro touches_bind getMCETargetNamespace_typed [OF typed] console_frame [OF f] featuredD(5) [OF f])
  have on: "DynamicClient r = Some dyn \<Longrightarrow> touches objs K (configureVirtualMachineActions dyn)" for dyn
    unfolding configureVirtualMachineActions_def
    by (intro touches_andThen console touches_bind touches_case_prod touches_dyn(2) [OF typed] vm_setup.loop_typed [OF typed] touches_ret)
  have off: "DynamicClient r = Some dyn \<Longrightarrow> touches objs K (disableVirtualMachineActions dyn)" for dyn
    unfolding disableVirtualMachineActions_def
    by (intro touches_andThen console touches_bind touches_case_prod touches_case_option touches_dyn(2) [OF typed]
        vm_teardown.loop_typed [OF typed] touches_ret)
  show ?thesis
    unfolding reconcileVirtualMachineConfiguration_def withDynamic_def validateVirtualMachineDependencies_def
    by (auto intro!: hands_option hands_panic hands_ret hands_next hands_after hands_total validate_frame [OF f] on off
        featuredD(3) [OF f] set clear)
qed

lemma runFeatures_hands:
  assumes "\<And>m inst. m \<in> set ms \<Longrightarrow> searchKey inst = k \<Longrightarrow> hands objs K (orPanic (keyed k)) (m inst)" "searchKey inst = k"
  shows "hands objs K (orPanic (keyed k)) (runFeatures ms inst)"
  using assms
proof (induction ms arbitrary: inst)
  case (Cons m ms)
  have here: "hands objs K (orPanic (keyed k)) (m inst)" using Cons.prems by simp
  have later: "hands objs K (orPanic (keyed k)) (runFeatures ms inst)" if "searchKey inst = k" for inst
    using Cons.IH [of inst] Cons.prems(1) that by simp
  have next': "hands objs K (orPanic (keyed k)) (if err \<noteq> None
      then ret (if res = None then None else Some ((res, err), inst)) else runFeatures ms inst)" if "searchKey inst = k" for res err inst
    using later [OF that] that by (simp add: hands_ret)
  show ?case
    unfolding runFeatures.simps using here by (rule hands_andThen) (unfold split_beta, rule next')
qed (simp add: hands_ret)

lemma features_hands:
  assumes f: "featured r objs K k" and inst: "searchKey inst = k"
  shows "hands objs K (orPanic (keyed k)) (runFeatures (featureSteps r) inst)"
proof (rule runFeatures_hands [OF _ inst])
  fix m :: "Search \<Rightarrow> ('a, (step_ret \<times> Search) option) state" and inst
  assume m: "m \<in> set (featureSteps r)" and inst: "searchKey inst = k"
  have f: "featured r objs K (searchKey inst)" using f inst by simp
  show "hands objs K (orPanic (keyed k)) (m inst)"
    using m unfolding featureSteps_def list.set inst [symmetric]
    by (elim insertE emptyE; hypsubst)
      (intro reconcileGlobalSearch_hands [OF f] reconcileVM_hands [OF f] hands_total [OF addEnvToSearchAPI_hands [OF f]]
        hands_total [OF reconcileFineGrained_hands [OF f]])+
qed


section \<open>The frame of a run\<close>

definition legacyKeys :: "string \<Rightarrow> okey set" where
  "legacyKeys ns = {mkKey KServiceMonitor ''openshift-monitoring'' ''search-api-monitor'',
     mkKey KServiceMonitor ''openshift-monitoring'' ''search-indexer-monitor'',
     mkKey KRole ns SearchMetricsMonitor, mkKey KRoleBinding ns SearchMetricsMonitor,
     mkKey KClusterManagementAddOn '''' ''search-collector'', mkKey KClusterRole '''' getRoleName,
     mkKey KClusterRoleBinding '''' getRoleBindingName, mkKey KServiceAccount ns ''search-serviceaccount''}"

definition concludeKeys :: "string \<Rightarrow> okey set" where
  "concludeKeys ns = insert (mkKey KPrometheusRule ns SearchPVCAlertRuleName) (legacyKeys ns)"

text \<open>Everything the operator writes for the Search resource of a namespace.\<close>

definition operatorKeys :: "string \<Rightarrow> okey set" where
  "operatorKeys ns = fields (allSpecs ns) \<union> featureKeys (mkKey KSearch ns OperatorName) \<union> concludeKeys ns
     \<union> set finalizedKeys \<union> {k. key_kind k = KPersistentVolumeClaim \<and> key_namespace k = ns}"

lemma removeLegacyRBAC_frame:
  assumes "kube_api (Client r) objs" "legacyKeys (Namespace (s_meta inst)) \<subseteq> K"
  shows "touches objs K (removeLegacyRBAC r inst)"
  unfolding removeLegacyRBAC_def using assms
  by (intro touches_orElse delete_frames touches_bind touches_Delete touches_ret) (auto simp: legacyKeys_def)

lemma cleanUpOnce_frame:
  assumes "kube_api (Client r) objs" "legacyKeys (Namespace (s_meta inst)) \<subseteq> K"
  shows "touches objs K (cleanUpOnce r inst)"
  unfolding cleanUpOnce_def using assms
  by (intro touches_bind deleteLegacy_frame removeOwnerRef_frame touches_ret) (auto simp: legacyKeys_def)

lemma conclude_frame:
  assumes api: "kube_api (Client r) objs" and setref: "setref_contract (Lib r)" and K: "concludeKeys (Namespace (s_meta inst)) \<subseteq> K"
  shows "touches objs K (conclude r p inst)"
proof -
  have "key_of (OPrometheusRule (SearchPVCPrometheusRule r inst)) \<in> K"
    using K by (simp add: SearchPVCPrometheusRule_def Let_def metaKey_withOwner [OF setref] concludeKeys_def)
  then have "touches objs K (createOrUpdatePrometheusRule r (SearchPVCPrometheusRule r inst))"
    by (intro touches_mono [OF prometheus_rule_writer.frame [OF api]]) simp
  moreover have "legacyKeys (Namespace (s_meta inst)) \<subseteq> K" using K by (simp add: concludeKeys_def)
  ultimately show ?thesis
    unfolding conclude_def Let_def
    by (intro touches_bind touches_if touches_ret cleanUpOnce_frame [OF api] removeLegacyRBAC_frame [OF api])
qed

lemma searchKey_namespace: "searchKey inst = mkKey KSearch ns n \<Longrightarrow> Namespace (s_meta inst) = ns"
  by (simp add: metaKey_def mkKey_def cluster_scoped_def)

lemma reconcileResources_frame:
  assumes api: "kube_api (Client r) objs" and setref: "setref_contract (Lib r)" and clock: "clock_contract r objs"
    and rand: "rand_contract source objs" and dyn: "dynamic_ok r objs"
    and inst: "searchKey inst = mkKey KSearch ns OperatorName"
  shows "touches objs (operatorKeys ns) (reconcileResources r tls source p inst)"
proof -
  have steps: "touches objs (operatorKeys ns)
      (runSteps (accessSteps r inst @ databaseSteps r tls source inst @ serviceSteps r inst @ workloadSteps r tls inst))"
    using resources_install [OF api setref clock rand, of inst tls] dyn searchKey_namespace [OF inst]
    by (intro touches_mono [OF installsD(1)]) (auto simp: operatorKeys_def dynamic_ok_def)
  have f: "featured r objs (operatorKeys ns) (mkKey KSearch ns OperatorName)"
    using api clock dyn by (auto simp: featured_def operatorKeys_def)
  note features = features_hands [OF f]
  have conclude: "touches objs (operatorKeys ns) (conclude r p inst)" if "searchKey inst = mkKey KSearch ns OperatorName" for p inst
    using searchKey_namespace [OF that] by (intro conclude_frame [OF api setref]) (auto simp: operatorKeys_def)
  have "hands objs (operatorKeys ns) (\<lambda>_. True) (do {
      feature \<leftarrow> runFeatures (featureSteps r) inst;
      case feature of
        None \<Rightarrow> ret (None, p)
      | Some (step, inst) \<Rightarrow> if snd step \<noteq> None then ret (outcomeOf step, p) else conclude r p inst })"
    by (rule hands_bind [OF features [OF inst]])
      (auto intro!: hands_ret hands_touches [OF conclude] split: option.split)
  note tail = handsD(1) [OF this]
  show ?thesis
    unfolding reconcileResources_def by (rule touches_bind [OF steps]) (intro touches_case_option touches_if touches_ret tail)
qed

section \<open>The finalizer and the status\<close>

lemma setFinalizer_hands:
  assumes api: "kube_api (Client r) objs" and inst: "searchKey inst = k"
    and K: "insert k (insert (mkKey KClusterManagementAddOn '''' ''search-collector'') (set finalizedKeys)) \<subseteq> K"
  shows "hands objs K (keyed k) (setFinalizer r inst)"
proof -
  have upd: "hands objs K (keyed k) (updateInstance r (withFinalizers fs inst))" for fs
    using inst K by (intro instance_hands(1) [OF api]) (auto simp: withFinalizers_def)
  have finalize: "touches objs K (finalizeSearch r inst)"
    using K by (intro touches_mono [OF finalizeSearch_clears(1) [OF api]]) auto
  show ?thesis
    unfolding setFinalizer_def Let_def
    using inst by (auto intro!: hands_ret hands_prod hands_after hands_option finalize hands_bind [OF upd])
qed

lemma updateStatusCondition_meta: "updateStatusCondition inst pods = Some inst' \<Longrightarrow> s_meta inst' = s_meta inst \<and> s_Spec inst' = s_Spec inst"
  by (auto simp: updateStatusCondition_def withConditions_def split: option.splits prod.splits if_splits)

lemma updateStatus_frame:
  assumes api: "kube_api (Client r) objs" and clock: "clock_contract r objs" and K: "searchKey inst \<in> K"
  shows "touches objs K (updateStatus r inst podName)"
  unfolding updateStatus_def Let_def
  using K updateStatusCondition_meta
  by (intro touches_case_option touches_ret touches_bind touches_List [OF api] touches_case_sum touches_if touches_Now [OF clock]
      touches_Status [OF api]) auto

lemma pvc_frame:
  assumes api: "kube_api (Client r) objs" and K: "{k. key_kind k = KPersistentVolumeClaim \<and> key_namespace k = Namespace (s_meta inst)} \<subseteq> K"
  shows "touches objs K (isPVCPresent r inst)" "touches objs K (configurePVC r inst)"
proof -
  show "touches objs K (isPVCPresent r inst)"
    unfolding isPVCPresent_def by (intro touches_bind touches_Get [OF api] touches_ret)
  have "key_of (OPersistentVolumeClaim (NewPVC n (Namespace (s_meta inst)) c q)) \<in> K" for n c q
    using K by (auto simp: NewPVC_def mkKey_def cluster_scoped_def)
  then show "touches objs K (configurePVC r inst)"
    unfolding configurePVC_def createPVC_def Let_def
    by (intro touches_bind touches_Get [OF api] touches_ret touches_case_sum touches_if touches_Create [OF api])
qed


section \<open>A whole run\<close>

lemma reconcileActive_frame:
  assumes api: "kube_api (Client r) objs" and setref: "setref_contract (Lib r)" and clock: "clock_contract r objs"
    and rand: "rand_contract source objs" and dyn: "dynamic_ok r objs" and inst: "searchKey inst = mkKey KSearch ns OperatorName"
  shows "touches objs (operatorKeys ns) (reconcileActive r tls source p inst)"
proof -
  have "{k. key_kind k = KPersistentVolumeClaim \<and> key_namespace k = Namespace (s_meta inst)} \<subseteq> operatorKeys ns"
    using searchKey_namespace [OF inst] by (auto simp: operatorKeys_def)
  note pvc = pvc_frame [OF api this]
  show ?thesis
    unfolding reconcileActive_def storageReady_def
    by (intro touches_bind touches_if touches_ret pvc reconcileResources_frame assms)
qed

lemma Reconcile_frame:
  assumes api: "kube_api (Client r) objs" and setref: "setref_contract (Lib r)" and clock: "clock_contract r objs"
    and rand: "rand_contract source objs" and dyn: "dynamic_ok r objs"
  shows "touches objs (operatorKeys ns) (Reconcile r tls source p reqName ns)"
  unfolding Reconcile_def Let_def
proof (rule touches_bind_result [OF touches_Get [OF api]])
  fix res w w'
  assume g: "run_state (Get (Client r) asSearch (mkKey KSearch ns OperatorName)) w = (res, w')"
  let ?K = "operatorKeys ns"
  have k: "mkKey KSearch ns OperatorName \<in> ?K" using featureKeys_in(1) by (auto simp: operatorKeys_def)
  have K: "insert (mkKey KSearch ns OperatorName) (insert (mkKey KClusterManagementAddOn '''' ''search-collector'') (set finalizedKeys)) \<subseteq> ?K"
    using k by (auto simp: operatorKeys_def concludeKeys_def legacyKeys_def)
  show "touches objs ?K (case res of
      Inl err \<Rightarrow> finished p (emptyResult, if IsNotFound err then None else Some err)
    | Inr inst \<Rightarrow>
        if HasPrefix reqName ''Pod/'' then do {
          err \<leftarrow> updateStatus r inst (Split reqName CHR ''/'' ! 1);
          ret (map_option (\<lambda>err. (emptyResult, err)) err, startOnce inst p)
        } else do {
          ((deleted, err), i) \<leftarrow> setFinalizer r inst;
          if err \<noteq> None \<or> deleted then finished (startOnce inst p) (emptyResult, err)
          else reconcileActive r tls source (startOnce inst p) i
        })"
  proof (cases res)
    case (Inl err)
    then show ?thesis by (simp add: touches_ret)
  next
    case (Inr inst)
    have key: "searchKey inst = mkKey KSearch ns OperatorName"
      using Get_found [OF api decodes_kinds(1) g [unfolded Inr]] by simp
    have status: "touches objs ?K (updateStatus r inst n)" for n
      using key k by (intro updateStatus_frame [OF api clock]) simp
    have rest: "touches objs ?K (do {
        ((deleted, err), i) \<leftarrow> setFinalizer r inst;
        if err \<noteq> None \<or> deleted then finished q (emptyResult, err)
        else reconcileActive r tls source q i })" for q
      by (rule handsD(1) [OF hands_bind [OF setFinalizer_hands [OF api key K], where Q = "\<lambda>_. True"]])
        (auto intro!: hands_ret hands_touches [OF reconcileActive_frame [OF api setref clock rand dyn]] split: prod.split)
    show ?thesis
      unfolding Inr sum.case by (intro touches_if touches_bind [OF status] touches_ret rest)
  qed
qed


section \<open>What the steps store\<close>

text \<open>
  Beyond being there: the cluster roles have the wanted rules, the bindings the wanted role and subjects,
  the network policies the wanted spec, labels and owners, and the merged collector config is the merge of
  the configs that were stored at the beginning.
\<close>

definition granted :: "'w SearchReconciler \<Rightarrow> Search \<Rightarrow> (okey \<Rightarrow> kobj option) \<Rightarrow> bool" where
  "granted r inst stored \<longleftrightarrow>
     (\<forall>role \<in> {IndexerClusterRole inst, AddonClusterRole inst, GlobalSearchUserClusterRole inst}.
        \<exists>y. stored (key_of (OClusterRole role)) = Some (OClusterRole y) \<and> cr_Rules y = cr_Rules role)
     \<and> (\<forall>b \<in> {APIClusterRoleBinding (Getenv r) inst, CollectorClusterRoleBinding (Getenv r) inst, IndexerClusterRoleBinding inst}.
        \<exists>y. stored (key_of (OClusterRoleBinding b)) = Some (OClusterRoleBinding y)
          \<and> crb_RoleRef y = crb_RoleRef b \<and> crb_Subjects y = crb_Subjects b)"

definition isolated :: "'w SearchReconciler \<Rightarrow> Search \<Rightarrow> string \<Rightarrow> (okey \<Rightarrow> kobj option) \<Rightarrow> bool" where
  "isolated r inst mce stored \<longleftrightarrow>
     (\<forall>np \<in> set (policiesFor r inst mce). \<exists>y. stored (policyKey np) = Some (ONetworkPolicy y) \<and> samePolicy y np)"

text \<open>\<open>before\<close> holds the configs that are merged, \<open>stored\<close> the result.\<close>

definition merged_from :: "string \<Rightarrow> (okey \<Rightarrow> kobj option) \<Rightarrow> (okey \<Rightarrow> kobj option) \<Rightarrow> bool" where
  "merged_from ns before stored \<longleftrightarrow>
     (\<exists>teams cc. sorted_wrt (<) (map (\<lambda>tc. Name (cc_meta tc)) teams)
        \<and> (\<forall>tc. tc \<in> set teams \<longleftrightarrow> before (ccKey tc) = Some (OCollectorConfig tc) \<and> Namespace (cc_meta tc) = ns
             \<and> lookup (Labels (cc_meta tc)) IntegrationTeamLabel = Some IntegrationTeamLabelValue)
        \<and> stored (mkKey KCollectorConfig ns mergedCollectorConfigName) = Some (OCollectorConfig cc)
        \<and> semEqSpec (cc_Spec cc) (merge_spec teams
             (case before (mkKey KCollectorConfig ns userCollectorConfigName) of Some (OCollectorConfig u) \<Rightarrow> Some (cc_Spec u) | _ \<Rightarrow> None)))"

lemma merged_from_cong:
  assumes "\<And>k. k \<in> configs_of ns \<Longrightarrow> before' k = before k" "\<And>k. k \<in> configs_of ns \<Longrightarrow> stored' k = stored k" "merged_from ns before stored"
  shows "merged_from ns before' stored'"
proof -
  have keys: "mkKey KCollectorConfig ns n \<in> configs_of ns" for n by (simp add: configs_of_def mkKey_def cluster_scoped_def)
  have "Namespace (cc_meta tc) = ns \<Longrightarrow> before' (ccKey tc) = before (ccKey tc)" for tc
    using assms(1) configs_of_iff by blast
  then show ?thesis
    using assms(3) unfolding merged_from_def assms(1) [OF keys] assms(2) [OF keys] by metis
qed

lemma merge_step_stores:
  assumes api: "kube_api (Client r) objs" and clock: "clock_contract r objs" and setref: "setref_contract (Lib r)"
    and ns: "Namespace (s_meta inst) = ns" and live: "\<And>k. k \<in> configs_of ns \<Longrightarrow> alive objs w k"
    and run: "run_state (createOrUpdateMergedCollectorConfig r inst) w = (done_ok, w')"
  shows "merged_from ns (objs w) (objs w')"
proof -
  have "alive objs w (mkKey KCollectorConfig (Namespace (s_meta inst)) n)" for n
    using live by (simp add: ns configs_of_def mkKey_def cluster_scoped_def)
  from merge_stores [OF api clock setref this run] show ?thesis unfolding merged_from_def ns spec_at_def .
qed

lemma policies_step_store:
  assumes api: "kube_api (Client r) objs" and setref: "setref_contract (Lib r)" and dyn: "dynamic_typed r objs"
    and live: "\<And>k. k \<in> policyKeys (Namespace (s_meta inst)) \<Longrightarrow> alive objs w k"
    and run: "run_state (reconcileNetworkPolicies r inst) w = (done_ok, w')"
  shows "isolated r inst (mceNamespaceOf r w) (objs w')"
proof -
  let ?nps = "policiesFor r inst (mceNamespaceOf r w)"
  obtain w1 where nps: "run_state (NetworkPolicies r inst) w = (?nps, w1)"
    using NetworkPolicies_run [of r inst w] by (metis prod.collapse)
  have "touches objs {} (NetworkPolicies r inst)"
    unfolding NetworkPolicies_def using dyn
    by (intro touches_case_option touches_bind touches_ret getMCETargetNamespace_typed) (simp add: dynamic_typed_def)
  then have idle: "objs w1 = objs w" using touchesD [OF _ nps] by (intro ext) simp
  have wr: "run_state (writePolicies r ?nps) w1 = (done_ok, w')" using run nps by (simp add: reconcileNetworkPolicies_def)
  have keys: "policyKey ` set ?nps = policyKeys (Namespace (s_meta inst))"
    unfolding policyKeys_def policiesFor_keys [OF setref, of inst "mceNamespaceOf r w", symmetric] by simp
  have "distinct (map policyKey ?nps)"
    unfolding policiesFor_keys [OF setref]
    by (simp add: networkPolicyName_def mkKey_def postgresDeploymentName_def indexerDeploymentName_def
        apiDeploymentName_def collectorDeploymentName_def)
  moreover have "\<not> terminated (ONetworkPolicy np) \<and> alive objs w1 (policyKey np)" if "np \<in> set ?nps" for np
    using that live [of "policyKey np"] keys idle policy_not_terminated [OF setref that] by (auto simp: alive_def)
  ultimately show ?thesis unfolding isolated_def using writePolicies_stores [OF api _ _ wr] by blast
qed

lemma resource_step:
  assumes api: "kube_api (Client r) objs" and setref: "setref_contract (Lib r)" and clock: "clock_contract r objs"
    and rand: "rand_contract source objs" and dyn: "dynamic_typed r objs" and ns: "Namespace (s_meta inst) = ns"
    and alive: "\<forall>k \<in> fields (allSpecs ns). alive objs w k"
    and run: "run_state (runSteps (accessSteps r inst @ databaseSteps r tls source inst @ serviceSteps r inst @ workloadSteps r tls inst)) w
      = (Some (None, err), w')"
    and step: "((K, ks), total m) \<in> set (zip (accessSpecs ns) (accessSteps r inst)) \<union> set (zip (workloadSpecs ns) (workloadSteps r tls inst))"
  shows "\<exists>v v'. run_state m v = (done_ok, v') \<and> (\<forall>k \<in> K. objs v k = objs w k \<and> objs w' k = objs v' k)"
proof -
  have all: "list_all2 (\<lambda>(K, ks) m. installs objs K ks m) (allSpecs ns)
      (accessSteps r inst @ databaseSteps r tls source inst @ serviceSteps r inst @ workloadSteps r tls inst)"
    unfolding ns [symmetric]
    by (intro list_all2_appendI accessSteps_install databaseSteps_install serviceSteps_install workloadSteps_install
        api setref clock rand dyn)
  have "length (accessSpecs ns) = length (accessSteps r inst)" "length (databaseSpecs ns) = length (databaseSteps r tls source inst)"
    "length (serviceSpecs ns) = length (serviceSteps r inst)"
    by (simp_all add: accessSpecs_def accessSteps_def databaseSpecs_def databaseSteps_def serviceSpecs_def serviceSteps_def)
  then have "((K, ks), total m) \<in> set (zip (allSpecs ns)
      (accessSteps r inst @ databaseSteps r tls source inst @ serviceSteps r inst @ workloadSteps r tls inst))"
    using step by (auto simp: zip_append)
  from runSteps_step [OF all specs_separate _ run this] alive total_done [of m] show ?thesis by blast
qed

lemma steps_store:
  assumes api: "kube_api (Client r) objs" and setref: "setref_contract (Lib r)" and clock: "clock_contract r objs"
    and rand: "rand_contract source objs" and dyn: "dynamic_typed r objs" and ns: "Namespace (s_meta inst) = ns"
    and alive: "\<forall>k \<in> fields (allSpecs ns). alive objs w k"
    and run: "run_state (runSteps (accessSteps r inst @ databaseSteps r tls source inst @ serviceSteps r inst @ workloadSteps r tls inst)) w
      = (Some (None, err), w')"
  shows "granted r inst (objs w')" and "\<exists>v. isolated r inst (mceNamespaceOf r v) (objs w')" and "merged_from ns (objs w) (objs w')"
proof -
  note step = resource_step [OF assms]
  have role: "\<exists>y. objs w' (key_of (OClusterRole role)) = Some (OClusterRole y) \<and> cr_Rules y = cr_Rules role"
    if "(made (key_of (OClusterRole role)), total (createUpdateRoles r role)) \<in> set (zip (accessSpecs ns) (accessSteps r inst))"
      "\<not> terminated (OClusterRole role)" for role
  proof -
    from step [OF UnI1 [OF that(1)]] obtain v v' where
      v: "run_state (createUpdateRoles r role) v = (done_ok, v')" "objs v (key_of (OClusterRole role)) = objs w (key_of (OClusterRole role))"
        "objs w' (key_of (OClusterRole role)) = objs v' (key_of (OClusterRole role))" by blast
    have "key_of (OClusterRole role) \<in> fields (allSpecs ns)" using set_zip_leftD [OF that(1)] by force
    then have "alive objs v (key_of (OClusterRole role))" using alive v(2) unfolding alive_def by simp
    from role_writer.reaches [OF api this that(2) v(1)] show ?thesis using v(3) by simp
  qed
  have binding: "\<exists>y. objs w' (key_of (OClusterRoleBinding b)) = Some (OClusterRoleBinding y) \<and> crb_RoleRef y = crb_RoleRef b \<and> crb_Subjects y = crb_Subjects b"
    if "(made (key_of (OClusterRoleBinding b)), total (createRoleBinding r b)) \<in> set (zip (accessSpecs ns) (accessSteps r inst))"
      "\<not> terminated (OClusterRoleBinding b)" for b
  proof -
    from step [OF UnI1 [OF that(1)]] obtain v v' where
      v: "run_state (createRoleBinding r b) v = (done_ok, v')" "objs v (key_of (OClusterRoleBinding b)) = objs w (key_of (OClusterRoleBinding b))"
        "objs w' (key_of (OClusterRoleBinding b)) = objs v' (key_of (OClusterRoleBinding b))" by blast
    have "key_of (OClusterRoleBinding b) \<in> fields (allSpecs ns)" using set_zip_leftD [OF that(1)] by force
    then have "alive objs v (key_of (OClusterRoleBinding b))" using alive v(2) unfolding alive_def by simp
    from binding_writer.reaches [OF api this that(2) v(1)] show ?thesis using v(3) by (simp add: sameBinding_def)
  qed
  have roles: "(made (key_of (OClusterRole x)), total (createUpdateRoles r x)) \<in> set (zip (accessSpecs ns) (accessSteps r inst)) \<and> \<not> terminated (OClusterRole x)"
    if "x \<in> {IndexerClusterRole inst, AddonClusterRole inst, GlobalSearchUserClusterRole inst}" for x
    using that by (auto simp: accessSpecs_def accessSteps_def IndexerClusterRole_def AddonClusterRole_def GlobalSearchUserClusterRole_def
        mkKey_def cluster_scoped_def terminated_def)
  have bindings: "(made (key_of (OClusterRoleBinding x)), total (createRoleBinding r x)) \<in> set (zip (accessSpecs ns) (accessSteps r inst)) \<and> \<not> terminated (OClusterRoleBinding x)"
    if "x \<in> {APIClusterRoleBinding (Getenv r) inst, CollectorClusterRoleBinding (Getenv r) inst, IndexerClusterRoleBinding inst}" for x
    using that by (auto simp: accessSpecs_def accessSteps_def APIClusterRoleBinding_def CollectorClusterRoleBinding_def IndexerClusterRoleBinding_def
        bindRole_def mkKey_def cluster_scoped_def terminated_def)
  show "granted r inst (objs w')" unfolding granted_def using role binding roles bindings by blast
  have "((policyKeys ns, policyKeys ns), total (reconcileNetworkPolicies r inst)) \<in> set (zip (workloadSpecs ns) (workloadSteps r tls inst))"
    by (simp add: workloadSpecs_def workloadSteps_def Let_def)
  note pol = this
  from step [OF UnI2 [OF pol]] obtain v v' where
    v: "run_state (reconcileNetworkPolicies r inst) v = (done_ok, v')" "\<forall>k \<in> policyKeys ns. objs v k = objs w k \<and> objs w' k = objs v' k" by blast
  have "policyKeys ns \<subseteq> fields (allSpecs ns)" using set_zip_leftD [OF pol] by force
  then have "alive objs v k" if "k \<in> policyKeys (Namespace (s_meta inst))" for k
    using alive_cong [of objs v k w] v(2) alive that ns by auto
  from policies_step_store [OF api setref dyn this v(1)] have "isolated r inst (mceNamespaceOf r v) (objs v')" .
  moreover have "policyKey np \<in> policyKeys ns" if "np \<in> set (policiesFor r inst (mceNamespaceOf r v))" for np
    using that policiesFor_keys [OF setref, of inst "mceNamespaceOf r v"] ns unfolding policyKeys_def by (metis image_eqI set_map)
  ultimately have "isolated r inst (mceNamespaceOf r v) (objs w')" using v(2) unfolding isolated_def by simp
  then show "\<exists>v. isolated r inst (mceNamespaceOf r v) (objs w')" by blast
  have merge: "((configs_of ns, {}), total (createOrUpdateMergedCollectorConfig r inst)) \<in> set (zip (accessSpecs ns) (accessSteps r inst))"
    by (simp add: accessSpecs_def accessSteps_def)
  from step [OF UnI1 [OF merge]] obtain u u' where
    u: "run_state (createOrUpdateMergedCollectorConfig r inst) u = (done_ok, u')" "\<forall>k \<in> configs_of ns. objs u k = objs w k \<and> objs w' k = objs u' k" by blast
  have "configs_of ns \<subseteq> fields (allSpecs ns)" using set_zip_leftD [OF merge] by force
  then have "alive objs u k" if "k \<in> configs_of ns" for k using alive_cong [of objs u k w] u(2) alive that by auto
  from merge_step_stores [OF api clock setref ns this u(1)] show "merged_from ns (objs w) (objs w')"
    by (rule merged_from_cong [rotated 2]) (use u(2) in auto)
qed

section \<open>What a successful run leaves behind\<close>

text \<open>The objects that are in place after a successful run.\<close>

definition desiredKeys :: "string \<Rightarrow> okey set" where
  "desiredKeys ns = insert (mkKey KPrometheusRule ns SearchPVCAlertRuleName) (yields (allSpecs ns))"

text \<open>The objects that the steps and the alerts write.\<close>

definition steppedKeys :: "string \<Rightarrow> okey set" where
  "steppedKeys ns = insert (mkKey KPrometheusRule ns SearchPVCAlertRuleName) (fields (allSpecs ns))"

lemma steppedKeysI:
  "k \<in> fields (allSpecs ns) \<Longrightarrow> k \<in> steppedKeys ns" "mkKey KPrometheusRule ns SearchPVCAlertRuleName \<in> steppedKeys ns"
  unfolding steppedKeys_def by (rule insertI2) (assumption, rule insertI1)

lemma steppedKeys_operator: "steppedKeys ns \<subseteq> operatorKeys ns"
  by (auto simp: steppedKeys_def operatorKeys_def concludeKeys_def)

lemma steppedKeys_apart:
  "mkKey KSearch ns n \<notin> steppedKeys ns" "k \<in> steppedKeys ns \<Longrightarrow> key_kind k \<noteq> KPersistentVolumeClaim"
  by (auto simp: steppedKeys_def spec_defs name_defs mkKey_def cluster_scoped_def)

definition alerting :: "'w SearchReconciler \<Rightarrow> Search \<Rightarrow> (okey \<Rightarrow> kobj option) \<Rightarrow> bool" where
  "alerting r inst stored \<longleftrightarrow> (\<exists>y. stored (inNs inst KPrometheusRule SearchPVCAlertRuleName) = Some (OPrometheusRule y)
     \<and> normGroups (prom_Groups y) = normGroups (prom_Groups (SearchPVCPrometheusRule r inst)))"

lemma conclude_ok:
  assumes api: "kube_api (Client r) objs" and setref: "setref_contract (Lib r)"
    and run: "run_state (conclude r p inst) w = ((Some (res, None), p'), w')"
    and alive: "alive objs w (inNs inst KPrometheusRule SearchPVCAlertRuleName)"
  shows "alerting r inst (objs w') \<and> res = emptyResult"
proof -
  let ?rule = "SearchPVCPrometheusRule r inst" and ?k = "inNs inst KPrometheusRule SearchPVCAlertRuleName"
  have key: "key_of (OPrometheusRule ?rule) = ?k" and nt: "\<not> terminated (OPrometheusRule ?rule)"
    by (simp_all add: SearchPVCPrometheusRule_def Let_def metaKey_withOwner [OF setref] terminated_def DeletionTimestamp_withOwner [OF setref])
  obtain step w1 where first: "run_state (createOrUpdatePrometheusRule r ?rule) w = (step, w1)" by fastforce
  have tidy: "tidy (createOrUpdatePrometheusRule r ?rule)" by (rule tidy_writers)
  obtain a err where step: "step = (a, err)" by fastforce
  have "a = None"
  proof (rule ccontr)
    assume "a \<noteq> None"
    then obtain b where "a = Some b" by blast
    with run first step have "err = None" by (auto simp: conclude_def outcomeOf_def)
    then show False using tidyF [OF tidy] first step \<open>a = Some b\<close> by blast
  qed
  then have "step = done_ok" using tidyD [OF tidy] first step by (simp add: done_ok_def)
  from prometheus_rule_writer.reaches [OF api _ nt first [unfolded this]] alive key have here: "alerting r inst (objs w1)"
    by (auto simp: alerting_def)
  obtain u w2 where clean: "run_state (if cleaned p then ret () else cleanUpOnce r inst) w1 = (u, w2)" by (metis surj_pair)
  obtain err2 w3 where legacy: "run_state (removeLegacyRBAC r inst) w2 = (err2, w3)" by fastforce
  have fin: "w3 = w'" "res = emptyResult"
    using run first \<open>step = done_ok\<close> clean legacy by (auto simp: conclude_def Let_def done_ok_def)
  have out: "?k \<notin> legacyKeys (Namespace (s_meta inst))" by (simp add: legacyKeys_def mkKey_def)
  have "touches objs (legacyKeys (Namespace (s_meta inst))) (if cleaned p then ret () else cleanUpOnce r inst)"
    by (intro touches_if touches_ret cleanUpOnce_frame [OF api] subset_refl)
  from touchesD [OF this clean out] touchesD [OF removeLegacyRBAC_frame [OF api subset_refl] legacy out] here fin
  show ?thesis by (simp add: alerting_def)
qed

lemma desired_not_featured: "k \<in> desiredKeys ns \<Longrightarrow> k \<notin> featureKeys (mkKey KSearch ns OperatorName)"
  by (auto simp: desiredKeys_def featureKeys_def spec_defs name_defs mkKey_def)

lemma desired_not_concluded: "k \<in> yields (allSpecs ns) \<Longrightarrow> k \<notin> concludeKeys ns"
  by (auto simp: concludeKeys_def legacyKeys_def spec_defs name_defs mkKey_def cluster_scoped_def)

lemma alert_not_installed: "mkKey KPrometheusRule ns SearchPVCAlertRuleName \<notin> fields (allSpecs ns)"
  by (auto simp: spec_defs name_defs mkKey_def cluster_scoped_def)

text \<open>The three phases of a run that reports success: the steps, the features, the conclusion.\<close>

lemma reconcileResources_phases:
  assumes api: "kube_api (Client r) objs" and setref: "setref_contract (Lib r)" and clock: "clock_contract r objs"
    and rand: "rand_contract source objs" and dyn: "dynamic_ok r objs" and inst: "searchKey inst = mkKey KSearch ns OperatorName"
    and run: "run_state (reconcileResources r tls source p inst) w = ((Some (res, None), p'), w')"
  obtains w1 err w2 inst2 where
    "run_state (runSteps (accessSteps r inst @ databaseSteps r tls source inst @ serviceSteps r inst @ workloadSteps r tls inst)) w
      = (Some (None, err), w1)"
    "\<forall>k. k \<notin> featureKeys (mkKey KSearch ns OperatorName) \<longrightarrow> objs w2 k = objs w1 k"
    "run_state (conclude r p inst2) w2 = ((Some (res, None), p'), w')" "searchKey inst2 = mkKey KSearch ns OperatorName"
proof -
  let ?steps = "runSteps (accessSteps r inst @ databaseSteps r tls source inst @ serviceSteps r inst @ workloadSteps r tls inst)"
  let ?s = "mkKey KSearch ns OperatorName"
  have dyn': "dynamic_typed r objs" using dyn by (simp add: dynamic_ok_def)
  note steps = resources_install [OF api setref clock rand dyn', of inst tls]
  have "featured r objs (featureKeys ?s) ?s" using api clock dyn by (simp add: featured_def)
  note features = features_hands [OF this inst]
  obtain x w1 where first: "run_state ?steps w = (x, w1)" by fastforce
  obtain a err where x: "x = Some (a, err)" using run first by (cases x) (auto simp: reconcileResources_def)
  have a: "a = None"
  proof (rule ccontr)
    assume "a \<noteq> None"
    then obtain b where b: "a = Some b" by blast
    with run first x have "err = None" by (auto simp: reconcileResources_def outcomeOf_def)
    then show False using installsD(4) [OF steps first [unfolded x b]] by blast
  qed
  obtain y w2 where second: "run_state (runFeatures (featureSteps r) inst) w1 = (y, w2)" by fastforce
  have tail: "run_state (case y of None \<Rightarrow> ret (None, p)
      | Some (step, inst) \<Rightarrow> if snd step \<noteq> None then ret (outcomeOf step, p) else conclude r p inst) w2 = ((Some (res, None), p'), w')"
    using run first x a second by (simp add: reconcileResources_def del: not_None_eq)
  obtain step inst2 where y: "y = Some (step, inst2)" using tail by (cases y) auto
  have "snd step = None"
  proof (rule ccontr)
    assume "snd step \<noteq> None"
    with tail y have "outcomeOf step = Some (res, None)" by simp
    with \<open>snd step \<noteq> None\<close> show False by (auto simp: outcomeOf_def split: option.splits)
  qed
  then have "run_state (conclude r p inst2) w2 = ((Some (res, None), p'), w')" using tail y by simp
  moreover have "searchKey inst2 = ?s" using handsD(2) [OF features second] y by simp
  moreover have "objs w2 k = objs w1 k" if "k \<notin> featureKeys ?s" for k by (rule touchesD [OF handsD(1) [OF features] second that])
  ultimately show thesis using that first [unfolded x a] by blast
qed

text \<open>What is stored when a run reports success, and the objects that it works from.\<close>

definition installed :: "'w SearchReconciler \<Rightarrow> Search \<Rightarrow> string \<Rightarrow> (okey \<Rightarrow> kobj option) \<Rightarrow> (okey \<Rightarrow> kobj option) \<Rightarrow> bool" where
  "installed r inst ns before stored \<longleftrightarrow>
     (\<forall>k \<in> desiredKeys ns. stored k \<noteq> None)
     \<and> granted r inst stored
     \<and> (\<exists>v. isolated r inst (mceNamespaceOf r v) stored)
     \<and> merged_from ns before stored
     \<and> (\<exists>inst2. searchKey inst2 = mkKey KSearch ns OperatorName \<and> alerting r inst2 stored)"

lemma installed_before:
  "installed r inst ns before stored \<Longrightarrow> (\<And>k. k \<in> configs_of ns \<Longrightarrow> before' k = before k) \<Longrightarrow> installed r inst ns before' stored"
  unfolding installed_def using merged_from_cong [of ns before' before stored stored] by blast

text \<open>What the steps write is not written by the features and the clean-ups.\<close>

lemma granted_keys:
  "role \<in> {IndexerClusterRole inst, AddonClusterRole inst, GlobalSearchUserClusterRole inst} \<Longrightarrow> key_of (OClusterRole role) \<in> yields (allSpecs ns)"
  "b \<in> {APIClusterRoleBinding getenv inst, CollectorClusterRoleBinding getenv inst, IndexerClusterRoleBinding inst} \<Longrightarrow>
     key_of (OClusterRoleBinding b) \<in> yields (allSpecs ns)"
  by (auto simp: accessSpecs_def IndexerClusterRole_def AddonClusterRole_def GlobalSearchUserClusterRole_def APIClusterRoleBinding_def
      CollectorClusterRoleBinding_def IndexerClusterRoleBinding_def bindRole_def mkKey_def cluster_scoped_def)

lemma isolated_keys:
  assumes "setref_contract (Lib r)" "Namespace (s_meta inst) = ns" "np \<in> set (policiesFor r inst mce)"
  shows "policyKey np \<in> yields (allSpecs ns)"
proof -
  have "policyKey np \<in> policyKeys ns"
    using assms(3) policiesFor_keys [OF assms(1), of inst mce] assms(2) unfolding policyKeys_def by (metis image_eqI set_map)
  then show ?thesis by (simp add: workloadSpecs_def Let_def)
qed

lemma configs_apart:
  "k \<in> configs_of ns \<Longrightarrow> k \<notin> featureKeys (mkKey KSearch ns' n)" "k \<in> configs_of ns \<Longrightarrow> k \<notin> concludeKeys ns'"
  by (auto simp: configs_of_def featureKeys_def concludeKeys_def legacyKeys_def mkKey_def)

lemma reconcileResources_ok:
  assumes api: "kube_api (Client r) objs" and setref: "setref_contract (Lib r)" and clock: "clock_contract r objs"
    and rand: "rand_contract source objs" and dyn: "dynamic_ok r objs" and inst: "searchKey inst = mkKey KSearch ns OperatorName"
    and alive: "\<And>k. k \<in> steppedKeys ns \<Longrightarrow> alive objs w k"
    and run: "run_state (reconcileResources r tls source p inst) w = ((Some (res, None), p'), w')"
  shows "res = emptyResult \<and> installed r inst ns (objs w) (objs w')"
proof -
  let ?steps = "runSteps (accessSteps r inst @ databaseSteps r tls source inst @ serviceSteps r inst @ workloadSteps r tls inst)"
  let ?alert = "mkKey KPrometheusRule ns SearchPVCAlertRuleName" and ?s = "mkKey KSearch ns OperatorName"
  have ns: "Namespace (s_meta inst) = ns" by (rule searchKey_namespace [OF inst])
  have dyn': "dynamic_typed r objs" using dyn by (simp add: dynamic_ok_def)
  note steps = resources_install [OF api setref clock rand dyn', of inst tls, unfolded ns]
  obtain w1 err w2 inst2 where first: "run_state ?steps w = (Some (None, err), w1)"
    and unfeatured: "\<forall>k. k \<notin> featureKeys ?s \<longrightarrow> objs w2 k = objs w1 k"
    and last: "run_state (conclude r p inst2) w2 = ((Some (res, None), p'), w')" and inst2: "searchKey inst2 = ?s"
    by (rule reconcileResources_phases [OF api setref clock rand dyn inst run])
  have features: "objs w2 k = objs w1 k" if "k \<notin> featureKeys ?s" for k using unfeatured that by blast
  have ns2: "Namespace (s_meta inst2) = ns" by (rule searchKey_namespace [OF inst2])
  have al: "\<forall>k \<in> fields (allSpecs ns). alive objs w k" by (intro ballI alive steppedKeysI(1))
  have made: "\<forall>k \<in> yields (allSpecs ns). objs w1 k \<noteq> None" using installsD(3) [OF steps first] al by blast
  have "alive objs w ?alert" by (rule alive [OF steppedKeysI(2)])
  moreover have "objs w2 ?alert = objs w ?alert"
    using features [OF desired_not_featured, of ?alert] touchesD [OF installsD(1) [OF steps] first alert_not_installed]
    by (simp add: desiredKeys_def)
  ultimately have "alive objs w2 (inNs inst2 KPrometheusRule SearchPVCAlertRuleName)" by (simp add: alive_def ns2)
  from conclude_ok [OF api setref last this] have alert: "alerting r inst2 (objs w')" and res: "res = emptyResult" by simp_all
  then have "objs w' ?alert \<noteq> None" by (auto simp: alerting_def ns2)
  note conclusion = touchesD [OF conclude_frame [OF api setref subset_refl] last, unfolded ns2]
  have kept: "objs w' k = objs w1 k" if k: "k \<in> yields (allSpecs ns)" for k
    using conclusion [OF desired_not_concluded [OF k]] features [OF desired_not_featured, of k] k by (simp add: desiredKeys_def)
  note stored = steps_store [OF api setref clock rand dyn' ns al first]
  have "granted r inst (objs w')" using stored(1) kept [OF granted_keys(1)] kept [OF granted_keys(2)] unfolding granted_def by simp
  moreover have "isolated r inst mce (objs w')" if "isolated r inst mce (objs w1)" for mce
    using that kept [OF isolated_keys [OF setref ns]] unfolding isolated_def by simp
  then have "\<exists>v. isolated r inst (mceNamespaceOf r v) (objs w')" using stored(2) by blast
  moreover have "merged_from ns (objs w) (objs w')"
    by (rule merged_from_cong [OF refl _ stored(3)]) (use conclusion configs_apart features in metis)
  moreover have "\<forall>k \<in> desiredKeys ns. objs w' k \<noteq> None" using made kept \<open>objs w' ?alert \<noteq> None\<close> by (simp add: desiredKeys_def)
  ultimately show ?thesis using alert inst2 res unfolding installed_def by blast
qed

end
