(* ===== verification/Healthy_Runs.thy ===== *)
theory Healthy_Runs
  imports Reconcile_Run
begin

text \<open>
  On a server that answers every call as its state demands, a run of the reconciliation comes to its
  end and reports success. The steps are taken one by one, as in \<open>Reconcile_Steps\<close>.
\<close>

section \<open>A healthy server\<close>

text \<open>
  \<open>ok\<close> holds of the worlds in which no call fails for a reason outside the stored objects, and every
  call keeps it.
\<close>

definition healthy :: "'w client \<Rightarrow> 'w view \<Rightarrow> ('w \<Rightarrow> bool) \<Rightarrow> bool" where
  "healthy c objs ok \<longleftrightarrow> (\<forall>w. ok w \<longrightarrow>
     (\<forall>k r w'. run_state (cl_Get c k) w = (r, w') \<longrightarrow> ok w'
        \<and> (\<forall>ob. objs w k = Some ob \<longrightarrow> r = Inr ob) \<and> (objs w k = None \<longrightarrow> (\<exists>e. r = Inl e \<and> IsNotFound e)))
   \<and> (\<forall>ob r w'. run_state (cl_Create c ob) w = (r, w') \<longrightarrow> ok w' \<and> (objs w (key_of ob) = None \<longrightarrow> (\<exists>ob'. r = Inr ob')))
   \<and> (\<forall>ob r w'. run_state (cl_Update c ob) w = (r, w') \<longrightarrow> ok w' \<and> (objs w (key_of ob) \<noteq> None \<longrightarrow> (\<exists>ob'. r = Inr ob')))
   \<and> (\<forall>base ob r w'. run_state (cl_Patch c base ob) w = (r, w') \<longrightarrow> ok w' \<and> (objs w (key_of ob) \<noteq> None \<longrightarrow> (\<exists>ob'. r = Inr ob')))
   \<and> (\<forall>ob r w'. run_state (cl_StatusUpdate c ob) w = (r, w') \<longrightarrow> ok w' \<and> (objs w (key_of ob) \<noteq> None \<longrightarrow> (\<exists>ob'. r = Inr ob')))
   \<and> (\<forall>k r w'. run_state (cl_Delete c k) w = (r, w') \<longrightarrow> ok w' \<and> (objs w k \<noteq> None \<longrightarrow> r = None) \<and> (objs w k = None \<longrightarrow> (\<exists>e. r = Some e \<and> IsNotFound e)))
   \<and> (\<forall>k ns sel r w'. run_state (cl_List c k ns sel) w = (r, w') \<longrightarrow> ok w' \<and> (\<exists>obs. r = Inr obs)))"

lemma healthyD:
  assumes "healthy c objs ok" "ok w"
  shows "run_state (cl_Get c k) w = (r, w') \<Longrightarrow> ok w'"
    "run_state (cl_Get c k) w = (r, w') \<Longrightarrow> objs w k = Some ob \<Longrightarrow> r = Inr ob"
    "run_state (cl_Get c k) w = (r, w') \<Longrightarrow> objs w k = None \<Longrightarrow> \<exists>e. r = Inl e \<and> IsNotFound e"
    "run_state (cl_Create c ob) w = (s, w') \<Longrightarrow> ok w'"
    "run_state (cl_Create c ob) w = (s, w') \<Longrightarrow> objs w (key_of ob) = None \<Longrightarrow> \<exists>ob'. s = Inr ob'"
    "run_state (cl_Update c ob) w = (s, w') \<Longrightarrow> ok w'"
    "run_state (cl_Update c ob) w = (s, w') \<Longrightarrow> objs w (key_of ob) \<noteq> None \<Longrightarrow> \<exists>ob'. s = Inr ob'"
    "run_state (cl_Patch c base ob) w = (s, w') \<Longrightarrow> ok w'"
    "run_state (cl_Patch c base ob) w = (s, w') \<Longrightarrow> objs w (key_of ob) \<noteq> None \<Longrightarrow> \<exists>ob'. s = Inr ob'"
    "run_state (cl_StatusUpdate c ob) w = (s, w') \<Longrightarrow> ok w'"
    "run_state (cl_StatusUpdate c ob) w = (s, w') \<Longrightarrow> objs w (key_of ob) \<noteq> None \<Longrightarrow> \<exists>ob'. s = Inr ob'"
    "run_state (cl_Delete c k) w = (d, w') \<Longrightarrow> ok w'"
    "run_state (cl_Delete c k) w = (d, w') \<Longrightarrow> objs w k \<noteq> None \<Longrightarrow> d = None"
    "run_state (cl_Delete c k) w = (d, w') \<Longrightarrow> objs w k = None \<Longrightarrow> \<exists>e. d = Some e \<and> IsNotFound e"
    "run_state (cl_List c kd ns sel) w = (l, w') \<Longrightarrow> ok w' \<and> (\<exists>obs. l = Inr obs)"
proof -
  note base = mp [OF spec [OF assms(1) [unfolded healthy_def]] assms(2)]
  note gets = conjunct1 [OF base] and r1 = conjunct2 [OF base]
  note creates = conjunct1 [OF r1] and r2 = conjunct2 [OF r1]
  note updates = conjunct1 [OF r2] and r3 = conjunct2 [OF r2]
  note patches = conjunct1 [OF r3] and r4 = conjunct2 [OF r3]
  note statuses = conjunct1 [OF r4] and r5 = conjunct2 [OF r4]
  note deletes = conjunct1 [OF r5] and lists = conjunct2 [OF r5]
  show "run_state (cl_Get c k) w = (r, w') \<Longrightarrow> ok w'"
    "run_state (cl_Get c k) w = (r, w') \<Longrightarrow> objs w k = Some ob \<Longrightarrow> r = Inr ob"
    "run_state (cl_Get c k) w = (r, w') \<Longrightarrow> objs w k = None \<Longrightarrow> \<exists>e. r = Inl e \<and> IsNotFound e"
    using gets by blast+
  show "run_state (cl_Create c ob) w = (s, w') \<Longrightarrow> ok w'"
    "run_state (cl_Create c ob) w = (s, w') \<Longrightarrow> objs w (key_of ob) = None \<Longrightarrow> \<exists>ob'. s = Inr ob'"
    using creates by blast+
  show "run_state (cl_Update c ob) w = (s, w') \<Longrightarrow> ok w'"
    "run_state (cl_Update c ob) w = (s, w') \<Longrightarrow> objs w (key_of ob) \<noteq> None \<Longrightarrow> \<exists>ob'. s = Inr ob'"
    using updates by blast+
  show "run_state (cl_Patch c bas ob) w = (s, w') \<Longrightarrow> ok w'"
    "run_state (cl_Patch c bas ob) w = (s, w') \<Longrightarrow> objs w (key_of ob) \<noteq> None \<Longrightarrow> \<exists>ob'. s = Inr ob'" for bas
    using patches by blast+
  show "run_state (cl_StatusUpdate c ob) w = (s, w') \<Longrightarrow> ok w'"
    "run_state (cl_StatusUpdate c ob) w = (s, w') \<Longrightarrow> objs w (key_of ob) \<noteq> None \<Longrightarrow> \<exists>ob'. s = Inr ob'"
    using statuses by blast+
  show "run_state (cl_Delete c k) w = (d, w') \<Longrightarrow> ok w'"
    "run_state (cl_Delete c k) w = (d, w') \<Longrightarrow> objs w k \<noteq> None \<Longrightarrow> d = None"
    "run_state (cl_Delete c k) w = (d, w') \<Longrightarrow> objs w k = None \<Longrightarrow> \<exists>e. d = Some e \<and> IsNotFound e"
    using deletes by blast+
  show "run_state (cl_List c kd ns sel) w = (l, w') \<Longrightarrow> ok w' \<and> (\<exists>obs. l = Inr obs)"
    using lists by blast
qed

lemma mem_healthy: "healthy mem_client mem_view (\<lambda>w. mem_faults w = [])"
  unfolding healthy_def
  by (auto simp: mem_client_def run_scripted mem_get_def mem_create_def mem_update_def mem_status_def mem_delete_def
      mem_list_def mem_view_def save_def split: option.splits if_splits)

text \<open>A typed \<open>Get\<close> finds the object or reports that there is none.\<close>

lemma healthy_Get:
  assumes h: "healthy c objs ok" and api: "kube_api c objs" and dec: "decodes as con kd" and k: "key_kind k = kd" and ok: "ok w"
    and run: "run_state (Get c as k) w = (res, w')"
  shows "ok w' \<and> objs w' = objs w \<and> ((\<exists>y. res = Inr y \<and> objs w k = Some (con y) \<and> key_of (con y) = k)
    \<or> (\<exists>e. res = Inl e \<and> IsNotFound e \<and> objs w k = None))"
proof -
  obtain r where g: "run_state (cl_Get c k) w = (r, w')"
    using run by (auto simp: run_Get split: prod.splits)
  note base = healthyD(1-3) [OF h ok g] api_get_view [OF api g]
  show ?thesis
  proof (cases "objs w k")
    case None
    then obtain e where "r = Inl e" "IsNotFound e" using base(3) by blast
    then show ?thesis using run g base(1,4) None by (auto simp: run_Get)
  next
    case (Some ob)
    then have r: "r = Inr ob" by (rule base(2))
    have "key_of ob = k" by (rule api_filed [OF api Some])
    then have "kind_of ob = kd" using k by (auto simp: key_of_def metaKey_def mkKey_def)
    then obtain y where "ob = con y" "as ob = Some y" using dec unfolding decodes_def by blast
    then have "res = Inr y" using run g r by (simp add: run_Get)
    then show ?thesis using base(1,4) Some \<open>ob = con y\<close> \<open>key_of ob = k\<close> by auto
  qed
qed

section \<open>Steps that complete\<close>

definition settled :: "'w view \<Rightarrow> 'w \<Rightarrow> okey \<Rightarrow> bool" where
  "settled objs w k \<longleftrightarrow> (\<forall>ob. objs w k = Some ob \<longrightarrow> DeletionTimestamp (meta_of ob) = None \<and> Finalizers (meta_of ob) = [])"

lemma settled_alive: "settled objs w k \<Longrightarrow> alive objs w k"
  by (simp add: settled_def alive_def terminated_def)

lemma settled_cong: "objs w' k = objs w k \<Longrightarrow> settled objs w' k = settled objs w k"
  by (simp add: settled_def)

text \<open>\<open>succeeds\<close>: the operation reports success; \<open>completes\<close>: the step lets the run go on.\<close>

definition succeeds :: "'w view \<Rightarrow> ('w \<Rightarrow> bool) \<Rightarrow> okey set \<Rightarrow> ('w, step_ret) state \<Rightarrow> bool" where
  "succeeds objs ok K m \<longleftrightarrow> (\<forall>w. ok w \<longrightarrow> (\<forall>k \<in> K. settled objs w k) \<longrightarrow> (\<exists>w'. run_state m w = (done_ok, w') \<and> ok w'))"

definition completes :: "'w view \<Rightarrow> ('w \<Rightarrow> bool) \<Rightarrow> okey set \<Rightarrow> ('w, step_ret option) state \<Rightarrow> bool" where
  "completes objs ok K m \<longleftrightarrow> (\<forall>w. ok w \<longrightarrow> (\<forall>k \<in> K. settled objs w k) \<longrightarrow> (\<exists>w'. run_state m w = (Some done_ok, w') \<and> ok w'))"

lemma completes_total: "succeeds objs ok K m \<Longrightarrow> completes objs ok K (total m)"
  unfolding succeeds_def completes_def by (fastforce simp: run_total)

lemma completes_runSteps:
  "list_all2 (\<lambda>(K, ks) m. installs objs K ks m \<and> completes objs ok K m) specs ms \<Longrightarrow> separate specs \<Longrightarrow>
     completes objs ok (fields specs) (runSteps ms)"
proof (induction specs ms rule: list_all2_induct)
  case Nil
  then show ?case by (simp add: completes_def)
next
  case (Cons spec specs m ms)
  obtain K ks where spec: "spec = (K, ks)" by fastforce
  have m: "installs objs K ks m" "completes objs ok K m" using Cons.hyps(1) spec by simp_all
  have rest: "completes objs ok (fields specs) (runSteps ms)" using Cons.IH Cons.prems spec by simp
  have apart: "K \<inter> fields specs = {}" using Cons.prems spec by (fastforce simp: list_all_iff)
  show ?case
    unfolding completes_def
  proof (intro allI impI)
    fix w
    assume ok: "ok w" and set: "\<forall>k \<in> fields (spec # specs). settled objs w k"
    then obtain w1 where first: "run_state m w = (Some done_ok, w1)" and ok1: "ok w1"
      using m(2) spec unfolding completes_def by auto
    have "settled objs w1 k" if "k \<in> fields specs" for k
    proof -
      have "k \<notin> K" using apart that by blast
      from settled_cong [of objs w1 k w, OF touchesD [OF installsD(1) [OF m(1)] first this]] show ?thesis using set that by auto
    qed
    then obtain w' where "run_state (runSteps ms) w1 = (Some done_ok, w')" "ok w'"
      using rest ok1 unfolding completes_def by blast
    then show "\<exists>w'. run_state (runSteps (m # ms)) w = (Some done_ok, w') \<and> ok w'"
      using first by (simp add: run_andThen done_ok_def)
  qed
qed


section \<open>The writers succeed\<close>

lemma ensure_succeeds:
  assumes h: "healthy c objs ok" and api: "kube_api c objs" and dec: "decodes as con kd"
    and present: "\<And>y w w'. ok w \<Longrightarrow> objs w (key_of (con x)) = Some (con y) \<Longrightarrow> key_of (con y) = key_of (con x) \<Longrightarrow>
      settled objs w (key_of (con x)) \<Longrightarrow> \<exists>w'. run_state (present y) w = (done_ok, w') \<and> ok w'"
  shows "succeeds objs ok {key_of (con x)} (ensure c as con x other present)"
  unfolding succeeds_def
proof (intro allI impI)
  fix w
  assume ok: "ok w" and set: "\<forall>k \<in> {key_of (con x)}. settled objs w k"
  have k: "key_kind (key_of (con x)) = kd" using dec by (simp add: decodes_def key_of_def metaKey_def mkKey_def)
  obtain res w1 where g: "run_state (Get c as (key_of (con x))) w = (res, w1)" by fastforce
  note got = healthy_Get [OF h api dec k ok g]
  have set1: "settled objs w1 (key_of (con x))" using set got by (simp add: settled_def)
  consider (found) y where "res = Inr y" "objs w (key_of (con x)) = Some (con y)" "key_of (con y) = key_of (con x)"
    | (missing) e where "res = Inl e" "IsNotFound e" "objs w (key_of (con x)) = None" using got by blast
  then show "\<exists>w'. run_state (ensure c as con x other present) w = (done_ok, w') \<and> ok w'"
  proof cases
    case found
    then obtain w' where "run_state (present y) w1 = (done_ok, w')" "ok w'"
      using present [of w1 y] got set1 by auto
    then show ?thesis using g found by (simp add: ensure_def)
  next
    case missing
    obtain d w2 where c: "run_state (cl_Create c (con x)) w1 = (d, w2)" by fastforce
    have "objs w1 (key_of (con x)) = None" using missing got by simp
    then obtain ob where "d = Inr ob" "ok w2" using healthyD(4,5) [OF h _ c] got by blast
    then show ?thesis using g missing c by (simp add: ensure_def)
  qed
qed

lemma update_succeeds:
  assumes h: "healthy c objs ok" and ok: "ok w" and there: "objs w (key_of ob) \<noteq> None"
  shows "\<exists>w'. run_state (do { res \<leftarrow> cl_Update c ob; case res of Inl err \<Rightarrow> ret (failWith err) | Inr _ \<Rightarrow> ret done_ok }) w
    = (done_ok, w') \<and> ok w'"
proof -
  obtain d w' where u: "run_state (cl_Update c ob) w = (d, w')" by fastforce
  then obtain ob' where "d = Inr ob'" "ok w'" using healthyD(6,7) [OF h ok u] there by blast
  then show ?thesis using u by simp
qed

lemma idle_succeeds: "ok w \<Longrightarrow> \<exists>w'. run_state (ret done_ok) w = (done_ok, w') \<and> ok w'"
  by simp

lemma creators_succeed:
  assumes h: "healthy (Client r) objs ok" and api: "kube_api (Client r) objs"
  shows "succeeds objs ok {metaKey KConfigMap (cm_meta cm)} (createConfigMap r cm)"
    "succeeds objs ok {metaKey KService (svc_meta svc)} (createService r svc)"
    "succeeds objs ok {metaKey KSecret (sec_meta sec)} (createSecret r sec)"
    "succeeds objs ok {metaKey KServiceMonitor (sm_meta sm)} (createServiceMonitor r sm)"
  unfolding ensure_simps
  using ensure_succeeds [OF h api decodes_kinds(3), of cm] ensure_succeeds [OF h api decodes_kinds(5), of svc]
    ensure_succeeds [OF h api decodes_kinds(4), of sec] ensure_succeeds [OF h api decodes_kinds(11), of sm]
  by (simp_all add: idle_succeeds)

lemma ensureUpdated_succeeds:
  assumes h: "healthy c objs ok" and api: "kube_api c objs" and dec: "decodes as con kd"
    and up: "\<And>y. key_of (con (upd y x)) = key_of (con y)"
  shows "succeeds objs ok {key_of (con x)} (ensureUpdated c as con agrees upd x)"
  unfolding ensureUpdated_def
proof (rule ensure_succeeds [OF h api dec])
  fix y w w'
  assume ok: "ok w" and there: "objs w (key_of (con x)) = Some (con y)" "key_of (con y) = key_of (con x)"
  have "objs w (key_of (con (upd y x))) \<noteq> None" using there up by simp
  from update_succeeds [OF h ok this] show "\<exists>w'. run_state (if \<not> agrees y x then do {
       res \<leftarrow> cl_Update c (con (upd y x));
       case res of Inl err \<Rightarrow> ret (failWith err) | Inr _ \<Rightarrow> ret done_ok
     } else ret done_ok) w = (done_ok, w') \<and> ok w'"
    using ok by auto
qed


lemma accounts_succeed:
  assumes h: "healthy (Client r) objs ok" and api: "kube_api (Client r) objs"
  shows "succeeds objs ok {metaKey KServiceAccount (sa_meta sa)} (createSearchServiceAccount r sa)"
proof -
  have eq: "createSearchServiceAccount r sa = ensure (Client r) asServiceAccount OServiceAccount sa (\<lambda>e. ret done_ok)
     (\<lambda>found. if length (sa_ImagePullSecrets found) > 1 then do {
          res \<leftarrow> cl_Update (Client r) (OServiceAccount sa);
          case res of Inl err \<Rightarrow> ret (failWith err) | Inr _ \<Rightarrow> ret done_ok
        } else ret done_ok)"
    by (simp add: createSearchServiceAccount_def ensure_def del: One_nat_def)
  have "\<exists>w'. run_state (if length (sa_ImagePullSecrets y) > 1 then do {
          res \<leftarrow> cl_Update (Client r) (OServiceAccount sa);
          case res of Inl err \<Rightarrow> ret (failWith err) | Inr _ \<Rightarrow> ret done_ok
        } else ret done_ok) w = (done_ok, w') \<and> ok w'"
    if "ok w" "objs w (key_of (OServiceAccount sa)) = Some (OServiceAccount y)" for w y
    using update_succeeds [OF h that(1), of "OServiceAccount sa"] that by auto
  then show ?thesis
    unfolding eq using ensure_succeeds [OF h api decodes_kinds(7), where x = sa] by (simp del: One_nat_def)
qed

lemma updaters_succeed:
  assumes h: "healthy (Client r) objs ok" and api: "kube_api (Client r) objs"
  shows "succeeds objs ok {metaKey KClusterRole (cr_meta role)} (createUpdateRoles r role)"
    "succeeds objs ok {metaKey KNetworkPolicy (np_meta np)} (createOrUpdateNetworkPolicy r np)"
    "succeeds objs ok {metaKey KPrometheusRule (prom_meta rule)} (createOrUpdatePrometheusRule r rule)"
  unfolding role_update normalised_updates
  using ensureUpdated_succeeds [OF h api decodes_kinds(8), where x = role] ensureUpdated_succeeds [OF h api decodes_kinds(10), where x = np]
    ensureUpdated_succeeds [OF h api decodes_kinds(12), where x = rule]
  by simp_all

lemma bindings_succeed:
  assumes h: "healthy (Client r) objs ok" and api: "kube_api (Client r) objs"
  shows "succeeds objs ok {metaKey KClusterRoleBinding (crb_meta binding)} (createRoleBinding r binding)"
proof -
  let ?k = "key_of (OClusterRoleBinding binding)"
  have "\<exists>w'. run_state (replaceBinding r y binding) w = (done_ok, w') \<and> ok w'"
    if ok: "ok w" and there: "objs w ?k = Some (OClusterRoleBinding y)" and key: "key_of (OClusterRoleBinding y) = ?k"
      and set: "settled objs w ?k" for w y
  proof (cases "crb_RoleRef y = crb_RoleRef binding")
    case True
    then show ?thesis
      using update_succeeds [OF h ok, of "OClusterRoleBinding (y\<lparr>crb_Subjects := crb_Subjects binding\<rparr>)"] ok there key
      by (auto simp: replaceBinding_def)
  next
    case False
    obtain d w1 where d: "run_state (cl_Delete (Client r) ?k) w = (d, w1)" by fastforce
    have "d = None" "ok w1" using healthyD(12,13) [OF h ok d] there by simp_all
    then have gone: "objs w1 ?k = None" using api_delete_ok [OF api] d there set by (fastforce simp: settled_def)
    obtain e w2 where c: "run_state (cl_Create (Client r) (OClusterRoleBinding binding)) w1 = (e, w2)" by fastforce
    obtain ob where "e = Inr ob" "ok w2" using healthyD(4,5) [OF h \<open>ok w1\<close> c] gone by blast
    then show ?thesis using d \<open>d = None\<close> c False key by (simp add: replaceBinding_def)
  qed
  then show ?thesis
    unfolding binding_ensure using ensure_succeeds [OF h api decodes_kinds(9), where x = binding] by simp
qed

lemma deployments_succeed:
  assumes h: "healthy (Client r) objs ok" and api: "kube_api (Client r) objs"
  shows "succeeds objs ok {metaKey KDeployment (dep_meta d)} (createOrUpdateDeployment r d)"
proof -
  have eq: "createOrUpdateDeployment r d = ensure (Client r) asDeployment ODeployment d (\<lambda>e. ret (failWith e))
     (\<lambda>found. if \<not> DeploymentEquals found d then do {
          res \<leftarrow> cl_Update (Client r) (ODeployment d);
          case res of Inl err \<Rightarrow> ret done_ok | Inr _ \<Rightarrow> ret done_ok
        } else ret done_ok)"
    by (simp add: createOrUpdateDeployment_def ensure_def)
  have "\<exists>w'. run_state (if \<not> DeploymentEquals y d then do {
          res \<leftarrow> cl_Update (Client r) (ODeployment d);
          case res of Inl err \<Rightarrow> ret done_ok | Inr _ \<Rightarrow> ret done_ok
        } else ret done_ok) w = (done_ok, w') \<and> ok w'" if ok: "ok w" for w y
  proof -
    obtain u w1 where u: "run_state (cl_Update (Client r) (ODeployment d)) w = (u, w1)" by fastforce
    then show ?thesis using healthyD(6) [OF h ok u] ok by (cases u) simp_all
  qed
  then show ?thesis
    unfolding eq using ensure_succeeds [OF h api decodes_kinds(6), where x = d] by simp
qed


section \<open>Reads and writes that keep the server healthy\<close>

definition keeps :: "('w \<Rightarrow> bool) \<Rightarrow> ('w, 'a) state \<Rightarrow> bool" where
  "keeps ok m \<longleftrightarrow> (\<forall>w. ok w \<longrightarrow> ok (snd (run_state m w)))"

lemma keepsD: "keeps ok m \<Longrightarrow> ok w \<Longrightarrow> run_state m w = (x, w') \<Longrightarrow> ok w'"
  unfolding keeps_def by (metis snd_conv)

lemma keepsI: "(\<And>w x w'. ok w \<Longrightarrow> run_state m w = (x, w') \<Longrightarrow> ok w') \<Longrightarrow> keeps ok m"
  unfolding keeps_def by (metis prod.collapse)

lemma keeps_rules [intro]:
  "keeps ok (ret v)"
  "keeps ok m \<Longrightarrow> (\<And>x. keeps ok (f x)) \<Longrightarrow> keeps ok (State_Monad.bind m f)"
  "keeps ok m \<Longrightarrow> keeps ok n \<Longrightarrow> keeps ok (if b then m else n)"
  "keeps ok m \<Longrightarrow> (\<And>a. keeps ok (g a)) \<Longrightarrow> keeps ok (case x of None \<Rightarrow> m | Some a \<Rightarrow> g a)"
  "(\<And>a. keeps ok (h a)) \<Longrightarrow> (\<And>b. keeps ok (k b)) \<Longrightarrow> keeps ok (case s of Inl a \<Rightarrow> h a | Inr b \<Rightarrow> k b)"
  "(\<And>a b. keeps ok (p a b)) \<Longrightarrow> keeps ok (case y of (a, b) \<Rightarrow> p a b)"
  by (auto simp: keeps_def split: option.split sum.split prod.split)

lemma healthy_keeps:
  assumes h: "healthy c objs ok"
  shows "keeps ok (cl_Get c k)" "keeps ok (cl_Create c ob)" "keeps ok (cl_Update c ob)" "keeps ok (cl_Patch c base ob)"
    "keeps ok (cl_StatusUpdate c ob)" "keeps ok (cl_Delete c k)" "keeps ok (cl_List c kd ns sel)" "keeps ok (Get c as k)"
proof -
  show "keeps ok (cl_Get c k)" by (rule keepsI, erule (1) healthyD(1) [OF h])
  show "keeps ok (cl_Create c ob)" by (rule keepsI, erule (1) healthyD(4) [OF h])
  show "keeps ok (cl_Update c ob)" by (rule keepsI, erule (1) healthyD(6) [OF h])
  show "keeps ok (cl_Patch c base ob)" by (rule keepsI, erule (1) healthyD(8) [OF h])
  show "keeps ok (cl_StatusUpdate c ob)" by (rule keepsI, erule (1) healthyD(10) [OF h])
  show "keeps ok (cl_Delete c k)" by (rule keepsI, erule (1) healthyD(12) [OF h])
  show "keeps ok (cl_List c kd ns sel)" by (rule keepsI, erule (1) conjunct1 [OF healthyD(15) [OF h]])
  have "keeps ok (cl_Get c k)" by (rule keepsI, erule (1) healthyD(1) [OF h])
  then show "keeps ok (Get c as k)" unfolding Get_def by blast
qed

text \<open>What surrounds the server keeps it healthy too: the clock, the random source, the dynamic reads.\<close>

definition undisturbed :: "'w SearchReconciler \<Rightarrow> ('w, nat) state \<Rightarrow> ('w \<Rightarrow> bool) \<Rightarrow> bool" where
  "undisturbed r source ok \<longleftrightarrow> keeps ok (Now r) \<and> keeps ok source
     \<and> (\<forall>dyn. DynamicClient r = Some dyn \<longrightarrow> (\<forall>g ns n. keeps ok (dyn_Get dyn g ns n)) \<and> (\<forall>g. keeps ok (dyn_List dyn g)))"

lemma undisturbedD:
  assumes "undisturbed r source ok"
  shows "keeps ok (Now r)" "keeps ok source"
    "DynamicClient r = Some dyn \<Longrightarrow> keeps ok (dyn_Get dyn g ns n)" "DynamicClient r = Some dyn \<Longrightarrow> keeps ok (dyn_List dyn g)"
  using assms unfolding undisturbed_def by blast+

lemma reads_keep:
  assumes h: "healthy (Client r) objs ok" and u: "undisturbed r source ok"
  shows "keeps ok (PostgresConfigmap r inst pgTLS)" "keeps ok (PGDeployment r inst hash)"
    "DynamicClient r = Some dyn \<Longrightarrow> keeps ok (getPostgresTLSConfig dyn tls)"
    "DynamicClient r = Some dyn \<Longrightarrow> keeps ok (getTLSEnvVars dyn tls)"
    "DynamicClient r = Some dyn \<Longrightarrow> keeps ok (CollectorDeployment r dyn inst env)"
    "keeps ok (NetworkPolicies r inst)" "keeps ok (databaseSecret r source name user inst)"
    "keeps ok (ensureWebhookCAInjection r)"
proof -
  note reads = healthy_keeps [OF h] undisturbedD [OF u]
  have db: "keeps ok (GetDBConfigFromSearchCR r inst n)" for n
    unfolding GetDBConfigFromSearchCR_def getDBConfigData_def by (intro keeps_rules reads)
  show "keeps ok (PostgresConfigmap r inst pgTLS)" "keeps ok (PGDeployment r inst hash)"
    unfolding PostgresConfigmap_def PGDeployment_def Let_def by (intro keeps_rules db)+
  have tls: "DynamicClient r = Some dyn \<Longrightarrow> keeps ok (fetchTLSProfileSpec dyn tls)" for dyn
    unfolding fetchTLSProfileSpec_def by (intro keeps_rules reads)
  show "DynamicClient r = Some dyn \<Longrightarrow> keeps ok (getPostgresTLSConfig dyn tls)"
    "DynamicClient r = Some dyn \<Longrightarrow> keeps ok (getTLSEnvVars dyn tls)"
    unfolding getPostgresTLSConfig_def getTLSEnvVars_def Let_def by (intro keeps_rules tls; assumption)+
  show "DynamicClient r = Some dyn \<Longrightarrow> keeps ok (CollectorDeployment r dyn inst env)"
    unfolding CollectorDeployment_def getClusterNameFromMCH_def by (intro keeps_rules reads)
  show "keeps ok (NetworkPolicies r inst)"
    unfolding NetworkPolicies_def getMCETargetNamespace_def
    by (cases "DynamicClient r") (auto intro!: keeps_rules reads)
  have "keeps ok (generatePass source n)" for n
    by (induction n) (auto simp: rand_Int_def intro!: keeps_rules reads)
  then show "keeps ok (databaseSecret r source name user inst)" unfolding databaseSecret_def by (intro keeps_rules)
  show "keeps ok (ensureWebhookCAInjection r)" unfolding ensureWebhookCAInjection_def by (intro keeps_rules reads)
qed


section \<open>The merge succeeds\<close>

lemma addBackupLabel_succeeds:
  assumes h: "healthy (Client r) objs ok" and api: "kube_api (Client r) objs" and ok: "ok w"
    and there: "objs w (ccKey cc) \<noteq> None"
  shows "\<exists>cc' w'. run_state (addBackupLabel r cc) w = (Inr cc', w') \<and> ok w' \<and> same_except objs w w' {ccKey cc}"
proof (cases "lookup (Labels (cc_meta cc)) backupLabel = None")
  case True
  let ?new = "cc\<lparr>cc_meta := (cc_meta cc)\<lparr>Labels := put backupLabel '''' (Labels (cc_meta cc))\<rparr>\<rparr>"
  obtain p w' where p: "run_state (cl_Patch (Client r) (OCollectorConfig cc) (OCollectorConfig ?new)) w = (p, w')" by fastforce
  obtain ob where "p = Inr ob" "ok w'" using healthyD(8,9) [OF h ok p] there by auto
  moreover have "same_except objs w w' {ccKey cc}" using api_patch_frame [OF api p] by simp
  ultimately show ?thesis using p True by (simp add: addBackupLabel_def Let_def)
next
  case False
  then show ?thesis using ok by (simp add: addBackupLabel_def)
qed

lemma labelTeams_succeeds:
  assumes h: "healthy (Client r) objs ok" and api: "kube_api (Client r) objs"
  shows "ok w \<Longrightarrow> distinct (map ccKey tcs) \<Longrightarrow> (\<And>tc. tc \<in> set tcs \<Longrightarrow> objs w (ccKey tc) \<noteq> None) \<Longrightarrow>
    \<exists>tcs' w'. run_state (labelTeams r tcs) w = (Inr tcs', w') \<and> ok w'"
proof (induction tcs arbitrary: w)
  case (Cons tc tcs)
  have "objs w (ccKey tc) \<noteq> None" using Cons.prems(3) by simp
  from addBackupLabel_succeeds [OF h api Cons.prems(1) this] obtain tc' w1
    where l: "run_state (addBackupLabel r tc) w = (Inr tc', w1)" "ok w1" "same_except objs w w1 {ccKey tc}" by blast
  have "objs w1 (ccKey t) \<noteq> None" if "t \<in> set tcs" for t
  proof -
    have "ccKey tc \<notin> set (map ccKey tcs)" using Cons.prems(2) by (simp only: list.map distinct.simps simp_thms)
    moreover have "ccKey t \<in> set (map ccKey tcs)" unfolding set_map using that by (rule imageI)
    ultimately have "ccKey t \<notin> {ccKey tc}" by (intro notI) (drule singletonD, simp only:)
    from same_exceptD [OF l(3) this] show ?thesis using Cons.prems(3) that by simp
  qed
  from Cons.IH [OF l(2) _ this] Cons.prems(2) obtain tcs' w' where "run_state (labelTeams r tcs) w1 = (Inr tcs', w')" "ok w'" by auto
  then show ?case using l(1) by simp
qed simp

lemma mergeUser_succeeds:
  assumes h: "healthy (Client r) objs ok" and api: "kube_api (Client r) objs" and now: "keeps ok (Now r)" and ok: "ok w"
  shows "\<exists>spec w'. run_state (mergeUser r ns rules teams) w = (Inr spec, w') \<and> ok w'"
proof -
  obtain res w1 where g: "run_state (Get (Client r) asCollectorConfig (mkKey KCollectorConfig ns userCollectorConfigName)) w = (res, w1)"
    by fastforce
  note got = healthy_Get [OF h api decodes_kinds(2) _ ok g]
  show ?thesis
  proof (cases res)
    case (Inl e)
    then have "IsNotFound e" "ok w1" using got by (auto simp: mkKey_def)
    then show ?thesis using g Inl by (simp add: mergeUser_def)
  next
    case (Inr u)
    then have "ok w1" "objs w1 (ccKey u) \<noteq> None" using got by (auto simp: mkKey_def)
    from addBackupLabel_succeeds [OF h api this] obtain lab w2
      where l: "run_state (addBackupLabel r u) w1 = (Inr lab, w2)" "ok w2" by blast
    let ?msgs = "snd (mergeUserRules (CollectionRules (cc_Spec u)) teams)"
    obtain st w3 where s: "run_state (updateUserCCStatus r lab ?msgs) w2 = (st, w3)" by fastforce
    have "keeps ok (updateUserCCStatus r lab ?msgs)"
      unfolding updateUserCCStatus_def Let_def by (intro keeps_rules healthy_keeps [OF h] now)
    from keepsD [OF this l(2) s] have "ok w3" .
    then show ?thesis using g Inr l(1) s by (auto simp: mergeUser_def Let_def split: prod.splits)
  qed
qed

definition adoptable :: "golib \<Rightarrow> Search \<Rightarrow> bool" where
  "adoptable lib inst \<longleftrightarrow> (\<forall>n. \<exists>m. lib_SetControllerReference lib inst (newMeta n (Namespace (s_meta inst))) = Inr m)"

lemma writeMerged_succeeds:
  assumes h: "healthy (Client r) objs ok" and api: "kube_api (Client r) objs" and setref: "setref_contract (Lib r)"
    and own: "adoptable (Lib r) inst" and ok: "ok w"
  shows "\<exists>w'. run_state (writeMerged r inst spec) w = (done_ok, w') \<and> ok w'"
proof -
  let ?k = "mkKey KCollectorConfig (Namespace (s_meta inst)) mergedCollectorConfigName"
  obtain res w1 where g: "run_state (Get (Client r) asCollectorConfig ?k) w = (res, w1)" by fastforce
  note got = healthy_Get [OF h api decodes_kinds(2) _ ok g]
  show ?thesis
  proof (cases res)
    case (Inl e)
    then have e: "IsNotFound e" "ok w1" "objs w1 ?k = None" using got by (auto simp: mkKey_def)
    obtain m where m: "lib_SetControllerReference (Lib r) inst (newMeta mergedCollectorConfigName (Namespace (s_meta inst))) = Inr m"
      using own unfolding adoptable_def by blast
    let ?cc = "OCollectorConfig \<lparr>cc_meta = m, cc_Spec = spec, cc_Conditions = []\<rparr>"
    obtain c w2 where c: "run_state (cl_Create (Client r) ?cc) w1 = (c, w2)" by fastforce
    have "key_of ?cc = ?k" using setref_meta [OF setref m] by simp
    then obtain ob where "c = Inr ob" "ok w2" using healthyD(4,5) [OF h e(2) c] e(3) by auto
    then show ?thesis using g Inl e m c by (simp add: writeMerged_def Let_def)
  next
    case (Inr found)
    then have f: "ok w1" "objs w1 (ccKey found) \<noteq> None" using got by (auto simp: mkKey_def)
    obtain u w2 where u: "run_state (cl_Update (Client r) (OCollectorConfig (found\<lparr>cc_Spec := spec\<rparr>))) w1 = (u, w2)" by fastforce
    obtain ob where "u = Inr ob" "ok w2" using healthyD(6,7) [OF h f(1) u] f(2) by auto
    then show ?thesis using g Inr u f by (simp add: writeMerged_def Let_def)
  qed
qed

lemma merge_succeeds:
  assumes h: "healthy (Client r) objs ok" and api: "kube_api (Client r) objs" and setref: "setref_contract (Lib r)"
    and own: "adoptable (Lib r) inst" and now: "keeps ok (Now r)"
  shows "succeeds objs ok K (createOrUpdateMergedCollectorConfig r inst)"
  unfolding succeeds_def
proof (intro allI impI)
  fix w
  assume ok: "ok w"
  let ?ns = "Namespace (s_meta inst)" and ?sel = "[(IntegrationTeamLabel, IntegrationTeamLabelValue)]"
  obtain l w1 where l: "run_state (ListOf (Client r) asCollectorConfig KCollectorConfig (Some ?ns) ?sel) w = (l, w1)" by fastforce
  obtain items where items: "l = Inr items" and ok1: "ok w1"
    using l healthyD(15) [OF h ok] by (fastforce simp: run_ListOf split: prod.splits)
  let ?teams = "sort_key (\<lambda>tc. Name (cc_meta tc)) items"
  have there: "objs w1 (ccKey tc) \<noteq> None" if "tc \<in> set ?teams" for tc
    using ListOf_ok [OF api decodes_kinds(2) l [unfolded items]] ListOf_view [OF api l] that by simp
  have dist: "distinct (map ccKey ?teams)"
    using ListOf_distinct [OF api decodes_kinds(2) l [unfolded items]] by (simp add: distinct_map)
  from labelTeams_succeeds [OF h api ok1 dist there] obtain labelled w2
    where lab: "run_state (labelTeams r ?teams) w1 = (Inr labelled, w2)" "ok w2" by blast
  from mergeUser_succeeds [OF h api now lab(2)] obtain spec w3
    where mu: "run_state (mergeUser r ?ns (concat (map (\<lambda>tc. CollectionRules (cc_Spec tc)) ?teams)) labelled) w2 = (Inr spec, w3)" "ok w3" by blast
  from writeMerged_succeeds [OF h api setref own mu(2)] obtain w' where "run_state (writeMerged r inst spec) w3 = (done_ok, w')" "ok w'" by blast
  then show "\<exists>w'. run_state (createOrUpdateMergedCollectorConfig r inst) w = (done_ok, w') \<and> ok w'"
    using l items lab mu by (simp add: createOrUpdateMergedCollectorConfig_def Let_def)
qed

end
