(* ===== verification/Healthy_Reconcile.thy ===== *)
theory Healthy_Reconcile
  imports Healthy_Runs
begin

text \<open>
  The steps of \<open>Reconcile\<close> on a healthy server, group by group, and the whole run: it comes to its end
  and reports success when no optional feature is switched on.
\<close>

section \<open>Steps in sequence\<close>

lemma succeedsD: "succeeds objs ok K m \<Longrightarrow> ok w \<Longrightarrow> (\<And>k. k \<in> K \<Longrightarrow> settled objs w k) \<Longrightarrow> \<exists>w'. run_state m w = (done_ok, w') \<and> ok w'"
  unfolding succeeds_def by blast

lemma completesD: "completes objs ok K m \<Longrightarrow> ok w \<Longrightarrow> (\<And>k. k \<in> K \<Longrightarrow> settled objs w k) \<Longrightarrow> \<exists>w'. run_state m w = (Some done_ok, w') \<and> ok w'"
  unfolding completes_def by blast

text \<open>A read before the step: it changes no object and keeps the server healthy.\<close>

lemma read_unchanged: "touches objs {} m \<Longrightarrow> run_state m w = (x, w') \<Longrightarrow> objs w' = objs w"
  by (rule ext) (simp add: touchesD)

lemma succeeds_after:
  assumes read: "touches objs {} m" "keeps ok m"
    and f: "\<And>x w w'. run_state m w = (x, w') \<Longrightarrow> succeeds objs ok K (f x)"
  shows "succeeds objs ok K (State_Monad.bind m f)"
  unfolding succeeds_def
proof (intro allI impI)
  fix w
  assume ok: "ok w" and set: "\<forall>k \<in> K. settled objs w k"
  obtain x w1 where m: "run_state m w = (x, w1)" by fastforce
  have "settled objs w1 k" if "k \<in> K" for k using set that read_unchanged [OF read(1) m] by (simp add: settled_def)
  from succeedsD [OF f [OF m] keepsD [OF read(2) ok m] this]
  show "\<exists>w'. run_state (State_Monad.bind m f) w = (done_ok, w') \<and> ok w'" by (simp add: m)
qed

lemma completes_after:
  assumes read: "touches objs {} m" "keeps ok m"
    and f: "\<And>x w w'. run_state m w = (x, w') \<Longrightarrow> completes objs ok K (f x)"
  shows "completes objs ok K (State_Monad.bind m f)"
  unfolding completes_def
proof (intro allI impI)
  fix w
  assume ok: "ok w" and set: "\<forall>k \<in> K. settled objs w k"
  obtain x w1 where m: "run_state m w = (x, w1)" by fastforce
  have "settled objs w1 k" if "k \<in> K" for k using set that read_unchanged [OF read(1) m] by (simp add: settled_def)
  from completesD [OF f [OF m] keepsD [OF read(2) ok m] this]
  show "\<exists>w'. run_state (State_Monad.bind m f) w = (Some done_ok, w') \<and> ok w'" by (simp add: m)
qed

lemma succeeds_then:
  assumes m: "succeeds objs ok K m" "touches objs K m" and f: "succeeds objs ok K' (f done_ok)" and apart: "K \<inter> K' = {}"
  shows "succeeds objs ok (K \<union> K') (State_Monad.bind m f)"
  unfolding succeeds_def
proof (intro allI impI)
  fix w
  assume ok: "ok w" and set: "\<forall>k \<in> K \<union> K'. settled objs w k"
  obtain w1 where first: "run_state m w = (done_ok, w1)" "ok w1" using succeedsD [OF m(1) ok] set by blast
  have "settled objs w1 k" if "k \<in> K'" for k
    using set that apart settled_cong [of objs w1 k w, OF touchesD [OF m(2) first(1)]] by blast
  from succeedsD [OF f first(2) this] first(1)
  show "\<exists>w'. run_state (State_Monad.bind m f) w = (done_ok, w') \<and> ok w'" by auto
qed

lemma keeps_succeeds: "keeps ok m \<Longrightarrow> succeeds objs ok K (do { x \<leftarrow> m; ret done_ok })"
  unfolding succeeds_def keeps_def by (auto split: prod.split)

section \<open>The four groups of steps\<close>

text \<open>What is asked of the surroundings, in one place.\<close>

definition sound_run :: "'w SearchReconciler \<Rightarrow> 'w view \<Rightarrow> ('w, nat) state \<Rightarrow> ('w \<Rightarrow> bool) \<Rightarrow> bool" where
  "sound_run r objs source ok \<longleftrightarrow> healthy (Client r) objs ok \<and> kube_api (Client r) objs \<and> setref_contract (Lib r)
     \<and> clock_contract r objs \<and> rand_contract source objs \<and> dynamic_ok r objs \<and> undisturbed r source ok \<and> DynamicClient r \<noteq> None"

lemma sound_runD:
  assumes "sound_run r objs source ok"
  shows "healthy (Client r) objs ok" "kube_api (Client r) objs" "setref_contract (Lib r)" "clock_contract r objs"
    "rand_contract source objs" "dynamic_ok r objs" "dynamic_typed r objs" "undisturbed r source ok" "keeps ok (Now r)"
    "\<exists>dyn. DynamicClient r = Some dyn"
  using assms undisturbedD(1) by (auto simp: sound_run_def dynamic_ok_def)

abbreviation fits :: "'w view \<Rightarrow> ('w \<Rightarrow> bool) \<Rightarrow> specs \<Rightarrow> ('w, step_ret option) state list \<Rightarrow> bool" where
  "fits objs ok \<equiv> list_all2 (\<lambda>(K, ks) m. completes objs ok K m)"

lemma accessSteps_complete:
  assumes s: "sound_run r objs source ok" and own: "adoptable (Lib r) inst"
  shows "fits objs ok (accessSpecs (Namespace (s_meta inst))) (accessSteps r inst)"
proof -
  note setref = sound_runD(3) [OF s]
  note account = completes_total [OF accounts_succeed [OF sound_runD(1,2) [OF s]]]
  note role = completes_total [OF updaters_succeed(1) [OF sound_runD(1,2) [OF s]]]
  note binding = completes_total [OF bindings_succeed [OF sound_runD(1,2) [OF s]]]
  have built: "completes objs ok {inNs inst KServiceAccount n} (ofBuilder r (case lib_SetControllerReference (Lib r) inst
      (newMeta n (Namespace (s_meta inst))) of Inl err \<Rightarrow> Inl err | Inr m \<Rightarrow> Inr (newServiceAccount m)))" for n
  proof -
    obtain m where m: "lib_SetControllerReference (Lib r) inst (newMeta n (Namespace (s_meta inst))) = Inr m"
      using own unfolding adoptable_def by blast
    have "metaKey KServiceAccount m = inNs inst KServiceAccount n" using setref_meta [OF setref m] by simp
    then show ?thesis using account [of "newServiceAccount m"] by (simp add: ofBuilder_def m newServiceAccount_def)
  qed
  have accounts: "completes objs ok {inNs inst KServiceAccount getAPIServiceAccountName}
      (total (createSearchServiceAccount r (SearchAPIServiceAccount r inst)))"
    "completes objs ok {inNs inst KServiceAccount getCollectorServiceAccountName}
      (total (createSearchServiceAccount r (SearchCollectorServiceAccount r inst)))"
    using account [of "SearchAPIServiceAccount r inst"] account [of "SearchCollectorServiceAccount r inst"]
    by (simp_all add: SearchAPIServiceAccount_def SearchCollectorServiceAccount_def newServiceAccount_def metaKey_withOwner [OF setref])
  have roles: "completes objs ok {mkKey KClusterRole '''' (getRoleName @ ''-indexer'')} (total (createUpdateRoles r (IndexerClusterRole inst)))"
    "completes objs ok {mkKey KClusterRole '''' getAddonRoleName} (total (createUpdateRoles r (AddonClusterRole inst)))"
    "completes objs ok {mkKey KClusterRole '''' getSearchUserRoleName} (total (createUpdateRoles r (GlobalSearchUserClusterRole inst)))"
    using role [of "IndexerClusterRole inst"] role [of "AddonClusterRole inst"] role [of "GlobalSearchUserClusterRole inst"]
    by (simp_all add: IndexerClusterRole_def AddonClusterRole_def GlobalSearchUserClusterRole_def mkKey_def metaKey_def cluster_scoped_def)
  have bindings: "completes objs ok {mkKey KClusterRoleBinding '''' n} (total (createRoleBinding r (bindRole n role account inst)))"
    for n role account
    using binding [of "bindRole n role account inst"] by (simp add: bindRole_def)
  have webhook: "completes objs ok K (total (do { err \<leftarrow> ensureWebhookCAInjection r; ret done_ok }))" for K
    by (rule completes_total [OF keeps_succeeds [OF reads_keep(8) [OF sound_runD(1,8) [OF s]]]])
  have merged: "completes objs ok K (total (createOrUpdateMergedCollectorConfig r inst))" for K
    by (rule completes_total [OF merge_succeeds [OF sound_runD(1,2,3) [OF s] own sound_runD(9) [OF s]]])
  show ?thesis
    unfolding accessSpecs_def accessSteps_def SearchPostgresServiceAccount_def SearchIndexerServiceAccount_def
    using accounts built roles bindings webhook merged
    by (simp add: APIClusterRoleBinding_def CollectorClusterRoleBinding_def IndexerClusterRoleBinding_def)
qed

lemma createOrUpdateConfigMap_succeeds:
  assumes h: "healthy (Client r) objs ok" and api: "kube_api (Client r) objs" and ok: "ok w"
  shows "\<exists>cm' w'. run_state (createOrUpdateConfigMap r cm) w = ((done_ok, cm'), w') \<and> ok w'"
proof -
  let ?k = "metaKey KConfigMap (cm_meta cm)"
  obtain res w1 where g: "run_state (Get (Client r) asConfigMap ?k) w = (res, w1)" by fastforce
  note got = healthy_Get [OF h api decodes_kinds(3) _ ok g]
  show ?thesis
  proof (cases res)
    case (Inl e)
    then have e: "IsNotFound e" "ok w1" "objs w1 ?k = None" using got by (auto simp: metaKey_def mkKey_def)
    obtain c w2 where c: "run_state (cl_Create (Client r) (OConfigMap cm)) w1 = (c, w2)" by fastforce
    obtain ob where "c = Inr ob" "ok w2" using healthyD(4,5) [OF h e(2) c] e(3) by auto
    then show ?thesis using g Inl e c by (simp add: createOrUpdateConfigMap_def)
  next
    case (Inr found)
    then have f: "ok w1" "objs w1 ?k \<noteq> None" using got by (auto simp: metaKey_def mkKey_def)
    let ?cm = "mergedConfigMap found cm"
    obtain u w2 where u: "run_state (cl_Update (Client r) (OConfigMap ?cm)) w1 = (u, w2)" by fastforce
    obtain ob where "u = Inr ob" "ok w2" using healthyD(6,7) [OF h f(1) u] f(2) by auto
    then show ?thesis using g Inr u f by (auto simp: createOrUpdateConfigMap_def updateConfigMap_def Let_def)
  qed
qed

lemma databaseConfigured_completes:
  assumes s: "sound_run r objs source ok"
    and k: "inNs inst KConfigMap postgresConfigmapName = kc" "inNs inst KDeployment postgresDeploymentName = kd" "kc \<noteq> kd"
  shows "completes objs ok {kc, kd} (databaseConfigured r tls inst)"
proof -
  note h = sound_runD(1) [OF s] and api = sound_runD(2) [OF s] and setref = sound_runD(3) [OF s]
  note keeps = reads_keep [OF h sound_runD(8) [OF s]]
  obtain dyn where d: "DynamicClient r = Some dyn" using sound_runD(10) [OF s] by blast
  have typed: "dyn_typed dyn objs featureGvrs" using sound_runD(7) [OF s] d by (simp add: dynamic_typed_def)
  define deploy where "deploy = (\<lambda>(step, cm :: ConfigMap). if fst step \<noteq> None then ret step
     else do { pg \<leftarrow> PGDeployment r inst (postgresConfigHash (Lib r) (cm_Data cm)); createOrUpdateDeployment r pg })"
  have key: "metaKey KDeployment (dep_meta pg) = kd" if "run_state (PGDeployment r inst h) w = (pg, w1)" for h w pg w1
    using that k(2) deployment_keys(4) [OF setref] by (auto simp: PGDeployment_def split: prod.splits)
  have dep: "succeeds objs ok {kd} (deploy (done_ok, cm))" for cm
  proof -
    have "succeeds objs ok {kd} (do { pg \<leftarrow> PGDeployment r inst (postgresConfigHash (Lib r) (cm_Data cm)); createOrUpdateDeployment r pg })"
      using deployments_succeed [OF h api] key
      by (intro succeeds_after reads_touch_nothing(3) [OF api] keeps) fastforce
    then show ?thesis by (simp add: deploy_def done_ok_def)
  qed
  have "succeeds objs ok {kc, kd} (createOrUpdateConfigMap r cm \<bind> deploy)" if cm: "metaKey KConfigMap (cm_meta cm) = kc" for cm
    unfolding succeeds_def
  proof (intro allI impI)
    fix w
    assume ok: "ok w" and set: "\<forall>k \<in> {kc, kd}. settled objs w k"
    obtain cm' w1 where c: "run_state (createOrUpdateConfigMap r cm) w = ((done_ok, cm'), w1)" "ok w1"
      using createOrUpdateConfigMap_succeeds [OF h api ok] by blast
    have "settled objs w1 kd"
      using set k(3) settled_cong [of objs w1 kd w, OF touchesD [OF createOrUpdateConfigMap_installs [OF api cm] c(1)]] by blast
    then obtain w' where "run_state (deploy (done_ok, cm')) w1 = (done_ok, w')" "ok w'" using succeedsD [OF dep c(2)] by auto
    then show "\<exists>w'. run_state (createOrUpdateConfigMap r cm \<bind> deploy) w = (done_ok, w') \<and> ok w'" using c by simp
  qed
  then have "succeeds objs ok {kc, kd} (createOrUpdateConfigMap r cm \<bind> deploy)"
    if "run_state (PostgresConfigmap r inst pgTLS) w = (cm, w')" for pgTLS cm w w'
    using PostgresConfigmap_made [OF setref that] k(1) by blast
  note configured = succeeds_after [OF reads_touch_nothing(2) [OF api] keeps(1) this]
  have "succeeds objs ok {kc, kd} (do {
     pgTLS \<leftarrow> getPostgresTLSConfig dyn tls;
     cm \<leftarrow> PostgresConfigmap r inst pgTLS;
     createOrUpdateConfigMap r cm \<bind> deploy })"
    by (rule succeeds_after [OF reads_touch_nothing(4) [OF typed] keeps(3) [OF d] configured])
  then show ?thesis
    using completes_total by (fastforce simp: databaseConfigured_def withDynamic_def d deploy_def)
qed

lemma databaseSteps_complete:
  assumes s: "sound_run r objs source ok"
  shows "fits objs ok (databaseSpecs (Namespace (s_meta inst))) (databaseSteps r tls source inst)"
proof -
  note base = sound_runD(1,2) [OF s]
  have secret: "completes objs ok {inNs inst KSecret n} (total (do { secret \<leftarrow> databaseSecret r source n user inst; createSecret r secret }))"
    for n user
  proof (intro completes_total succeeds_after reads_keep [OF base(1) sound_runD(8) [OF s]])
    note run = databaseSecret_run [OF sound_runD(5) [OF s] sound_runD(3) [OF s]]
    show "touches objs {} (databaseSecret r source n user inst)"
      unfolding touches_def same_except_def using run by (metis prod.collapse)
    show "succeeds objs ok {inNs inst KSecret n} (createSecret r secret)"
      if "run_state (databaseSecret r source n user inst) w = (secret, w')" for secret w w'
      using creators_succeed(3) [OF base, of secret] run [OF that] by simp
  qed
  have service: "completes objs ok {inNs inst KService ''search-postgres''} (total (createService r (PGService r inst)))"
    using completes_total [OF creators_succeed(2) [OF base, of "PGService r inst"]]
    by (simp add: PGService_def metaKey_withOwner [OF sound_runD(3) [OF s]])
  have "completes objs ok {inNs inst KConfigMap postgresConfigmapName, inNs inst KDeployment postgresDeploymentName}
      (databaseConfigured r tls inst)"
    by (rule databaseConfigured_completes [OF s refl refl]) (simp add: mkKey_def)
  then show ?thesis
    unfolding databaseSpecs_def databaseSteps_def PGSecret_def APIReadonlySecret_def MCPReadonlySecret_def
    using secret service by simp
qed

lemma serviceSteps_complete:
  assumes s: "sound_run r objs source ok"
  shows "fits objs ok (serviceSpecs (Namespace (s_meta inst))) (serviceSteps r inst)"
proof -
  note base = sound_runD(1,2) [OF s]
  note service = completes_total [OF creators_succeed(2) [OF base]]
  note monitor = completes_total [OF creators_succeed(4) [OF base]]
  have collector: "completes objs ok {inNs inst KService ''search-collector''}
      (total (do { step \<leftarrow> createService r (CollectorService r inst); ret done_ok }))"
  proof (rule completes_total [OF keeps_succeeds])
    show "keeps ok (createService r (CollectorService r inst))"
      unfolding createService_def by (intro keeps_rules healthy_keeps [OF base(1)])
  qed
  show ?thesis
    unfolding serviceSpecs_def serviceSteps_def
    using service [of "IndexerService r inst"] service [of "APIService r inst"] collector
      monitor [of "ServiceMonitor inst ''search-indexer'' (Namespace (s_meta inst))"]
      monitor [of "ServiceMonitor inst ''search-api'' (Namespace (s_meta inst))"]
      monitor [of "CollectorServiceMonitor inst ''search-collector'' (Namespace (s_meta inst))"]
    by (simp add: IndexerService_def APIService_def ServiceMonitor_def CollectorServiceMonitor_def metaKey_withOwner [OF sound_runD(3) [OF s]])
qed

lemma succeeds_mono: "succeeds objs ok K m \<Longrightarrow> K \<subseteq> K' \<Longrightarrow> succeeds objs ok K' m"
  unfolding succeeds_def by blast

lemma completes_mono: "completes objs ok K m \<Longrightarrow> K \<subseteq> K' \<Longrightarrow> completes objs ok K' m"
  unfolding completes_def by blast

lemma writePolicies_succeed:
  assumes h: "healthy (Client r) objs ok" and api: "kube_api (Client r) objs"
  shows "distinct (map policyKey nps) \<Longrightarrow> succeeds objs ok (policyKey ` set nps) (writePolicies r nps)"
proof (induction nps)
  case (Cons np nps)
  have "succeeds objs ok ({policyKey np} \<union> policyKey ` set nps) (do {
     (res, err) \<leftarrow> createOrUpdateNetworkPolicy r np;
     if res \<noteq> None then ret (res, err) else writePolicies r nps })"
  proof (rule succeeds_then)
    show "succeeds objs ok {policyKey np} (createOrUpdateNetworkPolicy r np)"
      using updaters_succeed(2) [OF h api, of np] by simp
    show "touches objs {policyKey np} (createOrUpdateNetworkPolicy r np)" by (rule network_policy_writer.frame [OF api])
  qed (use Cons in \<open>auto simp: done_ok_def\<close>)
  then show ?case by simp
qed (simp add: succeeds_def)

lemma reconcileNetworkPolicies_completes:
  assumes s: "sound_run r objs source ok"
  shows "completes objs ok (policyKeys (Namespace (s_meta inst))) (total (reconcileNetworkPolicies r inst))"
proof -
  note base = sound_runD(1,2) [OF s] and setref = sound_runD(3) [OF s]
  have read: "touches objs {} (NetworkPolicies r inst)"
    unfolding NetworkPolicies_def using sound_runD(7) [OF s]
    by (intro touches_case_option touches_bind touches_ret getMCETargetNamespace_typed) (simp add: dynamic_typed_def)
  have "succeeds objs ok (policyKeys (Namespace (s_meta inst))) (writePolicies r nps)"
    if run: "run_state (NetworkPolicies r inst) w = (nps, w')" for nps w w'
  proof -
    obtain mce where nps: "nps = policiesFor r inst mce" using run NetworkPolicies_run [of r inst w] by simp
    have "distinct (map policyKey (policiesFor r inst mce))"
      unfolding policiesFor_keys [OF setref] by (simp add: networkPolicyName_def mkKey_def name_defs)
    note w = writePolicies_succeed [OF base this]
    have "policyKey ` set (policiesFor r inst mce) = policyKeys (Namespace (s_meta inst))"
      unfolding policyKeys_def policiesFor_keys [OF setref, of inst mce, symmetric] by simp
    then show ?thesis using w nps by simp
  qed
  then have "succeeds objs ok (policyKeys (Namespace (s_meta inst))) (reconcileNetworkPolicies r inst)"
    unfolding reconcileNetworkPolicies_def by (intro succeeds_after [OF read reads_keep(6) [OF base(1) sound_runD(8) [OF s]]])
  then show ?thesis by (rule completes_total)
qed

lemma workloadsDeployed_completes:
  assumes s: "sound_run r objs source ok"
    and k: "inNs inst KDeployment collectorDeploymentName = k1" "inNs inst KDeployment indexerDeploymentName = k2"
      "inNs inst KDeployment apiDeploymentName = k3" "distinct [k1, k2, k3]"
  shows "completes objs ok {k1, k2, k3} (workloadsDeployed r tls inst)"
proof -
  note base = sound_runD(1,2) [OF s] and api = sound_runD(2) [OF s] and setref = sound_runD(3) [OF s]
  note keeps = reads_keep [OF base(1) sound_runD(8) [OF s]]
  obtain dyn where d: "DynamicClient r = Some dyn" using sound_runD(10) [OF s] by blast
  have typed: "dyn_typed dyn objs featureGvrs" using sound_runD(7) [OF s] d by (simp add: dynamic_typed_def)
  note step = deployments_succeed [OF base] and install = deployment_step [OF api]
  let ?collector = "\<lambda>env. do { d \<leftarrow> CollectorDeployment r dyn inst env; createOrUpdateDeployment r d }"
  have made: "metaKey KDeployment (dep_meta d) = k1 \<and> DeletionTimestamp (dep_meta d) = None"
    if "run_state (CollectorDeployment r dyn inst env) w = (d, w')" for env d w w'
    using that deployment_keys(3,7) [OF setref] k(1) by (auto simp: CollectorDeployment_def split: prod.splits)
  have collector: "completes objs ok {k1} (total (?collector env))" "installs objs {k1} {k1} (total (?collector env))" for env
  proof -
    show "completes objs ok {k1} (total (?collector env))"
      using step made by (intro completes_total succeeds_after [OF reads_touch_nothing(6) [OF typed] keeps(5) [OF d]]) fastforce
    have eq: "total (?collector env) = do { d \<leftarrow> CollectorDeployment r dyn inst env; total (createOrUpdateDeployment r d) }"
      by (simp add: total_def)
    show "installs objs {k1} {k1} (total (?collector env))"
      unfolding eq by (rule installs_after [OF reads_touch_nothing(6) [OF typed]]) (use install made in blast)
  qed
  have others: "installs objs {k2} {k2} (total (createOrUpdateDeployment r (IndexerDeployment r inst env)))"
    "installs objs {k3} {k3} (total (createOrUpdateDeployment r (APIDeployment r inst env)))" for env
    by (rule install [OF _ deployment_keys(6) [OF setref]] install [OF _ deployment_keys(5) [OF setref]];
      simp add: deployment_keys(1,2) [OF setref] k(2,3))+
  have "list_all2 (\<lambda>(K, ks) m. installs objs K ks m \<and> completes objs ok K m) [made k1, made k2, made k3]
      [total (?collector env), total (createOrUpdateDeployment r (IndexerDeployment r inst env)),
       total (createOrUpdateDeployment r (APIDeployment r inst env))]" for env
    using collector others
      completes_total [OF step [of "IndexerDeployment r inst env"]] completes_total [OF step [of "APIDeployment r inst env"]]
    by (simp add: deployment_keys(1,2) [OF setref] k(2,3))
  from completes_runSteps [OF this] k(4)
  have "completes objs ok {k1, k2, k3} (runSteps [total (?collector env),
       total (createOrUpdateDeployment r (IndexerDeployment r inst env)), total (createOrUpdateDeployment r (APIDeployment r inst env))])" for env
    by (auto intro: completes_mono)
  then show ?thesis
    unfolding workloadsDeployed_def withDynamic_def d option.case
    by (intro completes_after [OF reads_touch_nothing(5) [OF typed] keeps(4) [OF d]])
qed

lemma workloadSteps_complete:
  assumes s: "sound_run r objs source ok"
  shows "fits objs ok (workloadSpecs (Namespace (s_meta inst))) (workloadSteps r tls inst)"
proof -
  note map' = completes_total [OF creators_succeed(1) [OF sound_runD(1,2) [OF s]]]
  have d: "distinct [inNs inst KDeployment collectorDeploymentName, inNs inst KDeployment indexerDeploymentName,
      inNs inst KDeployment apiDeploymentName]" by (simp add: mkKey_def)
  show ?thesis
    unfolding workloadSpecs_def workloadSteps_def Let_def
    using workloadsDeployed_completes [OF s refl refl refl d] reconcileNetworkPolicies_completes [OF s]
      map' [of "IndexerConfigmap r inst"] map' [of "SearchCACert r inst"]
    by (simp add: IndexerConfigmap_def SearchCACert_def metaKey_withOwner [OF sound_runD(3) [OF s]] Let_def)
qed

lemma fits_installs:
  "list_all2 (\<lambda>(K, ks) m. installs objs K ks m) specs ms \<Longrightarrow> fits objs ok specs ms \<Longrightarrow>
     list_all2 (\<lambda>(K, ks) m. installs objs K ks m \<and> completes objs ok K m) specs ms"
  by (induction specs ms rule: list_all2_induct) auto

lemma resources_complete:
  assumes s: "sound_run r objs source ok" and own: "adoptable (Lib r) inst"
  shows "completes objs ok (fields (allSpecs (Namespace (s_meta inst))))
    (runSteps (accessSteps r inst @ databaseSteps r tls source inst @ serviceSteps r inst @ workloadSteps r tls inst))"
proof (rule completes_runSteps [OF fits_installs specs_separate])
  show "list_all2 (\<lambda>(K, ks) m. installs objs K ks m) (allSpecs (Namespace (s_meta inst)))
      (accessSteps r inst @ databaseSteps r tls source inst @ serviceSteps r inst @ workloadSteps r tls inst)"
    by (intro list_all2_appendI accessSteps_install databaseSteps_install serviceSteps_install workloadSteps_install sound_runD [OF s])
  show "fits objs ok (allSpecs (Namespace (s_meta inst)))
      (accessSteps r inst @ databaseSteps r tls source inst @ serviceSteps r inst @ workloadSteps r tls inst)"
    by (intro list_all2_appendI accessSteps_complete [OF s own] databaseSteps_complete [OF s] serviceSteps_complete [OF s]
        workloadSteps_complete [OF s])
qed

section \<open>The features, switched off\<close>

text \<open>No preview annotation is set, none was set before, and the resource is not being deleted.\<close>

definition quiet :: "Search \<Rightarrow> bool" where
  "quiet inst \<longleftrightarrow> DeletionTimestamp (s_meta inst) = None
     \<and> index (Annotations (s_meta inst)) ''global-search-preview'' \<noteq> ''true''
     \<and> index (Annotations (s_meta inst)) ''virtual-machine-preview'' \<noteq> ''true''
     \<and> conditionIndex CONDITION_GLOBAL_SEARCH (Conditions (s_Status inst)) = None
     \<and> conditionIndex CONDITION_VM_ACTIONS (Conditions (s_Status inst)) = None"

text \<open>The resource in hand is the stored one and quiet.\<close>

definition steady :: "'w view \<Rightarrow> ('w \<Rightarrow> bool) \<Rightarrow> okey \<Rightarrow> 'w \<Rightarrow> Search \<Rightarrow> bool" where
  "steady objs ok k w inst \<longleftrightarrow> ok w \<and> quiet inst \<and> searchKey inst = k \<and> objs w k = Some (OSearch inst)"

lemma steadyD:
  "steady objs ok k w inst \<Longrightarrow> ok w" "steady objs ok k w inst \<Longrightarrow> quiet inst" "steady objs ok k w inst \<Longrightarrow> searchKey inst = k"
  "steady objs ok k w inst \<Longrightarrow> objs w k = Some (OSearch inst)"
  "steady objs ok k w inst \<Longrightarrow> DeletionTimestamp (s_meta inst) = None"
  by (simp_all add: steady_def quiet_def)

lemma steady_world: "steady objs ok k w inst \<Longrightarrow> ok w' \<Longrightarrow> objs w' k = objs w k \<Longrightarrow> steady objs ok k w' inst"
  by (simp add: steady_def)

lemma quiet_conditions:
  "quiet inst \<Longrightarrow> conditionIndex CONDITION_GLOBAL_SEARCH cs = None \<Longrightarrow> conditionIndex CONDITION_VM_ACTIONS cs = None \<Longrightarrow>
     quiet (withConditions cs inst)"
  by (simp add: quiet_def withConditions_def)

lemma conditionIndex_place:
  "placeCondition t status cs = Some cs' \<Longrightarrow> cond_Type status = t \<Longrightarrow> t' \<noteq> t \<Longrightarrow>
     conditionIndex t' cs = None \<Longrightarrow> conditionIndex t' cs' = None"
  by (induction cs arbitrary: cs') (auto split: if_splits)

lemma conditionIndex_drop: "dropCondition t cs = Some cs' \<Longrightarrow> conditionIndex t' cs = None \<Longrightarrow> conditionIndex t' cs' = None"
  by (induction cs arbitrary: cs') (auto split: if_splits)

lemma instance_steady:
  assumes h: "healthy (Client r) objs ok" and api: "kube_api (Client r) objs" and st: "steady objs ok k w inst"
  shows "s_meta new = s_meta inst \<Longrightarrow>
      \<exists>inst' w'. run_state (updateInstance r new) w = ((None, inst'), w') \<and> steady objs ok k w' inst'"
    and "quiet (withConditions cs inst) \<Longrightarrow>
      \<exists>inst' w'. run_state (commitSearchCRInstanceState r (withConditions cs inst)) w = ((None, inst'), w') \<and> steady objs ok k w' inst'"
proof -
  note here = steadyD [OF st]
  show "\<exists>inst' w'. run_state (updateInstance r new) w = ((None, inst'), w') \<and> steady objs ok k w' inst'"
    if meta: "s_meta new = s_meta inst"
  proof -
    have key: "searchKey new = k" using meta here(3) by simp
    obtain res w' where u: "run_state (cl_Update (Client r) (OSearch new)) w = (res, w')" by fastforce
    obtain ob where res: "res = Inr ob" "ok w'" using healthyD(6,7) [OF h here(1) u] key here(4) by auto
    obtain inst' where run: "run_state (updateInstance r new) w = ((None, inst'), w')"
      using u res by (simp add: updateInstance_def answered_def)
    have "\<not> terminated (OSearch new)" using here(5) meta by (simp add: terminated_def)
    moreover have "objs w (searchKey new) = Some (OSearch inst)" using key here(4) by simp
    ultimately obtain v where inst': "inst' = new\<lparr>s_Status := s_Status inst, s_meta := (s_meta new)\<lparr>UID := v\<rparr>\<rparr>" "holds objs w' inst'"
      using updateInstance_ok [OF api _ _ run] by blast
    have "searchKey inst' = k" using inst'(1) key by (simp add: metaKey_def)
    moreover have "quiet inst'" using here(2) meta inst'(1) by (simp add: quiet_def)
    ultimately show ?thesis using run res(2) inst'(2) by (auto simp: steady_def holds_def)
  qed
  show "\<exists>inst' w'. run_state (commitSearchCRInstanceState r (withConditions cs inst)) w = ((None, inst'), w') \<and> steady objs ok k w' inst'"
    if q: "quiet (withConditions cs inst)"
  proof -
    let ?new = "withConditions cs inst"
    have key: "searchKey ?new = k" using here(3) by simp
    obtain res w' where u: "run_state (cl_StatusUpdate (Client r) (OSearch ?new)) w = (res, w')" by fastforce
    obtain ob where res: "res = Inr ob" "ok w'" using healthyD(10,11) [OF h here(1) u] key here(4) by auto
    obtain inst' where run: "run_state (commitSearchCRInstanceState r ?new) w = ((None, inst'), w')"
      using u res by (simp add: commitSearchCRInstanceState_def answered_def)
    have "\<not> terminated (OSearch inst)" using here(5) by (simp add: terminated_def)
    moreover have "objs w (searchKey ?new) = Some (OSearch inst)" using key here(4) by simp
    ultimately obtain v where inst': "inst' = inst\<lparr>s_Status := s_Status ?new, s_meta := (s_meta inst)\<lparr>UID := v\<rparr>\<rparr>"
        "objs w' (searchKey ?new) = Some (OSearch inst')"
      using commit_ok [OF api _ _ run] by blast
    have "searchKey inst' = k" using inst'(1) here(3) by (simp add: metaKey_def)
    moreover have "quiet inst'" using q inst'(1) by (simp add: quiet_def withConditions_def)
    ultimately show ?thesis using run res(2) inst'(2) key by (auto simp: steady_def)
  qed
qed

lemma env_steady:
  assumes h: "healthy (Client r) objs ok" and api: "kube_api (Client r) objs" and st: "steady objs ok k w inst"
  shows "\<exists>inst' w'. run_state (updateSearchApiDeployment r inst env) w = ((None, inst'), w') \<and> steady objs ok k w' inst'"
proof (cases "placeEnv env (apiEnv inst)")
  case None
  then show ?thesis using st by (simp add: updateSearchApiDeployment_def searchAPIEnvVar_def)
next
  case (Some envs)
  then show ?thesis
    using instance_steady(1) [OF h api st, of "withApiEnv envs inst"] by (simp add: updateSearchApiDeployment_def searchAPIEnvVar_def)
qed

lemma addEnvToSearchAPI_steady:
  assumes h: "healthy (Client r) objs ok" and api: "kube_api (Client r) objs" and st: "steady objs ok k w inst"
  shows "\<exists>inst' w'. run_state (addEnvToSearchAPI r inst) w = ((done_ok, inst'), w') \<and> steady objs ok k w' inst'"
proof -
  obtain res w1 where g: "run_state (Get (Client r) asConfigMap (inNs inst KConfigMap SEARCH_GLOBAL_CONFIG)) w = (res, w1)" by fastforce
  have kd: "key_kind (inNs inst KConfigMap SEARCH_GLOBAL_CONFIG) = KConfigMap" by (simp add: mkKey_def)
  from healthy_Get [OF h api decodes_kinds(3) kd steadyD(1) [OF st] g] have got: "ok w1" "objs w1 = objs w"
    "(\<exists>y. res = Inr y) \<or> (\<exists>e. res = Inl e \<and> IsNotFound e)" by auto
  have st1: "steady objs ok k w1 inst" using steady_world [OF st got(1)] got(2) by simp
  from got(3) show ?thesis
  proof
    assume "\<exists>y. res = Inr y"
    then obtain found where found: "res = Inr found" by blast
    obtain inst' w' where "run_state (updateSearchApiDeployment r inst (plainEnv ''HUB_NAME'' (index (cm_Data found) ''hubName''))) w1
        = ((None, inst'), w')" "steady objs ok k w' inst'" using env_steady [OF h api st1] by blast
    then show ?thesis using g found by (simp add: addEnvToSearchAPI_def)
  next
    assume "\<exists>e. res = Inl e \<and> IsNotFound e"
    then show ?thesis using g st1 by (auto simp: addEnvToSearchAPI_def)
  qed
qed

lemma fine_grained_steady:
  assumes h: "healthy (Client r) objs ok" and api: "kube_api (Client r) objs" and clock: "clock_contract r objs"
    and now: "keeps ok (Now r)" and st: "steady objs ok k w inst"
  shows "\<exists>inst' w'. run_state (reconcileFineGrainedRBACConfiguration r inst) w = (((Some emptyResult, None), inst'), w')
    \<and> steady objs ok k w' inst'"
proof (cases "index (Annotations (s_meta inst)) ''fine-grained-rbac'' = ''true''")
  case True
  obtain inst1 w1 where env: "run_state (updateSearchApiDeployment r inst (plainEnv ''FEATURE_FINE_GRAINED_RBAC'' ''true'')) w
      = ((None, inst1), w1)" "steady objs ok k w1 inst1" using env_steady [OF h api st] by blast
  obtain t w2 where t: "run_state (Now r) w1 = (t, w2)" by fastforce
  have "objs w2 = objs w1" using clock t unfolding clock_contract_def by (metis snd_conv)
  then have st2: "steady objs ok k w2 inst1" using steady_world [OF env(2) keepsD [OF now steadyD(1) [OF env(2)] t]] by simp
  let ?c = "newCondition CONDITION_FINE_GRAINED_RBAC ''True'' ''None'' ''Fine-grained RBAC enabled.'' t"
  have "\<exists>inst' w'. run_state (updateStatusConditionOf r inst1 ?c) w2 = (inst', w') \<and> steady objs ok k w' inst'"
  proof (cases "placeCondition CONDITION_FINE_GRAINED_RBAC ?c (Conditions (s_Status inst1))")
    case None
    then show ?thesis using st2 by (simp add: updateStatusConditionOf_def setSearchCondition_def newCondition_def)
  next
    case (Some cs)
    have "quiet (withConditions cs inst1)"
      using steadyD(2) [OF st2] conditionIndex_place [OF Some]
      by (intro quiet_conditions)
        (auto simp: quiet_def newCondition_def CONDITION_FINE_GRAINED_RBAC_def CONDITION_GLOBAL_SEARCH_def CONDITION_VM_ACTIONS_def)
    from instance_steady(2) [OF h api st2 this] Some show ?thesis
      by (auto simp: updateStatusConditionOf_def setSearchCondition_def newCondition_def)
  qed
  then show ?thesis using True env(1) t by (auto simp: reconcileFineGrainedRBACConfiguration_def)
next
  case False
  obtain inst1 w1 where env: "run_state (updateSearchApiDeployment r inst (plainEnv ''FEATURE_FINE_GRAINED_RBAC'' '''')) w
      = ((None, inst1), w1)" "steady objs ok k w1 inst1" using env_steady [OF h api st] by blast
  have "\<exists>inst' w'. run_state (removeStatusCondition r inst1 CONDITION_FINE_GRAINED_RBAC) w1 = ((None, inst'), w') \<and> steady objs ok k w' inst'"
  proof (cases "dropCondition CONDITION_FINE_GRAINED_RBAC (Conditions (s_Status inst1))")
    case None
    then show ?thesis using env(2) by (simp add: removeStatusCondition_def)
  next
    case (Some cs)
    have "quiet (withConditions cs inst1)"
      using steadyD(2) [OF env(2)] conditionIndex_drop [OF Some] by (intro quiet_conditions) (auto simp: quiet_def)
    from instance_steady(2) [OF h api env(2) this] Some show ?thesis by (simp add: removeStatusCondition_def)
  qed
  then show ?thesis using False env(1) by (auto simp: reconcileFineGrainedRBACConfiguration_def)
qed

lemma quiet_features:
  assumes "quiet inst"
  shows "reconcileGlobalSearch r inst = ret (Some ((Some emptyResult, None), inst))"
    "reconcileVirtualMachineConfiguration r inst = ret (Some ((Some emptyResult, None), inst))"
  using assms by (simp_all add: quiet_def reconcileGlobalSearch_def reconcileVirtualMachineConfiguration_def)

lemma features_steady:
  assumes h: "healthy (Client r) objs ok" and api: "kube_api (Client r) objs" and clock: "clock_contract r objs"
    and now: "keeps ok (Now r)" and st: "steady objs ok k w inst"
  shows "\<exists>inst' w'. run_state (runFeatures (featureSteps r) inst) w = (Some (done_ok, inst'), w') \<and> steady objs ok k w' inst'"
proof -
  obtain inst1 w1 where a: "run_state (addEnvToSearchAPI r inst) w = ((done_ok, inst1), w1)" "steady objs ok k w1 inst1"
    using addEnvToSearchAPI_steady [OF h api st] by blast
  obtain inst2 w2 where b: "run_state (reconcileFineGrainedRBACConfiguration r inst1) w1 = (((Some emptyResult, None), inst2), w2)"
    "steady objs ok k w2 inst2" using fine_grained_steady [OF h api clock now a(2)] by blast
  show ?thesis
    using a b quiet_features(1) [OF steadyD(2) [OF st], of r] quiet_features(2) [OF steadyD(2) [OF b(2)], of r]
    by (simp add: featureSteps_def run_andThen run_total done_ok_def)
qed

section \<open>The end of a run\<close>

lemma deletes_succeed:
  assumes h: "healthy (Client r) objs ok" and ok: "ok w"
  shows "\<exists>w'. run_state (deleteClusterRole r inst n) w = (None, w') \<and> ok w'"
    and "\<exists>w'. run_state (deleteClusterRoleBinding r inst n) w = (None, w') \<and> ok w'"
    and "\<exists>w'. run_state (do { err \<leftarrow> cl_Delete (Client r) k; ret (ignoreNotFound err) }) w = (None, w') \<and> ok w'"
proof -
  have del: "\<exists>w'. run_state (do { err \<leftarrow> cl_Delete (Client r) k; ret (ignoreNotFound err) }) w = (None, w') \<and> ok w'" for k
  proof -
    obtain d w' where d: "run_state (cl_Delete (Client r) k) w = (d, w')" by fastforce
    have "d = None \<or> (\<exists>e. d = Some e \<and> IsNotFound e)" using healthyD(13,14) [OF h ok d] by (cases "objs w k") auto
    then show ?thesis using d healthyD(12) [OF h ok d] by (auto simp: ignoreNotFound_def)
  qed
  then show "\<exists>w'. run_state (deleteClusterRole r inst n) w = (None, w') \<and> ok w'"
    "\<exists>w'. run_state (deleteClusterRoleBinding r inst n) w = (None, w') \<and> ok w'"
    "\<exists>w'. run_state (do { err \<leftarrow> cl_Delete (Client r) k; ret (ignoreNotFound err) }) w = (None, w') \<and> ok w'"
    unfolding deleteClusterRole_def deleteClusterRoleBinding_def by blast+
qed

lemma removeLegacyRBAC_succeeds:
  assumes h: "healthy (Client r) objs ok" and ok: "ok w"
  shows "\<exists>w'. run_state (removeLegacyRBAC r inst) w = (None, w') \<and> ok w'"
proof -
  obtain w1 where a: "run_state (deleteClusterRole r inst getRoleName) w = (None, w1)" "ok w1" using deletes_succeed(1) [OF h ok] by blast
  obtain w2 where b: "run_state (deleteClusterRoleBinding r inst getRoleBindingName) w1 = (None, w2)" "ok w2"
    using deletes_succeed(2) [OF h a(2)] by blast
  obtain w' where "run_state (do { err \<leftarrow> cl_Delete (Client r) (inNs inst KServiceAccount ''search-serviceaccount''); ret (ignoreNotFound err) }) w2
      = (None, w')" "ok w'" using deletes_succeed(3) [OF h b(2)] by blast
  then show ?thesis using a b by (simp add: removeLegacyRBAC_def orElse_def)
qed

lemma cleanUpOnce_keeps: "healthy (Client r) objs ok \<Longrightarrow> keeps ok (cleanUpOnce r inst)"
  unfolding cleanUpOnce_def deleteLegacyServiceMonitorSetup_def removeOwnerRefClusterManagementAddon_def
  by (intro keeps_rules healthy_keeps)

lemma conclude_completes:
  assumes h: "healthy (Client r) objs ok" and api: "kube_api (Client r) objs" and setref: "setref_contract (Lib r)" and ok: "ok w"
    and set: "settled objs w (inNs inst KPrometheusRule SearchPVCAlertRuleName)"
  shows "\<exists>p' w'. run_state (conclude r p inst) w = ((Some (emptyResult, None), p'), w') \<and> ok w'"
proof -
  let ?rule = "SearchPVCPrometheusRule r inst"
  have "metaKey KPrometheusRule (prom_meta ?rule) = inNs inst KPrometheusRule SearchPVCAlertRuleName"
    by (simp add: SearchPVCPrometheusRule_def Let_def metaKey_withOwner [OF setref])
  then obtain w1 where a: "run_state (createOrUpdatePrometheusRule r ?rule) w = (done_ok, w1)" "ok w1"
    using succeedsD [OF updaters_succeed(3) [OF h api, of ?rule] ok] set by auto
  obtain u w2 where b: "run_state (if cleaned p then ret () else cleanUpOnce r inst) w1 = (u, w2)" by (metis surj_pair)
  have "keeps ok (if cleaned p then ret () else cleanUpOnce r inst)" by (intro keeps_rules cleanUpOnce_keeps [OF h])
  then have "ok w2" using a(2) b by (rule keepsD)
  from removeLegacyRBAC_succeeds [OF h this] obtain w' where "run_state (removeLegacyRBAC r inst) w2 = (None, w')" "ok w'" by blast
  then show ?thesis using a b by (simp add: conclude_def Let_def done_ok_def)
qed

lemma storageReady_succeeds:
  assumes h: "healthy (Client r) objs ok" and api: "kube_api (Client r) objs" and ok: "ok w"
  shows "\<exists>w'. run_state (storageReady r inst) w = (True, w') \<and> ok w'"
proof -
  let ?k = "inNs inst KPersistentVolumeClaim (getPVCName (StorageClassName (DBStorage (s_Spec inst))))"
  note get = healthy_Get [OF h api decodes_kinds(13)]
  have k: "key_kind ?k = KPersistentVolumeClaim" by (simp add: mkKey_def)
  obtain res w1 where g: "run_state (Get (Client r) asPersistentVolumeClaim ?k) w = (res, w1)" by fastforce
  from get [OF k ok g] have got: "ok w1" "objs w1 = objs w"
    "(\<exists>y. res = Inr y) \<or> (\<exists>e. res = Inl e \<and> IsNotFound e \<and> objs w ?k = None)" by blast+
  have present: "run_state (isPVCPresent r inst) w = (case res of Inl e \<Rightarrow> \<not> IsNotFound e | Inr y \<Rightarrow> True, w1)"
    using g by (simp add: isPVCPresent_def)
  from got(3) show ?thesis
  proof
    assume "\<exists>y. res = Inr y"
    then show ?thesis using present got(1) ok by (auto simp: storageReady_def)
  next
    assume "\<exists>e. res = Inl e \<and> IsNotFound e \<and> objs w ?k = None"
    then obtain e where e: "res = Inl e" "IsNotFound e" "objs w1 ?k = None" using got(2) by auto
    obtain res2 w2 where g2: "run_state (Get (Client r) asPersistentVolumeClaim ?k) w1 = (res2, w2)" by fastforce
    from get [OF k got(1) g2] e(3) obtain e2 where e2: "ok w2" "objs w2 ?k = None" "res2 = Inl e2" "IsNotFound e2" by auto
    let ?pvc = "OPersistentVolumeClaim (NewPVC (getPVCName (StorageClassName (DBStorage (s_Spec inst)))) (Namespace (s_meta inst))
      (StorageClassName (DBStorage (s_Spec inst))) (case Size (DBStorage (s_Spec inst)) of None \<Rightarrow> lib_MustParse (Lib r) ''10Gi''
        | Some requested \<Rightarrow> requested))"
    obtain c w3 where c: "run_state (cl_Create (Client r) ?pvc) w2 = (c, w3)" by fastforce
    have "key_of ?pvc = ?k" by (simp add: NewPVC_def)
    then obtain ob where "c = Inr ob" "ok w3" using healthyD(4,5) [OF h e2(1) c] e2(2) by auto
    then show ?thesis
      using present e g2 e2 c ok by (simp add: storageReady_def configurePVC_def createPVC_def Let_def errOf_def)
  qed
qed

text \<open>The part of a run after the finalizer, for a resource that is not paused.\<close>

lemma reconcileResources_completes:
  assumes s: "sound_run r objs source ok" and own: "adoptable (Lib r) inst"
    and st: "steady objs ok (mkKey KSearch ns OperatorName) w inst"
    and set: "\<And>k. k \<in> steppedKeys ns \<Longrightarrow> settled objs w k"
  shows "\<exists>p' w'. run_state (reconcileResources r tls source p inst) w = ((Some (emptyResult, None), p'), w') \<and> ok w'"
proof -
  let ?s = "mkKey KSearch ns OperatorName" and ?alert = "mkKey KPrometheusRule ns SearchPVCAlertRuleName"
  let ?steps = "runSteps (accessSteps r inst @ databaseSteps r tls source inst @ serviceSteps r inst @ workloadSteps r tls inst)"
  have ns: "Namespace (s_meta inst) = ns" by (rule searchKey_namespace [OF steadyD(3) [OF st]])
  have search: "?s \<notin> fields (allSpecs ns)" "?alert \<notin> featureKeys ?s"
    by (auto simp: spec_defs name_defs mkKey_def cluster_scoped_def featureKeys_def)
  have here: "settled objs w k" if "k \<in> fields (allSpecs ns)" for k
    by (rule set [OF steppedKeysI(1) [OF that]])
  note frame = installsD(1) [OF resources_install [OF sound_runD(2,3,4,5,7) [OF s], of inst tls, unfolded ns]]
  obtain w1 where a: "run_state ?steps w = (Some done_ok, w1)" "ok w1"
    using completesD [OF resources_complete [OF s own, of tls, unfolded ns] steadyD(1) [OF st] here] by blast
  have st1: "steady objs ok ?s w1 inst" by (rule steady_world [OF st a(2) touchesD [OF frame a(1) search(1)]])
  obtain inst' w2 where b: "run_state (runFeatures (featureSteps r) inst) w1 = (Some (done_ok, inst'), w2)" "steady objs ok ?s w2 inst'"
    using features_steady [OF sound_runD(1,2,4,9) [OF s] st1] by blast
  have f: "featured r objs (featureKeys ?s) ?s" using sound_runD(2,4,6) [OF s] by (simp add: featured_def)
  have "objs w2 ?alert = objs w ?alert"
    using touchesD [OF handsD(1) [OF features_hands [OF f steadyD(3) [OF st1]]] b(1) search(2)]
      touchesD [OF frame a(1) alert_not_installed] by simp
  then have "settled objs w2 (inNs inst' KPrometheusRule SearchPVCAlertRuleName)"
    using set [of ?alert] searchKey_namespace [OF steadyD(3) [OF b(2)]] by (simp add: settled_def steppedKeys_def)
  from conclude_completes [OF sound_runD(1,2,3) [OF s] steadyD(1) [OF b(2)] this]
  obtain p' w' where "run_state (conclude r p inst') w2 = ((Some (emptyResult, None), p'), w')" "ok w'" by blast
  then show ?thesis using a b by (auto simp: reconcileResources_def done_ok_def)
qed

end
