(* ===== verification/Reconcile_Properties.thy ===== *)
theory Reconcile_Properties
  imports Healthy_Reconcile
begin

text \<open>
  The properties of a whole run of \<open>Reconcile\<close>: on a healthy server it ends with success and
  everything in place, on any server it changes nothing but the operator's own objects, and while the
  resource is paused or being deleted it does what that state asks for and no more.
\<close>

section \<open>A run that finds its resource\<close>

abbreviation search_of :: "string \<Rightarrow> okey" where "search_of ns \<equiv> mkKey KSearch ns OperatorName"

text \<open>What follows the \<open>Get\<close> of the Search resource for a request that is not about a pod.\<close>

definition reconcileFound ::
  "'w SearchReconciler \<Rightarrow> tlslib \<Rightarrow> ('w, nat) state \<Rightarrow> process_state \<Rightarrow> Search \<Rightarrow> ('w, outcome option \<times> process_state) state" where
  "reconcileFound r tls source p inst = do {
     ((deleted, err), inst) \<leftarrow> setFinalizer r inst;
     if err \<noteq> None \<or> deleted then finished p (emptyResult, err)
     else reconcileActive r tls source p inst
   }"

lemma Reconcile_cases:
  assumes api: "kube_api (Client r) objs" and there: "objs w (search_of ns) = Some (OSearch inst)" and req: "\<not> HasPrefix reqName ''Pod/''"
    and run: "run_state (Reconcile r tls source p reqName ns) w = ((out, p'), w')"
  obtains (unread) e where "out = Some (emptyResult, Some e)" "objs w' = objs w"
    | (found) w1 where "run_state (Get (Client r) asSearch (search_of ns)) w = (Inr inst, w1)" "objs w1 = objs w"
        "run_state (reconcileFound r tls source (startOnce inst p) inst) w1 = ((out, p'), w')"
proof -
  obtain res w1 where g: "run_state (Get (Client r) asSearch (search_of ns)) w = (res, w1)" by fastforce
  note view = Get_view [OF api g]
  show thesis
  proof (cases res)
    case (Inl e)
    have "\<not> IsNotFound e" using Get_missing [OF api g [unfolded Inl]] there by auto
    then show thesis using unread [of e] run g Inl view by (simp add: Reconcile_def)
  next
    case (Inr x)
    then have "x = inst" using Get_found [OF api decodes_kinds(1) g [unfolded Inr]] there by simp
    then show thesis using found [of w1] run g Inr view req by (simp add: Reconcile_def reconcileFound_def Let_def)
  qed
qed

lemma found_key: "kube_api c objs \<Longrightarrow> objs w (search_of ns) = Some (OSearch inst) \<Longrightarrow> searchKey inst = search_of ns"
  using api_filed by fastforce

section \<open>The finalizer\<close>

text \<open>For a resource that is not being deleted the finalizer is there or is added; nothing else happens.\<close>

lemma setFinalizer_present:
  assumes "DeletionTimestamp (s_meta inst) = None" "lib_ContainsFinalizer (Lib r) (Finalizers (s_meta inst)) searchFinalizer"
  shows "setFinalizer r inst = ret ((False, None), inst)"
  using assms by (simp add: setFinalizer_def Let_def)

lemma setFinalizer_alive:
  assumes api: "kube_api (Client r) objs" and live: "DeletionTimestamp (s_meta inst) = None"
    and there: "objs w (searchKey inst) = Some (OSearch inst)"
    and run: "run_state (setFinalizer r inst) w = (((deleted, err), inst'), w')"
  shows "\<not> deleted \<and> same_except objs w w' {searchKey inst}
    \<and> (err = None \<longrightarrow> objs w' (searchKey inst) = Some (OSearch inst') \<and> searchKey inst' = searchKey inst
         \<and> DeletionTimestamp (s_meta inst') = None \<and> Annotations (s_meta inst') = Annotations (s_meta inst)
         \<and> s_Spec inst' = s_Spec inst \<and> s_Status inst' = s_Status inst)"
proof (cases "lib_ContainsFinalizer (Lib r) (Finalizers (s_meta inst)) searchFinalizer")
  case True
  then show ?thesis using setFinalizer_present [OF live, of r] run live there by (auto simp: same_except_eq)
next
  case False
  let ?new = "withFinalizers (lib_AddFinalizer (Lib r) (Finalizers (s_meta inst)) searchFinalizer) inst"
  have key: "searchKey ?new = searchKey inst" by (simp add: withFinalizers_def metaKey_def)
  have upd: "run_state (updateInstance r ?new) w = ((err, inst'), w')" "\<not> deleted"
    using run False live by (auto simp: setFinalizer_def Let_def split: prod.splits)
  have "touches objs {searchKey inst} (updateInstance r ?new)" using key by (intro instance_frames(1) [OF api]) simp
  then have frame: "same_except objs w w' {searchKey inst}" using upd(1) unfolding touches_def by (metis snd_conv)
  show ?thesis
  proof (cases err)
    case None
    have "\<not> terminated (OSearch ?new)" using live by (simp add: terminated_def withFinalizers_def)
    moreover have "objs w (searchKey ?new) = Some (OSearch inst)" using there key by simp
    ultimately obtain u where "inst' = ?new\<lparr>s_Status := s_Status inst, s_meta := (s_meta ?new)\<lparr>UID := u\<rparr>\<rparr>" "holds objs w' inst'"
      using updateInstance_ok [OF api] upd(1) None by blast
    then show ?thesis using upd(2) frame live by (simp add: withFinalizers_def holds_def metaKey_def)
  qed (use upd(2) frame in simp)
qed

section \<open>A healthy run\<close>

lemma healthy_installed:
  assumes s: "sound_run r objs source ok" and ok: "ok w"
    and there: "objs w (search_of ns) = Some (OSearch inst)" and q: "quiet inst"
    and fin: "lib_ContainsFinalizer (Lib r) (Finalizers (s_meta inst)) searchFinalizer"
    and active: "\<not> IsPaused (Annotations (s_meta inst))" and own: "adoptable (Lib r) inst"
    and set: "\<And>k. k \<in> steppedKeys ns \<Longrightarrow> settled objs w k"
    and req: "\<not> HasPrefix reqName ''Pod/''"
  shows "\<exists>p' w'. run_state (Reconcile r tls source p reqName ns) w = ((Some (emptyResult, None), p'), w')
    \<and> installed r inst ns (objs w) (objs w')"
proof -
  note h = sound_runD(1) [OF s] and api = sound_runD(2) [OF s]
  have key: "searchKey inst = search_of ns" by (rule found_key [OF api there])
  obtain res w1 where g: "run_state (Get (Client r) asSearch (search_of ns)) w = (res, w1)" by fastforce
  have k: "key_kind (search_of ns) = KSearch" by (simp add: mkKey_def)
  from healthy_Get [OF h api decodes_kinds(1) k ok g] there have got: "res = Inr inst" "ok w1" "objs w1 = objs w" by auto
  have st1: "steady objs ok (search_of ns) w1 inst" using got q key there by (simp add: steady_def)
  have finalizer: "setFinalizer r inst = ret ((False, None), inst)"
    using setFinalizer_present [of inst r] fin q by (simp add: quiet_def)
  obtain w2 where pvc: "run_state (storageReady r inst) w1 = (True, w2)" "ok w2" using storageReady_succeeds [OF h api got(2)] by blast
  have storage: "touches objs {k. key_kind k = KPersistentVolumeClaim \<and> key_namespace k = ns} (storageReady r inst)"
    unfolding storageReady_def using searchKey_namespace [OF key]
    by (intro touches_if touches_bind touches_ret pvc_frame [OF api]) auto
  have "steady objs ok (search_of ns) w2 inst"
    by (rule steady_world [OF st1 pvc(2) touchesD [OF storage pvc(1)]]) (simp add: mkKey_def)
  moreover have set2: "settled objs w2 k" if "k \<in> steppedKeys ns" for k
    using touchesD [OF storage pvc(1), of k] steppedKeys_apart(2) [OF that] set [OF that] got(3) by (simp add: settled_def)
  ultimately obtain p' w' where run: "run_state (reconcileResources r tls source (startOnce inst p) inst) w2 = ((Some (emptyResult, None), p'), w')"
    using reconcileResources_completes [OF s own] by blast
  have "installed r inst ns (objs w2) (objs w')"
    using reconcileResources_ok [OF sound_runD(2-6) [OF s] key settled_alive [OF set2] run] by blast
  moreover have "objs w k = objs w2 k" if "k \<in> configs_of ns" for k
    using that touchesD [OF storage pvc(1), of k] got(3) by (simp add: configs_of_def)
  ultimately have "installed r inst ns (objs w) (objs w')" by (rule installed_before)
  then show ?thesis
    using g got(1) req finalizer pvc(1) active run by (simp add: Reconcile_def reconcileActive_def Let_def)
qed

lemma healthy_run:
  assumes "sound_run r objs source ok" "ok w" "objs w (search_of ns) = Some (OSearch inst)" "quiet inst"
    "lib_ContainsFinalizer (Lib r) (Finalizers (s_meta inst)) searchFinalizer"
    "\<not> IsPaused (Annotations (s_meta inst))" "adoptable (Lib r) inst" "\<And>k. k \<in> steppedKeys ns \<Longrightarrow> settled objs w k"
    "\<not> HasPrefix reqName ''Pod/''"
  shows "\<exists>p' w'. run_state (Reconcile r tls source p reqName ns) w = ((Some (emptyResult, None), p'), w')
    \<and> (\<forall>k \<in> desiredKeys ns. objs w' k \<noteq> None)"
  using healthy_installed [OF assms] unfolding installed_def by blast


text \<open>A hub on the in-memory server: the Search resource with its finalizer, and nothing else.\<close>

definition hubReconciler :: "mem SearchReconciler" where
  "hubReconciler = mem_reconciler\<lparr>DynamicClient := Some mem_dynamic\<rparr>"

definition withMeta :: "(ObjectMeta \<Rightarrow> ObjectMeta) \<Rightarrow> Search" where
  "withMeta f = sampleSearch\<lparr>s_meta := f (s_meta sampleSearch)\<rparr>"

definition readySearch :: Search where
  "readySearch = withMeta (\<lambda>m. m\<lparr>Finalizers := [searchFinalizer]\<rparr>)"

abbreviation noFaults :: "mem \<Rightarrow> bool" where "noFaults w \<equiv> mem_faults w = []"

lemma hubReconciler_simps [simp]:
  "Client hubReconciler = mem_client" "Lib hubReconciler = mem_lib" "DynamicClient hubReconciler = Some mem_dynamic"
  by (simp_all add: hubReconciler_def)

lemma dyn_typed_mono: "dyn_typed dyn objs F \<Longrightarrow> G \<subseteq> F \<Longrightarrow> dyn_typed dyn objs G"
  unfolding dyn_typed_def by blast

lemma hub_contracts:
  "kube_api (Client hubReconciler) mem_view" "setref_contract (Lib hubReconciler)" "clock_contract hubReconciler mem_view"
  "dynamic_ok hubReconciler mem_view"
proof -
  show "kube_api (Client hubReconciler) mem_view" "setref_contract (Lib hubReconciler)" by (simp_all add: mem_contracts)
  show "clock_contract hubReconciler mem_view" by (auto simp: clock_contract_def hubReconciler_def mem_reconciler_def mem_view_def)
  show "dynamic_ok hubReconciler mem_view"
    using dyn_typed_mono [OF mem_dyn_typed subset_UNIV] mem_dyn_api by (auto simp: dynamic_ok_def dynamic_typed_def)
qed

lemma hub_sound: "sound_run hubReconciler mem_view sevens noFaults"
  unfolding sound_run_def
proof (intro conjI hub_contracts)
  show "healthy (Client hubReconciler) mem_view noFaults" by (simp add: mem_healthy)
  show "rand_contract sevens mem_view" by (simp add: rand_contract_def sevens_def)
  show "undisturbed hubReconciler sevens noFaults"
    unfolding undisturbed_def
    by (auto simp: keeps_def sevens_def mem_dyn_runs hubReconciler_def mem_reconciler_def)
qed simp

lemma hub_adoptable: "adoptable mem_lib inst"
  by (simp add: adoptable_def mem_lib_def newMeta_def)

lemma hub_search: "s_meta s = f (s_meta sampleSearch) \<Longrightarrow> Name (f (s_meta sampleSearch)) = OperatorName \<Longrightarrow>
    Namespace (f (s_meta sampleSearch)) = ''ocm'' \<Longrightarrow>
    mem_view (mem_world [OSearch s]) k = (if k = search_of ''ocm'' then Some (OSearch s) else None)"
  by (auto simp: mem_view_def mem_world_def metaKey_def)

lemma withMeta_view:
  "Name (f (s_meta sampleSearch)) = OperatorName \<Longrightarrow> Namespace (f (s_meta sampleSearch)) = ''ocm'' \<Longrightarrow>
     mem_view (mem_world [OSearch (withMeta f)]) k = (if k = search_of ''ocm'' then Some (OSearch (withMeta f)) else None)"
  by (rule hub_search [where f = f]) (simp_all add: withMeta_def)

lemma lone_settled:
  "mem_view w = (\<lambda>k. if k = search_of ns then Some s else None) \<Longrightarrow> k \<in> steppedKeys ns \<Longrightarrow> settled mem_view w k"
  using steppedKeys_apart(1) [of ns OperatorName] by (auto simp: settled_def)

definition sampleTLS :: tlslib where
  "sampleTLS = (let spec = \<lparr>Ciphers = [''ECDHE-RSA-AES128-GCM-SHA256''], MinTLSVersion = ''VersionTLS12''\<rparr>
     in \<lparr>tls_Intermediate = spec, tls_Resolve = (\<lambda>_. Inr spec), tls_FromProfile = (\<lambda>_. (771, [49199])),
       tls_CipherSuites = [(49199, ''TLS_ECDHE_RSA_WITH_AES_128_GCM_SHA256'')], tls_InsecureCipherSuites = []\<rparr>)"

definition sampleProcess :: process_state where
  "sampleProcess = \<lparr>addonStarted = False, cleaned = False, SearchCollectorImage = ''quay.io/stolostron/search-collector''\<rparr>"

lemma ready_hub:
  "mem_view (mem_world [OSearch readySearch]) (search_of ''ocm'') = Some (OSearch readySearch)" "quiet readySearch"
  "lib_ContainsFinalizer (Lib hubReconciler) (Finalizers (s_meta readySearch)) searchFinalizer"
  "\<not> IsPaused (Annotations (s_meta readySearch))" "adoptable (Lib hubReconciler) readySearch"
  "k \<in> steppedKeys ''ocm'' \<Longrightarrow> settled mem_view (mem_world [OSearch readySearch]) k"
  "noFaults (mem_world [OSearch readySearch])"
proof -
  have view: "mem_view (mem_world [OSearch readySearch]) = (\<lambda>k. if k = search_of ''ocm'' then Some (OSearch readySearch) else None)"
    unfolding readySearch_def by (intro ext withMeta_view) (simp_all add: sampleSearch_def OperatorName_def)
  then show "mem_view (mem_world [OSearch readySearch]) (search_of ''ocm'') = Some (OSearch readySearch)" by simp
  show "k \<in> steppedKeys ''ocm'' \<Longrightarrow> settled mem_view (mem_world [OSearch readySearch]) k" by (rule lone_settled [OF view])
qed (simp_all add: mem_world_def quiet_def readySearch_def withMeta_def hub_adoptable IsPaused_def sampleSearch_def mem_lib_def
    index_def lookup_def entries_def hub_adoptable [unfolded mem_lib_def])


section \<open>What a reported success means\<close>

lemma storageReady_frame:
  assumes "kube_api (Client r) objs" "Namespace (s_meta inst) = ns"
  shows "touches objs {k. key_kind k = KPersistentVolumeClaim \<and> key_namespace k = ns} (storageReady r inst)"
  unfolding storageReady_def using assms by (intro touches_if touches_bind touches_ret pvc_frame [OF assms(1)]) auto



section \<open>The frame of a run\<close>

definition foreignSecret :: Secret where
  "foreignSecret = \<lparr>sec_meta = newMeta ''tokens'' ''ocm'', sec_Type = ''Opaque'', sec_StringData = None\<rparr>"

text \<open>
  C12. \<open>Reconcile\<close> changes no object but the operator's own: whatever the request, the state of the
  cluster and the errors on the way, an object whose key is not in \<open>operatorKeys\<close> of the namespace is
  stored afterwards exactly as before. In particular the run keeps its hands off other namespaces, but
  for the console configuration and the legacy monitors.
\<close>

theorem reconcile_frame:
  assumes api: "kube_api (Client r) objs" and setref: "setref_contract (Lib r)" and clock: "clock_contract r objs"
    and rand: "rand_contract source objs" and dyn: "dynamic_ok r objs" and k: "k \<notin> operatorKeys ns"
    and run: "run_state (Reconcile r tls source p reqName ns) w = (out, w')"
  shows "objs w' k = objs w k"
  by (rule touchesD [OF Reconcile_frame [OF api setref clock rand dyn] run k])

text \<open>The secret of somebody else in the operator's namespace stays.\<close>

theorem reconcile_frame_witness:
  "mem_view (snd (run_state (Reconcile hubReconciler sampleTLS sevens sampleProcess OperatorName ''ocm'')
       (mem_world [OSearch readySearch, OSecret foreignSecret]))) (mkKey KSecret ''ocm'' ''tokens'') = Some (OSecret foreignSecret)"
proof -
  let ?w = "mem_world [OSearch readySearch, OSecret foreignSecret]"
  have "mkKey KSecret ''ocm'' ''tokens'' \<notin> operatorKeys ''ocm''"
    by (auto simp: operatorKeys_def spec_defs name_defs featureKeys_def concludeKeys_def legacyKeys_def finalizedKeys_def
        mkKey_def cluster_scoped_def)
  from reconcile_frame [OF hub_contracts(1-3) sevens_contract hub_contracts(4) this, of sampleTLS sampleProcess OperatorName ?w]
  have "mem_view (snd (run_state (Reconcile hubReconciler sampleTLS sevens sampleProcess OperatorName ''ocm'') ?w)) (mkKey KSecret ''ocm'' ''tokens'')
      = mem_view ?w (mkKey KSecret ''ocm'' ''tokens'')" by (metis prod.collapse)
  then show ?thesis by (simp add: mem_view_def mem_world_def readySearch_def withMeta_def sampleSearch_def foreignSecret_def newMeta_def metaKey_def mkKey_def cluster_scoped_def)
qed

section \<open>Paused\<close>

text \<open>A request about a pod only reports on it, in the status of the Search resource.\<close>

lemma pod_request_frame:
  assumes api: "kube_api (Client r) objs" and clock: "clock_contract r objs" and pod: "HasPrefix reqName ''Pod/''"
    and run: "run_state (Reconcile r tls source p reqName ns) w = ((out, p'), w')"
  shows "same_except objs w w' {search_of ns}"
proof -
  obtain res w1 where g: "run_state (Get (Client r) asSearch (search_of ns)) w = (res, w1)" by fastforce
  note view = Get_view [OF api g]
  have "same_except objs w1 w' {search_of ns}"
  proof (cases res)
    case (Inr x)
    then have "searchKey x = search_of ns" using Get_found [OF api decodes_kinds(1) g [unfolded Inr]] by simp
    then have status: "touches objs {search_of ns} (updateStatus r x n)" for n by (intro updateStatus_frame [OF api clock]) simp
    obtain err where "run_state (updateStatus r x (Split reqName CHR ''/'' ! 1)) w1 = (err, w')"
      using run g Inr pod by (auto simp: Reconcile_def Let_def split: prod.splits)
    then show ?thesis using status [of "Split reqName CHR ''/'' ! 1"] unfolding touches_def by (metis snd_conv)
  qed (use run g in \<open>simp add: Reconcile_def same_except_def\<close>)
  then show ?thesis using view by (simp add: same_except_def)
qed

text \<open>
  C13. While the Search resource is paused (and not being deleted) a run changes no object but the Search
  resource itself, whatever the request; when the finalizer is in place, a request that is not about a
  pod changes nothing at all.
\<close>

theorem paused_run_writes_only_the_search:
  assumes api: "kube_api (Client r) objs" and clock: "clock_contract r objs"
    and there: "objs w (search_of ns) = Some (OSearch inst)" and live: "DeletionTimestamp (s_meta inst) = None"
    and paused: "IsPaused (Annotations (s_meta inst))"
    and run: "run_state (Reconcile r tls source p reqName ns) w = ((out, p'), w')"
  shows "same_except objs w w' {search_of ns}
    \<and> (lib_ContainsFinalizer (Lib r) (Finalizers (s_meta inst)) searchFinalizer \<longrightarrow> \<not> HasPrefix reqName ''Pod/'' \<longrightarrow> objs w' = objs w)"
proof (cases "HasPrefix reqName ''Pod/''")
  case True
  then show ?thesis using pod_request_frame [OF api clock _ run] by simp
next
  case False
  show ?thesis
    using api there False run
  proof (cases rule: Reconcile_cases)
    case (found w1)
    have key: "searchKey inst = search_of ns" by (rule found_key [OF api there])
    obtain deleted err inst' w2 where fin: "run_state (setFinalizer r inst) w1 = (((deleted, err), inst'), w2)" by (metis surj_pair)
    have there1: "objs w1 (searchKey inst) = Some (OSearch inst)" using there found(2) key by simp
    note final = setFinalizer_alive [OF api live there1 fin, unfolded key]
    have "w' = w2" using found(3) fin final paused by (auto simp: reconcileFound_def reconcileActive_def split: if_splits)
    then have "same_except objs w w' {search_of ns}" using final found(2) by (simp add: same_except_def)
    moreover have "objs w' = objs w" if "lib_ContainsFinalizer (Lib r) (Finalizers (s_meta inst)) searchFinalizer"
      using setFinalizer_present [OF live that] fin \<open>w' = w2\<close> found(2) by simp
    ultimately show ?thesis by blast
  qed (simp add: same_except_def)
qed

definition restingSearch :: Search where
  "restingSearch = withMeta (\<lambda>m. m\<lparr>Finalizers := [searchFinalizer], Annotations := mapOf [(AnnotationSearchPause, ''True'')]\<rparr>)"

theorem paused_run_writes_only_the_search_witness:
  "mem_view (snd (run_state (Reconcile hubReconciler sampleTLS sevens sampleProcess OperatorName ''ocm'') (mem_world [OSearch restingSearch])))
     = mem_view (mem_world [OSearch restingSearch])"
proof -
  let ?w = "mem_world [OSearch restingSearch]"
  have there: "mem_view ?w (search_of ''ocm'') = Some (OSearch restingSearch)"
    unfolding restingSearch_def by (subst withMeta_view) (simp_all add: sampleSearch_def OperatorName_def)
  have paused: "IsPaused (Annotations (s_meta restingSearch))" by code_simp
  obtain out p' w' where run: "run_state (Reconcile hubReconciler sampleTLS sevens sampleProcess OperatorName ''ocm'') ?w = ((out, p'), w')"
    by (metis surj_pair)
  have "DeletionTimestamp (s_meta restingSearch) = None"
    "lib_ContainsFinalizer (Lib hubReconciler) (Finalizers (s_meta restingSearch)) searchFinalizer" "\<not> HasPrefix OperatorName ''Pod/''"
    by (simp_all add: restingSearch_def withMeta_def sampleSearch_def mem_lib_def HasPrefix_def OperatorName_def)
  with paused_run_writes_only_the_search [OF hub_contracts(1,3) there _ paused run] run show ?thesis by simp
qed

section \<open>Deletion\<close>

text \<open>
  C10. A Search resource that is being deleted is finalized and nothing is created for it, paused or not:
  the run changes only the resource, the \<open>search-collector\<close> add-on and the six cluster-scoped objects of
  \<open>finalizedKeys\<close>; when it reports success, each of these six is gone (unless it has finalizers of its
  own) and so is the Search resource, or it waits for the finalizers of others only. Whatever the run
  reports, the Search resource, and so the finalizer, is as it was unless the whole clean-up has reported no
  error and the six objects are gone; and an error of the clean-up ends the run and is its error, with the
  finalizer still there to try again. On the other hand the cluster role \<open>global-search-user\<close>, which the operator has created and which no owner reference
  collects, is left behind as it was.
\<close>

theorem deletion_finalizes:
  assumes api: "kube_api (Client r) objs" and fins: "finalizer_contract (Lib r)"
    and there: "objs w (search_of ns) = Some (OSearch inst)" and deleted: "DeletionTimestamp (s_meta inst) \<noteq> None"
    and fin: "searchFinalizer \<in> set (Finalizers (s_meta inst))" and req: "\<not> HasPrefix reqName ''Pod/''"
    and run: "run_state (Reconcile r tls source p reqName ns) w = ((out, p'), w')"
  shows "same_except objs w w' (insert (search_of ns) (insert (mkKey KClusterManagementAddOn '''' ''search-collector'') (set finalizedKeys)))
    \<and> objs w' (mkKey KClusterRole '''' getSearchUserRoleName) = objs w (mkKey KClusterRole '''' getSearchUserRoleName)
    \<and> (objs w' (search_of ns) = objs w (search_of ns)
       \<or> (\<exists>w1 w2. run_state (Get (Client r) asSearch (search_of ns)) w = (Inr inst, w1) \<and> run_state (finalizeSearch r inst) w1 = (None, w2))
         \<and> (\<forall>k \<in> set finalizedKeys. (\<forall>ob. objs w k = Some ob \<longrightarrow> Finalizers (meta_of ob) = []) \<longrightarrow> objs w' k = None))
    \<and> (\<forall>w1 e w2. run_state (Get (Client r) asSearch (search_of ns)) w = (Inr inst, w1) \<longrightarrow> run_state (finalizeSearch r inst) w1 = (Some e, w2) \<longrightarrow>
         out = Some (emptyResult, Some e) \<and> w' = w2 \<and> objs w' (search_of ns) = Some (OSearch inst))
    \<and> (out = Some (emptyResult, None) \<longrightarrow>
         (\<forall>k \<in> set finalizedKeys. (\<forall>ob. objs w k = Some ob \<longrightarrow> Finalizers (meta_of ob) = []) \<longrightarrow> objs w' k = None)
         \<and> (\<forall>s. objs w' (search_of ns) = Some (OSearch s) \<longrightarrow>
              searchFinalizer \<notin> set (Finalizers (s_meta s)) \<and> Finalizers (s_meta s) \<noteq> []))"
proof -
  let ?cma = "mkKey KClusterManagementAddOn '''' ''search-collector''"
  let ?K = "insert (search_of ns) (insert ?cma (set finalizedKeys))"
  have apart: "mkKey KClusterRole '''' getSearchUserRoleName \<notin> ?K" "search_of ns \<notin> insert ?cma (set finalizedKeys)"
    by (auto simp: finalizedKeys_def mkKey_def getSearchUserRoleName_def getAddonRoleName_def getRoleName_def cluster_scoped_def)
  have key: "searchKey inst = search_of ns" by (rule found_key [OF api there])
  have has: "lib_ContainsFinalizer (Lib r) (Finalizers (s_meta inst)) searchFinalizer" using fins fin by (simp add: finalizer_contract_def)
  let ?new = "withFinalizers (lib_RemoveFinalizer (Lib r) (Finalizers (s_meta inst)) searchFinalizer) inst"
  have newkey: "searchKey ?new = search_of ns" using key by (simp add: withFinalizers_def metaKey_def)
  note frames = finalizeSearch_clears [OF api]
  let ?get = "run_state (Get (Client r) asSearch (search_of ns)) w"
  let ?kept = "objs w' (search_of ns) = objs w (search_of ns)
    \<or> (\<exists>w1 w2. ?get = (Inr inst, w1) \<and> run_state (finalizeSearch r inst) w1 = (None, w2))
      \<and> (\<forall>k \<in> set finalizedKeys. (\<forall>ob. objs w k = Some ob \<longrightarrow> Finalizers (meta_of ob) = []) \<longrightarrow> objs w' k = None)"
  let ?failed = "\<forall>w1 e w2. ?get = (Inr inst, w1) \<longrightarrow> run_state (finalizeSearch r inst) w1 = (Some e, w2) \<longrightarrow>
    out = Some (emptyResult, Some e) \<and> w' = w2 \<and> objs w' (search_of ns) = Some (OSearch inst)"
  have "same_except objs w w' ?K \<and> ?kept \<and> ?failed \<and> (out = Some (emptyResult, None) \<longrightarrow>
      (\<forall>k \<in> set finalizedKeys. (\<forall>ob. objs w k = Some ob \<longrightarrow> Finalizers (meta_of ob) = []) \<longrightarrow> objs w' k = None)
      \<and> (\<forall>s. objs w' (search_of ns) = Some (OSearch s) \<longrightarrow> searchFinalizer \<notin> set (Finalizers (s_meta s)) \<and> Finalizers (s_meta s) \<noteq> []))"
    using api there req run
  proof (cases rule: Reconcile_cases)
    case (found w1)
    obtain e w2 where f: "run_state (finalizeSearch r inst) w1 = (e, w2)" by fastforce
    have first: "same_except objs w w2 (insert ?cma (set finalizedKeys))"
      using touchesD [OF frames(1) f] found(2) by (simp add: same_except_def)
    show ?thesis
    proof (cases e)
      case (Some err)
      then have "w' = w2" "out = Some (emptyResult, Some err)"
        using found(3) f has deleted by (auto simp: reconcileFound_def setFinalizer_def)
      moreover have kept: "objs w2 (search_of ns) = objs w (search_of ns)" by (rule same_exceptD [OF first apart(2)])
      moreover have ?failed using f found(1) Some there kept calculation(1,2) by auto
      ultimately show ?thesis using first by (auto intro: same_except_mono)
    next
      case None
      obtain err inst' w3 where u: "run_state (updateInstance r ?new) w2 = ((err, inst'), w3)" by (metis surj_pair)
      have ends: "w' = w3" "out = Some (emptyResult, err)"
        using found(3) f None u has deleted by (auto simp: reconcileFound_def setFinalizer_def split: if_splits)
      have "touches objs {search_of ns} (updateInstance r ?new)" using newkey by (intro instance_frames(1) [OF api]) simp
      note last = touchesD [OF this u]
      have frame: "same_except objs w w' ?K" using first last ends(1) by (simp add: same_except_def)
      have gone: "objs w' k = None" if "k \<in> set finalizedKeys" "\<forall>ob. objs w k = Some ob \<longrightarrow> Finalizers (meta_of ob) = []" for k
        using frames(2) [OF that(1), of inst] f None that found(2) last [of k] apart(2) ends(1) unfolding clears_def by auto
      have "searchFinalizer \<notin> set (Finalizers (s_meta s)) \<and> Finalizers (s_meta s) \<noteq> []"
        if err: "err = None" and s: "objs w' (search_of ns) = Some (OSearch s)" for s
      proof -
        obtain ob where up: "run_state (cl_Update (Client r) (OSearch ?new)) w2 = (Inr ob, w3)"
          using u err by (auto simp: updateInstance_def answered_def split: prod.splits sum.splits)
        from api_update_ok [OF api up] newkey obtain old where old: "content ob = content (keep_status old (OSearch ?new))"
          "objs w3 (search_of ns) = (if terminated ob then None else Some ob)" by auto
        then have ob: "ob = OSearch s" "\<not> terminated ob" using s ends(1) by (auto split: if_splits)
        have "meta_of (keep_status old (OSearch ?new)) = s_meta ?new" by (cases old) simp_all
        then have "meta_of ob = (s_meta ?new)\<lparr>UID := UID (meta_of ob)\<rparr>"
          using arg_cong [OF content_eqD [OF old(1)], of meta_of] by simp
        then obtain v where v: "s_meta s = (s_meta ?new)\<lparr>UID := v\<rparr>" using ob(1) by auto
        then have "set (Finalizers (s_meta s)) = set (Finalizers (s_meta inst)) - {searchFinalizer}" "DeletionTimestamp (s_meta s) \<noteq> None"
          using fins deleted by (simp_all add: withFinalizers_def finalizer_contract_def)
        then show ?thesis using ob by (auto simp: terminated_def)
      qed
      then show ?thesis using frame gone ends(2) found(1) f None by simp
    qed
  next
    case (unread e)
    have failed: "?get \<noteq> (Inr inst, w1)" if "run_state (finalizeSearch r inst) w1 = (Some x, w2)"
      "out \<noteq> Some (emptyResult, Some x) \<or> w' \<noteq> w2 \<or> objs w' (search_of ns) \<noteq> Some (OSearch inst)" for w1 x w2
      using that run req unread there has deleted by (auto simp: Reconcile_def setFinalizer_def Let_def)
    have ?failed using failed by blast
    moreover have ?kept using unread by simp
    moreover have "same_except objs w w' ?K" using unread by (simp add: same_except_def)
    moreover have "out \<noteq> Some (emptyResult, None)" using unread(1) by simp
    ultimately show ?thesis by (intro conjI) (assumption | simp)+
  qed
  from this same_exceptD [OF conjunct1 [OF this] apart(1)] show ?thesis by (elim conjE) (intro conjI, assumption+)
qed

definition doomedSearch :: Search where
  "doomedSearch = withMeta (\<lambda>m. m\<lparr>Finalizers := [searchFinalizer], DeletionTimestamp := Some 5\<rparr>)"

abbreviation doomedWorld :: mem where
  "doomedWorld \<equiv> mem_world [OSearch doomedSearch, OClusterRole (IndexerClusterRole sampleSearch), OClusterRole (GlobalSearchUserClusterRole sampleSearch)]"

lemma doomed_run: "\<exists>p' w'. run_state (Reconcile hubReconciler sampleTLS sevens sampleProcess OperatorName ''ocm'') doomedWorld
    = ((Some (emptyResult, None), p'), w')"
  by (simp add: Reconcile_def setFinalizer_def finalizeSearch_def orElse_def removeOwnerRefClusterManagementAddon_def deleteClusterRole_def
      deleteClusterRoleBinding_def ignoreNotFound_def updateInstance_def answered_def doomedSearch_def withMeta_def sampleSearch_def
      mem_run_simps mem_delete_def mem_lib_def erase_def hubReconciler_def mem_reconciler_def withFinalizers_def Let_def OperatorName_def
      IndexerClusterRole_def GlobalSearchUserClusterRole_def HasPrefix_def getAddonRoleName_def getRoleName_def getRoleBindingName_def getSearchUserRoleName_def)

theorem deletion_finalizes_witness:
  "mem_view (snd (run_state (Reconcile hubReconciler sampleTLS sevens sampleProcess OperatorName ''ocm'') doomedWorld))
      (mkKey KClusterRole '''' (getRoleName @ ''-indexer'')) = None
   \<and> mem_view (snd (run_state (Reconcile hubReconciler sampleTLS sevens sampleProcess OperatorName ''ocm'') doomedWorld))
      (mkKey KClusterRole '''' getSearchUserRoleName) = Some (OClusterRole (GlobalSearchUserClusterRole sampleSearch))"
proof -
  obtain p' w' where run: "run_state (Reconcile hubReconciler sampleTLS sevens sampleProcess OperatorName ''ocm'') doomedWorld
      = ((Some (emptyResult, None), p'), w')" using doomed_run by blast
  note keys = doomedSearch_def withMeta_def sampleSearch_def newMeta_def metaKey_def mkKey_def cluster_scoped_def OperatorName_def
    IndexerClusterRole_def GlobalSearchUserClusterRole_def getSearchUserRoleName_def getRoleName_def mem_view_def mem_world_def
  have there: "mem_view doomedWorld (search_of ''ocm'') = Some (OSearch doomedSearch)" by (simp add: keys)
  have role: "mem_view doomedWorld (mkKey KClusterRole '''' (getRoleName @ ''-indexer'')) = Some (OClusterRole (IndexerClusterRole sampleSearch))"
    "mem_view doomedWorld (mkKey KClusterRole '''' getSearchUserRoleName) = Some (OClusterRole (GlobalSearchUserClusterRole sampleSearch))"
    by (simp_all add: keys)
  have "DeletionTimestamp (s_meta doomedSearch) \<noteq> None" "searchFinalizer \<in> set (Finalizers (s_meta doomedSearch))" "\<not> HasPrefix OperatorName ''Pod/''"
    by (simp_all add: keys HasPrefix_def)
  note after = deletion_finalizes [OF hub_contracts(1) _ there this run]
  have "finalizer_contract (Lib hubReconciler)" by (simp add: mem_contracts)
  note after = after [OF this]
  have "mem_view w' (mkKey KClusterRole '''' (getRoleName @ ''-indexer'')) = None"
    using after role(1) by (simp add: finalizedKeys_def IndexerClusterRole_def)
  then show ?thesis using after role(2) run by simp
qed

end
