(* ===== verification/No_Panic.thy ===== *)
theory No_Panic
  imports Reconcile_Properties
begin

text \<open>
  When the code panics, and that it panics for no other reason. It follows what the dynamic client
  answers without a check in five places: it asserts that a config map has data, that the status of an
  add-on is a map, that an engine lists its components under \<open>spec.overrides\<close> (optional in its
  definition), that a cluster's status and claims have their types, and it walks the list of managed
  clusters also after an error; and it splits the name of a pod at its dashes. \<open>panic_free\<close> says that none
  of this happens: then no type assertion fails, no index is out of range and no nil pointer is followed in a
  run of \<open>Reconcile\<close>.
\<close>

section \<open>Well-typed objects\<close>

definition isMap :: "json \<Rightarrow> bool" where "isMap v \<longleftrightarrow> assertMap v \<noteq> None"

text \<open>An engine lists its components, a cluster its claims (or has no status yet), a config map has data.\<close>

definition typed_engine :: "json \<Rightarrow> bool" where
  "typed_engine mce \<longleftrightarrow> (case mceComponents mce of None \<Rightarrow> False | Some components \<Rightarrow> list_all isMap components)"

definition typed_status :: "json \<Rightarrow> bool" where
  "typed_status u \<longleftrightarrow> jget (jfields u) ''status'' = JNull \<or> isMap (jget (jfields u) ''status'')"

definition typed_claims :: "json \<Rightarrow> bool" where
  "typed_claims v \<longleftrightarrow> v = JNull \<or> (case assertArray v of None \<Rightarrow> False | Some claims \<Rightarrow> list_all isMap claims)"

definition typed_cluster :: "json \<Rightarrow> bool" where
  "typed_cluster cluster \<longleftrightarrow> typed_status cluster
     \<and> typed_claims (jget (jfields (jget (jfields cluster) ''status'')) ''clusterClaims'')"

definition typed_config :: "json \<Rightarrow> bool" where
  "typed_config cm \<longleftrightarrow> isMap (jget (jfields cm) ''data'')"

text \<open>
  The answers of the dynamic client that the code does not check: \<open>panic_free\<close> excludes them. This is more
  than the resource definitions promise, and the last clause excludes every failure of the listing of the
  managed clusters.
\<close>

definition panic_cause :: "'w dynamic \<Rightarrow> 'w \<Rightarrow> bool" where
  "panic_cause dyn w \<longleftrightarrow>
     (\<exists>ns n cm. fst (run_state (dyn_Get dyn configMapsGvr ns n) w) = Inr cm \<and> \<not> typed_config cm)
     \<or> (\<exists>ns n addon. fst (run_state (dyn_Get dyn managedClustrAddonGvr ns n) w) = Inr addon \<and> \<not> typed_status addon)
     \<or> (\<exists>l. fst (run_state (dyn_List dyn multiclusterengineResourceGvr) w) = (l, None) \<and> \<not> list_all typed_engine (listed l))
     \<or> (\<exists>clusters. fst (run_state (dyn_List dyn managedClusterResourceGvr) w) = (Some clusters, None) \<and> \<not> list_all typed_cluster clusters)
     \<or> (\<forall>clusters. fst (run_state (dyn_List dyn managedClusterResourceGvr) w) \<noteq> (Some clusters, None))"

definition panic_free :: "'w dynamic \<Rightarrow> bool" where
  "panic_free dyn \<longleftrightarrow> (\<forall>w. \<not> panic_cause dyn w)"

lemma panic_freeD:
  assumes "panic_free dyn"
  shows "run_state (dyn_Get dyn configMapsGvr ns n) w = (Inr ob, w') \<Longrightarrow> typed_config ob"
    "run_state (dyn_Get dyn managedClustrAddonGvr ns n) w = (Inr ob, w') \<Longrightarrow> typed_status ob"
    "run_state (dyn_List dyn multiclusterengineResourceGvr) w = ((l, None), w') \<Longrightarrow> list_all typed_engine (listed l)"
    "run_state (dyn_List dyn managedClusterResourceGvr) w = ((l, err), w') \<Longrightarrow> \<exists>clusters. l = Some clusters \<and> err = None \<and> list_all typed_cluster clusters"
proof -
  have free: "\<not> panic_cause dyn w" using assms unfolding panic_free_def by blast
  note free = free [unfolded panic_cause_def de_Morgan_disj not_ex not_all]
  show "run_state (dyn_Get dyn configMapsGvr ns n) w = (Inr ob, w') \<Longrightarrow> typed_config ob"
    using conjunct1 [OF free, THEN spec, THEN spec, THEN spec, of ns n ob] by simp
  show "run_state (dyn_Get dyn managedClustrAddonGvr ns n) w = (Inr ob, w') \<Longrightarrow> typed_status ob"
    using conjunct1 [OF conjunct2 [OF free], THEN spec, THEN spec, THEN spec, of ns n ob] by simp
  show "run_state (dyn_List dyn multiclusterengineResourceGvr) w = ((l, None), w') \<Longrightarrow> list_all typed_engine (listed l)"
    using conjunct1 [OF conjunct2 [OF conjunct2 [OF free]], THEN spec, of l] by simp
  note last = conjunct2 [OF conjunct2 [OF conjunct2 [OF free]]]
  obtain clusters where "fst (run_state (dyn_List dyn managedClusterResourceGvr) w) = (Some clusters, None)"
    using conjunct2 [OF last] by blast
  then show "run_state (dyn_List dyn managedClusterResourceGvr) w = ((l, err), w') \<Longrightarrow>
      \<exists>clusters. l = Some clusters \<and> err = None \<and> list_all typed_cluster clusters"
    using conjunct1 [OF last, THEN spec, of clusters] by simp
qed

lemma componentEnabled_typed: "list_all isMap components \<Longrightarrow> \<exists>b. componentEnabled n components = Some b"
  by (induction components) (auto simp: isMap_def)

lemma hubClaim_typed: "list_all isMap claims \<Longrightarrow> \<exists>b. hubClaim claims = Some b"
  by (induction claims) (auto simp: isMap_def)

lemma isMap_jfields: "isMap v \<Longrightarrow> assertMap v = Some (jfields v)"
  by (cases v) (auto simp: isMap_def)

lemma managedHub_typed: "typed_cluster cluster \<Longrightarrow> \<exists>b. managedHub cluster = Some b"
  using hubClaim_typed
  by (auto simp: typed_cluster_def typed_status_def typed_claims_def managedHub_def Let_def isMap_jfields split: option.splits)

section \<open>Steps that do not panic\<close>

text \<open>\<open>gives P m\<close>: \<open>m\<close> does not panic and its result satisfies \<open>P\<close>.\<close>

definition gives :: "('a \<Rightarrow> bool) \<Rightarrow> ('w, 'a option) state \<Rightarrow> bool" where
  "gives P m \<longleftrightarrow> (\<forall>w. \<exists>x w'. run_state m w = (Some x, w') \<and> P x)"

abbreviation sure :: "('w, 'a option) state \<Rightarrow> bool" where "sure \<equiv> gives (\<lambda>_. True)"

lemma givesD: "gives P m \<Longrightarrow> \<exists>x w'. run_state m w = (Some x, w') \<and> P x"
  unfolding gives_def by blast

lemma gives_mono: "gives P m \<Longrightarrow> (\<And>x. P x \<Longrightarrow> Q x) \<Longrightarrow> gives Q m"
  unfolding gives_def by blast

lemma gives_ret: "P x \<Longrightarrow> gives P (ret (Some x))"
  by (simp add: gives_def)

lemma gives_total: "(\<And>w. P (fst (run_state m w))) \<Longrightarrow> gives P (total m)"
  unfolding gives_def run_total by (metis (mono_tags, lifting) case_prod_beta prod.collapse)

lemma sure_total: "sure (total m)"
  by (rule gives_total) simp

lemma gives_bind: "(\<And>x. gives P (f x)) \<Longrightarrow> gives P (State_Monad.bind m f)"
  by (auto simp: gives_def split: prod.split)

lemma gives_after: "(\<And>x w w'. run_state m w = (x, w') \<Longrightarrow> gives P (f x)) \<Longrightarrow> gives P (State_Monad.bind m f)"
  by (auto simp: gives_def split: prod.split)

lemma gives_andThen: "gives P m \<Longrightarrow> (\<And>x. P x \<Longrightarrow> gives Q (f x)) \<Longrightarrow> gives Q (andThen m f)"
  unfolding gives_def run_andThen by (metis (mono_tags, lifting) case_prod_conv option.simps(5))

lemma gives_cases:
  "(x = None \<Longrightarrow> gives P m) \<Longrightarrow> (\<And>a. x = Some a \<Longrightarrow> gives P (f a)) \<Longrightarrow> gives P (case x of None \<Rightarrow> m | Some a \<Rightarrow> f a)"
  "(\<And>a. s = Inl a \<Longrightarrow> gives P (h a)) \<Longrightarrow> (\<And>b. s = Inr b \<Longrightarrow> gives P (k b)) \<Longrightarrow> gives P (case s of Inl a \<Rightarrow> h a | Inr b \<Rightarrow> k b)"
  "(\<And>a b. y = (a, b) \<Longrightarrow> gives P (q a b)) \<Longrightarrow> gives P (case y of (a, b) \<Rightarrow> q a b)"
  "(c \<Longrightarrow> gives P m) \<Longrightarrow> (\<not> c \<Longrightarrow> gives P n) \<Longrightarrow> gives P (if c then m else n)"
  by (auto split: option.split sum.split prod.split)

lemma sure_loop: "(\<And>c errs. c \<in> set cs \<Longrightarrow> sure (act c errs)) \<Longrightarrow> sure (forClusters act cs errs)"
  by (induction cs arbitrary: errs) (auto intro: gives_ret gives_andThen)

lemma sure_runSteps: "(\<And>m. m \<in> set ms \<Longrightarrow> sure m) \<Longrightarrow> sure (runSteps ms)"
  by (induction ms) (auto intro!: gives_ret gives_andThen gives_cases)

section \<open>The features\<close>

lemma setConsoleFlag_sure:
  assumes "panic_free dyn"
  shows "sure (setConsoleFlag dyn enabled ns n key)"
  unfolding setConsoleFlag_def
  using panic_freeD(1) [OF assms]
  by (intro gives_after gives_cases gives_ret sure_total) (fastforce simp: typed_config_def isMap_def)+

lemma console_sure:
  assumes "panic_free dyn"
  shows "sure (updateConsoleConfig dyn enabled ns n)" "sure (updateConsoleConfigVM dyn enabled)"
  unfolding updateConsoleConfig_def updateConsoleConfigVM_def by (intro gives_bind setConsoleFlag_sure [OF assms])+

lemma validateAddOns_sure:
  assumes "panic_free dyn"
  shows "sure (validateAddOns dyn a b)"
  unfolding gives_def
proof
  fix w
  obtain l err w1 where list: "run_state (dyn_List dyn multiclusterengineResourceGvr) w = ((l, err), w1)" by (metis surj_pair)
  show "\<exists>x w'. run_state (validateAddOns dyn a b) w = (Some x, w') \<and> True"
  proof (cases "err \<noteq> None \<or> listed l = []")
    case False
    then obtain mce mces where l: "listed l = mce # mces" "err = None" by (cases "listed l") auto
    then have "typed_engine mce" using panic_freeD(3) [OF assms] list by fastforce
    then obtain components where c: "mceComponents mce = Some components" "list_all isMap components"
      by (auto simp: typed_engine_def split: option.splits)
    obtain p q where "componentEnabled ''managedserviceaccount'' components = Some p" "componentEnabled ''cluster-proxy-addon'' components = Some q"
      using componentEnabled_typed [OF c(2)] by blast
    then show ?thesis using list l c(1) by (simp add: validateAddOns_def)
  qed (auto simp: validateAddOns_def list)
qed

lemma createManifestWork_sure:
  assumes "panic_free dyn"
  shows "sure (createManifestWork dyn cluster ns)"
  unfolding createManifestWork_def Let_def
  using panic_freeD(2) [OF assms]
  by (intro gives_after gives_cases gives_ret sure_total) (fastforce simp: typed_status_def isMap_def)+

lemma hub_steps_sure:
  assumes "panic_free dyn"
  shows "typed_cluster cluster \<Longrightarrow> sure (setUpHub ns dyn cluster errs)" "sure (tearDownHub dyn cluster errs)"
    "sure (setUpVM dyn cluster errs)" "sure (tearDownVM dyn cluster errs)"
proof -
  show "sure (setUpHub ns dyn cluster errs)" if typed: "typed_cluster cluster"
  proof -
    obtain b where b: "managedHub cluster = Some b" using managedHub_typed [OF typed] by blast
    then show ?thesis
      by (cases b) (auto simp: setUpHub_def intro!: gives_bind gives_andThen [OF createManifestWork_sure [OF assms]] gives_ret)
  qed
qed (simp_all add: tearDownHub_def setUpVM_def tearDownVM_def deletePair_def sure_total)

lemma validate_sure:
  assumes "panic_free dyn"
  shows "sure (validateGlobalSearchDependencies dyn)" "sure (validateVirtualMachineDependencies dyn)"
  unfolding validateGlobalSearchDependencies_def validateVirtualMachineDependencies_def
  by (intro gives_bind gives_cases gives_ret validateAddOns_sure [OF assms]; simp)+

lemma switch_sure: "panic_free dyn \<Longrightarrow> sure (switchGlobalSearch r dyn inst enabled)"
  unfolding switchGlobalSearch_def Let_def by (intro gives_bind gives_andThen [OF console_sure(1)] sure_total)

lemma clusters_sure:
  assumes typed: "panic_free dyn" and f: "\<And>clusters. list_all typed_cluster clusters \<Longrightarrow> gives P (f (Some clusters, None))"
  shows "gives P (dyn_List dyn managedClusterResourceGvr \<bind> f)"
proof (rule gives_after)
  fix x w w'
  assume "run_state (dyn_List dyn managedClusterResourceGvr) w = (x, w')"
  then show "gives P (f x)" using panic_freeD(4) [OF typed, of w "fst x" "snd x" w'] f by (cases x) auto
qed

lemma enable_sure:
  assumes typed: "panic_free dyn"
  shows "sure (enableGlobalSearch r dyn inst)" "sure (configureVirtualMachineActions dyn)" "sure (disableVirtualMachineActions dyn)"
proof -
  show "sure (enableGlobalSearch r dyn inst)"
    unfolding enableGlobalSearch_def
    by (intro gives_andThen [OF switch_sure [OF typed]] gives_cases(3) clusters_sure [OF typed] gives_andThen [OF sure_loop] gives_ret)
      (auto simp: listed_def list_all_iff intro: hub_steps_sure(1) [OF typed])
  show "sure (configureVirtualMachineActions dyn)"
    unfolding configureVirtualMachineActions_def
    by (intro gives_andThen [OF console_sure(2) [OF typed]] clusters_sure [OF typed])
      (auto intro!: gives_andThen [OF sure_loop] gives_ret hub_steps_sure(3) [OF typed])
  show "sure (disableVirtualMachineActions dyn)"
    unfolding disableVirtualMachineActions_def
    by (intro gives_andThen [OF console_sure(2) [OF typed]] clusters_sure [OF typed])
      (auto intro!: gives_andThen [OF sure_loop] gives_ret hub_steps_sure(4) [OF typed])
qed

text \<open>Disabling hands on the resource with the status it had, when the resource in hand was the stored one.\<close>

lemma env_status:
  assumes api: "kube_api (Client r) objs" and hold: "holds objs w inst"
    and run: "run_state (updateSearchApiDeployment r inst env) w = ((err, inst'), w')"
  shows "s_Status inst' = s_Status inst"
proof (cases "searchAPIEnvVar inst env")
  case (Pair same new)
  have new: "s_meta new = s_meta inst" "s_Status new = s_Status inst"
    using Pair by (auto simp: searchAPIEnvVar_def withApiEnv_def split: option.splits)
  show ?thesis
  proof (cases same)
    case False
    then have u: "run_state (updateInstance r new) w = ((err, inst'), w')" using run Pair by (simp add: updateSearchApiDeployment_def)
    show ?thesis
    proof (cases err)
      case None
      have "\<not> terminated (OSearch new)" "objs w (searchKey new) = Some (OSearch inst)"
        using hold new by (simp_all add: holds_def terminated_def)
      from updateInstance_ok [OF api this u [unfolded None]] show ?thesis by auto
    next
      case (Some e)
      then have "inst' = new" using u by (auto simp: updateInstance_def answered_def split: prod.splits sum.splits)
      then show ?thesis using new by simp
    qed
  qed (use run Pair new in \<open>simp add: updateSearchApiDeployment_def\<close>)
qed

lemma disable_status:
  assumes typed: "panic_free dyn" and api: "kube_api (Client r) objs" and f: "featured r objs K k" and d: "DynamicClient r = Some dyn"
    and inst: "searchKey inst = k" and hold: "holds objs w inst" and k: "key_kind k = KSearch"
  shows "\<exists>err inst' w'. run_state (disableGlobalSearch r dyn inst) w = (Some (err, inst'), w') \<and> s_Status inst' = s_Status inst"
proof -
  have console: "touches objs {k'. key_kind k' = KConfigMap} (updateConsoleConfig dyn enabled ns n)" for enabled ns n
  proof -
    obtain dobjs where "dyn_api dyn dobjs" using f d unfolding featured_def dynamic_ok_def by blast
    from setConsoleFlag_typed [OF featuredD(4) [OF f d] this] show ?thesis
      unfolding updateConsoleConfig_def by (simp add: mkKey_def)
  qed
  obtain ns w1 where a: "run_state (getMCETargetNamespace dyn) w = (ns, w1)" by fastforce
  let ?ns = "case ns of Inl _ \<Rightarrow> ''multicluster-engine'' | Inr n \<Rightarrow> n"
  obtain e1 w2 where b: "run_state (updateConsoleConfig dyn False ?ns ''console-mce-config'') w1 = (Some e1, w2)"
    using givesD [OF console_sure(1) [OF typed]] by blast
  obtain e2 w3 where c: "run_state (updateConsoleConfig dyn False (Namespace (s_meta inst)) ''console-config'') w2 = (Some e2, w3)"
    using givesD [OF console_sure(1) [OF typed]] by blast
  have out: "k \<notin> {k'. key_kind k' = KConfigMap}" using k by simp
  have "objs w3 k = objs w k"
    using touchesD [OF console c out] touchesD [OF console b out]
      touchesD [OF getMCETargetNamespace_typed [OF featuredD(4) [OF f d], of "{}"] a] by simp
  then have hold3: "holds objs w3 inst" using hold inst by (simp add: holds_def)
  obtain e3 inst' w4 where e: "run_state (updateSearchApiDeployment r inst (plainEnv ''FEATURE_FEDERATED_SEARCH'' '''')) w3 = ((e3, inst'), w4)"
    by (metis surj_pair)
  note status = env_status [OF api hold3 e]
  obtain errs where switch: "run_state (switchGlobalSearch r dyn inst False) w = (Some (errs, inst'), w4)"
    using a b c e by (simp add: switchGlobalSearch_def Let_def run_andThen run_total)
  have "gives (\<lambda>x. snd x = inst') (do {
       (clusterList, err) \<leftarrow> dyn_List dyn managedClusterResourceGvr;
       case clusterList of
         None \<Rightarrow> panic
       | Some clusters \<Rightarrow> andThen (forClusters (tearDownHub dyn) clusters (logAndTrackError errs err))
           (\<lambda>errList. ret (Some (combineErrors ''failed to disable global search.'' errList, inst')))
     })"
    by (rule clusters_sure [OF typed]) (auto intro!: gives_andThen [OF sure_loop] gives_ret hub_steps_sure(2) [OF typed])
  from givesD [OF this, of w4] switch status show ?thesis
    by (auto simp: disableGlobalSearch_def run_andThen)
qed

lemma conditionIndex_less: "conditionIndex t cs = Some i \<Longrightarrow> i < length cs"
  by (induction cs arbitrary: i) (auto split: if_splits)

text \<open>A result of a feature that the code can hand on: an error comes with a result.\<close>

abbreviation polite :: "step_ret \<times> Search \<Rightarrow> bool" where
  "polite x \<equiv> snd (fst x) \<noteq> None \<longrightarrow> fst (fst x) \<noteq> None"

lemma clearCondition_fresh: "conditionIndex t (Conditions (s_Status inst)) = Some i \<Longrightarrow> gives polite (clearCondition r i inst)"
  unfolding clearCondition_def removeAt_def using conditionIndex_less
  by (auto intro!: gives_total simp: ret_defs split: prod.split option.split)

lemma clearCondition_polite: "i < length (Conditions (s_Status inst)) \<Longrightarrow> gives polite (clearCondition r i inst)"
  unfolding clearCondition_def removeAt_def
  by (auto intro!: gives_total simp: ret_defs split: prod.split option.split)

lemma reconcileGlobalSearch_polite:
  assumes typed: "panic_free dyn" and f: "featured r objs K (searchKey inst)" and d: "DynamicClient r = Some dyn" and hold: "holds objs w inst"
  shows "\<exists>x w'. run_state (reconcileGlobalSearch r inst) w = (Some x, w') \<and> polite x"
proof (cases "index (Annotations (s_meta inst)) ''global-search-preview'' = ''true''")
  case True
  have "gives polite (reconcileGlobalSearch r inst)"
    using True d unfolding reconcileGlobalSearch_def withDynamic_def
    by (auto intro!: gives_andThen [OF validate_sure(1) [OF typed]] gives_andThen [OF enable_sure(1) [OF typed]] gives_cases gives_ret gives_total
        simp: ret_defs split: prod.split)
  then show ?thesis by (rule givesD)
next
  case False
  show ?thesis
  proof (cases "conditionIndex CONDITION_GLOBAL_SEARCH (Conditions (s_Status inst))")
    case None
    then show ?thesis using False by (simp add: reconcileGlobalSearch_def)
  next
    case (Some i)
    have kind: "key_kind (searchKey inst) = KSearch" by (simp add: metaKey_def mkKey_def)
    obtain err inst' w1 where dis: "run_state (disableGlobalSearch r dyn inst) w = (Some (err, inst'), w1)" "s_Status inst' = s_Status inst"
      using disable_status [OF typed featuredD(1) [OF f] f d refl hold kind] by blast
    have run: "run_state (reconcileGlobalSearch r inst) w = run_state (case err of
        Some e \<Rightarrow> total (do {
            now \<leftarrow> Now r;
            (_, inst) \<leftarrow> updateGlobalSearchStatus r inst' (newCondition CONDITION_GLOBAL_SEARCH ''False''
              ''GlobalSearchCleanupFailed'' (''Failed to disable global search. '' @ Error e) now);
            ret (failWith e, inst)
          })
        | None \<Rightarrow> clearCondition r i inst') w1"
      using False Some d dis(1) by (auto simp: reconcileGlobalSearch_def withDynamic_def run_andThen split: option.split)
    have "gives polite (clearCondition r i inst')"
      using conditionIndex_less [OF Some] dis(2) by (intro clearCondition_polite) simp
    moreover have "gives polite (total (do {
            now \<leftarrow> Now r;
            (_, inst) \<leftarrow> updateGlobalSearchStatus r inst' (newCondition CONDITION_GLOBAL_SEARCH ''False''
              ''GlobalSearchCleanupFailed'' (''Failed to disable global search. '' @ Error e) now);
            ret (failWith e, inst)
          }))" for e
      by (rule gives_total) (simp add: ret_defs split: prod.split)
    ultimately show ?thesis unfolding run by (intro givesD gives_cases(1))
  qed
qed

lemma other_features_polite:
  assumes typed: "panic_free dyn" and d: "DynamicClient r = Some dyn"
  shows "gives polite (total (addEnvToSearchAPI r inst))" "gives polite (total (reconcileFineGrainedRBACConfiguration r inst))"
    "gives polite (reconcileVirtualMachineConfiguration r inst)"
proof -
  show "gives polite (total (addEnvToSearchAPI r inst))"
    by (rule gives_total) (auto simp: addEnvToSearchAPI_def ret_defs split: prod.split sum.split option.split)
  show "gives polite (total (reconcileFineGrainedRBACConfiguration r inst))"
    by (rule gives_total) (auto simp: reconcileFineGrainedRBACConfiguration_def ret_defs split: prod.split option.split)
  show "gives polite (reconcileVirtualMachineConfiguration r inst)"
  proof (cases "index (Annotations (s_meta inst)) ''virtual-machine-preview'' = ''true''")
    case True
    then show ?thesis
      using d unfolding reconcileVirtualMachineConfiguration_def withDynamic_def
      by (auto intro!: gives_andThen [OF validate_sure(2) [OF typed]] gives_andThen [OF enable_sure(2) [OF typed]] gives_cases gives_ret gives_total
          simp: ret_defs split: prod.split option.split)
  next
    case off: False
    show ?thesis
    proof (cases "conditionIndex CONDITION_VM_ACTIONS (Conditions (s_Status inst))")
      case None
      then show ?thesis using off by (simp add: reconcileVirtualMachineConfiguration_def gives_ret)
    next
      case (Some i)
      have eq: "reconcileVirtualMachineConfiguration r inst = andThen (disableVirtualMachineActions dyn) (\<lambda>err. case err of
          Some e \<Rightarrow> total (do {
            now \<leftarrow> Now r;
            inst \<leftarrow> updateStatusConditionOf r inst (vmCondition ''False'' ''ConfigurationError''
              ''Failed to remove configuration for virtual machine actions.'' now);
            ret (failWith e, inst)
          })
        | None \<Rightarrow> clearCondition r i inst)"
        using off Some d by (simp add: reconcileVirtualMachineConfiguration_def withDynamic_def)
      show ?thesis
        unfolding eq
        by (intro gives_andThen [OF enable_sure(3) [OF typed]] gives_cases(1) gives_total clearCondition_fresh [OF Some])
          (simp add: ret_defs split: prod.split)
    qed
  qed
qed

lemma runFeatures_polite:
  assumes "\<And>m inst. m \<in> set ms \<Longrightarrow> gives polite (m inst)"
  shows "gives polite (runFeatures ms inst)"
  using assms
proof (induction ms arbitrary: inst)
  case (Cons m ms)
  have "gives polite (m inst)" "\<And>inst. gives polite (runFeatures ms inst)" using Cons by simp_all
  then show ?case by (auto intro!: gives_andThen gives_cases gives_ret)
qed (simp add: gives_ret done_ok_def)

lemma features_polite:
  assumes typed: "panic_free dyn" and f: "featured r objs K (searchKey inst)" and d: "DynamicClient r = Some dyn" and hold: "holds objs w inst"
  shows "\<exists>x w'. run_state (runFeatures (featureSteps r) inst) w = (Some x, w') \<and> polite x"
proof -
  obtain x w1 where first: "run_state (reconcileGlobalSearch r inst) w = (Some x, w1)" "polite x"
    using reconcileGlobalSearch_polite [OF typed f d hold] by blast
  obtain ms where ms: "featureSteps r = reconcileGlobalSearch r # ms" "gives polite (runFeatures ms inst)" for inst
  proof -
    have "gives polite (runFeatures (tl (featureSteps r)) inst)" for inst
      using other_features_polite [OF typed d] by (intro runFeatures_polite) (auto simp: featureSteps_def)
    then show thesis using that [of "tl (featureSteps r)"] by (simp add: featureSteps_def)
  qed
  obtain res err inst1 where x: "x = ((res, err), inst1)" by (metis surj_pair)
  show ?thesis
  proof (cases err)
    case None
    from givesD [OF ms(2), of inst1 w1] show ?thesis using first x None by (simp add: ms(1) run_andThen)
  next
    case (Some e)
    then show ?thesis using first x by (auto simp: ms(1) run_andThen)
  qed
qed

section \<open>A whole run\<close>

lemma resources_sure:
  assumes d: "DynamicClient r = Some dyn"
  shows "sure (runSteps (accessSteps r inst @ databaseSteps r tls source inst @ serviceSteps r inst @ workloadSteps r tls inst))"
proof (rule sure_runSteps)
  have "sure (databaseConfigured r tls inst)" by (simp add: databaseConfigured_def withDynamic_def d sure_total)
  moreover have "sure (workloadsDeployed r tls inst)"
    unfolding workloadsDeployed_def withDynamic_def d option.case
    by (intro gives_bind sure_runSteps) (auto simp: sure_total)
  ultimately show "sure m" if "m \<in> set (accessSteps r inst @ databaseSteps r tls source inst @ serviceSteps r inst @ workloadSteps r tls inst)" for m
    using that by (auto simp: accessSteps_def databaseSteps_def serviceSteps_def workloadSteps_def ofBuilder_def sure_total)
qed

text \<open>The names of the pods that the server lists start with the name of a deployment.\<close>

definition named_pods :: "'w client \<Rightarrow> bool" where
  "named_pods c \<longleftrightarrow> (\<forall>ns sel w items w'. run_state (ListOf c asPod KPod ns sel) w = (Inr items, w') \<longrightarrow>
     list_all (\<lambda>p. deploymentOf (Name (pod_meta p)) \<noteq> None) items)"

lemma collectPods_named: "list_all (\<lambda>p. deploymentOf (Name (pod_meta p)) \<noteq> None) ps \<Longrightarrow> collectPods ps t c \<noteq> None"
  by (induction ps arbitrary: t c) (auto split: option.split)

lemma updateStatus_sure:
  assumes pods: "named_pods (Client r)" and name: "deploymentOf podName \<noteq> None"
  shows "sure (updateStatus r inst podName)"
proof -
  obtain d where d: "deploymentOf podName = Some d" using name by blast
  have status: "updateStatusCondition inst ps \<noteq> None" if "list_all (\<lambda>p. deploymentOf (Name (pod_meta p)) \<noteq> None) ps" for inst ps
    using collectPods_named [OF that, of "''''" emptyCondition] by (auto simp: updateStatusCondition_def split: option.split)
  have "updateStatusCondition inst (if items = [] then [missingPod podName d now] else items) \<noteq> None"
    if "run_state (ListOf (Client r) asPod KPod None sel) w = (Inr items, w')" for items sel w w' now
  proof (rule status)
    have "list_all (\<lambda>p. deploymentOf (Name (pod_meta p)) \<noteq> None) items" using that pods unfolding named_pods_def by blast
    then show "list_all (\<lambda>p. deploymentOf (Name (pod_meta p)) \<noteq> None) (if items = [] then [missingPod podName d now] else items)"
      using name by (simp add: missingPod_def)
  qed
  then have never: "sure m" if "run_state (ListOf (Client r) asPod KPod None sel) w = (x, w')" "x = Inr items"
      "updateStatusCondition inst (if items = [] then [missingPod podName d now] else items) = None" for items sel w w' now x m
    using that by blast
  show ?thesis
    unfolding updateStatus_def d option.case Let_def
    by (intro gives_after gives_cases gives_ret gives_bind TrueI) (erule (2) never)
qed

lemma reconcileResources_sure:
  assumes api: "kube_api (Client r) objs" and setref: "setref_contract (Lib r)" and clock: "clock_contract r objs"
    and rand: "rand_contract source objs" and ok: "dynamic_ok r objs" and d: "DynamicClient r = Some dyn" and typed: "panic_free dyn"
    and inst: "searchKey inst = search_of ns" and hold: "holds objs w inst"
  shows "fst (fst (run_state (reconcileResources r tls source p inst) w)) \<noteq> None"
proof -
  let ?s = "search_of ns"
  have dyn: "dynamic_typed r objs" using ok by (simp add: dynamic_ok_def)
  have ns: "Namespace (s_meta inst) = ns" by (rule searchKey_namespace [OF inst])
  note frame = installsD(1) [OF resources_install [OF api setref clock rand dyn, of inst tls, unfolded ns]]
  obtain step w1 where first: "run_state (runSteps (accessSteps r inst @ databaseSteps r tls source inst @ serviceSteps r inst @ workloadSteps r tls inst)) w
      = (Some step, w1)" using givesD [OF resources_sure [OF d]] by blast
  show ?thesis
  proof (cases "fst step")
    case (Some res)
    then show ?thesis using first by (simp add: reconcileResources_def outcomeOf_def)
  next
    case None
    have "?s \<notin> fields (allSpecs ns)" using steppedKeysI(1) steppedKeys_apart(1) by blast
    then have "holds objs w1 inst" using touchesD [OF frame first] hold inst by (simp add: holds_def)
    moreover have "featured r objs (featureKeys ?s) (searchKey inst)" using api clock ok inst by (simp add: featured_def)
    ultimately obtain x w2 where second: "run_state (runFeatures (featureSteps r) inst) w1 = (Some x, w2)" "polite x"
      using features_polite [OF typed _ d] by blast
    obtain res err inst2 where x: "x = ((res, err), inst2)" by (metis surj_pair)
    have "fst (fst (run_state (conclude r p inst2) w2)) \<noteq> None"
      by (auto simp: conclude_def Let_def outcomeOf_def split: prod.split option.split)
    then show ?thesis using first None second x by (cases err) (auto simp: reconcileResources_def outcomeOf_def)
  qed
qed

lemma reconcile_never_panics:
  assumes api: "kube_api (Client r) objs" and setref: "setref_contract (Lib r)" and clock: "clock_contract r objs"
    and rand: "rand_contract source objs" and ok: "dynamic_ok r objs"
    and typed: "\<not> HasPrefix reqName ''Pod/'' \<Longrightarrow> \<exists>dyn. DynamicClient r = Some dyn \<and> panic_free dyn"
    and req: "HasPrefix reqName ''Pod/'' \<Longrightarrow> named_pods (Client r) \<and> deploymentOf (Split reqName CHR ''/'' ! 1) \<noteq> None"
  shows "fst (fst (run_state (Reconcile r tls source p reqName ns) w)) \<noteq> None"
proof -
  obtain res w1 where g: "run_state (Get (Client r) asSearch (search_of ns)) w = (res, w1)" by fastforce
  show ?thesis
  proof (cases res)
    case (Inl e)
    then show ?thesis using g by (simp add: Reconcile_def)
  next
    case (Inr inst)
    have there: "objs w1 (search_of ns) = Some (OSearch inst)"
      using Get_found [OF api decodes_kinds(1) g [unfolded Inr]] Get_view [OF api g] by simp
    have key: "searchKey inst = search_of ns" by (rule found_key [OF api there])
    show ?thesis
    proof (cases "HasPrefix reqName ''Pod/''")
      case True
      from givesD [OF updateStatus_sure [OF conjunct1 [OF req [OF True]] conjunct2 [OF req [OF True]]], of inst w1] show ?thesis
        using g Inr True by (auto simp: Reconcile_def Let_def)
    next
      case False
      obtain dyn where d: "DynamicClient r = Some dyn" and typed: "panic_free dyn" using typed [OF False] by blast
      obtain deleted err inst' w2 where fin: "run_state (setFinalizer r inst) w1 = (((deleted, err), inst'), w2)" by (metis surj_pair)
      have eq: "run_state (Reconcile r tls source p reqName ns) w =
          run_state (if err \<noteq> None \<or> deleted then finished (startOnce inst p) (emptyResult, err)
            else reconcileActive r tls source (startOnce inst p) inst') w2"
        using g Inr False fin by (simp add: Reconcile_def Let_def)
      show ?thesis
      proof (cases "err \<noteq> None \<or> deleted")
        case False
        have live: "DeletionTimestamp (s_meta inst) = None"
          using fin False by (auto simp: setFinalizer_def Let_def split: if_splits prod.splits option.splits)
        note final = setFinalizer_alive [OF api live there [folded key] fin]
        have inst': "searchKey inst' = search_of ns" "holds objs w2 inst'"
          using final False key by (simp_all add: holds_def terminated_def)
        obtain ready w3 where pvc: "run_state (storageReady r inst') w2 = (ready, w3)" by fastforce
        have "objs w3 (search_of ns) = objs w2 (search_of ns)"
          by (rule touchesD [OF storageReady_frame [OF api searchKey_namespace [OF inst'(1)]] pvc]) (simp add: mkKey_def)
        then have "holds objs w3 inst'" using inst' by (simp add: holds_def)
        from reconcileResources_sure [OF api setref clock rand ok d typed inst'(1) this] pvc show ?thesis
          unfolding eq using False by (simp add: reconcileActive_def)
      qed (simp add: eq)
    qed
  qed
qed


text \<open>
  A hub whose unstructured objects can be read and not written: an engine with both add-ons, the console's
  config maps and a managed hub; all features are switched on.
\<close>

definition fixedHub :: "((gvr \<times> string \<times> string) \<times> json) list" where
  "fixedHub = [
     ((multiclusterengineResourceGvr, '''', ''mce''), JObject [(''metadata'', JObject [(''name'', JString ''mce'')]),
        (''spec'', JObject [(''targetNamespace'', JString ''mce''), (''overrides'', JObject [(''components'', JArray [
           JObject [(''name'', JString ''managedserviceaccount''), (''enabled'', JBool True)],
           JObject [(''name'', JString ''cluster-proxy-addon''), (''enabled'', JBool True)]])])])]),
     ((configMapsGvr, ''mce'', ''console-mce-config''), JObject [(''metadata'', JObject [(''name'', JString ''console-mce-config'')]), (''data'', JObject [])]),
     ((managedClusterResourceGvr, '''', ''hub1''), hubCluster)]"

definition readOnlyHub :: "mem dynamic" where
  "readOnlyHub = (let refuse = ret (Some (APIError OtherReason ''read-only'')) in \<lparr>
     dyn_Get = (\<lambda>g ns n. ret (case map_of fixedHub (g, ns, n) of Some ob \<Rightarrow> Inr ob | None \<Rightarrow> Inl (APIError NotFound ''not found''))),
     dyn_List = (\<lambda>g. ret (Some (map snd (filter (\<lambda>(k, ob). fst k = g) fixedHub)), None)),
     dyn_Create = (\<lambda>g ns ob. refuse), dyn_Update = (\<lambda>g ns ob. refuse), dyn_Delete = (\<lambda>g ns n. refuse)\<rparr>)"

definition previewReconciler :: "mem SearchReconciler" where
  "previewReconciler = mem_reconciler\<lparr>DynamicClient := Some readOnlyHub\<rparr>"

definition previewSearch :: Search where
  "previewSearch = withMeta (\<lambda>m. m\<lparr>Annotations := mapOf [(''global-search-preview'', ''true''), (''virtual-machine-preview'', ''true'')]\<rparr>)"

lemma fixedHub_names: "map_of fixedHub (g, ns, n) = Some ob \<Longrightarrow> GetName ob = n"
  by (auto simp: fixedHub_def hubCluster_def GetName_def jget_def split: if_splits)

lemma assoc_listing:
  "distinct (map fst kvs) \<Longrightarrow> ob \<in> set (map snd (filter (\<lambda>(k, ob). fst k = g) kvs)) \<longleftrightarrow> (\<exists>ns n. map_of kvs (g, ns, n) = Some ob)"
  by (force simp: image_iff)

lemma fixedHub_distinct: "distinct (map fst fixedHub)"
  by (simp add: fixedHub_def multiclusterengineResourceGvr_def configMapsGvr_def managedClusterResourceGvr_def)

lemmas fixedHub_lists = assoc_listing [OF fixedHub_distinct]

lemma readOnlyHub_simps [simp]:
  "dyn_Get readOnlyHub g ns n = ret (case map_of fixedHub (g, ns, n) of Some ob \<Rightarrow> Inr ob | None \<Rightarrow> Inl (APIError NotFound ''not found''))"
  "dyn_List readOnlyHub g = ret (Some (map snd (filter (\<lambda>(k, ob). fst k = g) fixedHub)), None)"
  "dyn_Create readOnlyHub g ns ob = ret (Some (APIError OtherReason ''read-only''))"
  "dyn_Update readOnlyHub g ns ob = ret (Some (APIError OtherReason ''read-only''))"
  "dyn_Delete readOnlyHub g ns n = ret (Some (APIError OtherReason ''read-only''))"
  by (simp_all add: readOnlyHub_def Let_def)

lemma readOnlyHub_reads: "dyn_reads readOnlyHub (\<lambda>w. map_of fixedHub)"
  unfolding dyn_reads_def readOnlyHub_simps
  by (simp add: fixedHub_lists fixedHub_names del: set_map split: option.splits)

lemma readOnlyHub_writes:
  "dyn_creates readOnlyHub (\<lambda>w. map_of fixedHub)" "dyn_updates readOnlyHub (\<lambda>w. map_of fixedHub)"
  "dyn_deletes readOnlyHub (\<lambda>w. map_of fixedHub)"
  unfolding dyn_creates_def dyn_updates_def dyn_deletes_def readOnlyHub_simps
  by (simp_all add: dsame_except_def)

lemma readOnlyHub_api: "dyn_api readOnlyHub (\<lambda>w. map_of fixedHub)"
  unfolding dyn_api_def using readOnlyHub_reads readOnlyHub_writes by blast

lemma fixedHub_typed:
  "map_of fixedHub (configMapsGvr, ns, n) = Some ob \<Longrightarrow> typed_config ob"
  "map_of fixedHub (managedClustrAddonGvr, ns, n) = None"
  "list_all typed_engine (map snd (filter (\<lambda>(k, ob). fst k = multiclusterengineResourceGvr) fixedHub))"
  "list_all typed_cluster (map snd (filter (\<lambda>(k, ob). fst k = managedClusterResourceGvr) fixedHub))"
proof -
  show "map_of fixedHub (configMapsGvr, ns, n) = Some ob \<Longrightarrow> typed_config ob"
    by (auto simp: fixedHub_def typed_config_def isMap_def jget_def multiclusterengineResourceGvr_def configMapsGvr_def
        managedClusterResourceGvr_def split: if_splits)
  show "map_of fixedHub (managedClustrAddonGvr, ns, n) = None"
    by (simp add: fixedHub_def multiclusterengineResourceGvr_def configMapsGvr_def managedClusterResourceGvr_def managedClustrAddonGvr_def)
  show "list_all typed_engine (map snd (filter (\<lambda>(k, ob). fst k = multiclusterengineResourceGvr) fixedHub))"
    by (simp add: fixedHub_def multiclusterengineResourceGvr_def configMapsGvr_def managedClusterResourceGvr_def typed_engine_def
        mceComponents_def jget_def isMap_def)
  show "list_all typed_cluster (map snd (filter (\<lambda>(k, ob). fst k = managedClusterResourceGvr) fixedHub))"
    by (simp add: fixedHub_def multiclusterengineResourceGvr_def configMapsGvr_def managedClusterResourceGvr_def hubCluster_def
        typed_cluster_def typed_status_def typed_claims_def jget_def isMap_def)
qed

lemma readOnlyHub_typed: "dyn_typed readOnlyHub objs F" "panic_free readOnlyHub"
proof -
  show "dyn_typed readOnlyHub objs F" by (simp add: dyn_typed_def touches_ret)
  show "panic_free readOnlyHub"
    unfolding panic_free_def panic_cause_def readOnlyHub_simps
    by (auto simp: listed_def fixedHub_typed(2-4) dest: fixedHub_typed(1) split: option.splits)
qed


lemma preview_never_panics:
  "fst (fst (run_state (Reconcile previewReconciler sampleTLS sevens sampleProcess OperatorName ''ocm'') (mem_world [OSearch previewSearch]))) \<noteq> None"
proof (rule reconcile_never_panics [where objs = mem_view])
  show "kube_api (Client previewReconciler) mem_view" "setref_contract (Lib previewReconciler)"
    by (simp_all add: previewReconciler_def mem_contracts)
  show "clock_contract previewReconciler mem_view"
    by (auto simp: clock_contract_def previewReconciler_def mem_reconciler_def mem_view_def)
  show "dynamic_ok previewReconciler mem_view"
    using readOnlyHub_typed(1) readOnlyHub_api by (auto simp: dynamic_ok_def dynamic_typed_def previewReconciler_def)
  show "\<exists>dyn. DynamicClient previewReconciler = Some dyn \<and> panic_free dyn" using readOnlyHub_typed(2) by (simp add: previewReconciler_def)
qed (simp_all add: sevens_contract previewReconciler_def HasPrefix_def OperatorName_def)

end
