(* ===== verification/Watches.thy ===== *)
theory Watches
  imports Reconcile_Properties
begin

text \<open>
  What wakes the reconciler: \<open>SetupWithManager\<close> of \<open>controllers/search_controller.go\<close>, as the table of its
  watches with their predicates and the functions from an object to requests. How the manager of
  controller-runtime turns an event on a watched object into requests is a parameter, with its
  documented behaviour as \<open>enqueue_contract\<close>.
\<close>

section \<open>Watched objects and events\<close>

record ManagedCluster =
  mc_meta :: ObjectMeta
  ClusterClaims :: "(string \<times> string) list"

datatype watched = Typed kobj | OManagedCluster ManagedCluster | OUnstructured "string \<times> string \<times> string" ObjectMeta

datatype watched_kind = WKind kind | WManagedCluster | WUnstructured "string \<times> string \<times> string"

fun watchedKind :: "watched \<Rightarrow> watched_kind" where
  "watchedKind (Typed ob) = WKind (kind_of ob)"
| "watchedKind (OManagedCluster mc) = WManagedCluster"
| "watchedKind (OUnstructured gvk m) = WUnstructured gvk"

fun watchedMeta :: "watched \<Rightarrow> ObjectMeta" where
  "watchedMeta (Typed ob) = meta_of ob"
| "watchedMeta (OManagedCluster mc) = mc_meta mc"
| "watchedMeta (OUnstructured gvk m) = m"

datatype event = CreateEvent watched | UpdateEvent watched watched | DeleteEvent watched | GenericEvent watched

fun eventObjects :: "event \<Rightarrow> watched list" where
  "eventObjects (CreateEvent a) = [a]"
| "eventObjects (UpdateEvent old new) = [old, new]"
| "eventObjects (DeleteEvent a) = [a]"
| "eventObjects (GenericEvent a) = [a]"

text \<open>\<open>reconcile.Request\<close>, and \<open>predicate.Funcs\<close>, whose functions here do not look at the event; a nil function admits.\<close>

record Request =
  req_Name :: string
  req_Namespace :: string

record Funcs =
  CreateFunc :: "bool option"
  UpdateFunc :: "bool option"
  DeleteFunc :: "bool option"
  GenericFunc :: "bool option"

definition emptyFuncs :: Funcs where
  "emptyFuncs = \<lparr>CreateFunc = None, UpdateFunc = None, DeleteFunc = None, GenericFunc = None\<rparr>"

datatype handler = ForObject | ForControllerOwner | MapFunc "watched \<Rightarrow> Request list"

record watch =
  w_Kind :: watched_kind
  w_Handler :: handler
  w_Predicate :: "Funcs option"

section \<open>The watches of the operator\<close>

definition pred :: Funcs where
  "pred = emptyFuncs\<lparr>CreateFunc := Some False, UpdateFunc := Some False\<rparr>"

definition networkPolicyPred :: Funcs where
  "networkPolicyPred = emptyFuncs\<lparr>CreateFunc := Some False, UpdateFunc := Some True\<rparr>"

definition configMapPred :: Funcs where
  "configMapPred = emptyFuncs\<lparr>CreateFunc := Some True, UpdateFunc := Some True, DeleteFunc := Some False\<rparr>"

definition searchController :: "OwnerReference \<Rightarrow> bool" where
  "searchController ref \<longleftrightarrow> ref_APIVersion ref = GroupVersion \<and> ref_Kind ref = ''Search'' \<and> ref_Controller ref = Some True"

fun ownerRequest :: "string \<Rightarrow> OwnerReference list \<Rightarrow> Request list" where
  "ownerRequest ns [] = []"
| "ownerRequest ns (ref # refs) =
     (if searchController ref then [\<lparr>req_Name = ref_Name ref, req_Namespace = ns\<rparr>] else ownerRequest ns refs)"

definition configMapRequests :: "(string \<Rightarrow> string) \<Rightarrow> watched \<Rightarrow> Request list" where
  "configMapRequests getenv a =
     (let m = watchedMeta a
      in if Name m = SEARCH_GLOBAL_CONFIG \<and> Namespace m = getenv ''POD_NAMESPACE''
         then [\<lparr>req_Name = OperatorName, req_Namespace = Namespace m\<rparr>]
         else ownerRequest (Namespace m) (OwnerReferences m))"

definition podRequests :: "watched \<Rightarrow> Request list" where
  "podRequests a =
     (let m = watchedMeta a
      in if searchLabels (Labels m) then [\<lparr>req_Name = ''Pod/'' @ Name m, req_Namespace = Namespace m\<rparr>] else [])"

fun hubClaims :: "(string \<times> string) list \<Rightarrow> bool" where
  "hubClaims [] = False"
| "hubClaims ((name, value) # claims) =
     (if name = ''hub.open-cluster-management.io'' \<and> value \<noteq> ''NotInstalled'' then True else hubClaims claims)"

definition isManagedHub :: "ManagedCluster option \<Rightarrow> bool" where
  "isManagedHub mc = (case mc of None \<Rightarrow> False | Some mc \<Rightarrow> hubClaims (ClusterClaims mc))"

definition managedClusterRequests :: "(string \<Rightarrow> string) \<Rightarrow> watched \<Rightarrow> Request list" where
  "managedClusterRequests getenv a = (case a of
     OManagedCluster mc \<Rightarrow> if isManagedHub (Some mc)
       then [\<lparr>req_Name = OperatorName, req_Namespace = getenv ''POD_NAMESPACE''\<rparr>] else []
   | _ \<Rightarrow> [])"

definition collectorConfigRequests :: "watched \<Rightarrow> Request list" where
  "collectorConfigRequests a =
     (let m = watchedMeta a
      in if Name m = mergedCollectorConfigName then []
         else if Name m = userCollectorConfigName \<or> index (Labels m) IntegrationTeamLabel = IntegrationTeamLabelValue
         then [\<lparr>req_Name = OperatorName, req_Namespace = Namespace m\<rparr>] else [])"

definition apiServerUnstructured :: "string \<times> string \<times> string" where
  "apiServerUnstructured = (''config.openshift.io'', ''v1'', ''APIServer'')"

definition apiServerRequests :: "(string \<Rightarrow> string) \<Rightarrow> watched \<Rightarrow> Request list" where
  "apiServerRequests getenv a =
     (if Name (watchedMeta a) = ''cluster'' then [\<lparr>req_Name = OperatorName, req_Namespace = getenv ''POD_NAMESPACE''\<rparr>] else [])"

definition SetupWithManager :: "(string \<Rightarrow> string) \<Rightarrow> watch list" where
  "SetupWithManager getenv = [
     \<lparr>w_Kind = WKind KSearch, w_Handler = ForObject, w_Predicate = None\<rparr>,
     \<lparr>w_Kind = WKind KDeployment, w_Handler = ForControllerOwner, w_Predicate = Some pred\<rparr>,
     \<lparr>w_Kind = WKind KSecret, w_Handler = ForControllerOwner, w_Predicate = Some pred\<rparr>,
     \<lparr>w_Kind = WKind KNetworkPolicy, w_Handler = ForControllerOwner, w_Predicate = Some networkPolicyPred\<rparr>,
     \<lparr>w_Kind = WKind KConfigMap, w_Handler = MapFunc (configMapRequests getenv), w_Predicate = Some configMapPred\<rparr>,
     \<lparr>w_Kind = WKind KPod, w_Handler = MapFunc podRequests, w_Predicate = None\<rparr>,
     \<lparr>w_Kind = WManagedCluster, w_Handler = MapFunc (managedClusterRequests getenv), w_Predicate = None\<rparr>,
     \<lparr>w_Kind = WKind KCollectorConfig, w_Handler = MapFunc collectorConfigRequests, w_Predicate = None\<rparr>,
     \<lparr>w_Kind = WUnstructured apiServerUnstructured, w_Handler = MapFunc (apiServerRequests getenv), w_Predicate = None\<rparr>]"

section \<open>How events become requests\<close>

text \<open>
  The documented behaviour of the manager. A predicate admits an event by its function for it, or
  when that is nil. The handlers look at every object of an event (the old and the new one of an update):
  \<open>For\<close> asks for the object, \<open>EnqueueRequestForOwner\<close> with \<open>OnlyControllerOwner\<close> for the controller among
  the owners when it is a \<open>Search\<close> of the group, \<open>EnqueueRequestsFromMapFunc\<close> for what the function says.
\<close>

fun admits :: "Funcs option \<Rightarrow> event \<Rightarrow> bool" where
  "admits None ev = True"
| "admits (Some p) (CreateEvent _) = (CreateFunc p \<noteq> Some False)"
| "admits (Some p) (UpdateEvent _ _) = (UpdateFunc p \<noteq> Some False)"
| "admits (Some p) (DeleteEvent _) = (DeleteFunc p \<noteq> Some False)"
| "admits (Some p) (GenericEvent _) = (GenericFunc p \<noteq> Some False)"

definition apiGroup :: "string \<Rightarrow> string" where "apiGroup apiVersion = hd (Split apiVersion CHR ''/'')"

definition controllerOf :: "OwnerReference list \<Rightarrow> OwnerReference option" where
  "controllerOf refs = List.find (\<lambda>ref. ref_Controller ref = Some True) refs"

fun handles :: "handler \<Rightarrow> watched \<Rightarrow> Request list" where
  "handles ForObject a = [\<lparr>req_Name = Name (watchedMeta a), req_Namespace = Namespace (watchedMeta a)\<rparr>]"
| "handles ForControllerOwner a = (case controllerOf (OwnerReferences (watchedMeta a)) of
     Some ref \<Rightarrow> if ref_Kind ref = ''Search'' \<and> apiGroup (ref_APIVersion ref) = apiGroup GroupVersion
       then [\<lparr>req_Name = ref_Name ref, req_Namespace = Namespace (watchedMeta a)\<rparr>] else []
   | None \<Rightarrow> [])"
| "handles (MapFunc f) a = f a"

definition concerns :: "watch \<Rightarrow> event \<Rightarrow> bool" where
  "concerns w ev \<longleftrightarrow> list_all (\<lambda>a. watchedKind a = w_Kind w) (eventObjects ev) \<and> admits (w_Predicate w) ev"

definition asked :: "watch \<Rightarrow> event \<Rightarrow> Request list" where
  "asked w ev = (if concerns w ev then concat (map (handles (w_Handler w)) (eventObjects ev)) else [])"

definition enqueue_contract :: "(watch list \<Rightarrow> event \<Rightarrow> Request list) \<Rightarrow> bool" where
  "enqueue_contract enqueue \<longleftrightarrow> (\<forall>ws ev. set (enqueue ws ev) = (\<Union>w \<in> set ws. set (asked w ev)))"

text \<open>A queue that keeps the contract: the witnesses use it.\<close>

definition sampleQueue :: "watch list \<Rightarrow> event \<Rightarrow> Request list" where
  "sampleQueue ws ev = concat (map (\<lambda>w. asked w ev) ws)"

lemma sampleQueue_contract: "enqueue_contract sampleQueue"
  by (auto simp: enqueue_contract_def sampleQueue_def)

text \<open>The watch of each kind: at most one row of the table concerns an event.\<close>

lemma woken:
  assumes "enqueue_contract enqueue"
  shows "set (enqueue (SetupWithManager getenv) ev) = (\<Union>w \<in> set (SetupWithManager getenv). set (asked w ev))"
  using assms unfolding enqueue_contract_def by blast

lemmas pred_defs = pred_def networkPolicyPred_def configMapPred_def emptyFuncs_def

section \<open>The operator does not wake itself\<close>

lemma key_of_kind: "key_kind (key_of ob) = kind_of ob"
  by (simp add: key_of_def metaKey_def mkKey_def)

lemma key_of_name: "key_name (key_of ob) = Name (meta_of ob)"
  by (simp add: key_of_def metaKey_def mkKey_def)

lemma steppedKinds:
  "k \<in> steppedKeys ns \<Longrightarrow> key_kind k \<notin> {KSearch, KPod}"
  by (auto simp: steppedKeys_def spec_defs name_defs mkKey_def cluster_scoped_def)

lemma steppedConfigs:
  "k \<in> steppedKeys ns \<Longrightarrow> key_kind k = KConfigMap \<Longrightarrow> key_name k \<noteq> SEARCH_GLOBAL_CONFIG"
  by (auto simp: steppedKeys_def spec_defs name_defs mkKey_def cluster_scoped_def SEARCH_GLOBAL_CONFIG_def)


definition sampleOwner :: OwnerReference where
  "sampleOwner = \<lparr>ref_APIVersion = GroupVersion, ref_Kind = ''Search'', ref_Name = OperatorName, ref_UID = ''uid-1'', ref_Controller = Some True\<rparr>"

definition ownedSecret :: kobj where
  "ownedSecret = OSecret \<lparr>sec_meta = (newMeta ''search-postgres'' ''ocm'')\<lparr>OwnerReferences := [sampleOwner]\<rparr>, sec_Type = '''', sec_StringData = None\<rparr>"

definition mergedConfig :: watched where
  "mergedConfig = Typed (OCollectorConfig \<lparr>cc_meta = newMeta mergedCollectorConfigName ''ocm'',
     cc_Spec = \<lparr>ccs_CollectNamespaces = None, CollectionRules = []\<rparr>, cc_Conditions = []\<rparr>)"

lemma ownedSecret_key: "key_of ownedSecret = mkKey KSecret ''ocm'' ''search-postgres''" "kind_of ownedSecret = KSecret"
  by (simp_all add: ownedSecret_def key_of_def metaKey_def newMeta_def)

lemma ownedSecret_own: "key_of ownedSecret \<in> steppedKeys ''ocm''" "key_of ownedSecret \<in> desiredKeys ''ocm''"
  by (simp_all add: ownedSecret_key steppedKeys_def desiredKeys_def spec_defs)


section \<open>What is lost comes back\<close>

lemma lost_object_asks:
  assumes queue: "enqueue_contract enqueue" and kind: "kind_of ob \<in> {KDeployment, KSecret, KNetworkPolicy}"
    and owner: "controllerOf (OwnerReferences (meta_of ob)) = Some ref" "ref_Kind ref = ''Search''" "ref_APIVersion ref = GroupVersion"
  shows "\<lparr>req_Name = ref_Name ref, req_Namespace = Namespace (meta_of ob)\<rparr> \<in> set (enqueue (SetupWithManager getenv) (DeleteEvent (Typed ob)))"
  unfolding woken [OF queue] using assms(2-) by (auto simp: SetupWithManager_def asked_def concerns_def pred_defs)

text \<open>
  C15. A deployment, secret or network policy of the operator that is deleted comes back: the deletion
  asks for a run, in the namespace of the object, and that run, on a healthy server and for a Search
  resource in the state described at \<open>reconcile_completes\<close>, succeeds and leaves the object stored.
\<close>

theorem lost_object_comes_back:
  assumes queue: "enqueue_contract enqueue" and kind: "kind_of ob \<in> {KDeployment, KSecret, KNetworkPolicy}"
    and own: "key_of ob \<in> desiredKeys ns" "Namespace (meta_of ob) = ns"
    and owner: "controllerOf (OwnerReferences (meta_of ob)) = Some ref" "ref_Kind ref = ''Search''" "ref_APIVersion ref = GroupVersion"
      "ref_Name ref = Name (s_meta inst)"
    and s: "sound_run r objs source ok" and ok: "ok w"
    and there: "objs w (search_of ns) = Some (OSearch inst)" and q: "quiet inst"
    and fin: "lib_ContainsFinalizer (Lib r) (Finalizers (s_meta inst)) searchFinalizer"
    and active: "\<not> IsPaused (Annotations (s_meta inst))" and adopt: "adoptable (Lib r) inst"
    and set: "\<And>k. k \<in> steppedKeys ns \<Longrightarrow> settled objs w k"
  shows "\<exists>req \<in> set (enqueue (SetupWithManager getenv) (DeleteEvent (Typed ob))). \<exists>p' w'.
    run_state (Reconcile r tls source p (req_Name req) (req_Namespace req)) w = ((Some (emptyResult, None), p'), w')
    \<and> objs w' (key_of ob) \<noteq> None"
proof -
  have "searchKey inst = search_of ns" using found_key [OF sound_runD(2) [OF s] there] .
  then have "ref_Name ref = OperatorName" using owner(4) by (simp add: metaKey_def mkKey_def)
  then have "\<not> HasPrefix (ref_Name ref) ''Pod/''" by (simp add: HasPrefix_def OperatorName_def)
  from healthy_run [OF s ok there q fin active adopt set this] lost_object_asks [OF queue kind owner(1-3)] own
  show ?thesis by (metis Request.select_convs(1,2))
qed

theorem lost_object_comes_back_witness:
  "\<exists>req \<in> set (sampleQueue (SetupWithManager (\<lambda>_. ''ocm'')) (DeleteEvent (Typed ownedSecret))). \<exists>p' w'.
    run_state (Reconcile hubReconciler sampleTLS sevens sampleProcess (req_Name req) (req_Namespace req)) (mem_world [OSearch readySearch])
      = ((Some (emptyResult, None), p'), w') \<and> mem_view w' (key_of ownedSecret) \<noteq> None"
proof (rule lost_object_comes_back [OF sampleQueue_contract _ ownedSecret_own(2) _ _ _ _ _ hub_sound ready_hub(7,1-5) ready_hub(6)])
  show "controllerOf (OwnerReferences (meta_of ownedSecret)) = Some sampleOwner"
    by (simp add: ownedSecret_def controllerOf_def sampleOwner_def)
qed (simp_all add: ownedSecret_def sampleOwner_def newMeta_def readySearch_def withMeta_def sampleSearch_def OperatorName_def)

section \<open>Managed hubs and pods\<close>

text \<open>The unstructured object that shows a managed cluster, as far as the operator reads it.\<close>

definition claimJSON :: "string \<times> string \<Rightarrow> json" where
  "claimJSON c = JObject [(''name'', JString (fst c)), (''value'', JString (snd c))]"

definition shows_cluster :: "json \<Rightarrow> ManagedCluster \<Rightarrow> bool" where
  "shows_cluster ob mc \<longleftrightarrow> GetLabel ob ''local-cluster'' = index (Labels (mc_meta mc)) ''local-cluster''
     \<and> (\<exists>st. jget (jfields ob) ''status'' = JObject st \<and> jget st ''clusterClaims'' = JArray (map claimJSON (ClusterClaims mc)))"

lemma hubClaim_claims: "hubClaim (map claimJSON cs) = Some (hubClaims cs)"
  by (induction cs rule: hubClaims.induct) (auto simp: claimJSON_def jget_def)

text \<open>
  C19. The watch on managed clusters and the set-up of global search agree on what a managed hub is: the
  loop of \<open>enableGlobalSearch\<close> over the unstructured clusters takes a cluster for a managed hub exactly
  when \<open>isManagedHub\<close> does and it is not the local cluster. So every change of a cluster
  that is to be set up, or was before the change, asks for a run.
\<close>

theorem managed_hubs_agree:
  assumes queue: "enqueue_contract enqueue" and shown: "shows_cluster ob mc"
  shows "managedHub ob = Some (isManagedHub (Some mc) \<and> index (Labels (mc_meta mc)) ''local-cluster'' \<noteq> ''true'')
    \<and> (managedHub ob = Some True \<longrightarrow>
         (\<forall>ev \<in> {CreateEvent (OManagedCluster mc), UpdateEvent (OManagedCluster mc) (OManagedCluster mc'),
                 UpdateEvent (OManagedCluster mc') (OManagedCluster mc), DeleteEvent (OManagedCluster mc)}.
            \<lparr>req_Name = OperatorName, req_Namespace = getenv ''POD_NAMESPACE''\<rparr> \<in> set (enqueue (SetupWithManager getenv) ev)))"
proof -
  obtain st where st: "GetLabel ob ''local-cluster'' = index (Labels (mc_meta mc)) ''local-cluster''"
    "jget (jfields ob) ''status'' = JObject st" "jget st ''clusterClaims'' = JArray (map claimJSON (ClusterClaims mc))"
    using shown by (auto simp: shows_cluster_def)
  then have hub: "managedHub ob = Some (isManagedHub (Some mc) \<and> index (Labels (mc_meta mc)) ''local-cluster'' \<noteq> ''true'')"
    by (simp add: managedHub_def Let_def hubClaim_claims isManagedHub_def)
  have "isManagedHub (Some mc) \<Longrightarrow> \<lparr>req_Name = OperatorName, req_Namespace = getenv ''POD_NAMESPACE''\<rparr> \<in> set (asked w ev)"
    if "w_Kind w = WManagedCluster" "w_Handler w = MapFunc (managedClusterRequests getenv)" "w_Predicate w = None"
      "ev \<in> {CreateEvent (OManagedCluster mc), UpdateEvent (OManagedCluster mc) (OManagedCluster mc'),
                 UpdateEvent (OManagedCluster mc') (OManagedCluster mc), DeleteEvent (OManagedCluster mc)}" for w ev
    using that by (auto simp: asked_def concerns_def managedClusterRequests_def)
  then show ?thesis using hub unfolding woken [OF queue] by (auto simp: SetupWithManager_def)
qed

definition hubObject :: ManagedCluster where
  "hubObject = \<lparr>mc_meta = newMeta ''hub1'' '''', ClusterClaims = [(''hub.open-cluster-management.io'', ''Installed'')]\<rparr>"

theorem managed_hubs_agree_witness:
  "managedHub (JObject [(''status'', JObject [(''clusterClaims'', JArray (map claimJSON (ClusterClaims hubObject)))])]) = Some True
   \<and> \<lparr>req_Name = OperatorName, req_Namespace = ''ocm''\<rparr>
       \<in> set (sampleQueue (SetupWithManager (\<lambda>_. ''ocm'')) (UpdateEvent (OManagedCluster hubObject) (OManagedCluster hubObject)))"
proof -
  let ?ob = "JObject [(''status'', JObject [(''clusterClaims'', JArray (map claimJSON (ClusterClaims hubObject)))])]"
  have labels: "index (Labels (mc_meta hubObject)) ''local-cluster'' = ''''" by (simp add: hubObject_def newMeta_def index_def lookup_def entries_def)
  have "shows_cluster ?ob hubObject" using labels by (simp add: shows_cluster_def GetLabel_def jget_def)
  from managed_hubs_agree [OF sampleQueue_contract this, of hubObject "\<lambda>_. ''ocm''"] labels
  show ?thesis by (simp add: hubObject_def isManagedHub_def)
qed

text \<open>
  C39. An event on pods only reports on them, whatever the event is, since the watch has no
  predicate: the requests that it asks for are one for each pod of the event with the labels of the
  operator, naming the pod in the form that \<open>Reconcile\<close> takes apart again, and the run for such a request
  changes no object but the Search resource of the pod's namespace. The names of pods have no slash.
\<close>

theorem pod_events_only_report:
  assumes queue: "enqueue_contract enqueue"
    and pods: "list_all (\<lambda>a. watchedKind a = WKind KPod \<and> CHR ''/'' \<notin> set (Name (watchedMeta a))) (eventObjects ev)"
    and api: "kube_api (Client r) objs" and clock: "clock_contract r objs"
  shows "set (enqueue (SetupWithManager getenv) ev)
      = (\<lambda>a. \<lparr>req_Name = ''Pod/'' @ Name (watchedMeta a), req_Namespace = Namespace (watchedMeta a)\<rparr>)
        ` {a \<in> set (eventObjects ev). searchLabels (Labels (watchedMeta a))}
    \<and> (\<forall>req \<in> set (enqueue (SetupWithManager getenv) ev).
        HasPrefix (req_Name req) ''Pod/'' \<and> (\<exists>a \<in> set (eventObjects ev). Split (req_Name req) CHR ''/'' ! 1 = Name (watchedMeta a))
        \<and> same_except objs w (snd (run_state (Reconcile r tls source p (req_Name req) (req_Namespace req)) w)) {search_of (req_Namespace req)})"
proof
  have "set (enqueue (SetupWithManager getenv) ev) = (\<Union>a \<in> set (eventObjects ev). set (podRequests a))"
    unfolding woken [OF queue] using pods by (cases ev) (auto simp: SetupWithManager_def asked_def concerns_def)
  then show requests: "set (enqueue (SetupWithManager getenv) ev)
      = (\<lambda>a. \<lparr>req_Name = ''Pod/'' @ Name (watchedMeta a), req_Namespace = Namespace (watchedMeta a)\<rparr>)
        ` {a \<in> set (eventObjects ev). searchLabels (Labels (watchedMeta a))}"
    by (auto simp: podRequests_def Let_def split: if_splits)
  show "\<forall>req \<in> set (enqueue (SetupWithManager getenv) ev).
        HasPrefix (req_Name req) ''Pod/'' \<and> (\<exists>a \<in> set (eventObjects ev). Split (req_Name req) CHR ''/'' ! 1 = Name (watchedMeta a))
        \<and> same_except objs w (snd (run_state (Reconcile r tls source p (req_Name req) (req_Namespace req)) w)) {search_of (req_Namespace req)}"
  proof
    fix req assume "req \<in> set (enqueue (SetupWithManager getenv) ev)"
    then obtain a where a: "a \<in> set (eventObjects ev)"
      "req = \<lparr>req_Name = ''Pod/'' @ Name (watchedMeta a), req_Namespace = Namespace (watchedMeta a)\<rparr>" unfolding requests by blast
    then have slash: "CHR ''/'' \<notin> set (Name (watchedMeta a))" using pods by (simp add: list_all_iff)
    have split: "Split (req_Name req) CHR ''/'' ! 1 = Name (watchedMeta a)"
      using Split_append [of "''Pod''" "CHR ''/''" "Name (watchedMeta a)"] Split_alone [OF slash] by (simp add: a(2))
    have prefix: "HasPrefix (req_Name req) ''Pod/''" by (simp add: a(2) HasPrefix_def)
    show "HasPrefix (req_Name req) ''Pod/'' \<and> (\<exists>a \<in> set (eventObjects ev). Split (req_Name req) CHR ''/'' ! 1 = Name (watchedMeta a))
        \<and> same_except objs w (snd (run_state (Reconcile r tls source p (req_Name req) (req_Namespace req)) w)) {search_of (req_Namespace req)}"
      using split prefix a(1) pod_request_frame [OF api clock prefix] by (metis surj_pair snd_conv)
  qed
qed

definition samplePodObject :: Pod where
  "samplePodObject = \<lparr>pod_meta = (newMeta ''search-api-1'' ''ocm'')\<lparr>Labels := mapOf [(''component'', ''search-v2-operator'')]\<rparr>, pod_Conditions = []\<rparr>"

theorem pod_events_only_report_witness:
  "set (sampleQueue (SetupWithManager (\<lambda>_. ''ocm'')) (DeleteEvent (Typed (OPod samplePodObject))))
     = {\<lparr>req_Name = ''Pod/search-api-1'', req_Namespace = ''ocm''\<rparr>}
   \<and> same_except mem_view (mem_world [OSearch readySearch])
     (snd (run_state (Reconcile hubReconciler sampleTLS sevens sampleProcess ''Pod/search-api-1'' ''ocm'') (mem_world [OSearch readySearch])))
     {search_of ''ocm''}"
proof -
  let ?ev = "DeleteEvent (Typed (OPod samplePodObject))"
  have pods: "list_all (\<lambda>a. watchedKind a = WKind KPod \<and> CHR ''/'' \<notin> set (Name (watchedMeta a))) (eventObjects ?ev)"
    by (simp add: samplePodObject_def newMeta_def)
  have one: "{a. a = Typed (OPod samplePodObject) \<and> searchLabels (Labels (watchedMeta a))} = {Typed (OPod samplePodObject)}"
    by (auto simp: samplePodObject_def newMeta_def searchLabels_def lookup_def entries_def mapOf_def)
  note reports = pod_events_only_report [OF sampleQueue_contract pods hub_contracts(1,3),
      of "\<lambda>_. ''ocm''" "mem_world [OSearch readySearch]" sampleTLS sevens sampleProcess]
  have requests: "set (sampleQueue (SetupWithManager (\<lambda>_. ''ocm'')) ?ev) = {\<lparr>req_Name = ''Pod/search-api-1'', req_Namespace = ''ocm''\<rparr>}"
    using conjunct1 [OF reports] one by (simp add: samplePodObject_def newMeta_def)
  then have "\<lparr>req_Name = ''Pod/search-api-1'', req_Namespace = ''ocm''\<rparr> \<in> set (sampleQueue (SetupWithManager (\<lambda>_. ''ocm'')) ?ev)" by simp
  from bspec [OF conjunct2 [OF reports] this] requests show ?thesis unfolding Request.select_convs by blast
qed

end
