(* ===== verification/Addon.thy ===== *)
theory Addon
  imports Watches
begin

text \<open>
  The add-on that deploys the collector on the managed clusters (\<open>addon/addon.go\<close>): the chart values
  for a cluster, the role binding in the cluster's namespace, and the set-up of the add-on's manager. The
  add-on framework and the clientset are parameters, with what is documented of them as contracts.
\<close>

section \<open>Constants and values\<close>

definition SearchAddonName :: string where "SearchAddonName = ''search-collector''"
definition clusterRoleName :: string where "clusterRoleName = ''open-cluster-management:addons:search-collector''"
definition roleBindingName :: string where "roleBindingName = ''open-cluster-management:addons:search-collector''"
definition GroupName :: string where "GroupName = ''rbac.authorization.k8s.io''"
definition ChartDir :: string where "ChartDir = ''manifests/chart''"

text \<open>\<open>resourceRegex\<close>: an optional sign, a decimal number, and an optional unit or exponent.\<close>

definition digitsPattern :: rx where "digitsPattern = RClass [(CHR ''0'', CHR ''9'')]"

definition signPattern :: rx where "signPattern = ROpt (RClass [(CHR ''+'', CHR ''+''), (CHR ''-'', CHR ''-'')])"

definition numberPattern :: rx where
  "numberPattern = RAlt (RSeq (RPlus digitsPattern) (ROpt (RSeq (RLit ''.'') (RStar digitsPattern))))
     (RSeq (RLit ''.'') (RPlus digitsPattern))"

definition unitPattern :: rx where
  "unitPattern = RAlt (RSeq (RClass (map (\<lambda>c. (c, c)) ''KMGTPE'')) (RLit ''i''))
     (RAlt (RClass (map (\<lambda>c. (c, c)) ''numkMGTPE''))
       (RSeq (RClass [(CHR ''e'', CHR ''e''), (CHR ''E'', CHR ''E'')]) (RSeq signPattern numberPattern)))"

definition resourceRegex :: rx where
  "resourceRegex = RSeq signPattern (RSeq numberPattern (ROpt unitPattern))"

record GlobalValues =
  gv_ImagePullPolicy :: string
  gv_ImagePullSecret :: string
  gv_ImageOverrides :: smap
  gv_ProxyConfig :: smap

record UserArgs =
  ContainerArgs :: string
  LimitMemory :: string
  RequestMemory :: string
  RediscoverRate :: int
  HeartBeat :: int
  ReportRate :: int

record Values =
  ChartGlobals :: GlobalValues
  KubernetesDistribution :: string
  Prometheus :: "(string, json) gomap"
  UserValues :: UserArgs

record ManagedClusterAddOn =
  mca_meta :: ObjectMeta

section \<open>The chart values of a cluster\<close>

definition isDigit :: "char \<Rightarrow> bool" where
  "isDigit c \<longleftrightarrow> CHR ''0'' \<le> c \<and> c \<le> CHR ''9''"

text \<open>\<open>strconv.Atoi\<close> on a 64-bit machine.\<close>

definition Atoi :: "string \<Rightarrow> int option" where
  "Atoi s =
     (let (neg, ds) = (case s of [] \<Rightarrow> (False, [])
        | c # t \<Rightarrow> if c = CHR ''-'' then (True, t) else if c = CHR ''+'' then (False, t) else (False, s));
        n = int (decimal_value ds); v = (if neg then - n else n)
      in if ds = [] \<or> \<not> list_all isDigit ds then None
         else if - (2 ^ 63) \<le> v \<and> v < 2 ^ 63 then Some v else None)"

fun distribution :: "(string \<times> string) list \<Rightarrow> string" where
  "distribution [] = ''''"
| "distribution ((name, value) # claims) =
     (if name = ''product.open-cluster-management.io'' then value else distribution claims)"

definition memoryArg :: "smap \<Rightarrow> string \<Rightarrow> string" where
  "memoryArg annotations k = (case lookup annotations k of
     Some val \<Rightarrow> if MatchString resourceRegex val then val else '''' | None \<Rightarrow> '''')"

definition rateArg :: "smap \<Rightarrow> string \<Rightarrow> int" where
  "rateArg annotations k = (case lookup annotations k of
     Some val \<Rightarrow> (case Atoi val of Some n \<Rightarrow> n | None \<Rightarrow> 0) | None \<Rightarrow> 0)"

definition chartValues :: "string \<Rightarrow> ManagedCluster \<Rightarrow> ManagedClusterAddOn \<Rightarrow> Values" where
  "chartValues img cluster addon =
     (let distro = distribution (ClusterClaims cluster); annotations = Annotations (mca_meta addon) in
      \<lparr>ChartGlobals = \<lparr>gv_ImagePullPolicy = ''IfNotPresent'', gv_ImagePullSecret = ''open-cluster-management-image-pull-credentials'',
         gv_ImageOverrides = mapOf [(''search_collector'', img)],
         gv_ProxyConfig = mapOf [(''HTTP_PROXY'', ''''), (''HTTPS_PROXY'', ''''), (''NO_PROXY'', '''')]\<rparr>,
       KubernetesDistribution = distro,
       Prometheus = put ''enabled'' (JBool (distro = ''OpenShift'')) (mapOf []),
       UserValues = \<lparr>ContainerArgs = index annotations ''addon.open-cluster-management.io/search_args'',
         LimitMemory = memoryArg annotations ''addon.open-cluster-management.io/search_memory_limit'',
         RequestMemory = memoryArg annotations ''addon.open-cluster-management.io/search_memory_request'',
         RediscoverRate = rateArg annotations ''addon.open-cluster-management.io/search_rediscover_rate'',
         HeartBeat = rateArg annotations ''addon.open-cluster-management.io/search_heartbeat'',
         ReportRate = rateArg annotations ''addon.open-cluster-management.io/search_report_rate''\<rparr>\<rparr>)"

text \<open>
  The add-on framework: \<open>JsonStructToValues\<close>, the two functions that read values from annotations and from
  deployment configs, the default groups of an agent, the values of an agent from a list of functions, and
  the constructors with their errors, over the types of managers and agents.
\<close>

type_synonym getter = "ManagedCluster \<Rightarrow> ManagedClusterAddOn \<Rightarrow> go_error + json"

record addonlib =
  al_JsonStructToValues :: "Values \<Rightarrow> go_error + json"
  al_FromAddonAnnotation :: getter
  al_DeploymentConfigValues :: getter
  al_AgentValues :: "getter list \<Rightarrow> getter"
  al_DefaultGroups :: "string \<Rightarrow> string \<Rightarrow> string list"

definition getValue :: "'x addonlib_scheme \<Rightarrow> string \<Rightarrow> getter" where
  "getValue lib img cluster addon = al_JsonStructToValues lib (chartValues img cluster addon)"

definition validateImageOverride :: "string \<Rightarrow> getter" where
  "validateImageOverride img cluster addon =
     Inr (JObject [(''global'', JObject [(''imageOverrides'', JObject [(''search_collector'', JString img)])])])"

section \<open>The role binding of a cluster\<close>

record RoleBinding =
  rb_meta :: ObjectMeta
  rb_RoleRef :: RoleRef
  rb_Subjects :: "Subject list"

text \<open>\<open>kubeClient.RbacV1().RoleBindings(namespace)\<close>.\<close>

record 'w rolebindings =
  rb_Get :: "string \<Rightarrow> string \<Rightarrow> ('w, go_error + RoleBinding) state"
  rb_Create :: "string \<Rightarrow> RoleBinding \<Rightarrow> ('w, go_error option) state"
  rb_Update :: "string \<Rightarrow> RoleBinding \<Rightarrow> ('w, go_error option) state"

definition newRoleBindingForClusterRole ::
  "'x addonlib_scheme \<Rightarrow> string \<Rightarrow> string \<Rightarrow> string \<Rightarrow> string \<Rightarrow> RoleBinding option" where
  "newRoleBindingForClusterRole lib name roleName clusterName addonName =
     (case al_DefaultGroups lib clusterName addonName of
        [] \<Rightarrow> None
      | grp # groups \<Rightarrow> Some
         \<lparr>rb_meta = newMeta name clusterName,
          rb_RoleRef = \<lparr>rr_APIGroup = GroupName, rr_Kind = ''ClusterRole'', rr_Name = roleName\<rparr>,
          rb_Subjects = [\<lparr>sub_Kind = ''Group'', sub_APIGroup = GroupName, sub_Name = grp, sub_Namespace = ''''\<rparr>]\<rparr>)"

definition createOrUpdateRoleBinding ::
  "'x addonlib_scheme \<Rightarrow> 'w rolebindings \<Rightarrow> string \<Rightarrow> string \<Rightarrow> ('w, go_error option option) state" where
  "createOrUpdateRoleBinding lib kube addonName clusterName =
     (case newRoleBindingForClusterRole lib roleBindingName clusterRoleName clusterName addonName of
        None \<Rightarrow> panic
      | Some acmRoleBinding \<Rightarrow> total (do {
          res \<leftarrow> rb_Get kube clusterName roleBindingName;
          case res of
            Inl err \<Rightarrow> if IsNotFound err then rb_Create kube clusterName acmRoleBinding else ret (Some err)
          | Inr binding \<Rightarrow>
              (let refDiffers = (rb_RoleRef acmRoleBinding \<noteq> rb_RoleRef binding);
                   subjectsDiffer = (rb_Subjects acmRoleBinding \<noteq> rb_Subjects binding);
                   binding = (if refDiffers then binding\<lparr>rb_RoleRef := rb_RoleRef acmRoleBinding\<rparr> else binding);
                   binding = (if subjectsDiffer then binding\<lparr>rb_Subjects := rb_Subjects acmRoleBinding\<rparr> else binding)
               in if refDiffers \<or> subjectsDiffer then rb_Update kube clusterName binding else ret None)
        }))"

section \<open>The manager of the add-on\<close>

text \<open>
  The options of the agent's registration: the names the CSR functions of the framework get, and the
  permission function; and the agent that the factory builds.
\<close>

record 'w RegistrationOption =
  ro_CSRConfigurations :: "string \<times> string"
  ro_CSRApproveCheck :: string
  ro_PermissionConfig :: "ManagedCluster \<Rightarrow> ManagedClusterAddOn \<Rightarrow> ('w, go_error option option) state"

record 'w AgentConfig =
  ac_Name :: string
  ac_Dir :: string
  ac_ValuesFuncs :: "getter list"
  ac_Registration :: "'w RegistrationOption"

definition newRegistrationOption ::
  "'x addonlib_scheme \<Rightarrow> 'w rolebindings \<Rightarrow> string \<Rightarrow> 'w RegistrationOption" where
  "newRegistrationOption lib kube addonName =
     \<lparr>ro_CSRConfigurations = (addonName, addonName), ro_CSRApproveCheck = addonName,
      ro_PermissionConfig = (\<lambda>cluster addon. createOrUpdateRoleBinding lib kube addonName (Name (mc_meta cluster)))\<rparr>"

record ('w, 'm, 'a) addonsystem = addonlib +
  as_AddToScheme :: "go_error option"
  as_New :: "go_error + 'm"
  as_AddonClient :: "go_error option"
  as_KubeClient :: "go_error + 'w rolebindings"
  as_Build :: "'w AgentConfig \<Rightarrow> go_error + 'a"
  as_AddAgent :: "'m \<Rightarrow> 'a \<Rightarrow> go_error option"
  as_Start :: "'m \<Rightarrow> go_error option"

definition valuesFuncs :: "'x addonlib_scheme \<Rightarrow> string \<Rightarrow> getter list" where
  "valuesFuncs lib img = [getValue lib img, al_FromAddonAnnotation lib, al_DeploymentConfigValues lib, validateImageOverride img]"

definition agentConfig :: "'x addonlib_scheme \<Rightarrow> string \<Rightarrow> 'w rolebindings \<Rightarrow> 'w AgentConfig" where
  "agentConfig lib img kube = \<lparr>ac_Name = SearchAddonName, ac_Dir = ChartDir, ac_ValuesFuncs = valuesFuncs lib img,
     ac_Registration = newRegistrationOption lib kube SearchAddonName\<rparr>"

text \<open>A manager and an error, either of which may be there; an error of the scheme is only logged.\<close>

definition NewAddonManager :: "('w, 'm, 'a) addonsystem \<Rightarrow> string \<Rightarrow> 'm option \<times> go_error option" where
  "NewAddonManager sys img =
     (if img = '''' then (None, Some (Errorf ''the search-collector pod image is empty''))
      else case as_New sys of
        Inl err \<Rightarrow> (None, Some err)
      | Inr mgr \<Rightarrow> (case as_AddonClient sys of
          Some err \<Rightarrow> (None, Some err)
        | None \<Rightarrow> (case as_KubeClient sys of
            Inl err \<Rightarrow> (None, Some err)
          | Inr kube \<Rightarrow> (case as_Build sys (agentConfig sys img kube) of
              Inl err \<Rightarrow> (Some mgr, Some err)
            | Inr agent \<Rightarrow> (Some mgr, as_AddAgent sys mgr agent)))))"

text \<open>Which manager is started, if any; its errors are logged.\<close>

definition startAddon :: "('w, 'm, 'a) addonsystem \<Rightarrow> go_error option \<Rightarrow> string \<Rightarrow> 'm option" where
  "startAddon sys configErr img =
     (if configErr \<noteq> None then None
      else let (mgr, err) = NewAddonManager sys img in if err \<noteq> None then None else mgr)"

section \<open>The image on the managed clusters\<close>

fun at_path :: "json \<Rightarrow> string list \<Rightarrow> json" where
  "at_path v [] = v"
| "at_path v (k # ks) = at_path (jget (jfields v) k) ks"

text \<open>
  What is documented of the functions an agent's values come from: the values of a later function override
  those of an earlier one. The leaves of the last function's values are in the result.
\<close>

definition last_overrides :: "addonlib \<Rightarrow> bool" where
  "last_overrides lib \<longleftrightarrow> (\<forall>fs f cluster addon v. al_AgentValues lib (fs @ [f]) cluster addon = Inr v \<longrightarrow>
     (\<exists>u. f cluster addon = Inr u \<and> (\<forall>path s. at_path u path = JString s \<longrightarrow> at_path v path = JString s)))"

abbreviation collectorImage :: "string list" where
  "collectorImage \<equiv> [''global'', ''imageOverrides'', ''search_collector'']"

lemma validateImageOverride_path:
  "validateImageOverride img cluster addon = Inr u \<Longrightarrow> at_path u collectorImage = JString img"
  by (auto simp: validateImageOverride_def jget_def)

text \<open>
  C16. The collector on the managed clusters runs the operator's image: whatever the annotations of the
  add-on and its deployment configs ask for, the chart values of every cluster have at
  \<open>global.imageOverrides.search_collector\<close> the image of the process, which is the one it was started with or
  the override of the Search resource that started the add-on, and then of a trusted registry.
\<close>

theorem clusters_run_the_operators_image:
  assumes lib: "last_overrides lib"
    and vals: "al_AgentValues lib (valuesFuncs lib (SearchCollectorImage (startOnce inst p))) cluster addon = Inr v"
  shows "at_path v collectorImage = JString (SearchCollectorImage (startOnce inst p))
    \<and> (SearchCollectorImage (startOnce inst p) = SearchCollectorImage p
       \<or> \<not> addonStarted p \<and> SearchCollectorImage (startOnce inst p) = ImageOverride (Collector (Deployments (s_Spec inst)))
         \<and> IsTrustedImage (SearchCollectorImage (startOnce inst p)))"
proof -
  let ?img = "SearchCollectorImage (startOnce inst p)"
  have "valuesFuncs lib ?img = [getValue lib ?img, al_FromAddonAnnotation lib, al_DeploymentConfigValues lib] @ [validateImageOverride ?img]"
    by (simp add: valuesFuncs_def)
  then obtain u where "validateImageOverride ?img cluster addon = Inr u" "\<forall>path s. at_path u path = JString s \<longrightarrow> at_path v path = JString s"
    using lib vals unfolding last_overrides_def by metis
  then have "at_path v collectorImage = JString ?img" using validateImageOverride_path by blast
  then show ?thesis
    by (auto simp: startOnce_def CreateAddonOnce_def Let_def ValidateImageRepo_def split: if_splits)
qed

section \<open>What annotations can put into the chart\<close>

definition digits :: "string \<Rightarrow> bool" where "digits s \<longleftrightarrow> list_all isDigit s"

text \<open>A decimal number has digits before or after an optional point.\<close>

definition is_number :: "string \<Rightarrow> bool" where
  "is_number s \<longleftrightarrow> (\<exists>a b. digits a \<and> digits b \<and> (a \<noteq> [] \<and> (s = a \<or> s = a @ ''.'' @ b) \<or> b \<noteq> [] \<and> s = ''.'' @ b))"

definition is_suffix :: "string \<Rightarrow> bool" where
  "is_suffix s \<longleftrightarrow> (\<exists>c \<in> set ''KMGTPE''. s = [c, CHR ''i'']) \<or> (\<exists>c \<in> set ''numkMGTPE''. s = [c])
     \<or> (\<exists>e sign n. e \<in> set ''eE'' \<and> sign \<in> {'''', ''+'', ''-''} \<and> is_number n \<and> s = e # sign @ n)"

definition is_quantity :: "string \<Rightarrow> bool" where
  "is_quantity s \<longleftrightarrow> (\<exists>sign n u. sign \<in> {'''', ''+'', ''-''} \<and> is_number n \<and> (u = '''' \<or> is_suffix u) \<and> s = sign @ n @ u)"

lemma in_class_digits: "in_class [(CHR ''0'', CHR ''9'')] = isDigit"
  by (intro ext) (simp add: in_class_def isDigit_def)

lemma in_class_chars: "in_class (map (\<lambda>c. (c, c)) cs) c \<longleftrightarrow> c \<in> set cs"
  by (induction cs) (auto simp: in_class_def)

lemma sign_accepts: "accepts signPattern s \<longleftrightarrow> s \<in> {'''', ''+'', ''-''}"
  unfolding signPattern_def accepts_opt accepts_RClass by (auto simp: in_class_def)

lemma digits_accepts: "accepts (RStar digitsPattern) s \<longleftrightarrow> digits s" "accepts (RPlus digitsPattern) s \<longleftrightarrow> s \<noteq> [] \<and> digits s"
  by (simp_all add: digitsPattern_def accepts_star_class accepts_plus_class in_class_digits digits_def)

lemma point_accepts: "accepts (RSeq (RLit ''.'') r) s \<longleftrightarrow> (\<exists>b. accepts r b \<and> s = ''.'' @ b)"
  unfolding accepts_RSeq accepts_lit by blast

lemma number_accepts: "accepts numberPattern s \<longleftrightarrow> is_number s"
proof
  assume "accepts numberPattern s"
  then consider (whole) a r where "s = a @ r" "a \<noteq> []" "digits a" "r = [] \<or> (\<exists>b. digits b \<and> r = ''.'' @ b)"
    | (fraction) b where "s = ''.'' @ b" "b \<noteq> []" "digits b"
    unfolding numberPattern_def accepts_RAlt accepts_RSeq [of "RPlus digitsPattern"] point_accepts accepts_opt digits_accepts by blast
  then show "is_number s"
  proof cases
    case whole
    have "digits []" by (simp add: digits_def)
    then show ?thesis using whole unfolding is_number_def by blast
  next
    case fraction
    have "digits []" by (simp add: digits_def)
    then show ?thesis using fraction unfolding is_number_def by blast
  qed
next
  assume "is_number s"
  then consider (whole) a r where "s = a @ r" "a \<noteq> []" "digits a" "r = [] \<or> (\<exists>b. digits b \<and> r = ''.'' @ b)"
    | (fraction) b where "s = ''.'' @ b" "b \<noteq> []" "digits b"
    unfolding is_number_def by (metis append_Nil2)
  then show "accepts numberPattern s"
    unfolding numberPattern_def accepts_RAlt accepts_RSeq [of "RPlus digitsPattern"] point_accepts accepts_opt digits_accepts
    by cases blast+
qed

lemma class_accepts: "accepts (RClass (map (\<lambda>c. (c, c)) cs)) s \<longleftrightarrow> (\<exists>c \<in> set cs. s = [c])"
  unfolding accepts_RClass in_class_chars by blast

lemma exponent_mark: "accepts (RClass [(CHR ''e'', CHR ''e''), (CHR ''E'', CHR ''E'')]) s \<longleftrightarrow> (\<exists>c \<in> set ''eE''. s = [c])"
  using class_accepts [of "''eE''"] by simp

lemma unit_accepts: "accepts unitPattern s \<longleftrightarrow> is_suffix s"
proof -
  have binary: "accepts (RSeq (RClass (map (\<lambda>c. (c, c)) ''KMGTPE'')) (RLit ''i'')) s \<longleftrightarrow> (\<exists>c \<in> set ''KMGTPE''. s = [c, CHR ''i''])"
    unfolding accepts_RSeq accepts_lit class_accepts by (metis append_Cons append_Nil)
  have exponent: "accepts (RSeq (RClass [(CHR ''e'', CHR ''e''), (CHR ''E'', CHR ''E'')]) (RSeq signPattern numberPattern)) s \<longleftrightarrow>
      (\<exists>e sign n. e \<in> set ''eE'' \<and> sign \<in> {'''', ''+'', ''-''} \<and> is_number n \<and> s = e # sign @ n)"
    unfolding accepts_RSeq exponent_mark sign_accepts number_accepts
    by (metis append_Cons append_Nil)
  show ?thesis unfolding unitPattern_def accepts_RAlt binary exponent class_accepts is_suffix_def by (rule refl)
qed

lemma resourceRegex_exact: "MatchString resourceRegex s \<longleftrightarrow> is_quantity s"
  unfolding MatchString_accepts resourceRegex_def accepts_RSeq accepts_opt sign_accepts number_accepts unit_accepts is_quantity_def
  by blast

lemma number_chars: "is_number s \<Longrightarrow> c \<in> set s \<Longrightarrow> isDigit c \<or> c = CHR ''.''"
  by (auto simp: is_number_def digits_def list_all_iff)

lemma unit_chars: "is_suffix s \<Longrightarrow> c \<in> set s \<Longrightarrow> isDigit c \<or> c \<in> set ''+-.eEKMGTPinumk''"
  using number_chars by (fastforce simp: is_suffix_def)

lemma quantity_chars: "is_quantity s \<Longrightarrow> c \<in> set s \<Longrightarrow> isDigit c \<or> c \<in> set ''+-.eEKMGTPinumk''"
proof -
  assume "is_quantity s" "c \<in> set s"
  then obtain sign n u where s: "s = sign @ n @ u" and parts: "sign \<in> {'''', ''+'', ''-''}" "is_number n" "u = '''' \<or> is_suffix u"
    unfolding is_quantity_def by blast
  consider "c \<in> set sign" | "c \<in> set n" | "c \<in> set u" using \<open>c \<in> set s\<close> by (auto simp: s)
  then show ?thesis
  proof cases
    case 1
    then show ?thesis using parts(1) by auto
  next
    case 2
    then show ?thesis using number_chars [OF parts(2)] by auto
  next
    case 3
    then show ?thesis using unit_chars parts(3) by (metis empty_iff list.set(1))
  qed
qed

lemma FormatUint_digits: "digits (FormatUint n) \<and> FormatUint n \<noteq> []"
proof (induction n rule: FormatUint.induct)
  case (1 n)
  have "isDigit (char_of (48 + m))" if "m < 10" for m :: nat
    using that by (simp add: isDigit_def less_eq_char_def)
  then show ?case using 1 by (simp add: FormatUint.simps [of n] digits_def)
qed

lemma Atoi_FormatUint: "n < 2 ^ 63 \<Longrightarrow> Atoi (FormatUint n) = Some (int n)"
proof -
  assume n: "n < 2 ^ 63"
  obtain c t where s: "FormatUint n = c # t" using FormatUint_digits [of n] by (cases "FormatUint n") auto
  then have "isDigit c" "list_all isDigit (c # t)" using FormatUint_digits [of n] by (simp_all add: digits_def)
  moreover from this(1) have "c \<noteq> CHR ''-''" "c \<noteq> CHR ''+''" by (auto simp: isDigit_def)
  ultimately show ?thesis
    using n FormatUint_value [of n] by (simp add: Atoi_def s)
qed

lemma Atoi_range: "Atoi s = Some n \<Longrightarrow> - (2 ^ 63) \<le> n \<and> n < 2 ^ 63"
  by (simp add: Atoi_def Let_def split: prod.splits if_splits)

lemma rateArg_range: "- (2 ^ 63) \<le> rateArg annotations k \<and> rateArg annotations k < 2 ^ 63"
  using Atoi_range by (auto simp: rateArg_def split: option.splits)

lemma rateArg_numeral: "lookup annotations k = Some (FormatUint n) \<Longrightarrow> n < 2 ^ 63 \<Longrightarrow> rateArg annotations k = int n"
  by (simp add: rateArg_def Atoi_FormatUint)

lemma memoryArg_cases:
  "memoryArg annotations k = '''' \<and> (\<forall>val. lookup annotations k = Some val \<longrightarrow> \<not> is_quantity val)
   \<or> lookup annotations k = Some (memoryArg annotations k) \<and> is_quantity (memoryArg annotations k)"
  by (auto simp: memoryArg_def resourceRegex_exact split: option.splits)

lemma distribution_map_of: "distribution cs = (case map_of cs ''product.open-cluster-management.io'' of None \<Rightarrow> '''' | Some d \<Rightarrow> d)"
  by (induction cs rule: distribution.induct) auto

abbreviation addonKey :: "string \<Rightarrow> string" where
  "addonKey k \<equiv> ''addon.open-cluster-management.io/'' @ k"

text \<open>
  What an annotation asks for: \<open>memory_setting\<close> says that a size is the annotation's value when it is a
  quantity and is absent otherwise, and \<open>rate_setting\<close> that a rate is the number that a decimal annotation
  denotes, zero without the annotation or with a value that is no number, and always one of 64 bits.
\<close>

definition memory_setting :: "smap \<Rightarrow> string \<Rightarrow> string \<Rightarrow> bool" where
  "memory_setting annotations k value \<longleftrightarrow>
     (value = '''' \<and> (\<forall>val. lookup annotations k = Some val \<longrightarrow> \<not> is_quantity val)
      \<or> lookup annotations k = Some value \<and> is_quantity value)
     \<and> (\<forall>c \<in> set value. isDigit c \<or> c \<in> set ''+-.eEKMGTPinumk'')"

definition rate_setting :: "smap \<Rightarrow> string \<Rightarrow> int \<Rightarrow> bool" where
  "rate_setting annotations k rate \<longleftrightarrow>
     (\<forall>n. lookup annotations k = Some (FormatUint n) \<longrightarrow> n < 2 ^ 63 \<longrightarrow> rate = int n)
     \<and> (\<forall>n. lookup annotations k = Some (CHR ''-'' # FormatUint n) \<longrightarrow> n \<le> 2 ^ 63 \<longrightarrow> rate = - int n)
     \<and> (\<forall>n. lookup annotations k = Some (FormatUint n) \<longrightarrow> 2 ^ 63 \<le> n \<longrightarrow> rate = 0)
     \<and> (\<forall>val. lookup annotations k = Some val \<longrightarrow> (\<exists>c \<in> set val. \<not> isDigit c \<and> c \<notin> set ''+-'') \<longrightarrow> rate = 0)
     \<and> (lookup annotations k = None \<longrightarrow> rate = 0)
     \<and> rate \<in> {- (2 ^ 63) ..< 2 ^ 63}"

lemma memoryArg_setting: "memory_setting annotations k (memoryArg annotations k)"
proof -
  have "isDigit c \<or> c \<in> set ''+-.eEKMGTPinumk''" if "c \<in> set (memoryArg annotations k)" for c
    using memoryArg_cases [of annotations k]
  proof
    assume "memoryArg annotations k = '''' \<and> (\<forall>val. lookup annotations k = Some val \<longrightarrow> \<not> is_quantity val)"
    then show ?thesis using that by simp
  next
    assume "lookup annotations k = Some (memoryArg annotations k) \<and> is_quantity (memoryArg annotations k)"
    then show ?thesis using quantity_chars [OF _ that] by blast
  qed
  then show ?thesis using memoryArg_cases [of annotations k] unfolding memory_setting_def by blast
qed

lemma Atoi_negative: "n \<le> 2 ^ 63 \<Longrightarrow> Atoi (CHR ''-'' # FormatUint n) = Some (- int n)"
  using FormatUint_digits [of n] FormatUint_value [of n] by (simp add: Atoi_def digits_def)

lemma Atoi_overflow: "2 ^ 63 \<le> n \<Longrightarrow> Atoi (FormatUint n) = None"
proof -
  assume n: "2 ^ 63 \<le> n"
  obtain c t where s: "FormatUint n = c # t" using FormatUint_digits [of n] by (cases "FormatUint n") auto
  then have "isDigit c" using FormatUint_digits [of n] by (simp add: digits_def)
  then have "c \<noteq> CHR ''-''" "c \<noteq> CHR ''+''" by (auto simp: isDigit_def)
  then show ?thesis using n FormatUint_value [of n] by (auto simp: Atoi_def s Let_def)
qed

lemma Atoi_strange: "c \<in> set s \<Longrightarrow> \<not> isDigit c \<Longrightarrow> c \<notin> set ''+-'' \<Longrightarrow> Atoi s = None"
  by (cases s) (auto simp: Atoi_def Let_def list_all_iff split: prod.splits)

lemma rateArg_setting: "rate_setting annotations k (rateArg annotations k)"
  unfolding rate_setting_def
proof (intro conjI)
  show "\<forall>val. lookup annotations k = Some val \<longrightarrow> (\<exists>c \<in> set val. \<not> isDigit c \<and> c \<notin> set ''+-'') \<longrightarrow> rateArg annotations k = 0"
    using Atoi_strange by (force simp: rateArg_def)
  show "rateArg annotations k \<in> {- (2 ^ 63) ..< 2 ^ 63}"
    using rateArg_range [of annotations k] by (simp only: atLeastLessThan_iff simp_thms)
qed (simp_all add: rateArg_def Atoi_FormatUint Atoi_negative Atoi_overflow)

text \<open>
  C40. What the annotations of an add-on put into the chart, each one from the annotation of its own name:
  the memory limit and the memory request are the annotation's value if it is a quantity (a sign, a decimal
  number, a unit or an exponent), and so free of any character that means something to the chart's YAML,
  and are left out otherwise; the rediscover rate, the heartbeat and the report rate are the integers that
  the annotations denote, zero when they denote none that fits 64 bits; and monitoring is enabled exactly on
  clusters whose product claim says OpenShift.
\<close>

theorem chart_values_sound:
  "memory_setting (Annotations (mca_meta addon)) (addonKey ''search_memory_limit'') (LimitMemory (UserValues (chartValues img cluster addon)))
   \<and> memory_setting (Annotations (mca_meta addon)) (addonKey ''search_memory_request'') (RequestMemory (UserValues (chartValues img cluster addon)))
   \<and> rate_setting (Annotations (mca_meta addon)) (addonKey ''search_rediscover_rate'') (RediscoverRate (UserValues (chartValues img cluster addon)))
   \<and> rate_setting (Annotations (mca_meta addon)) (addonKey ''search_heartbeat'') (HeartBeat (UserValues (chartValues img cluster addon)))
   \<and> rate_setting (Annotations (mca_meta addon)) (addonKey ''search_report_rate'') (ReportRate (UserValues (chartValues img cluster addon)))
   \<and> lookup (Prometheus (chartValues img cluster addon)) ''enabled''
       = Some (JBool (map_of (ClusterClaims cluster) ''product.open-cluster-management.io'' = Some ''OpenShift''))"
proof -
  have "lookup (Prometheus (chartValues img cluster addon)) ''enabled'' = Some (JBool (distribution (ClusterClaims cluster) = ''OpenShift''))"
    by (simp add: chartValues_def Let_def put_def mapOf_def lookup_def entries_def)
  then show ?thesis
    by (simp add: chartValues_def Let_def memoryArg_setting rateArg_setting distribution_map_of split: option.splits)
qed

text \<open>A framework whose agents take the values of the last function, and a cluster with an annotated add-on.\<close>

definition sampleFramework :: addonlib where
  "sampleFramework = \<lparr>al_JsonStructToValues = (\<lambda>v. Inr (JObject [])), al_FromAddonAnnotation = (\<lambda>c a. Inr (JObject [])),
     al_DeploymentConfigValues = (\<lambda>c a. Inr (JObject [])), al_AgentValues = (\<lambda>fs c a. last fs c a),
     al_DefaultGroups = (\<lambda>c a. [''system:open-cluster-management:cluster:'' @ c @ '':addon:'' @ a, ''system:authenticated''])\<rparr>"

definition sampleCluster :: ManagedCluster where
  "sampleCluster = \<lparr>mc_meta = newMeta ''spoke1'' '''', ClusterClaims = [(''product.open-cluster-management.io'', ''OpenShift'')]\<rparr>"

definition sampleAddon :: ManagedClusterAddOn where
  "sampleAddon = \<lparr>mca_meta = (newMeta SearchAddonName ''spoke1'')\<lparr>Annotations := mapOf [
     (''addon.open-cluster-management.io/search_memory_limit'', ''2Gi''),
     (''addon.open-cluster-management.io/search_rediscover_rate'', FormatUint 120)]\<rparr>\<rparr>"

theorem clusters_run_the_operators_image_witness:
  "\<exists>v. al_AgentValues sampleFramework (valuesFuncs sampleFramework ''quay.io/stolostron/search-collector'') sampleCluster sampleAddon = Inr v
     \<and> at_path v collectorImage = JString ''quay.io/stolostron/search-collector''"
proof -
  let ?img = "SearchCollectorImage (startOnce readySearch sampleProcess)"
  have img: "?img = ''quay.io/stolostron/search-collector''"
    by (simp add: startOnce_def CreateAddonOnce_def sampleProcess_def readySearch_def withMeta_def sampleSearch_def sampleDeploymentConfig_def)
  have "last_overrides sampleFramework" by (simp add: last_overrides_def sampleFramework_def)
  moreover obtain v where "al_AgentValues sampleFramework (valuesFuncs sampleFramework ?img) sampleCluster sampleAddon = Inr v"
    by (simp add: sampleFramework_def valuesFuncs_def validateImageOverride_def)
  ultimately show ?thesis using clusters_run_the_operators_image [of sampleFramework readySearch sampleProcess sampleCluster sampleAddon v] img
    by auto
qed

theorem chart_values_sound_witness:
  "RediscoverRate (UserValues (chartValues ''img'' sampleCluster sampleAddon)) = 120
   \<and> LimitMemory (UserValues (chartValues ''img'' sampleCluster sampleAddon)) \<in> {'''', ''2Gi''}"
proof -
  have "lookup (Annotations (mca_meta sampleAddon)) (addonKey ''search_rediscover_rate'') = Some (FormatUint 120)"
    "lookup (Annotations (mca_meta sampleAddon)) (addonKey ''search_memory_limit'') = Some ''2Gi''"
    by (simp_all add: sampleAddon_def lookup_def entries_def mapOf_def)
  then show ?thesis using chart_values_sound [of sampleAddon "''img''" sampleCluster] unfolding rate_setting_def memory_setting_def by force
qed

section \<open>The role binding converges\<close>

text \<open>
  What the clientset does to the stored role bindings \<open>bs\<close> (by namespace and name): a read leaves them
  alone and returns what is stored; a write that reports no error stores the role and the subjects it is
  given, any write changes no other binding, and one that reports an error may or may not have been
  applied; the server refuses to change the role of a binding, which is immutable.
\<close>

type_synonym 'w bindings = "'w \<Rightarrow> string \<times> string \<Rightarrow> RoleBinding option"

definition binding_contract :: "'w rolebindings \<Rightarrow> 'w bindings \<Rightarrow> bool" where
  "binding_contract kube bs \<longleftrightarrow>
     (\<forall>ns n w res w'. run_state (rb_Get kube ns n) w = (res, w') \<longrightarrow> bs w' = bs w
        \<and> (\<forall>b. res = Inr b \<longrightarrow> bs w (ns, n) = Some b \<and> Name (rb_meta b) = n)
        \<and> (\<forall>e. res = Inl e \<longrightarrow> IsNotFound e \<longrightarrow> bs w (ns, n) = None))
     \<and> (\<forall>write \<in> {rb_Create kube, rb_Update kube}. \<forall>ns b w err w'. run_state (write ns b) w = (err, w') \<longrightarrow>
          (\<forall>k. k \<noteq> (ns, Name (rb_meta b)) \<longrightarrow> bs w' k = bs w k)
          \<and> (err = None \<longrightarrow> (\<exists>m. bs w' (ns, Name (rb_meta b)) = Some (b\<lparr>rb_meta := m\<rparr>))))"

definition role_immutable :: "'w rolebindings \<Rightarrow> 'w bindings \<Rightarrow> bool" where
  "role_immutable kube bs \<longleftrightarrow> (\<forall>ns b old w. bs w (ns, Name (rb_meta b)) = Some old \<longrightarrow> rb_RoleRef old \<noteq> rb_RoleRef b \<longrightarrow>
     fst (run_state (rb_Update kube ns b) w) \<noteq> None)"

lemma binding_Get:
  assumes "binding_contract kube bs" "run_state (rb_Get kube ns n) w = (res, w')"
  shows "bs w' = bs w" "res = Inr b \<Longrightarrow> bs w (ns, n) = Some b \<and> Name (rb_meta b) = n"
    "res = Inl e \<Longrightarrow> IsNotFound e \<Longrightarrow> bs w (ns, n) = None"
  using assms unfolding binding_contract_def by blast+

lemma binding_write:
  assumes "binding_contract kube bs" "write \<in> {rb_Create kube, rb_Update kube}" "run_state (write ns b) w = (err, w')"
    "Name (rb_meta b) = n"
  shows "k \<noteq> (ns, n) \<Longrightarrow> bs w' k = bs w k"
    "err = None \<Longrightarrow> \<exists>m. bs w' (ns, n) = Some (b\<lparr>rb_meta := m\<rparr>)"
  using assms unfolding binding_contract_def by blast+

text \<open>
  C18. When the permission function of the add-on reports no error for a cluster, the stored binding in the
  cluster's namespace has exactly the wanted role and subjects; whatever it reports, no other binding has
  changed. A binding that is as wanted is not written and no error is reported once it has been read. But
  a binding with another role is never repaired: the update is refused, and every attempt ends with an
  error.
\<close>

theorem role_binding_converges:
  assumes kube: "binding_contract kube bs" and wanted: "newRoleBindingForClusterRole lib roleBindingName clusterRoleName cluster addon = Some b"
    and run: "run_state (createOrUpdateRoleBinding lib kube addon cluster) w = (out, w')"
  shows "\<exists>err. out = Some err
    \<and> (\<forall>k. k \<noteq> (cluster, roleBindingName) \<longrightarrow> bs w' k = bs w k)
    \<and> (\<forall>m w1. run_state (rb_Get kube cluster roleBindingName) w = (Inr (b\<lparr>rb_meta := m\<rparr>), w1) \<longrightarrow> err = None \<and> w' = w1)
    \<and> (err = None \<longrightarrow> (\<exists>m. bs w' (cluster, roleBindingName) = Some (b\<lparr>rb_meta := m\<rparr>)))
    \<and> (\<forall>old. bs w (cluster, roleBindingName) = Some old \<longrightarrow> role_immutable kube bs \<longrightarrow> rb_RoleRef old \<noteq> rb_RoleRef b \<longrightarrow> err \<noteq> None)"
proof -
  have name: "Name (rb_meta b) = roleBindingName"
    using wanted by (auto simp: newRoleBindingForClusterRole_def newMeta_def split: list.splits)
  obtain res w1 where g: "run_state (rb_Get kube cluster roleBindingName) w = (res, w1)" by fastforce
  note get = binding_Get [OF kube g]
  show ?thesis
  proof (cases res)
    case (Inl e)
    show ?thesis
    proof (cases "IsNotFound e")
      case True
      obtain err where c: "run_state (rb_Create kube cluster b) w1 = (err, w')" "out = Some err"
        using run g wanted Inl True by (auto simp: createOrUpdateRoleBinding_def total_def split: prod.splits)
      note wr = binding_write [OF kube, of "rb_Create kube", OF _ c(1) name, simplified]
      show ?thesis using c(2) get(1) get(3) [OF Inl True] wr g Inl by auto
    next
      case False
      then have "out = Some (Some e)" "w' = w1"
        using run g wanted Inl by (simp_all add: createOrUpdateRoleBinding_def total_def)
      then show ?thesis using get(1) g Inl by simp
    qed
  next
    case (Inr old)
    note old = get(2) [OF Inr]
    show ?thesis
    proof (cases "rb_RoleRef b = rb_RoleRef old \<and> rb_Subjects b = rb_Subjects old")
      case True
      then have "out = Some None" "w' = w1"
        using run g wanted Inr by (simp_all add: createOrUpdateRoleBinding_def total_def)
      moreover have "\<exists>m. old = b\<lparr>rb_meta := m\<rparr>" using True by (intro exI [of _ "rb_meta old"]) (cases old; cases b; simp)
      ultimately show ?thesis using get(1) old True g Inr by auto
    next
      case False
      let ?new = "b\<lparr>rb_meta := rb_meta old\<rparr>"
      have new: "rb_Subjects b = rb_Subjects old \<Longrightarrow> old\<lparr>rb_RoleRef := rb_RoleRef b\<rparr> = ?new"
        "rb_RoleRef b = rb_RoleRef old \<Longrightarrow> old\<lparr>rb_Subjects := rb_Subjects b\<rparr> = ?new"
        "old\<lparr>rb_RoleRef := rb_RoleRef b, rb_Subjects := rb_Subjects b\<rparr> = ?new"
        by (cases old; cases b; simp)+
      obtain err where u: "run_state (rb_Update kube cluster ?new) w1 = (err, w')" "out = Some err"
        using run g wanted Inr False by (auto simp: createOrUpdateRoleBinding_def total_def Let_def new split: prod.splits if_splits)
      have newname: "Name (rb_meta ?new) = roleBindingName" using old by simp
      note wr = binding_write [OF kube, of "rb_Update kube", OF _ u(1) newname, simplified]
      have "err \<noteq> None" if "role_immutable kube bs" "rb_RoleRef old \<noteq> rb_RoleRef b"
        using that u(1) old get(1) newname unfolding role_immutable_def by (metis RoleBinding.select_convs(2) RoleBinding.surjective RoleBinding.update_convs(1) fst_conv)
      moreover have "old \<noteq> b\<lparr>rb_meta := m\<rparr>" for m using False by auto
      ultimately show ?thesis using u(2) get(1) old wr g Inr by auto
    qed
  qed
qed

text \<open>A server of role bindings that keeps the contract and does not change roles.\<close>

type_synonym rbworld = "string \<times> string \<Rightarrow> RoleBinding option"

definition storedBinding :: "rbworld \<Rightarrow> string \<times> string \<Rightarrow> RoleBinding option" where
  "storedBinding w k = (case w k of Some b \<Rightarrow> if Name (rb_meta b) = snd k then Some b else None | None \<Rightarrow> None)"

definition storeBinding :: "string \<Rightarrow> RoleBinding \<Rightarrow> (rbworld, go_error option) state" where
  "storeBinding ns b = State (\<lambda>w.
     if (\<exists>old. storedBinding w (ns, Name (rb_meta b)) = Some old \<and> rb_RoleRef old \<noteq> rb_RoleRef b)
     then (Some (APIError OtherReason ''cannot change roleRef''), w) else (None, w((ns, Name (rb_meta b)) \<mapsto> b)))"

definition sampleBindings :: "rbworld rolebindings" where
  "sampleBindings = \<lparr>rb_Get = (\<lambda>ns n. State (\<lambda>w. (case storedBinding w (ns, n) of Some b \<Rightarrow> Inr b | None \<Rightarrow> Inl (APIError NotFound ''''), w))),
     rb_Create = storeBinding, rb_Update = storeBinding\<rparr>"

lemma storeBinding_run:
  assumes "run_state (storeBinding ns b) w = (err, w')"
  shows "k \<noteq> (ns, Name (rb_meta b)) \<Longrightarrow> storedBinding w' k = storedBinding w k"
    "err = None \<Longrightarrow> \<exists>m. storedBinding w' (ns, Name (rb_meta b)) = Some (b\<lparr>rb_meta := m\<rparr>)"
proof -
  have "err \<noteq> None \<and> w' = w \<or> err = None \<and> w' = w((ns, Name (rb_meta b)) \<mapsto> b)"
    using assms unfolding storeBinding_def by (auto split: if_splits)
  then consider "err \<noteq> None" "w' = w" | "err = None" "w' = w((ns, Name (rb_meta b)) \<mapsto> b)" by blast
  note cases = this
  show "k \<noteq> (ns, Name (rb_meta b)) \<Longrightarrow> storedBinding w' k = storedBinding w k" by (rule cases) (simp_all add: storedBinding_def)
  have "storedBinding w' (ns, Name (rb_meta b)) = Some (b\<lparr>rb_meta := rb_meta b\<rparr>)" if "err = None"
    by (rule cases) (simp_all add: that storedBinding_def)
  then show "err = None \<Longrightarrow> \<exists>m. storedBinding w' (ns, Name (rb_meta b)) = Some (b\<lparr>rb_meta := m\<rparr>)" by blast
qed

lemma sampleBindings_contract: "binding_contract sampleBindings storedBinding"
proof -
  have same: "rb_Create sampleBindings = storeBinding" "rb_Update sampleBindings = storeBinding" by (simp_all add: sampleBindings_def)
  have get: "run_state (rb_Get sampleBindings ns n) w =
      (case storedBinding w (ns, n) of Some b \<Rightarrow> Inr b | None \<Rightarrow> Inl (APIError NotFound ''''), w)" for ns n w
    by (simp add: sampleBindings_def)
  have named: "storedBinding w (ns, n) = Some b \<Longrightarrow> Name (rb_meta b) = n" for w ns n b
    by (simp add: storedBinding_def split: option.splits if_splits)
  show ?thesis
    unfolding binding_contract_def same get
    by (intro conjI allI ballI impI) (auto dest: storeBinding_run named split: option.splits)
qed

theorem role_binding_converges_witness:
  "\<exists>w' m subjects. run_state (createOrUpdateRoleBinding sampleFramework sampleBindings SearchAddonName ''spoke1'') (\<lambda>_. None) = (Some None, w')
     \<and> storedBinding w' (''spoke1'', roleBindingName) = Some \<lparr>rb_meta = m,
         rb_RoleRef = \<lparr>rr_APIGroup = GroupName, rr_Kind = ''ClusterRole'', rr_Name = clusterRoleName\<rparr>, rb_Subjects = subjects\<rparr>"
proof -
  obtain b where b: "newRoleBindingForClusterRole sampleFramework roleBindingName clusterRoleName ''spoke1'' SearchAddonName = Some b"
    "rb_RoleRef b = \<lparr>rr_APIGroup = GroupName, rr_Kind = ''ClusterRole'', rr_Name = clusterRoleName\<rparr>"
    by (simp add: newRoleBindingForClusterRole_def sampleFramework_def)
  obtain out w' where run: "run_state (createOrUpdateRoleBinding sampleFramework sampleBindings SearchAddonName ''spoke1'') (\<lambda>_. None) = (out, w')"
    by fastforce
  then have "out = Some None"
    using b(1) by (auto simp: createOrUpdateRoleBinding_def total_def sampleBindings_def storeBinding_def storedBinding_def IsNotFound_def split: if_splits)
  with role_binding_converges [OF sampleBindings_contract b(1) run] obtain m where
    "storedBinding w' (''spoke1'', roleBindingName) = Some (b\<lparr>rb_meta := m\<rparr>)" by blast
  then show ?thesis using run \<open>out = Some None\<close> b(2) by (cases b) auto
qed

end
