(* ===== verification/Spec2Isabelle.thy ===== *)
theory Spec2Isabelle
  imports CC_Seeder Resources No_Panic Addon
begin

text \<open>
  A verification library for the search operator of Open Cluster Management (Go), which installs and
  maintains the search service of a hub cluster. It models the operator's own code; theorems are about
  these definitions, for every client, library and process environment that keeps the contracts below.

  \<^bold>\<open>The program.\<close> A \<open>Search\<close> resource describes the wanted installation. The controller
  (\<open>controllers/search_controller.go\<close>) is woken by events on watched objects (\<open>SetupWithManager\<close>) and runs
  \<open>Reconcile\<close>: it reports the state of a pod, or sets the finalizer, prepares the volume claim and
  then takes its steps in order: accounts, roles and bindings, the CA of the webhook, the merged collector
  config, the database with its secrets and config map, services and monitors, deployments, network policies,
  config maps, the optional features (global search, the hub's name, fine-grained access control,
  virtual machine actions), alerts and clean-ups. The webhook (\<open>api/v1alpha1\<close>) guards the collector configs
  that the merge later combines; the seeder stores the integration configs that the operator ships; the
  add-on (\<open>addon/addon.go\<close>) brings the collector to the managed clusters.

  \<^bold>\<open>Theories and sources.\<close>
  \<^item> \<open>Go_Prelude\<close>, \<open>Go_Regexp\<close>: strings, maps, errors and results of Go; anchored regular expressions, whose
    matcher is proved to decide the language of the pattern.
  \<^item> \<open>Kube_Types\<close>: the Kubernetes structs, and \<open>api/v1alpha1/search_types.go\<close>,
    \<open>collectorconfig_types.go\<close>, field by field; stored objects (\<open>kobj\<close>) and their keys. \<open>Unstructured\<close>: JSON values.
  \<^item> \<open>Kube_Client\<close>, \<open>Dynamic_Client\<close>: the clients and the library as parameters, their contracts, and an
    in-memory server that keeps them.
  \<^item> \<open>Image_Validation\<close> (\<open>internal/imagevalidation.go\<close>), \<open>Common\<close> (\<open>common.go\<close>, \<open>defaults.go\<close>).
  \<^item> \<open>CC_Webhook\<close> (\<open>collectorconfig_webhook.go\<close>), \<open>CC_Merge\<close> (\<open>create_collectorconfig.go\<close>), \<open>CC_Seeder\<close>
    (\<open>create_integration_collectorconfigs.go\<close>, \<open>integration_collectorconfig_seeder.go\<close>, \<open>config/integrationconfigs.go\<close>).
  \<^item> \<open>Postgres_Scripts\<close>, \<open>Postgres_Config\<close> (\<open>create_pgconfigmap.go\<close>, \<open>tlsconfig.go\<close>), \<open>Deployments\<close> (the four
    \<open>create_*deployment.go\<close>), \<open>Resources\<close> (services, secrets, config maps, volume claim, monitors, alerts),
    \<open>RBAC\<close> (\<open>create_serviceaccount.go\<close>, \<open>create_rolesbindings.go\<close>, \<open>cleanup.go\<close>), \<open>Network_Policies\<close>,
    \<open>Write_Operations\<close> (the create-or-update functions of \<open>common.go\<close>).
  \<^item> \<open>Hub_Config\<close>, \<open>Global_Search\<close>, \<open>VM_Setup\<close> (\<open>global_search_setup.go\<close>, \<open>fine_grained_rbac.go\<close>,
    \<open>virtual_machines_setup.go\<close>).
  \<^item> \<open>Reconcile\<close> and \<open>Watches\<close> (\<open>search_controller.go\<close>), \<open>Addon\<close> (\<open>addon/addon.go\<close>).
  \<^item> \<open>Reconcile_Steps\<close>, \<open>Reconcile_Run\<close>: what each step changes and ensures, and all of them in sequence;
    \<open>Healthy_Runs\<close>, \<open>Healthy_Reconcile\<close>: that each step succeeds on a healthy server;
    \<open>Reconcile_Properties\<close>, \<open>No_Panic\<close>: the properties of whole runs.

  \<^bold>\<open>State and operations.\<close> An operation that talks to the cluster is a state transformer over a world of any
  type \<open>'w\<close>, which only the clients in the record \<open>SearchReconciler\<close> read and change. \<open>(*Result, error)\<close> is
  \<open>step_ret\<close>; an error is a value of \<open>go_error\<close>; a function that can panic returns an option, with \<open>None\<close>
  for the panic. The \<open>Search\<close> in hand, which the code changes through a pointer, is passed and returned. What
  a process keeps between runs (the \<open>sync.Once\<close> values, the image of the add-on) is \<open>process_state\<close>.

  \<^bold>\<open>Contracts.\<close> \<open>kube_api\<close>: the API server seen through the typed client, with a view \<open>objs\<close> of the stored
  objects (reads change nothing and return what is stored; a write changes no object but the one it names,
  and has stored that one when it reports no error; one that reports an error may or may not have been
  applied, except that \<open>AlreadyExists\<close> and \<open>NotFound\<close> mean that it was not; status and finalizers as
  documented).
  \<open>dyn_api\<close> and \<open>dyn_typed\<close> say the same of the dynamic client, and that of the typed objects it changes
  only config maps. \<open>setref_contract\<close>, \<open>finalizer_contract\<close>, \<open>condition_contract\<close>, \<open>clock_contract\<close>,
  \<open>rand_contract\<close>: functions of controller-runtime and the standard library. \<open>enqueue_contract\<close>,
  \<open>last_overrides\<close>, \<open>binding_contract\<close>: the manager's queue, the add-on framework, the clientset (whose
  failed writes may have been applied, too).
  \<open>healthy\<close> says in addition that no call fails but for what is stored; only the properties that
  promise success assume it. Each contract is proved of a concrete instance, on which the witnesses run.

  \<^bold>\<open>What the lemmas show.\<close> For the data: what the validations accept, in terms of what rules and
  selectors select. For the builders: images of trusted registries, security contexts, who may reach the
  database. For the write operations: what is stored after a success, that a second run writes nothing, and
  frames (\<open>touches\<close>, \<open>same_except\<close>): which objects an operation can change at all, whatever fails. For the
  features: set-up and take-down, partial failures, and panics. For the whole run: success means that
  everything is installed (\<open>installed\<close> lists what that covers, and what it leaves out because the code does not
  report its errors), a healthy run ends with success, pausing, deletion (the finalizer goes only after the
  whole clean-up), and that a panic has one of the causes that \<open>No_Panic\<close> lists;
  and across components, that what the webhook admits the merge applies in full.

  Contracts that several operations share are locales, each interpreted on all of these operations: the
  creation of missing objects and the converging writes (\<open>preserving_creator\<close>, \<open>create_if_missing\<close>,
  \<open>desired_writer\<close>), the loops over the managed clusters (\<open>cluster_step\<close>), the deployments
  (\<open>search_deployment\<close>), and the two copies of the intersection test of rules (\<open>intersection_test\<close>).

  \<^bold>\<open>Bounds and fuel.\<close> All loops are over finite lists, by structural recursion. Only the seeder's poll has
  no bound: \<open>Start\<close> takes the number of polls before its context ends, and the theorem about it holds for
  every number beyond the first success. TLS versions are 16-bit words; the rates of the add-on are
  integers of 64 bits, whose range is checked by \<open>Atoi\<close> as in the source. Quantities are integers.

  \<^bold>\<open>Not modelled.\<close> \<open>main.go\<close> (flags and wiring), \<open>zz_generated.deepcopy.go\<close> (generated: values are
  immutable here), logging, contexts and deadlines, the registration of the webhook with the manager
  (\<open>SetupWebhookWithManager\<close>, which only calls the library), the embedded YAML and chart files (parameters), the bodies of the
  legacy metrics role and binding, which the operator only deletes. Concurrency: one run at a time, as
  the manager guarantees for a controller with one worker; other writers are the arbitrary worlds between
  runs, not within one.
\<close>

section \<open>From admission to the merged config\<close>

text \<open>
  C14. What the webhook admits takes effect whole: when the user's config was admitted by
  \<open>ValidateCreate\<close> (and the listing of the integration configs did not fail then), and every integration
  config that is stored when the merge runs was stored at admission, then a successful merge stores the
  rules of the integration configs followed by all of the user's rules: no exclude rule is dropped.
\<close>

theorem admitted_config_takes_effect_whole:
  assumes api: "kube_api (Client r) objs" and clock: "clock_contract r objs" and setref: "setref_contract (Lib r)" and live: "live objs w1"
    and admit: "fst (run_state (ValidateCreate lib (Some (Client r)) ctx (CollectorConfigObject cc)) w) = None"
    and listing: "\<And>e. fst (run_state (cl_List (Client r) KCollectorConfig (Some (Namespace (cc_meta cc))) [(IntegrationTeamLabel, IntegrationTeamLabelValue)]) w) \<noteq> Inl e"
    and user: "index (Labels (cc_meta cc)) IntegrationTeamLabel \<noteq> IntegrationTeamLabelValue" "Namespace (cc_meta cc) = Namespace (s_meta inst)"
    and stored: "spec_at objs w1 (mkKey KCollectorConfig (Namespace (s_meta inst)) userCollectorConfigName) = Some (cc_Spec cc)"
    and teams: "\<And>tc. objs w1 (key_of (OCollectorConfig tc)) = Some (OCollectorConfig tc) \<Longrightarrow> Namespace (cc_meta tc) = Namespace (cc_meta cc)
      \<Longrightarrow> lookup (Labels (cc_meta tc)) IntegrationTeamLabel = Some IntegrationTeamLabelValue \<Longrightarrow> objs w (key_of (OCollectorConfig tc)) = Some (OCollectorConfig tc)"
    and run: "run_state (createOrUpdateMergedCollectorConfig r inst) w1 = (done_ok, w2)"
  shows "\<exists>teams merged. objs w2 (mkKey KCollectorConfig (Namespace (s_meta inst)) mergedCollectorConfigName) = Some (OCollectorConfig merged)
    \<and> (\<forall>tc \<in> set teams. objs w1 (key_of (OCollectorConfig tc)) = Some (OCollectorConfig tc))
    \<and> semEqSpec (cc_Spec merged) \<lparr>ccs_CollectNamespaces = ccs_CollectNamespaces (cc_Spec cc),
         CollectionRules = concat (map (\<lambda>tc. CollectionRules (cc_Spec tc)) teams) @ CollectionRules (cc_Spec cc)\<rparr>"
proof -
  from merge_stores [OF api clock setref live_alive [OF live] run] obtain ts merged where
    ts: "\<And>tc. tc \<in> set ts \<longleftrightarrow> objs w1 (metaKey KCollectorConfig (cc_meta tc)) = Some (OCollectorConfig tc)
         \<and> Namespace (cc_meta tc) = Namespace (s_meta inst) \<and> lookup (Labels (cc_meta tc)) IntegrationTeamLabel = Some IntegrationTeamLabelValue"
    and merged: "objs w2 (mkKey KCollectorConfig (Namespace (s_meta inst)) mergedCollectorConfigName) = Some (OCollectorConfig merged)"
      "semEqSpec (cc_Spec merged) (merge_spec ts (Some (cc_Spec cc)))"
    unfolding stored by blast
  have here: "metaKey KCollectorConfig (cc_meta tc) = key_of (OCollectorConfig tc)" for tc by (simp add: key_of_def)
  have "fst (run_state (validateExcludeAgainstIntegrationConfigs (Some (Client r)) cc) w) = None"
    using admit by (auto split: option.splits)
  then have harmless: "\<not> (\<exists>sel. team_include objs w (Namespace (cc_meta cc)) sel \<and> overlaps (RuleSelector rule) sel)"
    if "rule \<in> set (CollectionRules (cc_Spec cc))" "Action rule = ActionExclude" for rule
    unfolding exclude_check [OF api] using listing user(1) that by blast
  have "\<not> suppressed ts rule" if rule: "rule \<in> set (CollectionRules (cc_Spec cc))" for rule
  proof
    assume "suppressed ts rule"
    then obtain tc team where s: "Action rule = ActionExclude" "tc \<in> set ts" "team \<in> set (CollectionRules (cc_Spec tc))"
      "Action team = ActionInclude" "overlaps (RuleSelector rule) (RuleSelector team)" unfolding suppressed_def by blast
    have "team_include objs w (Namespace (cc_meta cc)) (RuleSelector team)"
      unfolding team_include_def using s(2-4) ts [of tc] teams [of tc] user(2) here [of tc] by metis
    then show False using harmless [OF rule s(1)] s(5) by blast
  qed
  then have "filter (\<lambda>rule. \<not> suppressed ts rule) (CollectionRules (cc_Spec cc)) = CollectionRules (cc_Spec cc)"
    by (simp add: filter_id_conv)
  then have spec: "merge_spec ts (Some (cc_Spec cc)) = \<lparr>ccs_CollectNamespaces = ccs_CollectNamespaces (cc_Spec cc),
      CollectionRules = concat (map (\<lambda>tc. CollectionRules (cc_Spec tc)) ts) @ CollectionRules (cc_Spec cc)\<rparr>"
    by (simp add: merge_spec_def)
  have there: "\<forall>tc \<in> set ts. objs w1 (key_of (OCollectorConfig tc)) = Some (OCollectorConfig tc)"
    using ts by (simp add: key_of_def)
  show ?thesis
    by (rule exI [of _ ts], rule exI [of _ merged], intro conjI merged(1) there merged(2) [unfolded spec])
qed

definition freeUser :: CollectorConfig where
  "freeUser = sampleUser\<lparr>cc_Spec := \<lparr>ccs_CollectNamespaces = None,
     CollectionRules = [sampleExclude\<lparr>RuleSelector := \<lparr>APIGroups = [''batch''], Kinds = [''Job'']\<rparr>\<rparr>]\<rparr>\<rparr>"

definition freeWorld :: mem where
  "freeWorld = mem_world [OCollectorConfig freeUser, OCollectorConfig teamConfig]"

lemma freeWorld_live: "live mem_view freeWorld"
  unfolding freeWorld_def by (rule mem_world_live) code_simp

lemma freeWorld_admits:
  "fst (run_state (ValidateCreate mem_lib (Some mem_client) (Inl (Errorf '''')) (CollectorConfigObject freeUser)) freeWorld) = None"
  by code_simp

lemma freeWorld_lists:
  "\<not> isl (fst (run_state (cl_List mem_client KCollectorConfig (Some ''ocm'') [(IntegrationTeamLabel, IntegrationTeamLabelValue)]) freeWorld))"
  by code_simp

lemma freeWorld_merges: "fst (run_state (createOrUpdateMergedCollectorConfig mem_reconciler sampleSearch) freeWorld) = done_ok"
  by code_simp

theorem admitted_config_takes_effect_whole_witness:
  "\<exists>teams merged. mem_view (snd (run_state (createOrUpdateMergedCollectorConfig mem_reconciler sampleSearch) freeWorld))
        (mkKey KCollectorConfig ''ocm'' mergedCollectorConfigName) = Some (OCollectorConfig merged)
     \<and> (\<forall>tc \<in> set teams. mem_view freeWorld (key_of (OCollectorConfig tc)) = Some (OCollectorConfig tc))
     \<and> semEqSpec (cc_Spec merged) \<lparr>ccs_CollectNamespaces = None,
          CollectionRules = concat (map (\<lambda>tc. CollectionRules (cc_Spec tc)) teams) @ CollectionRules (cc_Spec freeUser)\<rparr>"
proof -
  let ?w2 = "snd (run_state (createOrUpdateMergedCollectorConfig mem_reconciler sampleSearch) freeWorld)"
  have run: "run_state (createOrUpdateMergedCollectorConfig mem_reconciler sampleSearch) freeWorld = (done_ok, ?w2)"
    using freeWorld_merges by (simp add: prod_eq_iff)
  have ns: "Namespace (s_meta sampleSearch) = ''ocm''" "Namespace (cc_meta freeUser) = ''ocm''"
    "index (Labels (cc_meta freeUser)) IntegrationTeamLabel \<noteq> IntegrationTeamLabelValue" "ccs_CollectNamespaces (cc_Spec freeUser) = None"
    by (simp_all add: sampleSearch_def freeUser_def sampleUser_def sampleConfig_def newMeta_def index_def lookup_def entries_def IntegrationTeamLabelValue_def)
  have stored: "spec_at mem_view freeWorld (mkKey KCollectorConfig ''ocm'' userCollectorConfigName) = Some (cc_Spec freeUser)"
    by (simp add: spec_at_def freeWorld_def mem_world_def mem_view_def freeUser_def sampleUser_def sampleConfig_def)
  have lists: "fst (run_state (cl_List mem_client KCollectorConfig (Some ''ocm'') [(IntegrationTeamLabel, IntegrationTeamLabelValue)]) freeWorld) \<noteq> Inl e" for e
    using freeWorld_lists by auto
  have "Client mem_reconciler = mem_client" "Lib mem_reconciler = mem_lib" by (simp_all add: mem_reconciler_def)
  then show ?thesis
    using admitted_config_takes_effect_whole [where r = mem_reconciler and objs = mem_view and cc = freeUser and w = freeWorld and inst = sampleSearch
        and lib = mem_lib and ctx = "Inl (Errorf '''')", OF _ mem_clock_contract _ freeWorld_live _ _ ns(3) _ _ _ run]
      freeWorld_admits lists mem_kube_api mem_lib_setref stored
    unfolding ns by (simp del: ValidateCreate.simps)
qed

end
